(* ===== verification/Esd_Prelude.thy ===== *)
theory Esd_Prelude
  imports Main "HOL-Library.Word" "HOL-Library.Signed_Division" "HOL-Library.Monad_Syntax"
begin

unbundle bit_operations_syntax

text \<open>
  Shared vocabulary of the development: the machine integers of the C sources as
  integers with explicit wrap-around, C's truncating division, little-endian access to
  byte buffers, and intrusive linked lists (nodes found by address). A value of type
  \<open>'a option\<close> is the outcome of code that can leave the defined behaviour of C (read or
  write outside a buffer, use a freed object, divide by zero) or loop for ever:
  \<^term>\<open>None\<close> is that outcome, and the sequencing of the code is \<^term>\<open>Option.bind\<close>.
\<close>

named_theorems cint "range and identity laws of the machine integers"
named_theorems nodes "laws of the linked lists"

type_synonym octet = "8 word"
type_synonym addr = nat

subsection \<open>Machine integers\<close>

text \<open>
  \<open>int\<close> is 32 bits wide, \<open>short\<close> 16 bits, \<open>size_t\<close> 64 bits. Conversions to a signed
  type and signed overflow wrap around in two's complement, as gcc compiles them.
\<close>

definition i32 :: "int \<Rightarrow> int" where "i32 x = signed_take_bit 31 x"
definition u32 :: "int \<Rightarrow> int" where "u32 x = take_bit 32 x"
definition i16 :: "int \<Rightarrow> int" where "i16 x = signed_take_bit 15 x"
definition u64 :: "int \<Rightarrow> int" where "u64 x = take_bit 64 x"

text \<open>C's division truncates towards zero and traps on a zero divisor.\<close>

definition cdiv :: "int \<Rightarrow> int \<Rightarrow> int option" where
  "cdiv a b = (if b = 0 then None else Some (i32 (a sdiv b)))"

lemma i32_id [cint]: "- (2 ^ 31) \<le> x \<Longrightarrow> x < 2 ^ 31 \<Longrightarrow> i32 x = x"
  unfolding i32_def by (simp add: signed_take_bit_int_eq_self)

lemma i16_id [cint]: "- (2 ^ 15) \<le> x \<Longrightarrow> x < 2 ^ 15 \<Longrightarrow> i16 x = x"
  unfolding i16_def by (simp add: signed_take_bit_int_eq_self)

lemma u32_id [cint]: "0 \<le> x \<Longrightarrow> x < 2 ^ 32 \<Longrightarrow> u32 x = x"
  unfolding u32_def by (simp add: take_bit_int_eq_self)

lemma u64_id [cint]: "0 \<le> x \<Longrightarrow> x < 2 ^ 64 \<Longrightarrow> u64 x = x"
  unfolding u64_def by (simp add: take_bit_int_eq_self)

lemma i32_range: "- 2147483648 \<le> i32 x" "i32 x < 2147483648"
  using signed_take_bit_int_greater_eq_minus_exp [of 31 x] signed_take_bit_int_less_exp [of 31 x]
  by (simp_all add: i32_def)

lemma i16_range: "- 32768 \<le> i16 x" "i16 x < 32768"
  using signed_take_bit_int_greater_eq_minus_exp [of 15 x] signed_take_bit_int_less_exp [of 15 x]
  by (simp_all add: i16_def)

lemma u32_range: "0 \<le> u32 x" "u32 x < 4294967296"
  using take_bit_int_less_exp [of 32 x] by (simp_all add: u32_def)

lemma sdiv_nonneg: "0 \<le> a \<Longrightarrow> 0 \<le> b \<Longrightarrow> a sdiv b = a div (b::int)"
  by (simp add: signed_divide_int_def sgn_if)

lemma smod_nonneg: "0 \<le> a \<Longrightarrow> 0 \<le> b \<Longrightarrow> a smod b = a mod (b::int)"
  using sdiv_nonneg [of a b] smod_int_alt_def [of a b]
  by (auto simp: sgn_if)

lemma cdiv_pos: "0 \<le> a \<Longrightarrow> a < 2 ^ 31 \<Longrightarrow> 0 < b \<Longrightarrow> cdiv a b = Some (a div b)"
proof -
  assume h: "0 \<le> a" "a < 2 ^ 31" "0 < b"
  then have "0 \<le> a div b" "a div b \<le> a div 1"
    by (simp_all only: pos_imp_zdiv_nonneg_iff) (rule zdiv_mono2, simp_all)
  with h show ?thesis by (simp add: cdiv_def sdiv_nonneg i32_id)
qed

subsection \<open>Byte buffers\<close>

text \<open>
  Buffers are lists of octets whose length is the allocated size. Multi-byte values are
  little-endian (the host the server is compiled for).
\<close>

definition le16 :: "octet \<Rightarrow> octet \<Rightarrow> int" where
  "le16 lo hi = i16 (uint lo + 256 * uint hi)"

definition le32 :: "octet \<Rightarrow> octet \<Rightarrow> octet \<Rightarrow> octet \<Rightarrow> int" where
  "le32 b0 b1 b2 b3 =
     i32 (uint b0 + 256 * uint b1 + 65536 * uint b2 + 16777216 * uint b3)"

definition put16 :: "int \<Rightarrow> octet list" where
  "put16 x = [word_of_int x, word_of_int (x div 256)]"

definition put32 :: "int \<Rightarrow> octet list" where
  "put32 x = [word_of_int x, word_of_int (x div 256), word_of_int (x div 65536),
              word_of_int (x div 16777216)]"

definition get32 :: "octet list \<Rightarrow> nat \<Rightarrow> int option" where
  "get32 bs off =
     (if off + 4 \<le> length bs
      then Some (le32 (bs ! off) (bs ! (off + 1)) (bs ! (off + 2)) (bs ! (off + 3)))
      else None)"

text \<open>Element \<open>i\<close> of a buffer seen as \<open>unsigned char *\<close> and as \<open>signed short *\<close>.\<close>

definition uc_at :: "octet list \<Rightarrow> int \<Rightarrow> int option" where
  "uc_at bs i = (if 0 \<le> i \<and> i < int (length bs) then Some (uint (bs ! nat i)) else None)"

definition ss_at :: "octet list \<Rightarrow> int \<Rightarrow> int option" where
  "ss_at bs i =
     (if 0 \<le> i \<and> 2 * i + 1 < int (length bs)
      then Some (le16 (bs ! nat (2 * i)) (bs ! nat (2 * i + 1))) else None)"

definition uc_put :: "octet list \<Rightarrow> nat \<Rightarrow> int \<Rightarrow> octet list option" where
  "uc_put bs i x = (if i < length bs then Some (bs[i := word_of_int x]) else None)"

definition ss_put :: "octet list \<Rightarrow> nat \<Rightarrow> int \<Rightarrow> octet list option" where
  "ss_put bs i x =
     (if 2 * i + 1 < length bs
      then Some (bs[2 * i := word_of_int x, 2 * i + 1 := word_of_int (x div 256)]) else None)"

text \<open>Copy \<open>src\<close> into \<open>dst\<close> at byte offset \<open>off\<close> (the write of \<open>memcpy\<close> and \<open>read\<close>).\<close>

definition blit :: "octet list \<Rightarrow> int \<Rightarrow> octet list \<Rightarrow> octet list option" where
  "blit dst off src =
     (if 0 \<le> off \<and> nat off + length src \<le> length dst
      then Some (take (nat off) dst @ src @ drop (nat off + length src) dst) else None)"

lemma length_put16 [simp]: "length (put16 x) = 2"
  by (simp add: put16_def)

lemma length_put32 [simp]: "length (put32 x) = 4"
  by (simp add: put32_def)

lemma uc_put_length: "uc_put bs i x = Some bs' \<Longrightarrow> length bs' = length bs"
  by (auto simp: uc_put_def split: if_splits)

lemma ss_put_length: "ss_put bs i x = Some bs' \<Longrightarrow> length bs' = length bs"
  by (auto simp: ss_put_def split: if_splits)

lemma blit_length: "blit dst off src = Some dst' \<Longrightarrow> length dst' = length dst"
  by (auto simp: blit_def split: if_splits)

lemma blit_some: "0 \<le> off \<Longrightarrow> nat off + length src \<le> length dst \<Longrightarrow> \<exists>dst'. blit dst off src = Some dst'"
  by (simp add: blit_def)

lemma blit_zero: "length src \<le> length dst \<Longrightarrow> blit dst 0 src = Some (src @ drop (length src) dst)"
  by (simp add: blit_def)

lemma ss_at_range: "ss_at bs i = Some v \<Longrightarrow> - 32768 \<le> v \<and> v < 32768"
  using i16_range by (auto simp: ss_at_def le16_def split: if_splits)

lemma uc_at_range: "uc_at bs i = Some v \<Longrightarrow> 0 \<le> v \<and> v < 256"
  using uint_lt2p [where 'a = 8] by (auto simp: uc_at_def split: if_splits)

lemma uint_byte: "uint (word_of_int x :: octet) = x mod 256"
  by (simp add: uint_word_of_int)

lemma mod_split: "0 < b \<Longrightarrow> c = a * b \<Longrightarrow> x mod c = x mod a + a * (x div a mod b)" for x a b c :: int
  by (simp add: zmod_zmult2_eq)

lemma bytes32: "x mod 256 + 256 * (x div 256 mod 256) + 65536 * (x div 65536 mod 256)
    + 16777216 * (x div 16777216 mod 256) = x mod (4294967296 :: int)"
proof -
  have a: "x mod 65536 = x mod 256 + 256 * (x div 256 mod 256)"
    and b: "x mod 16777216 = x mod 65536 + 65536 * (x div 65536 mod 256)"
    and c: "x mod 4294967296 = x mod 16777216 + 16777216 * (x div 16777216 mod 256)"
    by (rule mod_split; simp)+
  show ?thesis unfolding c b a ..
qed

lemma i32_mod: "i32 (x mod 4294967296) = i32 x"
  using signed_take_bit_take_bit [of 31 32 x]
  by (simp add: i32_def take_bit_eq_mod)

lemma le32_bytes:
  "le32 (word_of_int x) (word_of_int (x div 256)) (word_of_int (x div 65536))
     (word_of_int (x div 16777216)) = i32 x"
  by (simp only: le32_def uint_byte bytes32 i32_mod)

lemma le32_put32: "le32 (put32 x ! 0) (put32 x ! 1) (put32 x ! 2) (put32 x ! 3) = i32 x"
  by (simp add: put32_def le32_bytes)

lemma get32_put32: "get32 (pre @ put32 x @ post) (length pre) = Some (i32 x)"
  using le32_put32 [of x] by (simp add: get32_def nth_append)

lemma get32_put32_0: "get32 (put32 x @ post) 0 = Some (i32 x)"
  using get32_put32 [of "[]"] by simp

subsection \<open>Linked lists\<close>

text \<open>
  The server's lists link structures through their \<open>next\<close> fields; a node is identified by
  its address. Nodes are only pushed at the head and unlinked, so a list of nodes in link
  order is the whole of that structure.
\<close>

definition node :: "('n \<Rightarrow> addr) \<Rightarrow> addr \<Rightarrow> 'n list \<Rightarrow> 'n option" where
  "node ad a ns = find (\<lambda>n. ad n = a) ns"

definition upd_node :: "('n \<Rightarrow> addr) \<Rightarrow> addr \<Rightarrow> ('n \<Rightarrow> 'n) \<Rightarrow> 'n list \<Rightarrow> 'n list" where
  "upd_node ad a f ns = map (\<lambda>n. if ad n = a then f n else n) ns"

text \<open>The loop that walks to the first node with a given address and unlinks it.\<close>

fun unlink :: "('n \<Rightarrow> addr) \<Rightarrow> addr \<Rightarrow> 'n list \<Rightarrow> 'n list" where
  "unlink ad a [] = []"
| "unlink ad a (n # ns) = (if ad n = a then ns else n # unlink ad a ns)"

lemma node_Nil [simp]: "node ad a [] = None"
  by (simp add: node_def)

lemma node_Cons [simp]: "node ad a (n # ns) = (if ad n = a then Some n else node ad a ns)"
  by (simp add: node_def)

lemma node_Some: "node ad a ns = Some n \<Longrightarrow> n \<in> set ns \<and> ad n = a"
  by (auto simp: node_def find_Some_iff)

lemma node_None_iff: "node ad a ns = None \<longleftrightarrow> a \<notin> ad ` set ns"
  by (auto simp: node_def find_None_iff)

lemma node_distinct: "distinct (map ad ns) \<Longrightarrow> n \<in> set ns \<Longrightarrow> node ad (ad n) ns = Some n"
  by (induction ns) (auto simp: rev_image_eqI)

lemma upd_node_Nil [simp]: "upd_node ad a f [] = []"
  by (simp add: upd_node_def)

lemma upd_node_Cons [simp]:
  "upd_node ad a f (n # ns) = (if ad n = a then f n else n) # upd_node ad a f ns"
  by (simp add: upd_node_def)

lemma map_upd_node [nodes]:
  "(\<And>n. ad (f n) = ad n) \<Longrightarrow> map ad (upd_node ad a f ns) = map ad ns"
  by (induction ns) auto

lemma set_upd_node: "x \<in> set (upd_node ad a f ns) \<Longrightarrow>
    (x \<in> set ns \<and> ad x \<noteq> a) \<or> (\<exists>n \<in> set ns. ad n = a \<and> x = f n)"
  by (auto simp: upd_node_def)

lemma node_upd_node [nodes]:
  "(\<And>n. ad (f n) = ad n) \<Longrightarrow>
   node ad b (upd_node ad a f ns) = (if a = b then map_option f (node ad b ns) else node ad b ns)"
  by (induction ns) auto

lemma upd_node_absent [nodes]: "a \<notin> ad ` set ns \<Longrightarrow> upd_node ad a f ns = ns"
  by (induction ns) auto

lemma unlink_absent [nodes]: "a \<notin> ad ` set ns \<Longrightarrow> unlink ad a ns = ns"
  by (induction ns) auto

lemma set_unlink_subset: "set (unlink ad a ns) \<subseteq> set ns"
  by (induction ns) auto

lemma unlink_filter [nodes]:
  "distinct (map ad ns) \<Longrightarrow> unlink ad a ns = filter (\<lambda>n. ad n \<noteq> a) ns"
proof (induction ns)
  case (Cons n ns)
  then have "ad n = a \<Longrightarrow> filter (\<lambda>n. ad n \<noteq> a) ns = ns"
    by (intro filter_True) (auto simp: image_iff)
  with Cons show ?case by auto
qed simp

lemma set_unlink: "distinct (map ad ns) \<Longrightarrow> set (unlink ad a ns) = {n \<in> set ns. ad n \<noteq> a}"
  by (auto simp: unlink_filter)

lemma distinct_unlink: "distinct (map f ns) \<Longrightarrow> distinct (map f (unlink ad a ns))"
proof (induction ns)
  case (Cons n ns)
  then show ?case using set_unlink_subset [of ad a ns] by auto
qed simp

lemma map_unlink: "map ad (unlink ad a ns) = remove1 a (map ad ns)"
  by (induction ns) auto

end
