(* ===== verification/Esd_Sys.thy ===== *)
theory Esd_Sys
  imports Esd_Prelude
begin

text \<open>
  The system calls and library calls the daemon makes, over an explicit state of the
  operating system. What the outside world does (bytes that arrive, short writes, errors,
  failing allocations, the clock) is a finite script in that state: a list holds the
  results of the successive calls, and an exhausted script stands for the ordinary
  result given with each call. What the daemon does to the world is logged (\<open>tx\<close>,
  \<open>closed\<close>). Records of the components extend the record \<open>os\<close> below, so the calls are
  polymorphic in the rest of the state.
\<close>

subsection \<open>State and scripts\<close>

text \<open>
  Results of \<open>read\<close> on a descriptor: bytes, end of file, or an error with its \<open>errno\<close>, of
  which the program only tells the transient values \<open>EINTR\<close> and \<open>EAGAIN\<close> from the others.
  Results of \<open>write\<close>: at most that many bytes taken, or an error.
\<close>

datatype errno = EINTR | EAGAIN | EOTHER
datatype rdres = RdData "octet list" | RdEof | RdErr errno
datatype wrres = WrShort nat | WrErr errno

record os =
  rx :: "int \<Rightarrow> rdres list"        \<comment> \<open>what \<open>read\<close> will return, per descriptor\<close>
  wres :: "int \<Rightarrow> wrres list"      \<comment> \<open>exceptional results of \<open>write\<close>, per descriptor\<close>
  tx :: "(int \<times> octet list) list"  \<comment> \<open>the bytes the kernel has accepted, in order\<close>
  sel_err :: "int \<Rightarrow> bool"         \<comment> \<open>\<open>select\<close> on this descriptor fails\<close>
  wrdy :: "int \<Rightarrow> bool"            \<comment> \<open>the descriptor is writable\<close>
  closed :: "int list"             \<comment> \<open>descriptors closed so far\<close>
  mallocs :: "bool list"           \<comment> \<open>results of \<open>malloc\<close>\<close>
  next_addr :: addr                \<comment> \<open>the next address \<open>malloc\<close> hands out\<close>
  junk :: "addr \<Rightarrow> nat \<Rightarrow> octet"    \<comment> \<open>indeterminate content of fresh memory\<close>
  clock :: "int list"              \<comment> \<open>results of \<open>time\<close>\<close>
  accepts :: "(int \<times> bool) list"   \<comment> \<open>results of \<open>accept\<close>, and whether \<open>FIONBIO\<close> works; then -1\<close>

subsection \<open>Calls\<close>

text \<open>
  \<open>read(fd, buf, n)\<close>: the returned length, whether an error is transient, and the bytes.
  An exhausted script is a transient error.
\<close>

definition sys_read ::
  "int \<Rightarrow> nat \<Rightarrow> 'a os_scheme \<Rightarrow> (int \<times> bool \<times> octet list) \<times> 'a os_scheme" where
  "sys_read fd n s =
     (case rx s fd of
        [] \<Rightarrow> ((-1, True, []), s)
      | RdData bs # r \<Rightarrow>
          ((int (length (take n bs)), False, take n bs),
           s\<lparr>rx := (rx s)(fd := (if length bs \<le> n then r else RdData (drop n bs) # r))\<rparr>)
      | RdEof # r \<Rightarrow> ((0, False, []), s)
      | RdErr e # r \<Rightarrow> ((-1, e \<noteq> EOTHER, []), s\<lparr>rx := (rx s)(fd := r)\<rparr>))"

text \<open>\<open>write(fd, bs, length bs)\<close>: the returned length and whether an error is transient.\<close>

definition sys_write ::
  "int \<Rightarrow> octet list \<Rightarrow> 'a os_scheme \<Rightarrow> (int \<times> bool) \<times> 'a os_scheme" where
  "sys_write fd bs s =
     (case wres s fd of
        [] \<Rightarrow> ((int (length bs), False), s\<lparr>tx := tx s @ [(fd, bs)]\<rparr>)
      | WrShort k # r \<Rightarrow>
          ((int (length (take k bs)), False),
           s\<lparr>tx := tx s @ [(fd, take k bs)], wres := (wres s)(fd := r)\<rparr>)
      | WrErr e # r \<Rightarrow> ((-1, e \<noteq> EOTHER), s\<lparr>wres := (wres s)(fd := r)\<rparr>))"

text \<open>\<open>select\<close> with a zero timeout on one descriptor, for reading and for writing.\<close>

definition sys_select_rd :: "int \<Rightarrow> 'a os_scheme \<Rightarrow> int" where
  "sys_select_rd fd s = (if sel_err s fd then -1 else if rx s fd = [] then 0 else 1)"

definition sys_select_wr :: "int \<Rightarrow> 'a os_scheme \<Rightarrow> int" where
  "sys_select_wr fd s = (if sel_err s fd then -1 else if wrdy s fd then 1 else 0)"

text \<open>\<open>recv(fd, &ch, 1, MSG_PEEK)\<close>: the length only, nothing is consumed.\<close>

definition sys_peek :: "int \<Rightarrow> 'a os_scheme \<Rightarrow> int" where
  "sys_peek fd s = (case rx s fd of [] \<Rightarrow> -1 | RdData bs # _ \<Rightarrow> int (length (take 1 bs))
                    | RdEof # _ \<Rightarrow> 0 | RdErr _ # _ \<Rightarrow> -1)"

definition sys_close :: "int \<Rightarrow> 'a os_scheme \<Rightarrow> 'a os_scheme" where
  "sys_close fd s = s\<lparr>closed := closed s @ [fd]\<rparr>"

text \<open>
  \<open>malloc(n)\<close> for an \<open>int\<close> argument: a negative one becomes a \<open>size_t\<close> above
  \<open>PTRDIFF_MAX\<close>, which is never granted. Addresses are not handed out twice, so an
  address that is no longer in any list is a dangling pointer.
\<close>

definition malloc :: "int \<Rightarrow> 'a os_scheme \<Rightarrow> addr \<times> 'a os_scheme" where
  "malloc n s =
     (if n < 0 then (0, s)
      else case mallocs s of
             [] \<Rightarrow> (next_addr s, s\<lparr>next_addr := Suc (next_addr s)\<rparr>)
           | ok # r \<Rightarrow>
               if ok then (next_addr s, s\<lparr>next_addr := Suc (next_addr s), mallocs := r\<rparr>)
               else (0, s\<lparr>mallocs := r\<rparr>))"

definition uninit :: "'a os_scheme \<Rightarrow> addr \<Rightarrow> nat \<Rightarrow> octet list" where
  "uninit s a n = map (junk s a) [0..<n]"

definition sys_time :: "'a os_scheme \<Rightarrow> int \<times> 'a os_scheme" where
  "sys_time s = (case clock s of [] \<Rightarrow> (0, s) | t # r \<Rightarrow> (t, s\<lparr>clock := r\<rparr>))"

subsection \<open>Laws\<close>

text \<open>A read returns at most what was asked for, and as many bytes as it says.\<close>

lemma sys_read_length:
  "sys_read fd n s = ((len, tr, bs), s') \<Longrightarrow> length bs \<le> n \<and> (0 \<le> len \<longrightarrow> len = int (length bs)) \<and> -1 \<le> len"
  by (auto simp: sys_read_def split: list.splits rdres.splits)

lemma sys_read_frame: "sys_read fd n s = (r, s') \<Longrightarrow> \<exists>f. s' = s\<lparr>rx := f\<rparr>"
  by (cases s) (auto simp: sys_read_def split: list.splits rdres.splits)

lemma sys_write_frame: "sys_write fd bs s = (r, s') \<Longrightarrow> \<exists>t w. s' = s\<lparr>tx := t, wres := w\<rparr>"
  by (cases s) (auto simp: sys_write_def split: list.splits wrres.splits)

lemma sys_write_full: "wres s fd = [] \<Longrightarrow> sys_write fd bs s = ((int (length bs), False), s\<lparr>tx := tx s @ [(fd, bs)]\<rparr>)"
  by (simp add: sys_write_def)

lemma malloc_frame:
  "malloc n s = (a, s') \<Longrightarrow> \<exists>k m. s' = s\<lparr>next_addr := k, mallocs := m\<rparr> \<and> next_addr s \<le> k"
  by (cases s) (auto simp: malloc_def split: if_splits list.splits)

lemma malloc_fresh:
  "malloc n s = (a, s') \<Longrightarrow> a \<noteq> 0 \<Longrightarrow> 0 \<le> n \<and> a = next_addr s \<and> next_addr s' = Suc (next_addr s)"
  by (auto simp: malloc_def split: if_splits list.splits)

lemma length_uninit [simp]: "length (uninit s a n) = n"
  by (simp add: uninit_def)

end
