(* ===== verification/Esd_Audio.thy ===== *)
theory Esd_Audio
  imports Esd_Sys
begin

text \<open>
  The audio device: the constants of \<open>esd.h\<close> that describe a sound format, the
  driver-independent part \<open>audio.c\<close>, and the OSS driver \<open>audio_oss.c\<close> it is built with.
  The interface the rest of the daemon relies on is the locale \<open>audio_device\<close>.
\<close>

subsection \<open>Sound formats\<close>

abbreviation (input) ESD_BUF_SIZE :: int where "ESD_BUF_SIZE \<equiv> 4096"
abbreviation (input) ESD_MAX_WRITE_SIZE :: int where "ESD_MAX_WRITE_SIZE \<equiv> 86016"
abbreviation (input) ESD_DEFAULT_RATE :: int where "ESD_DEFAULT_RATE \<equiv> 44100"

abbreviation (input) ESD_MASK_BITS :: int where "ESD_MASK_BITS \<equiv> 0x000F"
abbreviation (input) ESD_BITS8 :: int where "ESD_BITS8 \<equiv> 0x0000"
abbreviation (input) ESD_BITS16 :: int where "ESD_BITS16 \<equiv> 0x0001"
abbreviation (input) ESD_MASK_CHAN :: int where "ESD_MASK_CHAN \<equiv> 0x00F0"
abbreviation (input) ESD_MONO :: int where "ESD_MONO \<equiv> 0x0010"
abbreviation (input) ESD_STEREO :: int where "ESD_STEREO \<equiv> 0x0020"
abbreviation (input) ESD_MASK_MODE :: int where "ESD_MASK_MODE \<equiv> 0x0F00"
abbreviation (input) ESD_STREAM :: int where "ESD_STREAM \<equiv> 0x0000"
abbreviation (input) ESD_SAMPLE :: int where "ESD_SAMPLE \<equiv> 0x0100"
abbreviation (input) ESD_MASK_FUNC :: int where "ESD_MASK_FUNC \<equiv> 0xF000"
abbreviation (input) ESD_PLAY :: int where "ESD_PLAY \<equiv> 0x1000"
abbreviation (input) ESD_RECORD :: int where "ESD_RECORD \<equiv> 0x2000"
abbreviation (input) ESD_STOP :: int where "ESD_STOP \<equiv> 0x0000"
abbreviation (input) ESD_LOOP :: int where "ESD_LOOP \<equiv> 0x2000"

text \<open>The fields of a format do not overlap: changing the mode or the function leaves the rest.\<close>

lemma fmt_and_not [simp]: "(f AND NOT m) AND m = (0::int)"
  by (simp add: and.assoc)

lemma fmt_field_keep: "m AND n = 0 \<Longrightarrow> (f AND NOT m) AND n = f AND (n::int)"
  by (auto simp: bit_eq_iff bit_simps)

subsection \<open>Device state\<close>

text \<open>
  The globals of \<open>audio.c\<close>, and the scripts of what the device does: the results of
  \<open>open\<close> on it, the result and the value written back by successive \<open>ioctl\<close> calls, and
  the results of the \<open>select\<close> calls that wait for it.
\<close>

record audio = os +
  esd_audio_format :: int
  esd_audio_rate :: int
  esd_audio_fd :: int
  select_works :: bool
  esd_write_size :: int
  dev_open :: "int list"
  dev_ioctl :: "(int \<times> int) list"
  dev_select :: "int list"

definition sys_open_dev :: "'a audio_scheme \<Rightarrow> int \<times> 'a audio_scheme" where
  "sys_open_dev s =
     (case dev_open s of
        [] \<Rightarrow> (3, s)
      | r # rs \<Rightarrow> (if r < 0 then -1 else r, s\<lparr>dev_open := rs\<rparr>))"

text \<open>\<open>ioctl\<close> with an \<open>int\<close> argument: a failing call leaves the argument as it was.\<close>

definition sys_ioctl :: "int \<Rightarrow> 'a audio_scheme \<Rightarrow> (int \<times> int) \<times> 'a audio_scheme" where
  "sys_ioctl v s =
     (case dev_ioctl s of
        [] \<Rightarrow> ((0, v), s)
      | (r, w) # rs \<Rightarrow> ((r, if r = -1 then v else w), s\<lparr>dev_ioctl := rs\<rparr>))"

definition sys_select_dev :: "'a audio_scheme \<Rightarrow> int \<times> 'a audio_scheme" where
  "sys_select_dev s = (case dev_select s of [] \<Rightarrow> (1, s) | r # rs \<Rightarrow> (r, s\<lparr>dev_select := rs\<rparr>))"

subsection \<open>The OSS driver\<close>

abbreviation (input) AFMT_U8 :: int where "AFMT_U8 \<equiv> 8"
abbreviation (input) AFMT_S16_NE :: int where "AFMT_S16_NE \<equiv> 16"

text \<open>The fragment size: the largest power of two below a 25th of a second of data.\<close>

function oss_fragsize_loop :: "int \<Rightarrow> nat \<Rightarrow> nat" where
  "oss_fragsize_loop bound k = (if 2 ^ k < bound then oss_fragsize_loop bound (Suc k) else k)"
  by pat_completeness auto
termination
proof (relation "measure (\<lambda>(b, k). nat (b - int k))")
  fix bound :: int and k :: nat
  assume "2 ^ k < bound"
  moreover have "int k < 2 ^ k"
    by (metis less_exp of_nat_less_iff of_nat_numeral of_nat_power)
  ultimately have "int k < bound" by linarith
  then show "((bound, Suc k), (bound, k)) \<in> measure (\<lambda>(b, k). nat (b - int k))"
    by simp
qed simp

definition oss_fragsize :: "int \<Rightarrow> int \<Rightarrow> int" where
  "oss_fragsize format rate0 =
     (let rate = i32 (i32 (rate0 * (if format AND ESD_MASK_CHAN = ESD_STEREO then 2 else 1))
                      * (if format AND ESD_MASK_BITS = ESD_BITS16 then 2 else 1))
      in int (oss_fragsize_loop (rate sdiv 25) 0) - 1)"

text \<open>The failure exit shared by the checks of \<open>esd_audio_open\<close>.\<close>

definition oss_fail :: "int \<Rightarrow> 'a audio_scheme \<Rightarrow> int \<times> 'a audio_scheme" where
  "oss_fail afd s = (-1, (sys_close afd s)\<lparr>esd_audio_fd := -1\<rparr>)"

text \<open>The stages of \<open>esd_audio_open\<close> once the device is open, last one first.\<close>

definition oss_blksize :: "int \<Rightarrow> int \<Rightarrow> 'a audio_scheme \<Rightarrow> int \<times> 'a audio_scheme" where
  "oss_blksize afd test s =
    (let ((r, test), s) = sys_ioctl test s                 \<comment> \<open>SNDCTL_DSP_GETBLKSIZE\<close>
     in if r = -1 then oss_fail afd s else
     let s = s\<lparr>esd_write_size := (if test > ESD_MAX_WRITE_SIZE then ESD_MAX_WRITE_SIZE else test),
               esd_audio_fd := afd\<rparr>;
         (sel, s) = sys_select_dev s
     in (afd, if sel > 0 then s\<lparr>select_works := True\<rparr> else s))"

definition oss_speed :: "int \<Rightarrow> 'a audio_scheme \<Rightarrow> int \<times> 'a audio_scheme" where
  "oss_speed afd s =
    (let ((r, test), s) = sys_ioctl (esd_audio_rate s) s   \<comment> \<open>SNDCTL_DSP_SPEED\<close>
     in if r = -1 then oss_fail afd s
        else if \<bar>test - esd_audio_rate s\<bar> * 20 > esd_audio_rate s then oss_fail afd s
        else oss_blksize afd test s)"

definition oss_channels :: "int \<Rightarrow> 'a audio_scheme \<Rightarrow> int \<times> 'a audio_scheme" where
  "oss_channels afd s =
    (let ((r, _), s) = sys_ioctl (if esd_audio_format s AND ESD_MASK_CHAN = ESD_STEREO then 1 else 0) s
     in if r = -1 then oss_fail afd s else oss_speed afd s)"   \<comment> \<open>SNDCTL_DSP_STEREO\<close>

definition oss_format :: "int \<Rightarrow> 'a audio_scheme \<Rightarrow> int \<times> 'a audio_scheme" where
  "oss_format afd s =
    (let value = (if esd_audio_format s AND ESD_MASK_BITS = ESD_BITS16 then AFMT_S16_NE else AFMT_U8);
         ((r, test), s) = sys_ioctl value s                \<comment> \<open>SNDCTL_DSP_SETFMT\<close>
     in if r = -1 then oss_fail afd s else
     let ((_, test), s) = sys_ioctl test s                 \<comment> \<open>SNDCTL_DSP_GETFMTS\<close>
     in if value AND test = 0 then oss_fail afd s else oss_channels afd s)"

definition esd_audio_open :: "'a audio_scheme \<Rightarrow> int \<times> 'a audio_scheme" where
  "esd_audio_open s =
    (let frag = 2097152 OR oss_fragsize (esd_audio_format s) (esd_audio_rate s);
         (afd, s) = sys_open_dev s
     in if afd = -1 then (-2, s) else
     let (_, s) = sys_ioctl frag s;                        \<comment> \<open>SNDCTL_DSP_SETFRAGMENT\<close>
         s = (if esd_audio_format s AND ESD_MASK_FUNC = ESD_RECORD then snd (sys_ioctl 0 s) else s)
     in oss_format afd s)"

text \<open>\<open>SNDCTL_DSP_POST\<close>: the result is ignored.\<close>

definition esd_audio_pause :: "'a audio_scheme \<Rightarrow> 'a audio_scheme" where
  "esd_audio_pause s = snd (sys_ioctl 0 s)"

subsection \<open>The driver-independent part\<close>

definition esd_audio_close :: "'a audio_scheme \<Rightarrow> 'a audio_scheme" where
  "esd_audio_close s =
     (let s = (if esd_audio_fd s \<noteq> -1 then sys_close (esd_audio_fd s) s else s)
      in s\<lparr>esd_audio_fd := -1\<rparr>)"

text \<open>
  The loop of \<open>esd_audio_write\<close>: it goes round again, without a bound, on a timeout of
  \<open>select\<close> and on transient errors of \<open>write\<close>; not returning is \<^term>\<open>None\<close>.
\<close>

partial_function (option) audio_write_loop ::
  "octet list \<Rightarrow> int \<Rightarrow> int \<Rightarrow> int \<Rightarrow> 'a audio_scheme \<Rightarrow> (int \<times> 'a audio_scheme) option" where
  "audio_write_loop buf buf_size pos write_size s =
    (if buf_size - pos > 0 then
       let write_size = (if buf_size - pos < write_size then buf_size - pos else write_size);
           (ret, s) = (if select_works s then sys_select_dev s else (1, s))
       in if ret = 0 then audio_write_loop buf buf_size pos write_size s
       else if ret < 0 then Some (if pos > 0 then pos else -1, s)
       else
       let ((nwrite, transient), s) =
             sys_write (esd_audio_fd s) (take (nat write_size) (drop (nat pos) buf)) s
       in if nwrite = -1 then
            (if transient then audio_write_loop buf buf_size pos write_size s
             else Some (if pos > 0 then pos else -1, s))
          else audio_write_loop buf buf_size (pos + nwrite) write_size s
     else Some (pos, s))"

definition esd_audio_write ::
  "octet list \<Rightarrow> int \<Rightarrow> 'a audio_scheme \<Rightarrow> (int \<times> 'a audio_scheme) option" where
  "esd_audio_write buf buf_size s =
     (if buf_size \<le> int (length buf) then audio_write_loop buf buf_size 0 (esd_write_size s) s
      else None)"

definition esd_audio_read ::
  "int \<Rightarrow> 'a audio_scheme \<Rightarrow> (int \<times> octet list) \<times> 'a audio_scheme" where
  "esd_audio_read buf_size s =
     (let ((len, _, bs), s) = sys_read (esd_audio_fd s) (nat buf_size) s in ((len, bs), s))"

definition esd_audio_flush :: "'a audio_scheme \<Rightarrow> 'a audio_scheme" where
  "esd_audio_flush s = s"

definition esound_getblksize :: "'a audio_scheme \<Rightarrow> int" where
  "esound_getblksize s = esd_write_size s"

subsection \<open>What opening and closing guarantee\<close>

lemma sys_ioctl_frame:
  "sys_ioctl v s = (r, s') \<Longrightarrow> \<exists>d. s' = s\<lparr>dev_ioctl := d\<rparr>"
  by (cases s) (auto simp: sys_ioctl_def split: list.splits)

lemma sys_open_dev_frame:
  "sys_open_dev s = (r, s') \<Longrightarrow> -1 \<le> r \<and> (\<exists>d. s' = s\<lparr>dev_open := d\<rparr>)"
  by (cases s) (auto simp: sys_open_dev_def split: list.splits)

lemma sys_select_dev_frame:
  "sys_select_dev s = (r, s') \<Longrightarrow> \<exists>d. s' = s\<lparr>dev_select := d\<rparr>"
  by (cases s) (auto simp: sys_select_dev_def split: list.splits)

text \<open>
  The device interface as the daemon uses it: it is held exactly while the descriptor is
  not -1, a successful \<open>open\<close> acquires it, a failed one does not, \<open>close\<close> releases it. Not every driver
  keeps the last part.
\<close>

locale audio_opener =
  fixes dopen :: "'s \<Rightarrow> int \<times> 's" and dfd :: "'s \<Rightarrow> int"
  assumes dopen_acquires: "dopen s = (r, s') \<Longrightarrow> 0 \<le> r \<Longrightarrow> dfd s' = r"
    and dopen_fails: "dopen s = (r, s') \<Longrightarrow> r < 0 \<Longrightarrow> dfd s = -1 \<Longrightarrow> dfd s' = -1"
begin

lemma open_held_iff: "dopen s = (r, s') \<Longrightarrow> dfd s = -1 \<Longrightarrow> dfd s' \<noteq> -1 \<longleftrightarrow> 0 \<le> r"
  using dopen_acquires [of s r s'] dopen_fails [of s r s'] by (cases "0 \<le> r") auto

end

locale audio_device = audio_opener dopen dfd
  for dopen :: "'s \<Rightarrow> int \<times> 's" and dfd :: "'s \<Rightarrow> int" +
  fixes dclose :: "'s \<Rightarrow> 's"
  assumes dclose_releases: "dfd (dclose s) = -1"
begin

lemma reopen_held_iff: "dfd (snd (dopen (dclose s))) \<noteq> -1 \<longleftrightarrow> 0 \<le> fst (dopen (dclose s))"
  by (rule open_held_iff [OF prod.collapse [symmetric] dclose_releases])

end

lemma sys_ioctl_keeps [simp]:
  "esd_audio_fd (snd (sys_ioctl v s)) = esd_audio_fd s"
  "esd_audio_rate (snd (sys_ioctl v s)) = esd_audio_rate s"
  "esd_audio_format (snd (sys_ioctl v s)) = esd_audio_format s"
  by (auto simp: sys_ioctl_def split: list.splits)

text \<open>What each stage promises: it fails with the descriptor given back, or the device is set up.\<close>

definition oss_post :: "int \<Rightarrow> int list \<Rightarrow> int \<times> 'a audio_scheme \<Rightarrow> bool" where
  "oss_post afd cl = (\<lambda>(r, s'). (r = -1 \<and> esd_audio_fd s' = -1 \<and> closed s' = cl @ [afd])
     \<or> (r = afd \<and> esd_audio_fd s' = afd \<and> closed s' = cl \<and> esd_write_size s' \<le> ESD_MAX_WRITE_SIZE))"

lemma closed_device [simp]:
  "closed (snd (sys_ioctl v s)) = closed s" "closed (snd (sys_open_dev s)) = closed s" "closed (snd (sys_select_dev s)) = closed s"
  by (simp_all add: sys_ioctl_def sys_open_dev_def sys_select_dev_def split: list.split prod.split)

lemma oss_fail_post: "closed s = cl \<Longrightarrow> oss_post afd cl (oss_fail afd s)"
  by (simp add: oss_post_def oss_fail_def sys_close_def)

lemma oss_blksize_post: "oss_post afd (closed s) (oss_blksize afd test s)"
proof -
  have "closed (snd (sys_select_dev s')) = closed s'" "esd_audio_fd (snd (sys_select_dev s')) = esd_audio_fd s'"
    "esd_write_size (snd (sys_select_dev s')) = esd_write_size s'" for s' :: "'a audio_scheme"
    by (simp_all add: sys_select_dev_def split: list.split)
  then show ?thesis
    by (simp add: oss_blksize_def Let_def case_prod_beta oss_fail_post) (simp add: oss_post_def)
qed

lemma oss_speed_post: "oss_post afd (closed s) (oss_speed afd s)"
  using oss_blksize_post [of afd "snd (sys_ioctl (esd_audio_rate s) s)"]
  by (simp add: oss_speed_def Let_def case_prod_beta oss_fail_post)

lemma oss_channels_post: "oss_post afd (closed s) (oss_channels afd s)"
  unfolding oss_channels_def Let_def case_prod_beta
  using oss_speed_post [of afd "snd (sys_ioctl v s)" for v] by (simp add: oss_fail_post)

lemma oss_format_post: "oss_post afd (closed s) (oss_format afd s)"
  unfolding oss_format_def Let_def case_prod_beta
  using oss_channels_post [of afd "snd (sys_ioctl v (snd (sys_ioctl w s)))" for v w] by (simp add: oss_fail_post)

lemma esd_audio_open_cases:
  assumes "esd_audio_open s = (r, s')" "sys_open_dev s = (afd, s1)"
  shows "(afd = -1 \<and> r = -2 \<and> esd_audio_fd s' = esd_audio_fd s \<and> closed s' = closed s)
    \<or> (0 \<le> afd \<and> oss_post afd (closed s) (r, s'))"
proof -
  have afd: "-1 \<le> afd" and fd: "esd_audio_fd s1 = esd_audio_fd s"
    using assms(2) by (auto dest: sys_open_dev_frame)
  have cl: "closed s1 = closed s" using closed_device(2) [of s] assms(2) by simp
  show ?thesis
  proof (cases "afd = -1")
    case True
    with assms fd cl show ?thesis by (simp add: esd_audio_open_def Let_def)
  next
    case False
    with assms cl obtain s2 where "oss_format afd s2 = (r, s')" "closed s2 = closed s"
      by (auto simp: esd_audio_open_def Let_def case_prod_beta split: if_splits)
    with False afd oss_format_post [of afd s2] show ?thesis by auto
  qed
qed

interpretation oss: audio_device esd_audio_open esd_audio_fd esd_audio_close
proof
  fix s s' :: "'a audio_scheme" and r
  show "esd_audio_fd (esd_audio_close s) = -1"
    by (simp add: esd_audio_close_def)
  assume "esd_audio_open s = (r, s')"
  note c = esd_audio_open_cases [OF this surjective_pairing]
  { assume "0 \<le> r" then show "esd_audio_fd s' = r" using c by (auto simp: oss_post_def) }
  { assume "r < 0" "esd_audio_fd s = -1" then show "esd_audio_fd s' = -1"
      using c by (auto simp: oss_post_def) }
qed


text \<open>
  Writing to the device. Each turn of the loop uses up a scripted result or makes
  progress, so with a positive block size it ends; the bytes the device got are a prefix
  of the buffer, in order.
\<close>

definition aw_measure :: "int \<Rightarrow> int \<Rightarrow> 'a audio_scheme \<Rightarrow> nat" where
  "aw_measure n pos s =
     length (dev_select s) + length (wres s (esd_audio_fd s)) + nat (n - pos)"

definition aw_post :: "octet list \<Rightarrow> int \<Rightarrow> int \<Rightarrow> 'a audio_scheme \<Rightarrow> int \<times> 'a audio_scheme \<Rightarrow> bool" where
  "aw_post buf n pos s = (\<lambda>(r, s'). esd_audio_fd s' = esd_audio_fd s \<and> r \<le> n
     \<and> (pos \<le> r \<or> pos = 0 \<and> r = -1)
     \<and> (\<exists>log. tx s' = tx s @ map (Pair (esd_audio_fd s)) log
            \<and> concat log = take (nat r - nat pos) (drop (nat pos) buf)))"

lemma aw_post_stop: "pos \<le> n \<Longrightarrow> 0 \<le> pos \<Longrightarrow> esd_audio_fd s' = esd_audio_fd s \<Longrightarrow> tx s' = tx s \<Longrightarrow>
    aw_post buf n pos s (if pos > 0 then pos else -1, s') \<and> aw_post buf n pos s (pos, s')"
  by (auto simp: aw_post_def intro: exI [of _ "[]"])

lemma aw_post_step:
  assumes "aw_post buf n (pos + int (length c)) s1 rs" "0 \<le> pos"
    and "pos + int (length c) \<le> int (length buf)"
    and "c = take (length c) (drop (nat pos) buf)"
    and "esd_audio_fd s1 = esd_audio_fd s" "tx s1 = tx s @ [(esd_audio_fd s, c)]"
  shows "aw_post buf n pos s rs"
proof -
  obtain r s' where rs: "rs = (r, s')" by fastforce
  with assms(1) obtain log where log: "tx s' = tx s1 @ map (Pair (esd_audio_fd s)) log"
      "concat log = take (nat r - nat (pos + int (length c))) (drop (nat (pos + int (length c))) buf)"
    and r: "pos + int (length c) \<le> r \<or> pos + int (length c) = 0 \<and> r = -1" "r \<le> n"
      "esd_audio_fd s' = esd_audio_fd s"
    using assms(5) by (auto simp: aw_post_def)
  have n: "nat (pos + int (length c)) = nat pos + length c" using assms(2) by simp
  show ?thesis
  proof (cases "pos + int (length c) \<le> r")
    case True
    then have "nat r - nat pos = length c + (nat r - (nat pos + length c))"
      using assms(2) by linarith
    then have "take (nat r - nat pos) (drop (nat pos) buf) = c @ concat log"
      using log(2) assms(4) n by (simp add: take_add add.commute)
    then show ?thesis using rs log r True assms(6)
      by (auto simp: aw_post_def intro!: exI [of _ "c # log"])
  next
    case False
    with r have "pos + int (length c) = 0" "r = -1" by auto
    with assms(2) have "pos = 0" "length c = 0" "r = -1" by linarith+
    with rs log r assms(6) show ?thesis
      by (auto simp: aw_post_def intro!: exI [of _ "c # log"])
  qed
qed

lemma aw_select:
  assumes "(if select_works s then sys_select_dev s else (1, s)) = (ret, s1)"
  shows "esd_audio_fd s1 = esd_audio_fd s \<and> tx s1 = tx s \<and> wres s1 = wres s
    \<and> length (dev_select s1) \<le> length (dev_select s)
    \<and> (ret = 0 \<longrightarrow> length (dev_select s1) < length (dev_select s))"
  using assms by (auto simp: sys_select_dev_def split: if_splits list.splits)

lemma aw_write:
  assumes "sys_write fd bs s = ((nw, tr), s')" "fd = esd_audio_fd s" "bs \<noteq> []"
  shows "esd_audio_fd s' = esd_audio_fd s \<and> dev_select s' = dev_select s
    \<and> (nw = -1 \<and> tx s' = tx s \<and> length (wres s' fd) < length (wres s fd)
       \<or> (\<exists>k. nw = int (length (take k bs)) \<and> tx s' = tx s @ [(fd, take k bs)]
            \<and> length (wres s' fd) \<le> length (wres s fd)
            \<and> (nw = 0 \<longrightarrow> length (wres s' fd) < length (wres s fd))))"
  using assms by (auto simp: sys_write_def split: list.splits wrres.splits intro: exI [of _ "length bs"])

lemma audio_write_loop_total:
  assumes "0 < ws" "0 \<le> pos" "pos \<le> n" "n \<le> int (length buf)"
  shows "\<exists>rs. audio_write_loop buf n pos ws s = Some rs \<and> aw_post buf n pos s rs"
  using assms
proof (induction "aw_measure n pos s" arbitrary: ws pos s rule: less_induct)
  case less
  show ?case
  proof (cases "n - pos > 0")
    case False
    then show ?thesis using less.prems aw_post_stop [of pos n s s]
      by (subst audio_write_loop.simps) auto
  next
    case True
    define w where "w = (if n - pos < ws then n - pos else ws)"
    have w: "0 < w" "pos + w \<le> n" using True less.prems by (auto simp: w_def)
    obtain ret s1 where sel: "(if select_works s then sys_select_dev s else (1, s)) = (ret, s1)"
      by fastforce
    note s1 = aw_select [OF sel]
    define c where "c = take (nat w) (drop (nat pos) buf)"
    obtain nw tr s2 where wr: "sys_write (esd_audio_fd s1) c s1 = ((nw, tr), s2)"
      by (metis surj_pair)
    have c: "c \<noteq> []" "length c = nat w" using w less.prems by (auto simp: c_def)
    note s2 = aw_write [OF wr refl c(1)]
    have unf: "audio_write_loop buf n pos ws s =
       (if ret = 0 then audio_write_loop buf n pos w s1
        else if ret < 0 then Some (if pos > 0 then pos else -1, s1)
        else if nw = -1 then
            (if tr then audio_write_loop buf n pos w s2 else Some (if pos > 0 then pos else -1, s2))
        else audio_write_loop buf n (pos + nw) w s2)"
      using True sel wr by (subst audio_write_loop.simps) (simp add: Let_def w_def [symmetric] c_def [symmetric])
    have again: "\<exists>rs. audio_write_loop buf n pos w t = Some rs \<and> aw_post buf n pos s rs"
      if "aw_measure n pos t < aw_measure n pos s" "esd_audio_fd t = esd_audio_fd s" "tx t = tx s" for t
      using less.hyps [OF that(1) w(1)] less.prems that(2,3) by (auto simp: aw_post_def)
    show ?thesis
    proof (cases "ret \<le> 0 \<or> nw = -1")
      case True
      then show ?thesis using unf s1 s2 again [of s1] again [of s2] aw_post_stop [of pos n s1 s]
          aw_post_stop [of pos n s2 s] less.prems
        by (auto simp: aw_measure_def)
    next
      case False
      with s2 obtain k where k: "nw = int (length (take k c))" "tx s2 = tx s1 @ [(esd_audio_fd s1, take k c)]"
        and d: "length (wres s2 (esd_audio_fd s1)) \<le> length (wres s1 (esd_audio_fd s1))"
          "nw = 0 \<longrightarrow> length (wres s2 (esd_audio_fd s1)) < length (wres s1 (esd_audio_fd s1))"
        by auto
      have le: "pos + nw \<le> n" using k w c by simp
      have m: "aw_measure n (pos + nw) s2 < aw_measure n pos s"
      proof -
        have eqs: "esd_audio_fd s2 = esd_audio_fd s" "dev_select s2 = dev_select s1"
            "esd_audio_fd s1 = esd_audio_fd s" "wres s1 = wres s"
          using s1 s2 by simp_all
        have "0 \<le> nw" using k(1) by simp
        then have "nat (n - (pos + nw)) \<le> nat (n - pos)"
            "nw \<noteq> 0 \<Longrightarrow> nat (n - (pos + nw)) < nat (n - pos)"
          using \<open>n - pos > 0\<close> by simp_all
        moreover have "length (dev_select s1) \<le> length (dev_select s)" using s1 by simp
        ultimately show ?thesis using d unfolding aw_measure_def eqs by linarith
      qed
      from less.hyps [OF m w(1)] le less.prems k obtain rs where
        rs: "audio_write_loop buf n (pos + nw) w s2 = Some rs" "aw_post buf n (pos + nw) s2 rs"
        by auto
      have "aw_post buf n pos s rs"
      proof (rule aw_post_step [where c = "take k c"])
        show "aw_post buf n (pos + int (length (take k c))) s2 rs" using rs(2) k(1) by simp
        show "0 \<le> pos" using less.prems by simp
        show "pos + int (length (take k c)) \<le> int (length buf)" using le k(1) less.prems by simp
        show "take k c = take (length (take k c)) (drop (nat pos) buf)" by (simp add: c_def min_def)
        show "esd_audio_fd s2 = esd_audio_fd s" using s1 s2 by simp
        show "tx s2 = tx s @ [(esd_audio_fd s, take k c)]" using k(2) s1 by simp
      qed
      with rs unf False show ?thesis by auto
    qed
  qed
qed

text \<open>A device for the concrete runs: it times out once and takes two bytes first.\<close>

definition audio0 :: audio where
  "audio0 = \<lparr>rx = (\<lambda>_. []), wres = (\<lambda>_. [WrShort 2]), tx = [], sel_err = (\<lambda>_. False),
     wrdy = (\<lambda>_. True), closed = [], mallocs = [], next_addr = 1, junk = (\<lambda>_ _. 0), clock = [], accepts = [],
     esd_audio_format = 0x21, esd_audio_rate = 44100, esd_audio_fd = 3, select_works = True,
     esd_write_size = 4, dev_open = [], dev_ioctl = [], dev_select = [0]\<rparr>"

text \<open>
  C26. Writing a buffer to the device ends, and what the device received is, in order, the
  prefix of the buffer whose length is returned: the whole buffer, a part of it after a
  hard error, or nothing (-1). Time-outs, short writes and transient errors lose no data.
\<close>

theorem esd_audio_write_delivers:
  assumes "0 < esd_write_size s" "0 \<le> n" "n \<le> int (length buf)"
  shows "\<exists>r s' log. esd_audio_write buf n s = Some (r, s') \<and> -1 \<le> r \<and> r \<le> n
    \<and> tx s' = tx s @ map (Pair (esd_audio_fd s)) log \<and> concat log = take (nat r) buf"
proof -
  from audio_write_loop_total [of "esd_write_size s" 0 n buf s] assms
  obtain r s' where "audio_write_loop buf n 0 (esd_write_size s) s = Some (r, s')"
    "aw_post buf n 0 s (r, s')" by auto
  then show ?thesis using assms by (auto simp: esd_audio_write_def aw_post_def)
qed

theorem esd_audio_write_delivers_witness:
  "\<exists>r s' log. esd_audio_write [1, 2, 3, 4, 5, 6] 6 audio0 = Some (r, s') \<and> -1 \<le> r \<and> r \<le> 6
    \<and> tx s' = tx audio0 @ map (Pair (esd_audio_fd audio0)) log \<and> concat log = take (nat r) [1, 2, 3, 4, 5, 6]"
  by (rule esd_audio_write_delivers) (simp_all add: audio0_def)

text \<open>
  C27. Opening the device. When \<open>open\<close> fails, -2 is returned and the descriptor in use is left alone. When it
  succeeds with some descriptor, either a later step fails, -1 is returned, exactly that descriptor has been closed, once, and
  none is in use; or the descriptor is returned and in use, nothing has been closed, and the block size is
  within \<open>ESD_MAX_WRITE_SIZE\<close>.
\<close>

theorem esd_audio_open_outcome:
  assumes "esd_audio_open s = (r, s')" "sys_open_dev s = (afd, s1)"
  shows "(afd = -1 \<and> r = -2 \<and> esd_audio_fd s' = esd_audio_fd s \<and> closed s' = closed s)
    \<or> (0 \<le> afd \<and> r = -1 \<and> esd_audio_fd s' = -1 \<and> closed s' = closed s @ [afd])
    \<or> (0 \<le> afd \<and> r = afd \<and> esd_audio_fd s' = afd \<and> closed s' = closed s \<and> esd_write_size s' \<le> ESD_MAX_WRITE_SIZE)"
  using esd_audio_open_cases [OF assms] by (auto simp: oss_post_def)

text \<open>A device that is busy, one that refuses the speed, and one that works.\<close>

theorem esd_audio_open_outcome_witness:
  "(\<exists>s'. esd_audio_open (audio0\<lparr>dev_open := [-1]\<rparr>) = (-2, s') \<and> esd_audio_fd s' = 3 \<and> closed s' = closed audio0)
   \<and> (\<exists>s'. esd_audio_open (audio0\<lparr>dev_open := [6], dev_ioctl := [(0, 0), (0, 16), (0, 16), (0, 1), (-1, 0)]\<rparr>) = (-1, s')
        \<and> esd_audio_fd s' = -1 \<and> closed s' = closed audio0 @ [6])
   \<and> (\<exists>s'. esd_audio_open (audio0\<lparr>dev_open := [6], dev_ioctl := [(0, 0), (0, 16), (0, 16), (0, 1), (0, 44100), (0, 99999)]\<rparr>) = (6, s')
        \<and> esd_audio_fd s' = 6 \<and> closed s' = closed audio0 \<and> esd_write_size s' \<le> ESD_MAX_WRITE_SIZE)"
proof (intro conjI)
  let ?a = "audio0\<lparr>dev_open := [-1]\<rparr>"
    and ?b = "audio0\<lparr>dev_open := [6], dev_ioctl := [(0, 0), (0, 16), (0, 16), (0, 1), (-1, 0)]\<rparr>"
    and ?c = "audio0\<lparr>dev_open := [6], dev_ioctl := [(0, 0), (0, 16), (0, 16), (0, 1), (0, 44100), (0, 99999)]\<rparr>"
  note out = esd_audio_open_outcome [OF surjective_pairing surjective_pairing]
  have r: "fst (esd_audio_open ?a) = -2" "fst (esd_audio_open ?b) = -1" "fst (esd_audio_open ?c) = 6" by code_simp+
  have o: "fst (sys_open_dev ?a) = -1" "fst (sys_open_dev ?b) = 6" "fst (sys_open_dev ?c) = 6" by (simp_all add: sys_open_dev_def)
  have p: "esd_audio_fd ?a = 3" "closed ?a = closed audio0" "closed ?b = closed audio0" "closed ?c = closed audio0"
    by (simp_all add: audio0_def)
  show "\<exists>s'. esd_audio_open ?a = (-2, s') \<and> esd_audio_fd s' = 3 \<and> closed s' = closed audio0"
    using out [of ?a, unfolded r o p] r(1) by (intro exI [of _ "snd (esd_audio_open ?a)"]) (simp add: prod_eq_iff)
  show "\<exists>s'. esd_audio_open ?b = (-1, s') \<and> esd_audio_fd s' = -1 \<and> closed s' = closed audio0 @ [6]"
    using out [of ?b, unfolded r o p] r(2) by (intro exI [of _ "snd (esd_audio_open ?b)"]) (simp add: prod_eq_iff)
  show "\<exists>s'. esd_audio_open ?c = (6, s') \<and> esd_audio_fd s' = 6 \<and> closed s' = closed audio0 \<and> esd_write_size s' \<le> ESD_MAX_WRITE_SIZE"
    using out [of ?c, unfolded r o p] r(3) by (intro exI [of _ "snd (esd_audio_open ?c)"]) (simp add: prod_eq_iff)
qed

end
