(* ===== verification/Esd_Types.thy ===== *)
theory Esd_Types
  imports Esd_Audio
begin

text \<open>
  The data of the daemon: protocol constants (\<open>esd.h\<close>), clients, players, samples and
  the globals of the server (\<open>esd-server.h\<close>, \<open>esd.c\<close>, \<open>clients.c\<close>, \<open>players.c\<close>,
  \<open>samples.c\<close>, \<open>filter.c\<close>, \<open>proto.c\<close>, \<open>mix.c\<close>), and the byte-order macros. Addresses
  stand for pointers: address 0 is \<open>NULL\<close>, and an object is live while its address is in
  the list it belongs to.
\<close>

subsection \<open>Protocol constants\<close>

abbreviation (input) ESD_KEY_LEN :: nat where "ESD_KEY_LEN \<equiv> 16"
abbreviation (input) ESD_NAME_MAX :: nat where "ESD_NAME_MAX \<equiv> 128"
abbreviation (input) ESD_VOLUME_BASE :: int where "ESD_VOLUME_BASE \<equiv> 256"

text \<open>\<open>ESD_ENDIAN_KEY\<close> is the word spelling ``ENDN'', most significant byte first.\<close>

abbreviation (input) ESD_ENDIAN_KEY :: int where "ESD_ENDIAN_KEY \<equiv> 0x454E444E"

abbreviation (input) ESD_PROTO_CONNECT :: int where "ESD_PROTO_CONNECT \<equiv> 0"
abbreviation (input) ESD_PROTO_LOCK :: int where "ESD_PROTO_LOCK \<equiv> 1"
abbreviation (input) ESD_PROTO_UNLOCK :: int where "ESD_PROTO_UNLOCK \<equiv> 2"
abbreviation (input) ESD_PROTO_STREAM_PLAY :: int where "ESD_PROTO_STREAM_PLAY \<equiv> 3"
abbreviation (input) ESD_PROTO_STREAM_REC :: int where "ESD_PROTO_STREAM_REC \<equiv> 4"
abbreviation (input) ESD_PROTO_STREAM_MON :: int where "ESD_PROTO_STREAM_MON \<equiv> 5"
abbreviation (input) ESD_PROTO_SAMPLE_CACHE :: int where "ESD_PROTO_SAMPLE_CACHE \<equiv> 6"
abbreviation (input) ESD_PROTO_SAMPLE_FREE :: int where "ESD_PROTO_SAMPLE_FREE \<equiv> 7"
abbreviation (input) ESD_PROTO_SAMPLE_PLAY :: int where "ESD_PROTO_SAMPLE_PLAY \<equiv> 8"
abbreviation (input) ESD_PROTO_SAMPLE_LOOP :: int where "ESD_PROTO_SAMPLE_LOOP \<equiv> 9"
abbreviation (input) ESD_PROTO_SAMPLE_STOP :: int where "ESD_PROTO_SAMPLE_STOP \<equiv> 10"
abbreviation (input) ESD_PROTO_SAMPLE_KILL :: int where "ESD_PROTO_SAMPLE_KILL \<equiv> 11"
abbreviation (input) ESD_PROTO_STANDBY :: int where "ESD_PROTO_STANDBY \<equiv> 12"
abbreviation (input) ESD_PROTO_RESUME :: int where "ESD_PROTO_RESUME \<equiv> 13"
abbreviation (input) ESD_PROTO_SAMPLE_GETID :: int where "ESD_PROTO_SAMPLE_GETID \<equiv> 14"
abbreviation (input) ESD_PROTO_STREAM_FILT :: int where "ESD_PROTO_STREAM_FILT \<equiv> 15"
abbreviation (input) ESD_PROTO_SERVER_INFO :: int where "ESD_PROTO_SERVER_INFO \<equiv> 16"
abbreviation (input) ESD_PROTO_ALL_INFO :: int where "ESD_PROTO_ALL_INFO \<equiv> 17"
abbreviation (input) ESD_PROTO_SUBSCRIBE :: int where "ESD_PROTO_SUBSCRIBE \<equiv> 18"
abbreviation (input) ESD_PROTO_UNSUBSCRIBE :: int where "ESD_PROTO_UNSUBSCRIBE \<equiv> 19"
abbreviation (input) ESD_PROTO_STREAM_PAN :: int where "ESD_PROTO_STREAM_PAN \<equiv> 20"
abbreviation (input) ESD_PROTO_SAMPLE_PAN :: int where "ESD_PROTO_SAMPLE_PAN \<equiv> 21"
abbreviation (input) ESD_PROTO_STANDBY_MODE :: int where "ESD_PROTO_STANDBY_MODE \<equiv> 22"
abbreviation (input) ESD_PROTO_LATENCY :: int where "ESD_PROTO_LATENCY \<equiv> 23"
abbreviation (input) ESD_PROTO_MAX :: int where "ESD_PROTO_MAX \<equiv> 24"

abbreviation (input) ESM_ON_STANDBY :: int where "ESM_ON_STANDBY \<equiv> 1"
abbreviation (input) ESM_ON_AUTOSTANDBY :: int where "ESM_ON_AUTOSTANDBY \<equiv> 2"
abbreviation (input) ESM_RUNNING :: int where "ESM_RUNNING \<equiv> 3"

subsection \<open>Clients, players, samples\<close>

datatype esd_client_state =
    ESD_STREAMING_DATA | ESD_CACHING_SAMPLE | ESD_NEEDS_REQDATA | ESD_NEXT_REQUEST
  | ESD_CLIENT_STATE_MAX

record esd_client =
  cl_addr :: addr
  cl_state :: esd_client_state
  cl_request :: int
  cl_fd :: int
  swap_byte_order :: bool
  proto_data :: "octet list"
  proto_data_length :: int

text \<open>The function pointers a player can hold.\<close>

datatype mix_func =
    mix_mono_8u_sv | mix_stereo_8u_sv | mix_mono_16s_sv | mix_stereo_16s_sv
  | mix_mono_8u | mix_stereo_8u | mix_mono_16s | mix_stereo_16s

datatype translate_func = from_mono_16s | from_mono_8u | from_stereo_16s | from_stereo_8u

record esd_player =
  pl_addr :: addr
  pl_parent :: addr
  pl_format :: int
  pl_rate :: int
  pl_left_vol :: int
  pl_right_vol :: int
  pl_source_id :: int
  pl_data :: "octet list"
  pl_buffer_length :: int
  pl_actual_length :: int
  pl_last_pos :: int
  pl_name :: "octet list"
  pl_mix_func :: "mix_func option"
  pl_translate :: "translate_func option"

record esd_sample =
  sm_addr :: addr
  sm_parent :: addr
  sm_format :: int
  sm_rate :: int
  sm_left_vol :: int
  sm_right_vol :: int
  sm_id :: int
  sm_data :: "octet list"
  sm_length :: int
  sm_cached :: int
  sm_ref_count :: int
  sm_erase_when_done :: bool
  sm_name :: "octet list"

subsection \<open>The server\<close>

record esd_server = audio +
  esd_clients_list :: "esd_client list"
  esd_players_list :: "esd_player list"
  esd_recorder_list :: "esd_player list"
  esd_monitor_list :: "esd_player list"
  esd_filter_list :: "esd_player list"
  esd_samples_list :: "esd_sample list"
  esd_playing_samples :: int
  esd_next_sample_id :: int
  esd_is_owned :: bool
  esd_is_locked :: bool
  esd_owner_key :: "octet list"
  esd_on_standby :: bool
  esd_on_autostandby :: bool
  esd_forced_standby :: bool
  esd_buf_size_octets :: int
  esd_buf_size_samples :: int
  mixed_buffer :: "int list"
  output_buffer :: "octet list"
  esd_first_filter_func :: "translate_func option"

subsection \<open>Byte order\<close>

text \<open>
  The macros of \<open>esd-server.h\<close>. Applied to an \<open>int\<close>, the shift \<open>(x) >> 24\<close> is
  arithmetic; applied to an \<open>unsigned int\<close> it is logical.
\<close>

definition swap_endian_32 :: "int \<Rightarrow> int" where
  "swap_endian_32 x =
     i32 (drop_bit 24 x OR drop_bit 8 (x AND 0xFF0000)
          OR push_bit 8 (x AND 0xFF00) OR push_bit 24 (x AND 0xFF))"

definition swap_endian_32u :: "int \<Rightarrow> int" where
  "swap_endian_32u x =
     u32 (drop_bit 24 (u32 x) OR drop_bit 8 (u32 x AND 0xFF0000)
          OR push_bit 8 (u32 x AND 0xFF00) OR push_bit 24 (u32 x AND 0xFF))"

definition maybe_swap_32 :: "bool \<Rightarrow> int \<Rightarrow> int" where
  "maybe_swap_32 c x = (if c then swap_endian_32 x else x)"

definition ESD_SWAP_ENDIAN_KEY :: int where
  "ESD_SWAP_ENDIAN_KEY = swap_endian_32u ESD_ENDIAN_KEY"

text \<open>
  \<open>swap_endian_16\<close> on an \<open>unsigned short\<close> (as in \<open>players.c\<close>) and on a \<open>short\<close> (as in
  \<open>samples.c\<close>), the result stored back into the same type; both return the two bytes.
\<close>

definition swap_endian_16u :: "octet \<Rightarrow> octet \<Rightarrow> octet \<times> octet" where
  "swap_endian_16u lo hi =
     (let x = uint lo + 256 * uint hi; y = drop_bit 8 x OR push_bit 8 (x AND 0xFF)
      in (word_of_int y, word_of_int (y div 256)))"

definition swap_endian_16s :: "octet \<Rightarrow> octet \<Rightarrow> octet \<times> octet" where
  "swap_endian_16s lo hi =
     (let x = le16 lo hi; y = drop_bit 8 x OR push_bit 8 (x AND 0xFF)
      in (word_of_int y, word_of_int (y div 256)))"

text \<open>The loops that swap the shorts from index \<open>pos\<close> up to index \<open>stop\<close> of a buffer.\<close>

function swap_shorts ::
  "(octet \<Rightarrow> octet \<Rightarrow> octet \<times> octet) \<Rightarrow> nat \<Rightarrow> nat \<Rightarrow> octet list \<Rightarrow> octet list option" where
  "swap_shorts sw pos stop bs =
     (if pos < stop then
        (if 2 * pos + 1 < length bs then
           let (lo, hi) = sw (bs ! (2 * pos)) (bs ! (2 * pos + 1))
           in swap_shorts sw (Suc pos) stop (bs[2 * pos := lo, 2 * pos + 1 := hi])
         else None)
      else Some bs)"
  by pat_completeness auto
termination by (relation "measure (\<lambda>(sw, pos, stop, bs). stop - pos)") auto

declare swap_shorts.simps [simp del]

lemma swap_shorts_length: "swap_shorts sw pos stop bs = Some bs' \<Longrightarrow> length bs' = length bs"
  by (induction sw pos stop bs rule: swap_shorts.induct)
    (subst (asm) (2) swap_shorts.simps, auto simp: Let_def split: if_splits prod.splits)

lemma swap_shorts_some: "2 * stop \<le> length bs \<Longrightarrow> \<exists>bs'. swap_shorts sw pos stop bs = Some bs'"
proof (induction sw pos stop bs rule: swap_shorts.induct)
  case (1 sw pos stop bs)
  obtain lo hi where sw: "sw (bs ! (2 * pos)) (bs ! (2 * pos + 1)) = (lo, hi)" by fastforce
  show ?case
  proof (cases "pos < stop")
    case True
    with 1 sw show ?thesis
      by (subst swap_shorts.simps) (auto simp: Let_def)
  next
    case False
    then show ?thesis by (subst swap_shorts.simps) simp
  qed
qed

text \<open>Both loops fault when the range leaves the buffer.\<close>

lemma swap_shorts_none:
  "pos < stop \<Longrightarrow> length bs < 2 * stop \<Longrightarrow> swap_shorts sw pos stop bs = None"
proof (induction sw pos stop bs rule: swap_shorts.induct)
  case (1 sw pos stop bs)
  obtain lo hi where sw: "sw (bs ! (2 * pos)) (bs ! (2 * pos + 1)) = (lo, hi)" by fastforce
  show ?case
  proof (cases "2 * pos + 1 < length bs")
    case True
    then have "Suc pos < stop" using 1(3) by linarith
    with 1 sw True show ?thesis by (subst swap_shorts.simps) (auto simp: Let_def)
  next
    case False
    with 1 show ?thesis by (subst swap_shorts.simps) simp
  qed
qed

subsection \<open>What the byte-order macros compute\<close>

lemma uint_octet: "0 \<le> uint (b::octet)" "uint (b::octet) < 256"
  using uint_lt2p [of b] by simp_all

lemma and_field: "x AND push_bit n (mask m) = push_bit n (take_bit m (drop_bit n x))" for x :: int
  by (rule bit_eqI) (auto simp: bit_simps)

lemma and_mask_8: "x AND 0xFF = x mod (256::int)"
  using take_bit_eq_mask [of 8 x] by (simp add: take_bit_eq_mod mask_eq_exp_minus_1)

lemma and_mask_16: "x AND 0xFF00 = 256 * (x div 256 mod (256::int))"
  using and_field [of x 8 8]
  by (simp add: push_bit_eq_mult drop_bit_eq_div take_bit_eq_mod mask_eq_exp_minus_1)

lemma and_mask_24: "x AND 0xFF0000 = 65536 * (x div 65536 mod (256::int))"
  using and_field [of x 16 8]
  by (simp add: push_bit_eq_mult drop_bit_eq_div take_bit_eq_mod mask_eq_exp_minus_1)

text \<open>Or-ing in a value below \<open>2 ^ n\<close> with a multiple of \<open>2 ^ n\<close> is adding.\<close>

lemma or_low_high: "0 \<le> a \<Longrightarrow> a < 2 ^ n \<Longrightarrow> a OR 2 ^ n * b = a + 2 ^ n * (b::int)"
proof -
  assume "0 \<le> a" "a < 2 ^ n"
  then have a: "a = take_bit n a" by (simp add: take_bit_int_eq_self)
  have b: "2 ^ n * b = push_bit n b" by (simp add: push_bit_eq_mult mult.commute)
  have "take_bit n a AND push_bit n b = 0"
    by (rule bit_eqI) (auto simp: bit_simps)
  then show ?thesis using a b by (simp add: disjunctive_add_eq_or)
qed

lemma bytes_or:
  assumes "0 \<le> a" "a < 256" "0 \<le> b" "b < 256" "0 \<le> c" "c < 256"
  shows "a OR 256 * b OR 65536 * c OR 16777216 * d = a + 256 * b + 65536 * c + 16777216 * (d::int)"
  using or_low_high [of a 8 b] or_low_high [of "a + 256 * b" 16 c]
    or_low_high [of "a + 256 * b + 65536 * c" 24 d] assms
  by (simp flip: or.assoc)

lemma swap_endian_32_nonneg:
  assumes "0 \<le> x" "x < 2147483648"
  shows "swap_endian_32 x = i32 (x div 16777216 + 256 * (x div 65536 mod 256)
           + 65536 * (x div 256 mod 256) + 16777216 * (x mod 256))"
proof -
  have "0 \<le> x div 16777216" "x div 16777216 < 256" using assms by auto
  then have "x div 16777216 OR 256 * (x div 65536 mod 256) OR 65536 * (x div 256 mod 256)
      OR 16777216 * (x mod 256) = x div 16777216 + 256 * (x div 65536 mod 256)
           + 65536 * (x div 256 mod 256) + 16777216 * (x mod 256)"
    by (intro bytes_or) simp_all
  then show ?thesis
    unfolding swap_endian_32_def and_mask_8 and_mask_16 and_mask_24
    by (simp add: drop_bit_eq_div push_bit_eq_mult mult.commute)
qed

text \<open>A negative value keeps its sign bits in the shifted byte, which then covers the rest.\<close>

lemma or_negative_byte: "- 256 \<le> a \<Longrightarrow> a < 0 \<Longrightarrow> a OR 256 * b = (a::int)"
proof -
  assume h: "- 256 \<le> a" "a < 0"
  then have "a div 256 = -1" by presburger
  then have a: "drop_bit 8 a = -1" by (simp add: drop_bit_eq_div)
  have b: "256 * b = push_bit 8 b" by (simp add: push_bit_eq_mult)
  have "bit a n" if "8 \<le> n" for n
  proof -
    have "bit (drop_bit 8 a) (n - 8)" using a by simp
    then show ?thesis using that by (simp add: bit_simps)
  qed
  then show ?thesis unfolding b by (intro bit_eqI) (auto simp: bit_simps)
qed

lemma swap_endian_32_neg:
  assumes "x < 0" "- 2147483648 \<le> x"
  shows "swap_endian_32 x = x div 16777216"
proof -
  let ?r = "(x div 65536 mod 256) OR 256 * (x div 256 mod 256) OR 65536 * (x mod 256)"
  have d: "- 256 \<le> x div 16777216" "x div 16777216 < 0" using assms by auto
  have "drop_bit 24 x OR drop_bit 8 (x AND 0xFF0000) OR push_bit 8 (x AND 0xFF00)
      OR push_bit 24 (x AND 0xFF) = x div 16777216"
    unfolding and_mask_8 and_mask_16 and_mask_24
    using or_negative_byte [OF d, of "x div 65536 mod 256"]
      or_negative_byte [OF d, of "256 * (x div 256 mod 256)"]
      or_negative_byte [OF d, of "65536 * (x mod 256)"]
    by (simp add: drop_bit_eq_div push_bit_eq_mult mult.commute flip: or.assoc)
  then show ?thesis unfolding swap_endian_32_def using d by (simp add: i32_id)
qed


lemma i32_small: "- 2147483648 \<le> x \<Longrightarrow> x < 2147483648 \<Longrightarrow> i32 x = x"
  by (simp add: i32_id)

lemma i16_small: "- 32768 \<le> x \<Longrightarrow> x < 32768 \<Longrightarrow> i16 x = x"
  by (simp add: i16_id)

lemma i32_high: "2147483648 \<le> x \<Longrightarrow> x < 4294967296 \<Longrightarrow> i32 x = x - 4294967296"
proof -
  assume h: "2147483648 \<le> x" "x < 4294967296"
  have "i32 x = i32 (x - 4294967296)"
    using i32_mod [of x] i32_mod [of "x - 4294967296"] by simp
  then show ?thesis using h by (simp add: i32_id)
qed

lemma le32_nonneg:
  assumes "uint b3 < 128"
  shows "le32 b0 b1 b2 b3 = uint b0 + 256 * uint b1 + 65536 * uint b2 + 16777216 * uint b3"
  unfolding le32_def
  by (rule i32_small)
    (use assms uint_octet [of b0] uint_octet [of b1] uint_octet [of b2] uint_octet [of b3] in linarith)+

lemma le32_neg:
  assumes "128 \<le> uint b3"
  shows "le32 b0 b1 b2 b3 = uint b0 + 256 * uint b1 + 65536 * uint b2 + 16777216 * uint b3 - 4294967296"
  unfolding le32_def
  by (rule i32_high)
    (use assms uint_octet [of b0] uint_octet [of b1] uint_octet [of b2] uint_octet [of b3] in linarith)+

lemma digit:
  assumes "0 \<le> a" "a < n"
  shows "(a + n * b) mod n = a" "(a + n * b) div n = (b::int)"
  using assms by simp_all

lemma byte_digits:
  assumes "0 \<le> a" "a < 256" "0 \<le> b" "b < 256" "0 \<le> c" "c < 256"
  shows "(a + 256 * b + 65536 * c + 16777216 * d) mod 256 = a"
    and "(a + 256 * b + 65536 * c + 16777216 * d) div 256 mod 256 = b"
    and "(a + 256 * b + 65536 * c + 16777216 * d) div 65536 mod 256 = c"
    and "(a + 256 * b + 65536 * c + 16777216 * d) div 16777216 = (d::int)"
proof -
  let ?x = "a + 256 * b + 65536 * c + 16777216 * d"
  have e: "?x = a + 256 * (b + 256 * (c + 256 * d))" "?x = (a + 256 * b) + 65536 * (c + 256 * d)"
    "?x = (a + 256 * b + 65536 * c) + 16777216 * d" by simp_all
  have r: "0 \<le> a + 256 * b" "a + 256 * b < 65536" "0 \<le> a + 256 * b + 65536 * c"
    "a + 256 * b + 65536 * c < 16777216" using assms by linarith+
  show "?x mod 256 = a" unfolding e(1) by (rule digit) (fact assms)+
  show "?x div 256 mod 256 = b" unfolding e(1) digit(2) [OF assms(1,2)] by (rule digit) (fact assms)+
  show "?x div 65536 mod 256 = c" unfolding e(2) digit(2) [OF r(1,2)] by (rule digit) (fact assms)+
  show "?x div 16777216 = d" by (rule digit) (fact r)+
qed

text \<open>
  \<open>swap_endian_32\<close> reverses the four bytes of an \<open>int\<close> exactly when its top byte is
  below 128; otherwise the sign bits of the arithmetic shift swallow the three other bytes
  and the result is the top byte alone, sign-extended. A client of the other byte order
  that asks for 48000 Hz (bytes 80 BB 00 00 in its order) is therefore given -128 Hz.
\<close>

theorem swap_endian_32_bytes:
  "swap_endian_32 (le32 b0 b1 b2 b3) = (if uint b3 < 128 then le32 b3 b2 b1 b0 else uint b3 - 256)"
proof (cases "uint b3 < 128")
  case True
  note u = uint_octet [of b0] uint_octet [of b1] uint_octet [of b2] uint_octet [of b3]
  have "swap_endian_32 (le32 b0 b1 b2 b3) =
      i32 (uint b3 + 256 * uint b2 + 65536 * uint b1 + 16777216 * uint b0)"
    unfolding le32_nonneg [OF True]
    by (subst swap_endian_32_nonneg)
      (use True u in linarith, use True u in linarith, simp only: byte_digits u)
  with True show ?thesis by (simp add: le32_def)
next
  case False
  note u = uint_octet [of b0] uint_octet [of b1] uint_octet [of b2] uint_octet [of b3]
  have e: "le32 b0 b1 b2 b3 = uint b0 + 256 * uint b1 + 65536 * uint b2 + 16777216 * (uint b3 - 256)"
    using le32_neg [of b3 b0 b1 b2] False by simp
  have "le32 b0 b1 b2 b3 < 0" "- 2147483648 \<le> le32 b0 b1 b2 b3"
    using le32_neg [of b3 b0 b1 b2] False u by linarith+
  then have "swap_endian_32 (le32 b0 b1 b2 b3) = le32 b0 b1 b2 b3 div 16777216"
    by (rule swap_endian_32_neg)
  also have "\<dots> = uint b3 - 256" unfolding e by (rule byte_digits) (fact u)+
  finally have "swap_endian_32 (le32 b0 b1 b2 b3) = uint b3 - 256" .
  with False show ?thesis by simp
qed

lemma byte_pair:
  assumes "0 \<le> a" "a < 256"
  shows "(a + 256 * b) mod 256 = a" "(a + 256 * b) div 256 = (b::int)"
  using assms by auto

lemma word_of_uint_add: "word_of_int (uint (w::octet) + 256 * k) = w"
  by (rule word_uint_eqI)
    (use uint_octet [of w] in \<open>simp only: uint_byte byte_pair mod_mult_self2 mod_pos_pos_trivial\<close>)

lemma swap_endian_16u_eq: "swap_endian_16u lo hi = (hi, lo)"
proof -
  note u = uint_octet [of lo] uint_octet [of hi]
  have "uint hi OR uint lo * 256 = uint hi + 256 * uint lo"
    using or_low_high [of "uint hi" 8 "uint lo"] u by (simp add: mult.commute)
  then have "swap_endian_16u lo hi =
      (word_of_int (uint hi + 256 * uint lo), word_of_int ((uint hi + 256 * uint lo) div 256))"
    unfolding swap_endian_16u_def Let_def and_mask_8 drop_bit_eq_div push_bit_eq_mult
    using byte_pair [OF u(1,2), of "uint hi"] by simp
  then show ?thesis
    unfolding byte_pair [OF u(3,4)] word_of_uint_add by simp
qed

lemma i16_high: "32768 \<le> x \<Longrightarrow> x < 65536 \<Longrightarrow> i16 x = x - 65536"
proof -
  assume h: "32768 \<le> x" "x < 65536"
  have m: "i16 (y mod 65536) = i16 y" for y
    using signed_take_bit_take_bit [of 15 16 y] by (simp add: i16_def take_bit_eq_mod)
  have "i16 x = i16 (x - 65536)"
    using m [of x] m [of "x - 65536"] by simp
  then show ?thesis using h by (simp add: i16_id)
qed

lemma le16_nonneg: "uint hi < 128 \<Longrightarrow> le16 lo hi = uint lo + 256 * uint hi"
  unfolding le16_def by (rule i16_small) (use uint_octet [of lo] uint_octet [of hi] in linarith)+

lemma le16_neg:
  assumes "128 \<le> uint hi"
  shows "le16 lo hi = uint lo + 256 * (uint hi - 256)"
  using assms i16_high [of "uint lo + 256 * uint hi"] uint_octet [of lo] uint_octet [of hi]
  unfolding le16_def by simp

lemma swap_endian_16s_eq: "swap_endian_16s lo hi = (hi, if uint hi < 128 then lo else 255)"
proof (cases "uint hi < 128")
  case True
  then have "swap_endian_16s lo hi = swap_endian_16u lo hi"
    by (simp add: swap_endian_16s_def swap_endian_16u_def le16_nonneg)
  with True show ?thesis by (simp add: swap_endian_16u_eq)
next
  case False
  note u = uint_octet [of lo] uint_octet [of hi]
  have "(uint hi - 256) OR 256 * uint lo = uint hi - 256"
    using False u by (intro or_negative_byte) auto
  moreover have "(uint hi - 256) div 256 = -1" using False u by auto
  moreover have "word_of_int (uint hi - 256) = hi" using word_of_uint_add [of hi "-1"] by simp
  ultimately show ?thesis
    unfolding swap_endian_16s_def Let_def and_mask_8 drop_bit_eq_div push_bit_eq_mult
    using False byte_pair [of "uint lo" "uint hi - 256"] u
    by (simp add: le16_neg mult.commute)
qed

end
