(* ===== verification/Esd_Clients.thy ===== *)
theory Esd_Clients
  imports Esd_Types
begin

text \<open>
  The client connections (first part of \<open>clients.c\<close>): the list of connected clients, the
  removal of a client, and the acceptance of new connections. The main loop of the same
  file is in \<open>Esd_Server\<close>. The laws that every list of the daemon satisfies (push at the
  head, unlink a node by address) are the locale \<open>node_list\<close>; it is interpreted for each
  of the six lists in the theory that owns it.
\<close>

subsection \<open>Lists of the server\<close>

text \<open>
  A list kept in the server state: \<open>items\<close> reads it, \<open>put\<close> replaces it, nothing else of
  the state is involved. A pushed node with a fresh address keeps addresses distinct, and
  an unlinked address is gone.
\<close>

locale node_list =
  fixes items :: "'s \<Rightarrow> 'n list" and put :: "'n list \<Rightarrow> 's \<Rightarrow> 's" and ad :: "'n \<Rightarrow> addr"
  assumes items_put: "items (put ns s) = ns"
    and put_put: "put ns (put ms s) = put ns s"
    and put_items: "put (items s) s = s"
begin

definition live :: "addr \<Rightarrow> 's \<Rightarrow> bool" where
  "live a s \<longleftrightarrow> a \<in> ad ` set (items s)"

definition push :: "'n \<Rightarrow> 's \<Rightarrow> 's" where
  "push n s = put (n # items s) s"

definition drop_node :: "addr \<Rightarrow> 's \<Rightarrow> 's" where
  "drop_node a s = put (unlink ad a (items s)) s"

lemma live_push: "live a (push n s) \<longleftrightarrow> a = ad n \<or> live a s"
  by (auto simp: live_def push_def items_put)

lemma live_drop: "distinct (map ad (items s)) \<Longrightarrow> live b (drop_node a s) \<longleftrightarrow> b \<noteq> a \<and> live b s"
  by (auto simp: live_def drop_node_def items_put set_unlink)

lemma distinct_push:
  "distinct (map ad (items s)) \<Longrightarrow> \<not> live (ad n) s \<Longrightarrow> distinct (map ad (items (push n s)))"
  by (auto simp: live_def push_def items_put)

lemma distinct_drop: "distinct (map ad (items s)) \<Longrightarrow> distinct (map ad (items (drop_node a s)))"
  by (simp add: drop_node_def items_put distinct_unlink)

lemma drop_absent: "\<not> live a s \<Longrightarrow> drop_node a s = s"
  by (simp add: live_def drop_node_def unlink_absent put_items)

lemma drop_push: "\<not> live (ad n) s \<Longrightarrow> drop_node (ad n) (push n s) = s"
  by (simp add: drop_node_def push_def items_put put_put put_items)

end

interpretation clients: node_list "esd_clients_list :: 'a esd_server_scheme \<Rightarrow> _"
    "\<lambda>ns s. s\<lparr>esd_clients_list := ns\<rparr>" cl_addr
  by unfold_locales simp_all

subsection \<open>Operations\<close>

definition add_new_client :: "esd_client \<Rightarrow> 'a esd_server_scheme \<Rightarrow> 'a esd_server_scheme" where
  "add_new_client c s = s\<lparr>esd_clients_list := c # esd_clients_list s\<rparr>"

definition erase_client :: "addr \<Rightarrow> 'a esd_server_scheme \<Rightarrow> 'a esd_server_scheme" where
  "erase_client client s =
     (case node cl_addr client (esd_clients_list s) of
        Some c \<Rightarrow> sys_close (cl_fd c) (s\<lparr>esd_clients_list := unlink cl_addr client (esd_clients_list s)\<rparr>)
      | None \<Rightarrow> s)"

text \<open>Access to the fields of a client through its pointer; a dangling one is a fault.\<close>

definition the_client :: "addr \<Rightarrow> 'a esd_server_scheme \<Rightarrow> esd_client option" where
  "the_client client s = node cl_addr client (esd_clients_list s)"

definition set_client ::
  "addr \<Rightarrow> (esd_client \<Rightarrow> esd_client) \<Rightarrow> 'a esd_server_scheme \<Rightarrow> 'a esd_server_scheme" where
  "set_client client f s = s\<lparr>esd_clients_list := upd_node cl_addr client f (esd_clients_list s)\<rparr>"

lemma malloc_accepts [simp]: "malloc n s = (a, s') \<Longrightarrow> accepts s' = accepts s"
  by (auto simp: malloc_def split: if_splits list.splits)

text \<open>
  \<open>get_new_clients\<close> accepts until no connection is pending. A fresh client has only the
  fields set that the code sets: its byte order and request data are whatever \<open>malloc\<close>
  left there.
\<close>

definition fresh_client :: "addr \<Rightarrow> int \<Rightarrow> 'a os_scheme \<Rightarrow> esd_client" where
  "fresh_client a fd s =
     \<lparr>cl_addr = a, cl_state = ESD_NEEDS_REQDATA, cl_request = ESD_PROTO_CONNECT, cl_fd = fd,
      swap_byte_order = (junk s a 1024 \<noteq> 0), proto_data = uninit s a 1024, proto_data_length = 0\<rparr>"

function get_new_clients :: "'a esd_server_scheme \<Rightarrow> int \<times> 'a esd_server_scheme" where
  "get_new_clients s =
    (case accepts s of
       [] \<Rightarrow> (0, s)
     | (fd, nbl_ok) # r \<Rightarrow>
       let s = s\<lparr>accepts := r\<rparr>
       in if fd < 0 then (0, s) else
       let (a, s) = malloc 1120 s
       in if a = 0 then (-1, sys_close fd s)
          else if \<not> nbl_ok then (-1, sys_close fd s)
          else
            let s = add_new_client (fresh_client a fd s) s
            in if fd > 0 then get_new_clients s else (0, s))"
  by pat_completeness auto

termination
  by (relation "measure (\<lambda>s. length (accepts s))")
    (auto simp: add_new_client_def malloc_accepts [OF sym])

declare get_new_clients.simps [simp del]

subsection \<open>Laws\<close>

lemma erase_client_drop: "esd_clients_list (erase_client a s) = esd_clients_list (clients.drop_node a s)"
  unfolding clients.drop_node_def
  by (auto simp: erase_client_def sys_close_def node_None_iff unlink_absent split: option.splits)

lemma erase_client_list [simp]:
  "esd_clients_list (erase_client a s) = unlink cl_addr a (esd_clients_list s)"
  by (auto simp: erase_client_def sys_close_def node_None_iff unlink_absent split: option.splits)

lemma erase_client_frame: "\<exists>l c. erase_client a s = s\<lparr>esd_clients_list := l, closed := c\<rparr>"
proof (cases "node cl_addr a (esd_clients_list s)")
  case None
  then have "erase_client a s = s\<lparr>esd_clients_list := esd_clients_list s, closed := closed s\<rparr>"
    by (simp add: erase_client_def)
  then show ?thesis by blast
next
  case (Some c)
  then have "erase_client a s = s\<lparr>esd_clients_list := unlink cl_addr a (esd_clients_list s),
      closed := closed s @ [cl_fd c]\<rparr>"
    by (simp add: erase_client_def sys_close_def)
  then show ?thesis by blast
qed

end
