(* ===== verification/Esd_Samples.thy ===== *)
theory Esd_Samples
  imports Esd_Clients
begin

text \<open>
  The sample cache (\<open>samples.c\<close>, less the two functions that start and stop players, which
  are in \<open>Esd_Players\<close>): the list of samples, deferred deletion, and the reading of sample
  data from a client.
\<close>

subsection \<open>Names\<close>

text \<open>\<open>strncpy(dst, src, n)\<close>: stops at the first zero and pads; then the last byte is cleared.\<close>

definition cstr :: "octet list \<Rightarrow> octet list" where
  "cstr bs = takeWhile (\<lambda>c. c \<noteq> 0) bs"

definition copy_name :: "octet list \<Rightarrow> octet list" where
  "copy_name src =
     (let t = take ESD_NAME_MAX (cstr src)
      in (t @ replicate (ESD_NAME_MAX - length t) 0)[ESD_NAME_MAX - 1 := 0])"

lemma length_copy_name [simp]: "length (copy_name src) = 128"
  by (simp add: copy_name_def Let_def)

subsection \<open>The list of samples\<close>

interpretation samples: node_list "esd_samples_list :: 'a esd_server_scheme \<Rightarrow> _"
    "\<lambda>ns s. s\<lparr>esd_samples_list := ns\<rparr>" sm_addr
  by unfold_locales simp_all

definition add_sample :: "esd_sample option \<Rightarrow> 'a esd_server_scheme \<Rightarrow> 'a esd_server_scheme" where
  "add_sample sample s =
     (case sample of None \<Rightarrow> s | Some m \<Rightarrow> s\<lparr>esd_samples_list := m # esd_samples_list s\<rparr>)"

fun erase_sample_loop :: "int \<Rightarrow> bool \<Rightarrow> esd_sample list \<Rightarrow> esd_sample list" where
  "erase_sample_loop ident force [] = []"
| "erase_sample_loop ident force (m # ms) =
     (if sm_id m = ident then
        (if sm_ref_count m \<noteq> 0 \<and> \<not> force then m\<lparr>sm_erase_when_done := True\<rparr> # ms else ms)
      else m # erase_sample_loop ident force ms)"

definition erase_sample :: "int \<Rightarrow> bool \<Rightarrow> 'a esd_server_scheme \<Rightarrow> 'a esd_server_scheme" where
  "erase_sample ident force s = s\<lparr>esd_samples_list := erase_sample_loop ident force (esd_samples_list s)\<rparr>"

definition the_sample :: "addr \<Rightarrow> 'a esd_server_scheme \<Rightarrow> esd_sample option" where
  "the_sample a s = node sm_addr a (esd_samples_list s)"

definition set_sample ::
  "addr \<Rightarrow> (esd_sample \<Rightarrow> esd_sample) \<Rightarrow> 'a esd_server_scheme \<Rightarrow> 'a esd_server_scheme" where
  "set_sample a f s = s\<lparr>esd_samples_list := upd_node sm_addr a f (esd_samples_list s)\<rparr>"

subsection \<open>Caching\<close>

text \<open>
  The loop of \<open>read_sample\<close>: the returned value, the total, the buffer and the state.
  \<open>bufsz\<close> is \<open>esd_buf_size_octets\<close>, \<open>sw\<close> says whether 16 bit data has to be swapped.
\<close>

function read_sample_loop ::
  "int \<Rightarrow> bool \<Rightarrow> int \<Rightarrow> int \<Rightarrow> int \<Rightarrow> octet list \<Rightarrow> 'a esd_server_scheme
     \<Rightarrow> (int \<times> int \<times> octet list \<times> 'a esd_server_scheme) option" where
  "read_sample_loop fd sw bufsz len got buf s =
    (if got < len then
       (case sys_read fd (nat (min bufsz (len - got))) s of
          ((actual, transient, bs), s) \<Rightarrow>
          if actual = 0 \<or> (actual < 0 \<and> \<not> transient) then Some (0, got, buf, s)
          else if actual > 0 then do {
            buf \<leftarrow> blit buf got bs;
            buf \<leftarrow> (if sw then swap_shorts swap_endian_16s (nat got div 2) (nat actual div 2) buf
                   else Some buf);
            read_sample_loop fd sw bufsz len (got + actual) buf s }
          else Some (1, got, buf, s))
     else Some (1, got, buf, s))"
  by pat_completeness auto
termination
  by (relation "measure (\<lambda>(fd, sw, bufsz, len, got, buf, s). nat (len - got))") auto

declare read_sample_loop.simps [simp del]

definition read_sample :: "addr \<Rightarrow> 'a esd_server_scheme \<Rightarrow> (int \<times> 'a esd_server_scheme) option" where
  "read_sample sample s = do {
     m \<leftarrow> the_sample sample s;
     client \<leftarrow> the_client (sm_parent m) s;
     (r, got, buf, s) \<leftarrow> read_sample_loop (cl_fd client)
        (swap_byte_order client \<and> sm_format m AND ESD_MASK_BITS = ESD_BITS16)
        (esd_buf_size_octets s) (sm_length m) (sm_cached m) (sm_data m) s;
     Some (r, set_sample sample
        (\<lambda>m. m\<lparr>sm_data := buf, sm_cached := (if r = 0 then sm_cached m else got)\<rparr>) s) }"

definition new_sample ::
  "addr \<Rightarrow> 'a esd_server_scheme \<Rightarrow> (esd_sample option \<times> 'a esd_server_scheme) option" where
  "new_sample client s = do {
     c \<leftarrow> the_client client s;
     let (a, s) = malloc 208 s;
     if a = 0 then Some (None, s) else do {
       format \<leftarrow> get32 (proto_data c) 0;
       rate \<leftarrow> get32 (proto_data c) 4;
       len \<leftarrow> get32 (proto_data c) 8;
       let format = maybe_swap_32 (swap_byte_order c) format;
       let rate = maybe_swap_32 (swap_byte_order c) rate;
       let len = maybe_swap_32 (swap_byte_order c) len;
       let ident = esd_next_sample_id s;
       let s = s\<lparr>esd_next_sample_id := i32 (ident + 1)\<rparr>;
       let (d, s) = malloc len s;
       if d = 0 then Some (None, s) else do {
         let m = \<lparr>sm_addr = a, sm_parent = 0, sm_format = format, sm_rate = rate,
                  sm_left_vol = ESD_VOLUME_BASE, sm_right_vol = ESD_VOLUME_BASE, sm_id = ident,
                  sm_data = uninit s d (nat len), sm_length = len, sm_cached = 0,
                  sm_ref_count = 0, sm_erase_when_done = False,
                  sm_name = copy_name (drop 12 (proto_data c))\<rparr>;
         let (_, s) = sys_write (cl_fd c) (put32 (maybe_swap_32 (swap_byte_order c) ident)) s;
         Some (Some m, s) } } }"

text \<open>
  The loop of \<open>find_caching_sample\<close> never advances: it ends only when the list is empty or
  its head is the sample looked for.
\<close>

partial_function (option) find_caching_loop :: "addr \<Rightarrow> esd_sample list \<Rightarrow> esd_sample option option" where
  "find_caching_loop client sample =
    (case sample of
       [] \<Rightarrow> Some None
     | m # ms \<Rightarrow> if sm_parent m = client then Some (Some m) else find_caching_loop client sample)"

definition find_caching_sample :: "addr \<Rightarrow> 'a esd_server_scheme \<Rightarrow> esd_sample option option" where
  "find_caching_sample client s = find_caching_loop client (esd_samples_list s)"

subsection \<open>Laws\<close>

lemma set_sample_frame: "\<exists>l. set_sample a f s = s\<lparr>esd_samples_list := l\<rparr>"
  by (auto simp: set_sample_def)

lemma read_sample_loop_frame:
  "read_sample_loop fd sw bufsz len got buf s = Some (r, t, b, s') \<Longrightarrow>
   length b = length buf \<and> (\<exists>f. s' = s\<lparr>rx := f\<rparr>)"
proof (induction fd sw bufsz len got buf s rule: read_sample_loop.induct)
  case (1 fd sw bufsz len got buf s)
  show ?case
  proof (cases "got < len")
    case False
    with 1(2) have "b = buf" "s' = s" by (simp_all add: read_sample_loop.simps)
    then show ?thesis by (auto intro: exI [of _ "rx s"])
  next
    case True
    obtain actual tr bs s1 where rd: "sys_read fd (nat (min bufsz (len - got))) s = ((actual, tr, bs), s1)"
      by (metis surj_pair)
    obtain f1 where f1: "s1 = s\<lparr>rx := f1\<rparr>" using sys_read_frame [OF rd] by auto
    show ?thesis
    proof (cases "actual > 0")
      case False
      with 1(2) True rd f1 show ?thesis
        by (subst (asm) read_sample_loop.simps) (auto split: if_splits)
    next
      case pos: True
      with 1(2) True rd obtain b1 b2 where b: "blit buf got bs = Some b1"
        "(if sw then swap_shorts swap_endian_16s (nat got div 2) (nat actual div 2) b1 else Some b1) = Some b2"
        "read_sample_loop fd sw bufsz len (got + actual) b2 s1 = Some (r, t, b, s')"
        by (subst (asm) read_sample_loop.simps) (auto split: Option.bind_splits)
      have "length b2 = length buf"
        using b blit_length swap_shorts_length by (metis option.inject)
      with 1(1) [OF True rd [symmetric] refl refl _ pos b(1) b(2) b(3)] pos f1 show ?thesis
        by auto
    qed
  qed
qed

end
