(* ===== verification/Esd_Mix.thy ===== *)
theory Esd_Mix
  imports Esd_Types
begin

text \<open>
  Mixing and format conversion (\<open>mix.c\<close>): the sixteen loops that resample one buffer
  into another (\<open>mix_from_*\<close>), the eight that add a player into the mix buffer
  (\<open>mix_*_to_stereo_32s*\<close>), clipping, and the choice between them. Every index that
  leaves its buffer makes the result \<^term>\<open>None\<close>.
\<close>

subsection \<open>The loops\<close>

text \<open>
  \<open>while (wr_dat < lim)\<close> loops that store one value, or a left and a right value, per turn.
  \<open>wr_dat\<close> stays below the size of a buffer, so it never wraps.
\<close>

function loop1 ::
  "('b \<Rightarrow> nat \<Rightarrow> int \<Rightarrow> 'b option) \<Rightarrow> (nat \<Rightarrow> int option) \<Rightarrow> nat \<Rightarrow> nat \<Rightarrow> 'b \<Rightarrow> (nat \<times> 'b) option" where
  "loop1 put f wr lim b =
     (if wr < lim then
        do { x \<leftarrow> f wr; b \<leftarrow> put b wr x; loop1 put f (wr + 1) lim b }
      else Some (wr, b))"
  by pat_completeness auto
termination by (relation "measure (\<lambda>(put, f, wr, lim, b). lim - wr)") auto

function loop2 ::
  "('b \<Rightarrow> nat \<Rightarrow> int \<Rightarrow> 'b option) \<Rightarrow> (nat \<Rightarrow> (int \<times> int) option) \<Rightarrow> nat \<Rightarrow> nat \<Rightarrow> 'b
     \<Rightarrow> (nat \<times> 'b) option" where
  "loop2 put f wr lim b =
     (if wr < lim then
        do { (l, r) \<leftarrow> f wr; b \<leftarrow> put b wr l; b \<leftarrow> put b (wr + 1) r; loop2 put f (wr + 2) lim b }
      else Some (wr, b))"
  by pat_completeness auto
termination by (relation "measure (\<lambda>(put, f, wr, lim, b). lim - wr)") auto

declare loop1.simps [simp del] loop2.simps [simp del]

text \<open>\<open>rd_dat = wr_dat * src_rate / dest_rate\<close>, in unsigned arithmetic, stored in an \<open>int\<close>.\<close>

definition rd_pos :: "nat \<Rightarrow> int \<Rightarrow> int \<Rightarrow> int option" where
  "rd_pos wr src_rate dest_rate =
     (if u32 dest_rate = 0 then None
      else Some (i32 (u32 (int wr * u32 src_rate) div u32 dest_rate)))"

text \<open>The steps that bring one sample to the other width.\<close>

definition to_8u :: "int \<Rightarrow> int" where
  "to_8u x = i16 (i16 (x sdiv 256) + 127)"

definition from_8u :: "int \<Rightarrow> int" where
  "from_8u x = i16 (i16 (x - 127) * 256)"

definition memcpy_buf :: "octet list \<Rightarrow> octet list \<Rightarrow> int \<Rightarrow> octet list option" where
  "memcpy_buf dst src n =
     (if 0 \<le> n \<and> n \<le> int (length src) then blit dst 0 (take (nat n) src) else None)"

definition mix_add :: "int list \<Rightarrow> nat \<Rightarrow> int \<Rightarrow> int list option" where
  "mix_add mb i x = (if i < length mb then Some (mb[i := i32 (mb ! i + x)]) else None)"

subsection \<open>Resampling from one buffer into another\<close>

definition mix_from_stereo_16s ::
  "octet list \<Rightarrow> int \<Rightarrow> int \<Rightarrow> int \<Rightarrow> octet list \<Rightarrow> int \<Rightarrow> int \<Rightarrow> (int \<times> octet list) option" where
  "mix_from_stereo_16s dest_buf dest_len dest_rate dest_format src src_len src_rate =
    (if src_len = 0 then Some (0, dest_buf)
     else if dest_format AND ESD_MASK_BITS = ESD_BITS8 then do {
       (wr, b) \<leftarrow>
         (if dest_format AND ESD_MASK_CHAN = ESD_MONO then
            loop1 uc_put (\<lambda>wr. do {
                rd \<leftarrow> rd_pos wr src_rate dest_rate;
                let rd = i32 (rd * 2);
                lsample \<leftarrow> ss_at src rd; rsample \<leftarrow> ss_at src (rd + 1);
                Some ((to_8u lsample + to_8u rsample) sdiv 2) })
              0 (nat (u32 dest_len)) dest_buf
          else
            loop2 uc_put (\<lambda>wr. do {
                rd \<leftarrow> rd_pos wr src_rate dest_rate;
                let rd = rd AND NOT 1;
                lsample \<leftarrow> ss_at src rd; rsample \<leftarrow> ss_at src (rd + 1);
                Some (to_8u lsample, to_8u rsample) })
              0 (nat (u32 dest_len)) dest_buf);
       Some (i32 (int wr), b) }
     else if dest_format AND ESD_MASK_BITS = ESD_BITS16 then
       (if dest_format AND ESD_MASK_CHAN = ESD_MONO then do {
          (wr, b) \<leftarrow> loop1 ss_put (\<lambda>wr. do {
                rd \<leftarrow> rd_pos wr src_rate dest_rate;
                let rd = i32 (rd * 2);
                lsample \<leftarrow> ss_at src rd; rsample \<leftarrow> ss_at src (rd + 1);
                Some ((lsample + rsample) sdiv 2) })
              0 (nat (u32 dest_len div 2)) dest_buf;
          Some (i32 (2 * int wr), b) }
        else if dest_rate = src_rate then do {
          b \<leftarrow> memcpy_buf dest_buf src (u32 dest_len); Some (i32 (u32 dest_len), b) }
        else do {
          (wr, b) \<leftarrow> loop2 ss_put (\<lambda>wr. do {
                rd \<leftarrow> rd_pos wr src_rate dest_rate;
                let rd = rd AND NOT 1;
                lsample \<leftarrow> ss_at src rd; rsample \<leftarrow> ss_at src (rd + 1);
                Some (lsample, rsample) })
              0 (nat (u32 dest_len div 2)) dest_buf;
          Some (i32 (2 * int wr), b) })
     else Some (0, dest_buf))"

definition mix_from_stereo_8u ::
  "octet list \<Rightarrow> int \<Rightarrow> int \<Rightarrow> int \<Rightarrow> octet list \<Rightarrow> int \<Rightarrow> int \<Rightarrow> (int \<times> octet list) option" where
  "mix_from_stereo_8u dest_buf dest_len dest_rate dest_format src src_len src_rate =
    (if src_len = 0 then Some (0, dest_buf)
     else if dest_format AND ESD_MASK_BITS = ESD_BITS8 then
       (if dest_format AND ESD_MASK_CHAN = ESD_MONO then do {
          (wr, b) \<leftarrow> loop1 uc_put (\<lambda>wr. do {
                rd \<leftarrow> rd_pos wr src_rate dest_rate;
                let rd = i32 (rd * 2);
                lsample \<leftarrow> uc_at src rd; rsample \<leftarrow> uc_at src (rd + 1);
                Some ((lsample + rsample) sdiv 2) })
              0 (nat (u32 dest_len)) dest_buf;
          Some (i32 (int wr), b) }
        else if dest_rate = src_rate then do {
          b \<leftarrow> memcpy_buf dest_buf src (u32 dest_len); Some (i32 (u32 dest_len), b) }
        else do {
          (wr, b) \<leftarrow> loop2 uc_put (\<lambda>wr. do {
                rd \<leftarrow> rd_pos wr src_rate dest_rate;
                let rd = rd AND NOT 1;
                lsample \<leftarrow> uc_at src rd; rsample \<leftarrow> uc_at src (rd + 1);
                Some (lsample, rsample) })
              0 (nat (u32 dest_len)) dest_buf;
          Some (i32 (int wr), b) })
     else if dest_format AND ESD_MASK_BITS = ESD_BITS16 then do {
       (wr, b) \<leftarrow>
         (if dest_format AND ESD_MASK_CHAN = ESD_MONO then
            loop1 ss_put (\<lambda>wr. do {
                rd \<leftarrow> rd_pos wr src_rate dest_rate;
                let rd = i32 (rd * 2);
                lsample \<leftarrow> uc_at src rd; rsample \<leftarrow> uc_at src (rd + 1);
                Some ((i16 (lsample - 127) + i16 (rsample - 127)) * 256 sdiv 2) })
              0 (nat (u32 dest_len div 2)) dest_buf
          else
            loop2 ss_put (\<lambda>wr. do {
                rd \<leftarrow> rd_pos wr src_rate dest_rate;
                let rd = rd AND NOT 1;
                lsample \<leftarrow> uc_at src rd; rsample \<leftarrow> uc_at src (rd + 1);
                Some (i16 (lsample - 127) * 256, i16 (rsample - 127) * 256) })
              0 (nat (u32 dest_len div 2)) dest_buf);
       Some (i32 (2 * int wr), b) }
     else Some (0, dest_buf))"

definition mix_from_mono_16s ::
  "octet list \<Rightarrow> int \<Rightarrow> int \<Rightarrow> int \<Rightarrow> octet list \<Rightarrow> int \<Rightarrow> int \<Rightarrow> (int \<times> octet list) option" where
  "mix_from_mono_16s dest_buf dest_len dest_rate dest_format src src_len src_rate =
    (if src_len = 0 then Some (0, dest_buf)
     else if dest_format AND ESD_MASK_BITS = ESD_BITS8 then do {
       (wr, b) \<leftarrow>
         (if dest_format AND ESD_MASK_CHAN = ESD_MONO then
            loop1 uc_put (\<lambda>wr. do {
                rd \<leftarrow> rd_pos wr src_rate dest_rate;
                lsample \<leftarrow> ss_at src rd;
                Some (to_8u lsample) })
              0 (nat (u32 dest_len)) dest_buf
          else
            loop2 uc_put (\<lambda>wr. do {
                rd \<leftarrow> rd_pos wr src_rate dest_rate;
                lsample \<leftarrow> ss_at src (rd sdiv 2);
                Some (to_8u lsample, to_8u lsample) })
              0 (nat (u32 dest_len)) dest_buf);
       Some (i32 (int wr), b) }
     else if dest_format AND ESD_MASK_BITS = ESD_BITS16 then
       (if dest_format AND ESD_MASK_CHAN = ESD_MONO then
          (if dest_rate = src_rate then do {
             b \<leftarrow> memcpy_buf dest_buf src (u32 dest_len); Some (i32 (u32 dest_len), b) }
           else do {
             (wr, b) \<leftarrow> loop1 ss_put (\<lambda>wr. do {
                rd \<leftarrow> rd_pos wr src_rate dest_rate;
                ss_at src rd })
              0 (nat (u32 dest_len div 2)) dest_buf;
             Some (i32 (2 * int wr), b) })
        else do {
          (wr, b) \<leftarrow> loop2 ss_put (\<lambda>wr. do {
                rd \<leftarrow> rd_pos wr src_rate dest_rate;
                lsample \<leftarrow> ss_at src (rd sdiv 2);
                Some (lsample, lsample) })
              0 (nat (u32 dest_len div 2)) dest_buf;
          Some (i32 (2 * int wr), b) })
     else Some (0, dest_buf))"

definition mix_from_mono_8u ::
  "octet list \<Rightarrow> int \<Rightarrow> int \<Rightarrow> int \<Rightarrow> octet list \<Rightarrow> int \<Rightarrow> int \<Rightarrow> (int \<times> octet list) option" where
  "mix_from_mono_8u dest_buf dest_len dest_rate dest_format src src_len src_rate =
    (if src_len = 0 then Some (0, dest_buf)
     else if dest_format AND ESD_MASK_BITS = ESD_BITS8 then
       (if dest_format AND ESD_MASK_CHAN = ESD_MONO then
          (if dest_rate = src_rate then do {
             b \<leftarrow> memcpy_buf dest_buf src (u32 dest_len); Some (i32 (u32 dest_len), b) }
           else do {
             (wr, b) \<leftarrow> loop1 uc_put (\<lambda>wr. do {
                rd \<leftarrow> rd_pos wr src_rate dest_rate;
                uc_at src rd })
              0 (nat (u32 dest_len)) dest_buf;
             Some (i32 (int wr), b) })
        else do {
          (wr, b) \<leftarrow> loop2 uc_put (\<lambda>wr. do {
                rd \<leftarrow> rd_pos wr src_rate dest_rate;
                lsample \<leftarrow> uc_at src (rd sdiv 2);
                Some (lsample, lsample) })
              0 (nat (u32 dest_len)) dest_buf;
          Some (i32 (int wr), b) })
     else if dest_format AND ESD_MASK_BITS = ESD_BITS16 then do {
       (wr, b) \<leftarrow>
         (if dest_format AND ESD_MASK_CHAN = ESD_MONO then
            loop1 ss_put (\<lambda>wr. do {
                rd \<leftarrow> rd_pos wr src_rate dest_rate;
                lsample \<leftarrow> uc_at src rd;
                Some (from_8u lsample) })
              0 (nat (u32 dest_len div 2)) dest_buf
          else
            loop2 ss_put (\<lambda>wr. do {
                rd \<leftarrow> rd_pos wr src_rate dest_rate;
                lsample \<leftarrow> uc_at src (rd sdiv 2);
                Some (from_8u lsample, from_8u lsample) })
              0 (nat (u32 dest_len div 2)) dest_buf);
       Some (i32 (2 * int wr), b) }
     else Some (0, dest_buf))"

subsection \<open>Choosing and calling a translation\<close>

definition get_translate_func :: "int \<Rightarrow> translate_func" where
  "get_translate_func src_fmt =
    (if src_fmt AND ESD_MASK_CHAN = ESD_MONO then
       (if src_fmt AND ESD_MASK_BITS = ESD_BITS16 then from_mono_16s else from_mono_8u)
     else
       (if src_fmt AND ESD_MASK_BITS = ESD_BITS16 then from_stereo_16s else from_stereo_8u))"

text \<open>A call through the \<open>translate_func\<close> pointer; the source format is not looked at.\<close>

definition call_translate ::
  "translate_func \<Rightarrow> octet list \<Rightarrow> int \<Rightarrow> int \<Rightarrow> int \<Rightarrow> octet list \<Rightarrow> int \<Rightarrow> int \<Rightarrow> (int \<times> octet list) option" where
  "call_translate f =
    (case f of from_mono_16s \<Rightarrow> mix_from_mono_16s | from_mono_8u \<Rightarrow> mix_from_mono_8u
     | from_stereo_16s \<Rightarrow> mix_from_stereo_16s | from_stereo_8u \<Rightarrow> mix_from_stereo_8u)"

definition mix_and_copy ::
  "octet list \<Rightarrow> int \<Rightarrow> int \<Rightarrow> int \<Rightarrow> octet list \<Rightarrow> int \<Rightarrow> int \<Rightarrow> int \<Rightarrow> (int \<times> octet list) option" where
  "mix_and_copy dest_buf dest_len dest_rate dest_format src src_len src_rate src_format =
    (if src_format AND ESD_MASK_CHAN = ESD_MONO then
       (if src_format AND ESD_MASK_BITS = ESD_BITS16
        then mix_from_mono_16s dest_buf dest_len dest_rate dest_format src src_len src_rate
        else mix_from_mono_8u dest_buf dest_len dest_rate dest_format src src_len src_rate)
     else
       (if src_format AND ESD_MASK_BITS = ESD_BITS16
        then mix_from_stereo_16s dest_buf dest_len dest_rate dest_format src src_len src_rate
        else mix_from_stereo_8u dest_buf dest_len dest_rate dest_format src src_len src_rate))"

subsection \<open>Adding a player into the mix buffer\<close>

text \<open>
  \<open>length\<close> is divided by a \<open>size_t\<close>, so a negative one would be huge; the result is the
  number of bytes of 16 bit output.
\<close>

definition mix_lim :: "int \<Rightarrow> nat" where
  "mix_lim len = nat (u64 len div 2)"

definition mix_result :: "(nat \<times> int list) option \<Rightarrow> (int \<times> int list) option" where
  "mix_result r = map_option (\<lambda>(wr, mb). (i32 (2 * int wr), mb)) r"

definition vol :: "int \<Rightarrow> int \<Rightarrow> int" where
  "vol x scale = i32 (x * scale) sdiv ESD_VOLUME_BASE"

definition mix_mono_8u_to_stereo_32s_sv ::
  "esd_player \<Rightarrow> int \<Rightarrow> int \<Rightarrow> int list \<Rightarrow> (int \<times> int list) option" where
  "mix_mono_8u_to_stereo_32s_sv p len arate mb = mix_result
     (loop2 mix_add (\<lambda>wr. do {
         rd \<leftarrow> rd_pos wr (pl_rate p) arate;
         x \<leftarrow> uc_at (pl_data p) (rd sdiv 2);
         Some (from_8u x, from_8u x) }) 0 (mix_lim len) mb)"

definition mix_stereo_8u_to_stereo_32s_sv ::
  "esd_player \<Rightarrow> int \<Rightarrow> int \<Rightarrow> int list \<Rightarrow> (int \<times> int list) option" where
  "mix_stereo_8u_to_stereo_32s_sv p len arate mb = mix_result
     (if pl_rate p = arate then
        loop1 mix_add (\<lambda>wr. do {
            x \<leftarrow> uc_at (pl_data p) (int wr); Some (i16 ((x - 127) * 256)) }) 0 (mix_lim len) mb
      else
        loop2 mix_add (\<lambda>wr. do {
            rd \<leftarrow> rd_pos wr (pl_rate p) arate;
            let rd = rd AND NOT 1;
            x \<leftarrow> uc_at (pl_data p) rd; y \<leftarrow> uc_at (pl_data p) (rd + 1);
            Some (from_8u x, from_8u y) }) 0 (mix_lim len) mb)"

definition mix_mono_16s_to_stereo_32s_sv ::
  "esd_player \<Rightarrow> int \<Rightarrow> int \<Rightarrow> int list \<Rightarrow> (int \<times> int list) option" where
  "mix_mono_16s_to_stereo_32s_sv p len arate mb = mix_result
     (loop2 mix_add (\<lambda>wr. do {
         rd \<leftarrow> rd_pos wr (pl_rate p) arate;
         x \<leftarrow> ss_at (pl_data p) (rd sdiv 2);
         Some (x, x) }) 0 (mix_lim len) mb)"

definition mix_stereo_16s_to_stereo_32s_sv ::
  "esd_player \<Rightarrow> int \<Rightarrow> int \<Rightarrow> int list \<Rightarrow> (int \<times> int list) option" where
  "mix_stereo_16s_to_stereo_32s_sv p len arate mb = mix_result
     (if pl_rate p = arate then
        loop1 mix_add (\<lambda>wr. ss_at (pl_data p) (int wr)) 0 (mix_lim len) mb
      else
        loop2 mix_add (\<lambda>wr. do {
            rd \<leftarrow> rd_pos wr (pl_rate p) arate;
            let rd = rd AND NOT 1;
            x \<leftarrow> ss_at (pl_data p) rd; y \<leftarrow> ss_at (pl_data p) (rd + 1);
            Some (x, y) }) 0 (mix_lim len) mb)"

definition mix_mono_8u_to_stereo_32s ::
  "esd_player \<Rightarrow> int \<Rightarrow> int \<Rightarrow> int list \<Rightarrow> (int \<times> int list) option" where
  "mix_mono_8u_to_stereo_32s p len arate mb = mix_result
     (loop2 mix_add (\<lambda>wr. do {
         rd \<leftarrow> rd_pos wr (pl_rate p) arate;
         x \<leftarrow> uc_at (pl_data p) (rd sdiv 2);
         let x = i16 (vol (from_8u x) (pl_left_vol p));
         let x = i16 (vol x (pl_right_vol p));
         Some (x, x) }) 0 (mix_lim len) mb)"

definition mix_stereo_8u_to_stereo_32s ::
  "esd_player \<Rightarrow> int \<Rightarrow> int \<Rightarrow> int list \<Rightarrow> (int \<times> int list) option" where
  "mix_stereo_8u_to_stereo_32s p len arate mb = mix_result
     (if pl_rate p = arate then
        loop2 mix_add (\<lambda>wr. do {
            x \<leftarrow> uc_at (pl_data p) (int wr); y \<leftarrow> uc_at (pl_data p) (int wr + 1);
            Some (i16 (vol (i16 ((x - 127) * 256)) (pl_left_vol p)),
                  i16 (vol (i16 ((y - 127) * 256)) (pl_right_vol p))) }) 0 (mix_lim len) mb
      else
        loop2 mix_add (\<lambda>wr. do {
            rd \<leftarrow> rd_pos wr (pl_rate p) arate;
            let rd = rd AND NOT 1;
            x \<leftarrow> uc_at (pl_data p) rd; y \<leftarrow> uc_at (pl_data p) (rd + 1);
            Some (i16 (vol (from_8u x) (pl_left_vol p)),
                  i16 (vol (from_8u y) (pl_right_vol p))) }) 0 (mix_lim len) mb)"

definition mix_mono_16s_to_stereo_32s ::
  "esd_player \<Rightarrow> int \<Rightarrow> int \<Rightarrow> int list \<Rightarrow> (int \<times> int list) option" where
  "mix_mono_16s_to_stereo_32s p len arate mb = mix_result
     (loop2 mix_add (\<lambda>wr. do {
         rd \<leftarrow> rd_pos wr (pl_rate p) arate;
         x \<leftarrow> ss_at (pl_data p) (rd sdiv 2);
         Some (vol x (pl_left_vol p), vol x (pl_right_vol p)) }) 0 (mix_lim len) mb)"

definition mix_stereo_16s_to_stereo_32s ::
  "esd_player \<Rightarrow> int \<Rightarrow> int \<Rightarrow> int list \<Rightarrow> (int \<times> int list) option" where
  "mix_stereo_16s_to_stereo_32s p len arate mb = mix_result
     (if pl_rate p = arate then
        loop2 mix_add (\<lambda>wr. do {
            x \<leftarrow> ss_at (pl_data p) (int wr); y \<leftarrow> ss_at (pl_data p) (int wr + 1);
            Some (i16 (vol x (pl_left_vol p)), i16 (vol y (pl_right_vol p))) }) 0 (mix_lim len) mb
      else
        loop2 mix_add (\<lambda>wr. do {
            rd \<leftarrow> rd_pos wr (pl_rate p) arate;
            let rd = rd AND NOT 1;
            x \<leftarrow> ss_at (pl_data p) rd; y \<leftarrow> ss_at (pl_data p) (rd + 1);
            Some (i16 (vol x (pl_left_vol p)), i16 (vol y (pl_right_vol p))) }) 0 (mix_lim len) mb)"

definition call_mix_func ::
  "mix_func \<Rightarrow> esd_player \<Rightarrow> int \<Rightarrow> int \<Rightarrow> int list \<Rightarrow> (int \<times> int list) option" where
  "call_mix_func f =
    (case f of
       mix_mono_8u_sv \<Rightarrow> mix_mono_8u_to_stereo_32s_sv
     | mix_stereo_8u_sv \<Rightarrow> mix_stereo_8u_to_stereo_32s_sv
     | mix_mono_16s_sv \<Rightarrow> mix_mono_16s_to_stereo_32s_sv
     | mix_stereo_16s_sv \<Rightarrow> mix_stereo_16s_to_stereo_32s_sv
     | mix_mono_8u \<Rightarrow> mix_mono_8u_to_stereo_32s
     | mix_stereo_8u \<Rightarrow> mix_stereo_8u_to_stereo_32s
     | mix_mono_16s \<Rightarrow> mix_mono_16s_to_stereo_32s
     | mix_stereo_16s \<Rightarrow> mix_stereo_16s_to_stereo_32s)"

text \<open>\<open>get_mix_func\<close>: by format, and by whether both volumes are the neutral one.\<close>

definition get_mix_func :: "int \<Rightarrow> int \<Rightarrow> int \<Rightarrow> mix_func option" where
  "get_mix_func format left right =
    (let sv = (left = ESD_VOLUME_BASE \<and> right = ESD_VOLUME_BASE) in
     if format AND ESD_MASK_BITS = ESD_BITS8 then
       (if format AND ESD_MASK_CHAN = ESD_MONO then
          Some (if sv then mix_mono_8u_sv else mix_mono_8u)
        else if format AND ESD_MASK_CHAN = ESD_STEREO then
          Some (if sv then mix_stereo_8u_sv else mix_stereo_8u)
        else None)
     else if format AND ESD_MASK_BITS = ESD_BITS16 then
       (if format AND ESD_MASK_CHAN = ESD_MONO then
          Some (if sv then mix_mono_16s_sv else mix_mono_16s)
        else if format AND ESD_MASK_CHAN = ESD_STEREO then
          Some (if sv then mix_stereo_16s_sv else mix_stereo_16s)
        else None)
     else None)"

subsection \<open>Clipping\<close>

definition clip_16s :: "int \<Rightarrow> int" where
  "clip_16s x = (if x < -32768 then -32768 else if x > 32767 then 32767 else x)"

definition clip_8u :: "int \<Rightarrow> int" where
  "clip_8u x = (if x < -32768 then 0 else if x > 32767 then 255 else x sdiv 256 + 128)"

definition mixed_at :: "int list \<Rightarrow> nat \<Rightarrow> int option" where
  "mixed_at mb i = (if i < length mb then Some (mb ! i) else None)"

definition clip_mix_to_output_16s :: "octet list \<Rightarrow> int \<Rightarrow> int list \<Rightarrow> octet list option" where
  "clip_mix_to_output_16s output len mb =
     map_option snd (loop1 ss_put (\<lambda>i. map_option clip_16s (mixed_at mb i)) 0 (mix_lim len) output)"

definition clip_mix_to_output_8u :: "octet list \<Rightarrow> int \<Rightarrow> int list \<Rightarrow> octet list option" where
  "clip_mix_to_output_8u output len mb =
     map_option snd (loop1 uc_put (\<lambda>i. map_option clip_8u (mixed_at mb i)) 0 (mix_lim len) output)"

end
