(* ===== verification/Esd_Players.thy ===== *)
theory Esd_Players
  imports Esd_Samples Esd_Mix
begin

text \<open>
  Players, recorders and monitors (\<open>players.c\<close>), and the two functions of \<open>samples.c\<close>
  that start and stop the playing of a sample. Reading a player fills its buffer from its
  client or its sample; writing one translates the sound into its buffer and sends it.
  Lengths that stay between 0 and the length of a buffer are not wrapped.
\<close>

subsection \<open>The lists\<close>

interpretation players: node_list "esd_players_list :: 'a esd_server_scheme \<Rightarrow> _"
    "\<lambda>ns s. s\<lparr>esd_players_list := ns\<rparr>" pl_addr
  by unfold_locales simp_all

interpretation recorders: node_list "esd_recorder_list :: 'a esd_server_scheme \<Rightarrow> _"
    "\<lambda>ns s. s\<lparr>esd_recorder_list := ns\<rparr>" pl_addr
  by unfold_locales simp_all

interpretation monitors: node_list "esd_monitor_list :: 'a esd_server_scheme \<Rightarrow> _"
    "\<lambda>ns s. s\<lparr>esd_monitor_list := ns\<rparr>" pl_addr
  by unfold_locales simp_all

text \<open>
  \<open>free_player\<close> gets the player's fields, since its node is already unlinked. A sample
  player whose sample is gone is a use of freed memory.
\<close>

definition free_player :: "esd_player \<Rightarrow> 'a esd_server_scheme \<Rightarrow> 'a esd_server_scheme option" where
  "free_player p s =
    (if pl_format p AND ESD_MASK_MODE = ESD_STREAM then Some (erase_client (pl_parent p) s)
     else if pl_format p AND ESD_MASK_MODE = ESD_SAMPLE then do {
       m \<leftarrow> the_sample (pl_parent p) s;
       let refs = i32 (sm_ref_count m - 1);
       let s = set_sample (pl_parent p) (\<lambda>m. m\<lparr>sm_ref_count := refs\<rparr>) s;
       let s = s\<lparr>esd_playing_samples := i32 (esd_playing_samples s - 1)\<rparr>;
       Some (if sm_erase_when_done m \<and> refs = 0 then erase_sample (sm_id m) False s else s) }
     else Some s)"

definition add_player :: "esd_player option \<Rightarrow> 'a esd_server_scheme \<Rightarrow> 'a esd_server_scheme" where
  "add_player player s =
    (case player of None \<Rightarrow> s | Some p \<Rightarrow> s\<lparr>esd_players_list := p # esd_players_list s\<rparr>)"

definition erase_player :: "addr \<Rightarrow> 'a esd_server_scheme \<Rightarrow> 'a esd_server_scheme option" where
  "erase_player player s =
    (case node pl_addr player (esd_players_list s) of
       Some p \<Rightarrow> free_player p (s\<lparr>esd_players_list := unlink pl_addr player (esd_players_list s)\<rparr>)
     | None \<Rightarrow> Some s)"

definition add_recorder :: "esd_player option \<Rightarrow> 'a esd_server_scheme \<Rightarrow> 'a esd_server_scheme" where
  "add_recorder recorder s =
    (case recorder of None \<Rightarrow> s | Some p \<Rightarrow> s\<lparr>esd_recorder_list := p # esd_recorder_list s\<rparr>)"

definition erase_recorder :: "addr \<Rightarrow> 'a esd_server_scheme \<Rightarrow> 'a esd_server_scheme option" where
  "erase_recorder recorder s =
    (case node pl_addr recorder (esd_recorder_list s) of
       Some p \<Rightarrow> free_player p (s\<lparr>esd_recorder_list := unlink pl_addr recorder (esd_recorder_list s)\<rparr>)
     | None \<Rightarrow> Some s)"

definition erase_monitor :: "addr \<Rightarrow> 'a esd_server_scheme \<Rightarrow> 'a esd_server_scheme option" where
  "erase_monitor monitor s =
    (case node pl_addr monitor (esd_monitor_list s) of
       Some p \<Rightarrow> free_player p (s\<lparr>esd_monitor_list := unlink pl_addr monitor (esd_monitor_list s)\<rparr>)
     | None \<Rightarrow> Some s)"

subsection \<open>Sending sound to a client\<close>

text \<open>
  A call through a player's \<open>translate_func\<close> pointer, and \<open>swap_endian_16\<close> over the first
  \<open>len\<close> bytes of its buffer when its client has the other byte order.
\<close>

definition translate_player ::
  "esd_player \<Rightarrow> octet list \<Rightarrow> int \<Rightarrow> int \<Rightarrow> (int \<times> esd_player) option" where
  "translate_player p src_buffer src_length src_rate = do {
     tr \<leftarrow> pl_translate p;
     (len, buf) \<leftarrow> call_translate tr (pl_data p) (pl_buffer_length p) (pl_rate p) (pl_format p)
                     src_buffer src_length src_rate;
     Some (len, p\<lparr>pl_data := buf\<rparr>) }"

text \<open>The bytes \<open>write(fd, data_buffer, n)\<close> passes to the kernel.\<close>

definition buf_bytes :: "octet list \<Rightarrow> int \<Rightarrow> octet list option" where
  "buf_bytes buf n = (if 0 \<le> n \<and> n \<le> int (length buf) then Some (take (nat n) buf) else None)"

definition send_player ::
  "esd_player \<Rightarrow> octet list \<Rightarrow> int \<Rightarrow> int \<Rightarrow> 'a esd_server_scheme
     \<Rightarrow> (int \<times> esd_player \<times> 'a esd_server_scheme) option" where
  "send_player p src_buffer src_length src_rate s = do {
     (len, p) \<leftarrow> translate_player p src_buffer src_length src_rate;
     client \<leftarrow> the_client (pl_parent p) s;
     buf \<leftarrow> (if swap_byte_order client \<and> pl_format p AND ESD_MASK_BITS = ESD_BITS16
            then swap_shorts swap_endian_16u 0 (nat (u64 len div 2)) (pl_data p)
            else Some (pl_data p));
     bs \<leftarrow> buf_bytes buf (pl_buffer_length p);
     let ((len, _), s) = sys_write (pl_source_id p) bs s;
     Some (if len < 0 then -1 else 0, p\<lparr>pl_data := buf\<rparr>, s) }"

definition write_player ::
  "esd_player \<Rightarrow> octet list \<Rightarrow> int \<Rightarrow> int \<Rightarrow> int \<Rightarrow> 'a esd_server_scheme
     \<Rightarrow> (int \<times> esd_player \<times> 'a esd_server_scheme) option" where
  "write_player p src_buffer src_length src_rate src_format s =
    (let rd = sys_select_rd (pl_source_id p) s; wr = sys_select_wr (pl_source_id p) s
     in if rd < 0 then Some (-1, p, s)
     else if rd > 0 \<or> wr > 0 then
       (if rd > 0 \<and> sys_peek (pl_source_id p) s < 1 then Some (-1, p, s)
        else send_player p src_buffer src_length src_rate s)
     else Some (0, p, s))"

text \<open>
  \<open>monitor_write\<close>: the translated length and then the written length overwrite \<open>length\<close>,
  which the next monitor's translation is called with. The monitors are those in the list
  at the start: an iteration unlinks only the one it handled.
\<close>

fun monitor_write_loop ::
  "addr list \<Rightarrow> octet list \<Rightarrow> int \<Rightarrow> 'a esd_server_scheme \<Rightarrow> 'a esd_server_scheme option" where
  "monitor_write_loop [] output len s = Some s"
| "monitor_write_loop (a # as) output len s = do {
     p \<leftarrow> node pl_addr a (esd_monitor_list s);
     if sys_select_wr (pl_source_id p) s > 0 then do {
       (_, p) \<leftarrow> translate_player p output len (esd_audio_rate s);
       bs \<leftarrow> buf_bytes (pl_data p) (pl_buffer_length p);
       let s = s\<lparr>esd_monitor_list := upd_node pl_addr a (\<lambda>_. p) (esd_monitor_list s)\<rparr>;
       let ((len, _), s) = sys_write (pl_source_id p) bs s;
       s \<leftarrow> (if len < 0 then erase_monitor a (erase_client (pl_parent p) s) else Some s);
       monitor_write_loop as output len s }
     else monitor_write_loop as output len s }"

definition monitor_write ::
  "octet list \<Rightarrow> int \<Rightarrow> 'a esd_server_scheme \<Rightarrow> 'a esd_server_scheme option" where
  "monitor_write output len s =
     monitor_write_loop (map pl_addr (esd_monitor_list s)) output len s"

fun recorder_write_loop ::
  "addr list \<Rightarrow> octet list \<Rightarrow> int \<Rightarrow> int \<Rightarrow> 'a esd_server_scheme
     \<Rightarrow> (int \<times> 'a esd_server_scheme) option" where
  "recorder_write_loop [] buffer len wrote s = Some (wrote, s)"
| "recorder_write_loop (a # as) buffer len wrote s = do {
     p \<leftarrow> node pl_addr a (esd_recorder_list s);
     (wrote, p, s) \<leftarrow> write_player p buffer len (esd_audio_rate s) (esd_audio_format s) s;
     let s = s\<lparr>esd_recorder_list := upd_node pl_addr a (\<lambda>_. p) (esd_recorder_list s)\<rparr>;
     s \<leftarrow> (if wrote < 0 then erase_recorder a (erase_client (pl_parent p) s) else Some s);
     recorder_write_loop as buffer len wrote s }"

definition recorder_write ::
  "octet list \<Rightarrow> int \<Rightarrow> 'a esd_server_scheme \<Rightarrow> (int \<times> 'a esd_server_scheme) option" where
  "recorder_write buffer len s = do {
     (wrote, s) \<leftarrow> recorder_write_loop (map pl_addr (esd_recorder_list s)) buffer len 0 s;
     Some (wrote,
       if esd_recorder_list s = [] then
         let s = esd_audio_close s;
             s = s\<lparr>esd_audio_format := esd_audio_format s AND NOT ESD_RECORD\<rparr>
         in snd (esd_audio_open s)
       else s) }"

subsection \<open>Filling a player's buffer\<close>

text \<open>
  A stream: one read into the rest of the buffer. \<open>can_read\<close> is a conjunction, so it is
  true also when \<open>select\<close> fails; a read that does not fill the buffer returns without
  recording what it got.
\<close>

definition read_stream_player ::
  "esd_player \<Rightarrow> 'a esd_server_scheme \<Rightarrow> (int \<times> esd_player \<times> 'a esd_server_scheme) option" where
  "read_stream_player p s =
    (if pl_actual_length p < pl_buffer_length p \<and> sys_select_rd (pl_source_id p) s \<noteq> 0 then
       let want = pl_buffer_length p - pl_actual_length p;
           ((actual, transient, bs), s) = sys_read (pl_source_id p) (nat want) s
       in if actual = 0 \<or> (actual < 0 \<and> \<not> transient) then Some (-1, p, s)
       else do {
         buf \<leftarrow> (if actual > 0 then blit (pl_data p) (pl_actual_length p) bs else Some (pl_data p));
         let p = p\<lparr>pl_data := buf\<rparr>;
         if actual < want then Some (actual, p, s)
         else do {
           client \<leftarrow> the_client (pl_parent p) s;
           buf \<leftarrow> (if swap_byte_order client \<and> pl_format p AND ESD_MASK_BITS = ESD_BITS16
                  then swap_shorts swap_endian_16u (nat (pl_actual_length p))
                         (nat (pl_actual_length p) + nat actual div 2) (pl_data p)
                  else Some (pl_data p));
           Some (actual, p\<lparr>pl_data := buf, pl_actual_length := pl_actual_length p + actual\<rparr>, s) } }
     else Some (0, p, s))"

text \<open>
  A sample: copy from the sample's data, starting over while it loops. The loop ends when
  the buffer is full or the sample is told to stop; with a sample of no length it would not.
\<close>

definition copy_from_sample :: "esd_sample \<Rightarrow> int \<Rightarrow> esd_player \<Rightarrow> esd_player option" where
  "copy_from_sample m n p =
    (if 0 \<le> pl_last_pos p \<and> pl_last_pos p + n \<le> int (length (sm_data m)) then do {
       buf \<leftarrow> blit (pl_data p) (pl_actual_length p) (take (nat n) (drop (nat (pl_last_pos p)) (sm_data m)));
       Some (p\<lparr>pl_data := buf, pl_last_pos := pl_last_pos p + n,
               pl_actual_length := pl_actual_length p + n\<rparr>) }
     else None)"

definition sample_chunk :: "esd_sample \<Rightarrow> esd_player \<Rightarrow> int" where
  "sample_chunk m p =
     (let room = pl_buffer_length p - pl_actual_length p; left = sm_length m - pl_last_pos p
      in if left > room then room else left)"

definition sample_stopped :: "esd_sample \<Rightarrow> bool" where
  "sample_stopped m \<longleftrightarrow> sm_format m AND ESD_MASK_FUNC = ESD_STOP"

partial_function (option) loop_sample_player ::
  "esd_sample \<Rightarrow> int \<Rightarrow> esd_player \<Rightarrow> (int \<times> esd_player) option" where
  "loop_sample_player m actual p =
    (if pl_actual_length p < pl_buffer_length p then
       let wrap = pl_last_pos p \<ge> sm_length m;
           p = (if wrap then p\<lparr>pl_last_pos := 0\<rparr> else p)
       in if wrap \<and> sample_stopped m then Some (actual, p)
       else let n = sample_chunk m p
       in if n > 0 then
            Option.bind (copy_from_sample m n p) (\<lambda>p.
            if pl_last_pos p \<ge> sm_length m then
              (if sample_stopped m then Some (actual + n, p\<lparr>pl_last_pos := 0\<rparr>)
               else loop_sample_player m (actual + n) (p\<lparr>pl_last_pos := 0\<rparr>))
            else loop_sample_player m (actual + n) p)
          else loop_sample_player m actual p
     else Some (actual, p))"

definition read_sample_player ::
  "esd_player \<Rightarrow> 'a esd_server_scheme \<Rightarrow> (int \<times> esd_player) option" where
  "read_sample_player p s = do {
     m \<leftarrow> the_sample (pl_parent p) s;
     if pl_last_pos p = 0 \<and> sample_stopped m then Some (-1, p)
     else
       let actual = sample_chunk m p
       in if actual > 0 then do {
            p \<leftarrow> copy_from_sample m actual p;
            if pl_actual_length p = pl_buffer_length p \<or> pl_format p AND ESD_MASK_FUNC \<noteq> ESD_LOOP
            then Some (actual, p)
            else loop_sample_player m actual p }
          else Some (-1, p) }"

definition read_player ::
  "esd_player \<Rightarrow> 'a esd_server_scheme \<Rightarrow> (int \<times> esd_player \<times> 'a esd_server_scheme) option" where
  "read_player p s =
    (if pl_format p AND ESD_MASK_MODE = ESD_STREAM then read_stream_player p s
     else if pl_format p AND ESD_MASK_MODE = ESD_SAMPLE then do {
       (actual, p) \<leftarrow> read_sample_player p s; Some (actual, p, s) }
     else Some (-1, p, s))"

subsection \<open>New players\<close>

text \<open>
  The buffer length that matches the duration of the mix buffer: \<open>int\<close> arithmetic, with
  the division by \<open>esd_audio_rate\<close> and the rounding down to a multiple of 4.
\<close>

definition player_buffer_length :: "int \<Rightarrow> int \<Rightarrow> 'a esd_server_scheme \<Rightarrow> int option" where
  "player_buffer_length format rate s = do {
     n \<leftarrow> cdiv (i32 (esd_buf_size_octets s * rate)) (esd_audio_rate s);
     let n = (if format AND ESD_MASK_BITS = ESD_BITS8 then n sdiv 2 else n);
     let n = (if format AND ESD_MASK_CHAN = ESD_MONO then n sdiv 2 else n);
     Some (n - n smod 4) }"

definition new_stream_player ::
  "addr \<Rightarrow> 'a esd_server_scheme \<Rightarrow> (esd_player option \<times> 'a esd_server_scheme) option" where
  "new_stream_player client s = do {
     c \<leftarrow> the_client client s;
     let (a, s) = malloc 232 s;
     if a = 0 then Some (None, s) else do {
       format \<leftarrow> get32 (proto_data c) 0;
       rate \<leftarrow> get32 (proto_data c) 4;
       let format = maybe_swap_32 (swap_byte_order c) format AND NOT ESD_MASK_MODE;
       let rate = maybe_swap_32 (swap_byte_order c) rate;
       n \<leftarrow> player_buffer_length format rate s;
       case get_mix_func format ESD_VOLUME_BASE ESD_VOLUME_BASE of
         None \<Rightarrow> Some (None, s)
       | Some f \<Rightarrow> do {
           let (d, s) = malloc n s;
           if d = 0 then Some (None, s)
           else Some (Some \<lparr>pl_addr = a, pl_parent = 0, pl_format = format, pl_rate = rate,
                   pl_left_vol = ESD_VOLUME_BASE, pl_right_vol = ESD_VOLUME_BASE,
                   pl_source_id = cl_fd c, pl_data = uninit s d (nat n), pl_buffer_length = n,
                   pl_actual_length = 0, pl_last_pos = uint (junk s a 128),
                   pl_name = copy_name (drop 8 (proto_data c)),
                   pl_mix_func = Some f, pl_translate = None\<rparr>, s) } } }"

text \<open>The format of a player for a sample: the sample's, in sample mode, looping if asked to.\<close>

definition sample_player_format :: "int \<Rightarrow> bool \<Rightarrow> int" where
  "sample_player_format format loop =
     (let f = (format AND NOT ESD_MASK_MODE) OR ESD_SAMPLE
      in if loop then (f AND NOT ESD_MASK_FUNC) OR ESD_LOOP else f)"

definition new_sample_player ::
  "int \<Rightarrow> bool \<Rightarrow> 'a esd_server_scheme \<Rightarrow> (esd_player option \<times> 'a esd_server_scheme) option" where
  "new_sample_player sample_id loop s =
    (case find (\<lambda>m. sm_id m = sample_id) (esd_samples_list s) of
       None \<Rightarrow> Some (None, s)
     | Some m \<Rightarrow> do {
         let (a, s) = malloc 232 s;
         if a = 0 then Some (None, s) else do {
           let format = sample_player_format (sm_format m) loop;
           n \<leftarrow> player_buffer_length format (sm_rate m) s;
           case get_mix_func format (sm_left_vol m) (sm_right_vol m) of
             None \<Rightarrow> Some (None, s)
           | Some f \<Rightarrow> do {
               let (d, s) = malloc n s;
               if d = 0 then Some (None, s) else do {
                 let p = \<lparr>pl_addr = a, pl_parent = sm_addr m, pl_format = format, pl_rate = sm_rate m,
                          pl_left_vol = sm_left_vol m, pl_right_vol = sm_right_vol m,
                          pl_source_id = sm_id m, pl_data = uninit s d (nat n), pl_buffer_length = n,
                          pl_actual_length = 0, pl_last_pos = 0, pl_name = uninit s a 128,
                          pl_mix_func = Some f, pl_translate = None\<rparr>;
                 let s = s\<lparr>esd_playing_samples := i32 (esd_playing_samples s + 1)\<rparr>;
                 let s = set_sample (sm_addr m) (\<lambda>m. m\<lparr>sm_ref_count := i32 (sm_ref_count m + 1)\<rparr>) s;
                 Some (Some p, s) } } } })"

definition play_sample ::
  "int \<Rightarrow> bool \<Rightarrow> 'a esd_server_scheme \<Rightarrow> (int \<times> 'a esd_server_scheme) option" where
  "play_sample sample_id loop s = do {
     (player, s) \<leftarrow> new_sample_player sample_id loop s;
     Some (if player = None then (0, s) else (1, add_player player s)) }"

text \<open>\<open>stop_sample\<close> takes the loop setting off the first player of that sample.\<close>

fun stop_sample_loop :: "int \<Rightarrow> esd_player list \<Rightarrow> int \<times> esd_player list" where
  "stop_sample_loop ident [] = (0, [])"
| "stop_sample_loop ident (p # ps) =
     (if pl_format p AND ESD_MASK_MODE = ESD_SAMPLE \<and> pl_source_id p = ident
      then (1, p\<lparr>pl_format := (pl_format p AND NOT ESD_MASK_FUNC) OR ESD_STOP\<rparr> # ps)
      else let (r, ps) = stop_sample_loop ident ps in (r, p # ps))"

definition stop_sample :: "int \<Rightarrow> 'a esd_server_scheme \<Rightarrow> int \<times> 'a esd_server_scheme" where
  "stop_sample ident s =
     (let (r, ps) = stop_sample_loop ident (esd_players_list s) in (r, s\<lparr>esd_players_list := ps\<rparr>))"

end
