(* ===== verification/Esd_Mixer.thy ===== *)
theory Esd_Mixer
  imports Esd_Players
begin

text \<open>
  One round of mixing (end of \<open>mix.c\<close>) and the chain of filters (\<open>filter.c\<close>): fill the
  buffers of all players, mix as many frames as every player can give, clip to the output
  buffer, and pass the result through the filters.
\<close>

subsection \<open>Mixing the players\<close>

text \<open>\<open>iBps\<close>: the bytes per frame of a format.\<close>

definition bytes_per_frame :: "int \<Rightarrow> int" where
  "bytes_per_frame format =
     (let n = (4 :: int);
          n = (if format AND ESD_MASK_BITS = ESD_BITS8 then n sdiv 2 else n)
      in if format AND ESD_MASK_CHAN = ESD_MONO then n sdiv 2 else n)"

definition translated_length :: "esd_player \<Rightarrow> int \<Rightarrow> int \<Rightarrow> int option" where
  "translated_length p arate len = do {
     frames \<leftarrow> cdiv (pl_actual_length p) (bytes_per_frame (pl_format p));
     t \<leftarrow> cdiv (i32 (i32 (i32 (frames * arate) + pl_rate p) - 1)) (pl_rate p);
     let t = i32 (t * 4);
     Some (if t > len then len else t) }"

definition set_player ::
  "addr \<Rightarrow> (esd_player \<Rightarrow> esd_player) \<Rightarrow> 'a esd_server_scheme \<Rightarrow> 'a esd_server_scheme" where
  "set_player a f s = s\<lparr>esd_players_list := upd_node pl_addr a f (esd_players_list s)\<rparr>"

text \<open>
  The first pass reads every player and takes the minimum of the translated lengths; a
  player that has nothing to give is skipped, a finished one is erased. \<open>min\<close> is 0 before
  the first length is known, and again after a player whose length is 0.
\<close>

fun mix_read_pass ::
  "addr list \<Rightarrow> int \<Rightarrow> int \<Rightarrow> 'a esd_server_scheme \<Rightarrow> (int \<times> 'a esd_server_scheme) option" where
  "mix_read_pass [] len mn s = Some (mn, s)"
| "mix_read_pass (a # as) len mn s = do {
     p \<leftarrow> node pl_addr a (esd_players_list s);
     (actual, p, s) \<leftarrow> read_player p s;
     let s = set_player a (\<lambda>_. p) s;
     if actual = 0 \<and> pl_actual_length p = 0 then mix_read_pass as len mn s
     else if actual < 0 then do {
       s \<leftarrow> erase_player a s;
       mix_read_pass as len mn s }
     else do {
       t \<leftarrow> translated_length p (esd_audio_rate s) len;
       mix_read_pass as len (if mn = 0 then t else if mn > t then t else mn) s } }"

text \<open>\<open>used\<close>: how much of the player's data went into \<open>actual\<close> bytes of the mix.\<close>

definition used_length :: "esd_player \<Rightarrow> int \<Rightarrow> int \<Rightarrow> int option" where
  "used_length p actual arate =
     (if u64 arate = 0 then None
      else
        let used = i32 (u64 (u64 actual div 4 * u64 (pl_rate p)) div u64 arate);
            used = (if pl_format p AND ESD_MASK_BITS \<noteq> ESD_BITS8 then i32 (used * 2) else used)
        in Some (if pl_format p AND ESD_MASK_CHAN \<noteq> ESD_MONO then i32 (used * 2) else used))"

text \<open>\<open>memmove\<close> of what is left to the front of the buffer.\<close>

definition consume :: "esd_player \<Rightarrow> int \<Rightarrow> esd_player option" where
  "consume p used =
     (let rest = i32 (pl_actual_length p - used)
      in if rest > 0 then
           (if 0 \<le> used \<and> used + rest \<le> int (length (pl_data p)) then do {
              buf \<leftarrow> blit (pl_data p) 0 (take (nat rest) (drop (nat used) (pl_data p)));
              Some (p\<lparr>pl_data := buf, pl_actual_length := rest\<rparr>) }
            else None)
         else Some (p\<lparr>pl_actual_length := 0\<rparr>))"

fun mix_add_pass ::
  "addr list \<Rightarrow> int \<Rightarrow> int \<Rightarrow> 'a esd_server_scheme \<Rightarrow> (int \<times> 'a esd_server_scheme) option" where
  "mix_add_pass [] mn mx s = Some (mx, s)"
| "mix_add_pass (a # as) mn mx s = do {
     p \<leftarrow> node pl_addr a (esd_players_list s);
     if pl_actual_length p > 0 then do {
       f \<leftarrow> pl_mix_func p;
       (actual, mb) \<leftarrow> call_mix_func f p mn (esd_audio_rate s) (mixed_buffer s);
       used \<leftarrow> used_length p actual (esd_audio_rate s);
       p \<leftarrow> consume p used;
       mix_add_pass as mn (if actual > mx then actual else mx)
         ((set_player a (\<lambda>_. p) s)\<lparr>mixed_buffer := mb\<rparr>) }
     else mix_add_pass as mn mx s }"

definition mix_players ::
  "octet list \<Rightarrow> int \<Rightarrow> 'a esd_server_scheme \<Rightarrow> (int \<times> octet list \<times> 'a esd_server_scheme) option" where
  "mix_players output len s =
    (if esd_buf_size_samples s \<le> int (length (mixed_buffer s)) then do {
       let s = s\<lparr>mixed_buffer := replicate (nat (esd_buf_size_samples s)) 0
                   @ drop (nat (esd_buf_size_samples s)) (mixed_buffer s)\<rparr>;
       (mn, s) \<leftarrow> mix_read_pass (map pl_addr (esd_players_list s)) len 0 s;
       if mn > 0 then do {
         (mx, s) \<leftarrow> mix_add_pass (map pl_addr (esd_players_list s)) mn 0 s;
         if esd_audio_format s AND ESD_MASK_BITS = ESD_BITS16 then do {
           output \<leftarrow> clip_mix_to_output_16s output mx (mixed_buffer s);
           Some (mx, output, s) }
         else do {
           output \<leftarrow> clip_mix_to_output_8u output mx (mixed_buffer s);
           Some (mx sdiv 2, output, s) } }
       else Some (0, output, s) }
     else None)"

subsection \<open>Filters\<close>

interpretation filters: node_list "esd_filter_list :: 'a esd_server_scheme \<Rightarrow> _"
    "\<lambda>ns s. s\<lparr>esd_filter_list := ns\<rparr>" pl_addr
  by unfold_locales simp_all

text \<open>Each filter translates to the format of the next, the last one to the audio format.\<close>

fun refresh_filters :: "esd_player list \<Rightarrow> esd_player list" where
  "refresh_filters [] = []"
| "refresh_filters (p # ps) = p\<lparr>pl_translate := Some (get_translate_func (pl_format p))\<rparr> # refresh_filters ps"

definition refresh_mix_funcs :: "'a esd_server_scheme \<Rightarrow> int \<times> 'a esd_server_scheme" where
  "refresh_mix_funcs s =
    (if esd_filter_list s = [] then (0, s)
     else (1 + int (length (esd_filter_list s)),
           s\<lparr>esd_first_filter_func := Some (get_translate_func (esd_audio_format s)),
             esd_filter_list := refresh_filters (esd_filter_list s)\<rparr>))"

definition erase_filter :: "addr \<Rightarrow> 'a esd_server_scheme \<Rightarrow> 'a esd_server_scheme option" where
  "erase_filter flt s =
    (case node pl_addr flt (esd_filter_list s) of
       Some p \<Rightarrow> free_player p (s\<lparr>esd_filter_list := unlink pl_addr flt (esd_filter_list s)\<rparr>)
     | None \<Rightarrow> Some s)"

definition set_filter ::
  "addr \<Rightarrow> (esd_player \<Rightarrow> esd_player) \<Rightarrow> 'a esd_server_scheme \<Rightarrow> 'a esd_server_scheme" where
  "set_filter a f s = s\<lparr>esd_filter_list := upd_node pl_addr a f (esd_filter_list s)\<rparr>"

text \<open>
  All of the data is written to the filter; the result says whether it has to be erased.
  An error, or a write of nothing, counts as everything written.
\<close>

function filter_send ::
  "int \<Rightarrow> octet list \<Rightarrow> int \<Rightarrow> int \<Rightarrow> 'a esd_server_scheme \<Rightarrow> (bool \<times> 'a esd_server_scheme) option" where
  "filter_send fd buf got sz s =
    (if got < sz then
       (if 0 \<le> got \<and> sz \<le> int (length buf) then
          (case sys_write fd (take (nat (sz - got)) (drop (nat got) buf)) s of
             ((actual, _), s) \<Rightarrow>
               if actual \<le> 0 then Some (True, s) else filter_send fd buf (got + actual) sz s)
        else None)
     else Some (False, s))"
  by pat_completeness auto
termination
  by (relation "measure (\<lambda>(fd, buf, got, sz, s). nat (sz - got))") auto

declare filter_send.simps [simp del]

text \<open>
  One filter of the chain. It is sent the data and what it sent back is read into its
  buffer; \<open>actual_length\<close> is decreased by the number of bytes just read.
\<close>

definition filter_exchange ::
  "addr \<Rightarrow> int \<Rightarrow> 'a esd_server_scheme \<Rightarrow> (bool \<times> esd_player \<times> 'a esd_server_scheme) option" where
  "filter_exchange a data_size s = do {
     p \<leftarrow> node pl_addr a (esd_filter_list s);
     (dead, s) \<leftarrow> filter_send (pl_source_id p) (pl_data p) 0 data_size s;
     if dead then Some (True, p, s) else do {
       (actual, p, s) \<leftarrow> read_player p s;
       let p = (if actual \<ge> 0 then p\<lparr>pl_actual_length := i32 (pl_actual_length p - actual)\<rparr> else p);
       Some (actual < 0, p, set_filter a (\<lambda>_. p) s) } }"

text \<open>Its data is translated into the buffer of the next filter, or else the audio buffer.\<close>

definition filter_pass ::
  "addr option \<Rightarrow> esd_player \<Rightarrow> octet list \<Rightarrow> int \<Rightarrow> int \<Rightarrow> int \<Rightarrow> 'a esd_server_scheme
     \<Rightarrow> (int \<times> octet list \<times> 'a esd_server_scheme) option" where
  "filter_pass nxt p buffer sz format rate s = do {
     tr \<leftarrow> pl_translate p;
     case nxt of
       Some b \<Rightarrow> do {
         q \<leftarrow> node pl_addr b (esd_filter_list s);
         (n, buf) \<leftarrow> call_translate tr (pl_data q) (pl_buffer_length q) (pl_rate q) (pl_format q)
                       (pl_data p) (pl_buffer_length p) (pl_rate p);
         Some (n, buffer, set_filter b (\<lambda>q. q\<lparr>pl_data := buf\<rparr>) s) }
     | None \<Rightarrow> do {
         (n, buf) \<leftarrow> call_translate tr buffer sz rate format
                       (pl_data p) (pl_buffer_length p) (pl_rate p);
         Some (n, buf, s) } }"

definition filter_step ::
  "addr option \<Rightarrow> addr \<Rightarrow> octet list \<Rightarrow> int \<Rightarrow> int \<Rightarrow> int \<Rightarrow> int \<Rightarrow> 'a esd_server_scheme
     \<Rightarrow> (int \<times> octet list \<times> 'a esd_server_scheme) option" where
  "filter_step nxt a buffer sz format rate data_size s = do {
     (dead, p, s) \<leftarrow> filter_exchange a data_size s;
     (data_size, buffer, s) \<leftarrow> filter_pass nxt p buffer sz format rate s;
     s \<leftarrow> (if dead then erase_filter a s else Some s);
     Some (data_size, buffer, s) }"

fun filter_chain ::
  "addr list \<Rightarrow> octet list \<Rightarrow> int \<Rightarrow> int \<Rightarrow> int \<Rightarrow> int \<Rightarrow> 'a esd_server_scheme
     \<Rightarrow> (int \<times> octet list \<times> 'a esd_server_scheme) option" where
  "filter_chain [] buffer sz format rate data_size s = Some (data_size, buffer, s)"
| "filter_chain (a # as) buffer sz format rate data_size s = do {
     (data_size, buffer, s) \<leftarrow>
       filter_step (case as of [] \<Rightarrow> None | b # _ \<Rightarrow> Some b) a buffer sz format rate data_size s;
     filter_chain as buffer sz format rate data_size s }"

definition filter_write ::
  "octet list \<Rightarrow> int \<Rightarrow> int \<Rightarrow> int \<Rightarrow> 'a esd_server_scheme
     \<Rightarrow> (int \<times> octet list \<times> 'a esd_server_scheme) option" where
  "filter_write buffer sz format rate s =
    (case esd_filter_list s of
       [] \<Rightarrow> Some (sz, buffer, s)
     | p # _ \<Rightarrow> do {
         tr \<leftarrow> esd_first_filter_func s;
         (data_size, buf) \<leftarrow> call_translate tr (pl_data p) (pl_buffer_length p) (pl_rate p)
                               (pl_format p) buffer sz rate;
         let s = set_filter (pl_addr p) (\<lambda>p. p\<lparr>pl_data := buf\<rparr>) s;
         filter_chain (map pl_addr (esd_filter_list s)) buffer sz format rate data_size s })"

end
