(* ===== verification/Esd_Proto.thy ===== *)
theory Esd_Proto
  imports Esd_Mixer
begin

text \<open>
  The protocol (\<open>proto.c\<close>) and the two functions of \<open>esd.c\<close> that release and reclaim the
  audio device: authorisation, one handler per request, the table of handlers, and the
  round that polls every client. A handler takes a pointer to a client and returns the
  value the code returns, 0 meaning that the connection is to be closed.
\<close>

type_synonym 'a handler = "addr \<Rightarrow> 'a esd_server_scheme \<Rightarrow> (int \<times> 'a esd_server_scheme) option"

subsection \<open>Standby\<close>

definition esd_server_standby :: "'a esd_server_scheme \<Rightarrow> int \<times> 'a esd_server_scheme" where
  "esd_server_standby s =
     (1, if esd_on_standby s then s else esd_audio_close (s\<lparr>esd_on_standby := True\<rparr>))"

definition esd_server_resume :: "'a esd_server_scheme \<Rightarrow> int \<times> 'a esd_server_scheme" where
  "esd_server_resume s =
     (if esd_on_standby s then
        let (r, s) = esd_audio_open s
        in if r < 0 then (0, s)
           else (1, s\<lparr>esd_on_standby := False, esd_on_autostandby := False, esd_forced_standby := False\<rparr>)
      else (1, s))"

subsection \<open>Replies\<close>

definition reply_int :: "esd_client \<Rightarrow> int \<Rightarrow> 'a esd_server_scheme \<Rightarrow> int \<times> 'a esd_server_scheme" where
  "reply_int c x s =
     (let ((actual, _), s) = sys_write (cl_fd c) (put32 x) s in (actual, s))"

text \<open>Successive writes; only the result of the last one is looked at.\<close>

fun write_seq :: "int \<Rightarrow> octet list list \<Rightarrow> 'a esd_server_scheme \<Rightarrow> int \<times> 'a esd_server_scheme" where
  "write_seq fd [] s = (0, s)"
| "write_seq fd (b # bs) s =
     (let ((actual, _), s) = sys_write fd b s in if bs = [] then (actual, s) else write_seq fd bs s)"

definition swapped :: "esd_client \<Rightarrow> int \<Rightarrow> octet list" where
  "swapped c x = put32 (maybe_swap_32 (swap_byte_order c) x)"

subsection \<open>Latency, byte order, authorisation\<close>

definition esd_proto_get_latency :: "'a handler" where
  "esd_proto_get_latency client s = do {
     c \<leftarrow> the_client client s;
     let buf_size = esound_getblksize s;
     amount \<leftarrow> cdiv
       (if esd_audio_format s AND ESD_STEREO \<noteq> 0 then
          (if esd_audio_format s AND ESD_BITS16 \<noteq> 0
           then i32 (44100 * i32 (buf_size + 64)) else i32 (44100 * i32 (buf_size + 128)))
        else
          (if esd_audio_format s AND ESD_BITS16 \<noteq> 0
           then i32 (88200 * i32 (buf_size + 128)) else i32 (88200 * i32 (buf_size + 256))))
       (esd_audio_rate s);
     let (actual, s) = reply_int c (maybe_swap_32 (swap_byte_order c) amount) s;
     Some (if actual \<noteq> 4 then 0 else 1, s) }"

text \<open>The key is read as an \<open>unsigned int\<close>.\<close>

definition esd_check_endian :: "addr \<Rightarrow> int \<Rightarrow> 'a esd_server_scheme \<Rightarrow> int \<times> 'a esd_server_scheme" where
  "esd_check_endian client endian s =
    (if u32 endian = ESD_ENDIAN_KEY then
       (1, set_client client (\<lambda>c. c\<lparr>swap_byte_order := False\<rparr>) s)
     else if u32 endian = ESD_SWAP_ENDIAN_KEY then
       (1, set_client client (\<lambda>c. c\<lparr>swap_byte_order := True\<rparr>) s)
     else (0, s))"

definition esd_validate_source ::
  "esd_client \<Rightarrow> octet list \<Rightarrow> bool \<Rightarrow> 'a esd_server_scheme \<Rightarrow> int \<times> 'a esd_server_scheme" where
  "esd_validate_source c submitted_key owner_only s =
    (if \<not> esd_is_owned s then
       (1, snd (reply_int c 1 (s\<lparr>esd_is_locked := True,
              esd_owner_key := take ESD_KEY_LEN submitted_key, esd_is_owned := True\<rparr>)))
     else if \<not> esd_is_locked s \<and> \<not> owner_only then (1, snd (reply_int c 1 s))
     else if esd_owner_key s = take ESD_KEY_LEN submitted_key then (1, snd (reply_int c 1 s))
     else (0, snd (reply_int c 0 s)))"

definition esd_proto_unimplemented :: "'a handler" where
  "esd_proto_unimplemented client s = Some (0, s)"

definition esd_proto_connect :: "'a handler" where
  "esd_proto_connect client s = do {
     c \<leftarrow> the_client client s;
     endian \<leftarrow> get32 (proto_data c) ESD_KEY_LEN;
     let (ok, s) = esd_validate_source c (proto_data c) False s;
     Some (if ok \<noteq> 0 then esd_check_endian client endian s else (0, s)) }"

definition esd_proto_lock :: "'a handler" where
  "esd_proto_lock client s = do {
     c \<leftarrow> the_client client s;
     let (ok, s) = esd_validate_source c (proto_data c) True s;
     let s = (if ok \<noteq> 0 then s\<lparr>esd_is_locked := True\<rparr> else s);
     let (_, s) = reply_int c (maybe_swap_32 (swap_byte_order c) ok) s;
     Some (ok, s) }"

definition esd_proto_unlock :: "'a handler" where
  "esd_proto_unlock client s = do {
     c \<leftarrow> the_client client s;
     let (ok, s) = esd_validate_source c (proto_data c) True s;
     let s = (if ok \<noteq> 0 then s\<lparr>esd_is_locked := False\<rparr> else s);
     let (_, s) = reply_int c (maybe_swap_32 (swap_byte_order c) ok) s;
     Some (ok, s) }"

definition esd_proto_standby :: "'a handler" where
  "esd_proto_standby client s = do {
     c \<leftarrow> the_client client s;
     let (ok, s) = esd_validate_source c (proto_data c) True s;
     let (ok, s) = (if ok \<noteq> 0 then esd_server_standby s else (ok, s));
     let s = (if \<not> esd_on_autostandby s then s\<lparr>esd_forced_standby := True\<rparr> else s);
     let (_, s) = reply_int c (maybe_swap_32 (swap_byte_order c) ok) s;
     Some (ok, s) }"

definition esd_proto_resume :: "'a handler" where
  "esd_proto_resume client s = do {
     c \<leftarrow> the_client client s;
     let (ok, s) = esd_validate_source c (proto_data c) True s;
     let (ok, s) = (if ok \<noteq> 0 then esd_server_resume s else (ok, s));
     let s = (if ok \<noteq> 0 then s\<lparr>esd_forced_standby := False\<rparr> else s);
     let (_, s) = reply_int c (maybe_swap_32 (swap_byte_order c) ok) s;
     Some (ok, s) }"

subsection \<open>Streams\<close>

definition streaming :: "addr \<Rightarrow> 'a esd_server_scheme \<Rightarrow> 'a esd_server_scheme" where
  "streaming client s = set_client client (\<lambda>c. c\<lparr>cl_state := ESD_STREAMING_DATA\<rparr>) s"

definition esd_proto_stream_play :: "'a handler" where
  "esd_proto_stream_play client s = do {
     (player, s) \<leftarrow> new_stream_player client s;
     case player of
       None \<Rightarrow> Some (0, s)
     | Some p \<Rightarrow> Some (1, streaming client (add_player (Some (p\<lparr>pl_parent := client\<rparr>)) s)) }"

text \<open>The device is reopened for recording; when that fails it is reopened as it was.\<close>

definition reopen_for_record :: "'a esd_server_scheme \<Rightarrow> bool \<times> 'a esd_server_scheme" where
  "reopen_for_record s =
    (if esd_audio_format s AND ESD_RECORD = 0 then
       let s = esd_audio_close s;
           (r, s) = esd_audio_open (s\<lparr>esd_audio_format := esd_audio_format s OR ESD_RECORD\<rparr>)
       in (r \<ge> 0, s)
     else (True, s))"

definition esd_proto_stream_recorder :: "'a handler" where
  "esd_proto_stream_recorder client s = do {
     let s = (if esd_on_autostandby s \<and> \<not> esd_forced_standby s then snd (esd_server_resume s) else s);
     if esd_on_standby s then Some (0, s) else do {
       (recorder, s) \<leftarrow> new_stream_player client s;
       case recorder of
         None \<Rightarrow> Some (0, s)
       | Some p \<Rightarrow> do {
           let (ok, s) = reopen_for_record s;
           if \<not> ok then do {
             s \<leftarrow> free_player p s;
             Some (0, snd (esd_audio_open
               (s\<lparr>esd_audio_format := esd_audio_format s AND NOT ESD_RECORD\<rparr>))) }
           else Some (1, streaming client (add_recorder (Some (p\<lparr>pl_parent := client,
                   pl_translate := Some (get_translate_func (esd_audio_format s))\<rparr>)) s)) } } }"

definition esd_proto_stream_monitor :: "'a handler" where
  "esd_proto_stream_monitor client s = do {
     (monitor, s) \<leftarrow> new_stream_player client s;
     case monitor of
       None \<Rightarrow> Some (0, s)
     | Some p \<Rightarrow>
         let p = p\<lparr>pl_parent := client, pl_translate := Some (get_translate_func (esd_audio_format s))\<rparr>
         in Some (1, streaming client (s\<lparr>esd_monitor_list := p # esd_monitor_list s\<rparr>)) }"

definition esd_proto_stream_filter :: "'a handler" where
  "esd_proto_stream_filter client s = do {
     (flt, s) \<leftarrow> new_stream_player client s;
     case flt of
       None \<Rightarrow> Some (0, s)
     | Some p \<Rightarrow>
         Some (1, streaming client (s\<lparr>esd_filter_list := p\<lparr>pl_parent := client\<rparr> # esd_filter_list s\<rparr>)) }"

subsection \<open>Samples\<close>

text \<open>The part of \<open>esd_proto_sample_cache\<close> that has the sample.\<close>

definition cache_sample :: "addr \<Rightarrow> addr \<Rightarrow> 'a esd_server_scheme \<Rightarrow> (int \<times> 'a esd_server_scheme) option" where
  "cache_sample client sample s = do {
     let s = set_sample sample (\<lambda>m. m\<lparr>sm_parent := client\<rparr>) s;
     (r, s) \<leftarrow> read_sample sample s;
     if r = 0 then Some (0, s)
     else do {
       m \<leftarrow> the_sample sample s;
       if sm_cached m < sm_length m then
         Some (1, set_client client (\<lambda>c. c\<lparr>cl_state := ESD_CACHING_SAMPLE\<rparr>) s)
       else do {
         let s = set_client client (\<lambda>c. c\<lparr>cl_state := ESD_NEXT_REQUEST\<rparr>) s;
         c \<leftarrow> the_client client s;
         let (_, s) = reply_int c (maybe_swap_32 (swap_byte_order c) (sm_id m)) s;
         Some (1, s) } } }"

definition esd_proto_sample_cache :: "'a handler" where
  "esd_proto_sample_cache client s = do {
     c \<leftarrow> the_client client s;
     (sample, s) \<leftarrow>
       (if cl_state c = ESD_CACHING_SAMPLE then do {
          m \<leftarrow> find_caching_sample client s; Some (m, s) }
        else do {
          (m, s) \<leftarrow> new_sample client s; Some (m, add_sample m s) });
     case sample of
       None \<Rightarrow> Some (0, s)
     | Some m \<Rightarrow> cache_sample client (sm_addr m) s }"

definition esd_proto_sample_getid :: "'a handler" where
  "esd_proto_sample_getid client s = do {
     c \<leftarrow> the_client client s;
     let namebuf = copy_name (proto_data c);
     let ident = (case find (\<lambda>m. cstr (sm_name m) = cstr namebuf) (esd_samples_list s) of
                    Some m \<Rightarrow> sm_id m | None \<Rightarrow> -1);
     let (_, s) = reply_int c (maybe_swap_32 (swap_byte_order c) ident) s;
     Some (1, s) }"

text \<open>What the four requests on a sample id share: the reply is the id as the client sent it.\<close>

definition sample_request ::
  "(int \<Rightarrow> 'a esd_server_scheme \<Rightarrow> 'a esd_server_scheme option) \<Rightarrow> 'a handler" where
  "sample_request act client s = do {
     c \<leftarrow> the_client client s;
     client_id \<leftarrow> get32 (proto_data c) 0;
     s \<leftarrow> act (maybe_swap_32 (swap_byte_order c) client_id) s;
     let (actual, s) = reply_int c client_id s;
     Some (if actual \<noteq> 4 then 0 else 1, s) }"

definition esd_proto_sample_free :: "'a handler" where
  "esd_proto_sample_free = sample_request (\<lambda>ident s. Some (erase_sample ident False s))"

definition esd_proto_sample_play :: "'a handler" where
  "esd_proto_sample_play = sample_request (\<lambda>ident s. map_option snd (play_sample ident False s))"

definition esd_proto_sample_loop :: "'a handler" where
  "esd_proto_sample_loop = sample_request (\<lambda>ident s. map_option snd (play_sample ident True s))"

definition esd_proto_sample_stop :: "'a handler" where
  "esd_proto_sample_stop = sample_request (\<lambda>ident s. Some (snd (stop_sample ident s)))"

subsection \<open>Information\<close>

definition server_info :: "esd_client \<Rightarrow> 'a esd_server_scheme \<Rightarrow> int \<times> 'a esd_server_scheme" where
  "server_info c s =
     write_seq (cl_fd c) [swapped c 0, swapped c (esd_audio_rate s), swapped c (esd_audio_format s)] s"

definition esd_proto_server_info :: "'a handler" where
  "esd_proto_server_info client s = do {
     c \<leftarrow> the_client client s;
     let (actual, s) = server_info c s;
     Some (if actual \<noteq> 4 then 0 else 1, s) }"

text \<open>
  One record per player, then one of zeroes: the volumes of that last record are left over
  from the record before, and uninitialised when there was none. Then the samples.
\<close>

definition player_name :: "esd_player \<Rightarrow> 'a esd_server_scheme \<Rightarrow> octet list option" where
  "player_name p s =
    (if pl_format p AND ESD_MASK_MODE = ESD_STREAM then Some (pl_name p)
     else map_option sm_name (the_sample (pl_parent p) s))"

fun info_players ::
  "esd_client \<Rightarrow> esd_player list \<Rightarrow> octet list \<Rightarrow> octet list \<Rightarrow> 'a esd_server_scheme
     \<Rightarrow> (bool \<times> octet list \<times> octet list \<times> 'a esd_server_scheme) option" where
  "info_players c [] left right s =
     (let (actual, s) = write_seq (cl_fd c)
            [put32 0, replicate ESD_NAME_MAX 0, put32 0, left, right, put32 0] s
      in Some (actual = 4, left, right, s))"
| "info_players c (p # ps) left right s = do {
     name \<leftarrow> player_name p s;
     let left = swapped c (pl_left_vol p);
     let right = swapped c (pl_right_vol p);
     let (actual, s) = write_seq (cl_fd c)
           [swapped c (pl_source_id p), name, swapped c (pl_rate p), left, right, swapped c (pl_format p)] s;
     if actual \<noteq> 4 then Some (False, left, right, s) else info_players c ps left right s }"

fun info_samples ::
  "esd_client \<Rightarrow> esd_sample list \<Rightarrow> octet list \<Rightarrow> octet list \<Rightarrow> 'a esd_server_scheme
     \<Rightarrow> bool \<times> 'a esd_server_scheme" where
  "info_samples c [] left right s =
     (let (actual, s) = write_seq (cl_fd c)
            [put32 0, replicate ESD_NAME_MAX 0, put32 0, left, right, put32 0, put32 0] s
      in (actual = 4, s))"
| "info_samples c (m # ms) left right s =
     (let left = swapped c (sm_left_vol m); right = swapped c (sm_right_vol m);
          (actual, s) = write_seq (cl_fd c)
            [swapped c (sm_id m), sm_name m, swapped c (sm_rate m), left, right,
             swapped c (sm_format m), swapped c (sm_length m)] s
      in if actual \<noteq> 4 then (False, s) else info_samples c ms left right s)"

definition esd_proto_all_info :: "'a handler" where
  "esd_proto_all_info client s = do {
     c \<leftarrow> the_client client s;
     let (actual, s) = server_info c s;
     if actual \<noteq> 4 then Some (0, s) else do {
       (ok, left, right, s) \<leftarrow>
         info_players c (esd_players_list s) (map (junk s 0) [0..<4]) (map (junk s 0) [4..<8]) s;
       if \<not> ok then Some (0, s) else do {
         let (ok, s) = info_samples c (esd_samples_list s) left right s;
         Some (if ok then 1 else 0, s) } } }"

subsection \<open>Panning and standby mode\<close>

fun pan_stream :: "int \<Rightarrow> int \<Rightarrow> int \<Rightarrow> esd_player list \<Rightarrow> int \<times> esd_player list" where
  "pan_stream ident left right [] = (0, [])"
| "pan_stream ident left right (p # ps) =
     (if pl_source_id p = ident \<and> pl_format p AND ESD_MASK_MODE = ESD_STREAM
      then (1, p\<lparr>pl_left_vol := left, pl_right_vol := right,
                 pl_mix_func := get_mix_func (pl_format p) left right\<rparr> # ps)
      else let (ok, ps) = pan_stream ident left right ps in (ok, p # ps))"

fun pan_sample :: "int \<Rightarrow> int \<Rightarrow> int \<Rightarrow> esd_sample list \<Rightarrow> int \<times> esd_sample list" where
  "pan_sample ident left right [] = (0, [])"
| "pan_sample ident left right (m # ms) =
     (if sm_id m = ident then (1, m\<lparr>sm_left_vol := left, sm_right_vol := right\<rparr> # ms)
      else let (ok, ms) = pan_sample ident left right ms in (ok, m # ms))"

definition pan_request ::
  "(int \<Rightarrow> int \<Rightarrow> int \<Rightarrow> 'a esd_server_scheme \<Rightarrow> int \<times> 'a esd_server_scheme) \<Rightarrow> 'a handler" where
  "pan_request act client s = do {
     c \<leftarrow> the_client client s;
     client_id \<leftarrow> get32 (proto_data c) 0;
     client_left \<leftarrow> get32 (proto_data c) 4;
     client_right \<leftarrow> get32 (proto_data c) 8;
     let sw = maybe_swap_32 (swap_byte_order c);
     let (ok, s) = act (sw client_id) (sw client_left) (sw client_right) s;
     let (actual, s) = reply_int c (sw ok) s;
     Some (if actual \<noteq> 4 then 0 else 1, s) }"

definition esd_proto_stream_pan :: "'a handler" where
  "esd_proto_stream_pan = pan_request (\<lambda>ident left right s.
     let (ok, ps) = pan_stream ident left right (esd_players_list s) in (ok, s\<lparr>esd_players_list := ps\<rparr>))"

definition esd_proto_sample_pan :: "'a handler" where
  "esd_proto_sample_pan = pan_request (\<lambda>ident left right s.
     let (ok, ms) = pan_sample ident left right (esd_samples_list s) in (ok, s\<lparr>esd_samples_list := ms\<rparr>))"

definition standby_mode :: "'a esd_server_scheme \<Rightarrow> int" where
  "standby_mode s =
     (if esd_on_autostandby s \<and> \<not> esd_forced_standby s then ESM_ON_AUTOSTANDBY
      else if esd_on_standby s then ESM_ON_STANDBY else ESM_RUNNING)"

definition esd_proto_standby_mode :: "'a handler" where
  "esd_proto_standby_mode client s = do {
     c \<leftarrow> the_client client s;
     let (actual, s) = reply_int c (maybe_swap_32 (swap_byte_order c) (standby_mode s)) s;
     Some (if actual \<noteq> 4 then 0 else 1, s) }"

subsection \<open>The table of handlers and the polling round\<close>

definition esd_proto_map :: "(int \<times> 'a handler) list" where
  "esd_proto_map =
    [(20, esd_proto_connect), (20, esd_proto_lock), (20, esd_proto_unlock),
     (136, esd_proto_stream_play), (136, esd_proto_stream_recorder), (136, esd_proto_stream_monitor),
     (140, esd_proto_sample_cache), (4, esd_proto_sample_free), (4, esd_proto_sample_play),
     (4, esd_proto_sample_loop), (4, esd_proto_sample_stop), (-1, esd_proto_unimplemented),
     (20, esd_proto_standby), (20, esd_proto_resume),
     (128, esd_proto_sample_getid), (136, esd_proto_stream_filter),
     (4, esd_proto_server_info), (4, esd_proto_all_info),
     (-1, esd_proto_unimplemented), (-1, esd_proto_unimplemented),
     (12, esd_proto_stream_pan), (12, esd_proto_sample_pan),
     (4, esd_proto_standby_mode), (0, esd_proto_get_latency)]"

definition proto_entry :: "int \<Rightarrow> (int \<times> 'a handler) option" where
  "proto_entry request =
     (if 0 \<le> request \<and> request < ESD_PROTO_MAX then Some (esd_proto_map ! nat request) else None)"

text \<open>\<open>length\<close> lives across the clients of a round; the cases return it with \<open>is_ok\<close>.\<close>

definition poll_needs_reqdata ::
  "addr \<Rightarrow> int \<Rightarrow> 'a esd_server_scheme \<Rightarrow> (int \<times> int \<times> 'a esd_server_scheme) option" where
  "poll_needs_reqdata client len s = do {
     c \<leftarrow> the_client client s;
     (data_length, handler) \<leftarrow> proto_entry (cl_request c);
     if proto_data_length c > data_length then Some (0, len, s)
     else do {
       (len, transient, s) \<leftarrow>
         (if data_length \<noteq> 0 then do {
            let ((n, transient, bs), s) =
                  sys_read (cl_fd c) (nat (data_length - proto_data_length c)) s;
            buf \<leftarrow> (if n > 0 then blit (proto_data c) (proto_data_length c) bs else Some (proto_data c));
            Some (n, transient, set_client client
              (\<lambda>c. c\<lparr>proto_data := buf, proto_data_length := i32 (proto_data_length c + n)\<rparr>) s) }
          else Some (len, True, s));
       if len = 0 \<or> (len < 0 \<and> \<not> transient) then Some (0, len, s)
       else do {
         c \<leftarrow> the_client client s;
         if proto_data_length c = data_length then do {
           (is_ok, s) \<leftarrow> handler client (set_client client (\<lambda>c. c\<lparr>cl_state := ESD_NEXT_REQUEST\<rparr>) s);
           Some (is_ok, len, s) }
         else Some (1, len, s) } } }"

text \<open>The four bytes of \<open>request\<close> are overwritten by as many as the read returned.\<close>

definition poll_next_request ::
  "addr \<Rightarrow> 'a esd_server_scheme \<Rightarrow> (int \<times> int \<times> 'a esd_server_scheme) option" where
  "poll_next_request client s = do {
     c \<leftarrow> the_client client s;
     let ((len, transient, bs), s) = sys_read (cl_fd c) 4 s;
     request \<leftarrow> get32 (bs @ drop (length bs) (put32 (cl_request c))) 0;
     let request = (if swap_byte_order c then swap_endian_32 request else request);
     let s = set_client client (\<lambda>c. c\<lparr>cl_request := request\<rparr>) s;
     if len = 0 \<or> (len < 0 \<and> \<not> transient) then Some (0, len, s)
     else if request > ESD_PROTO_CONNECT \<and> request < ESD_PROTO_MAX then do {
       let s = set_client client (\<lambda>c. c\<lparr>cl_state := ESD_NEEDS_REQDATA, proto_data_length := 0\<rparr>) s;
       (data_length, handler) \<leftarrow> proto_entry request;
       if data_length = 0 then do {
         (is_ok, s) \<leftarrow> handler client (set_client client (\<lambda>c. c\<lparr>cl_state := ESD_NEXT_REQUEST\<rparr>) s);
         Some (is_ok, len, s) }
       else Some (1, len, s) }
     else Some (0, len, s) }"

definition poll_client ::
  "addr \<Rightarrow> int \<Rightarrow> 'a esd_server_scheme \<Rightarrow> (int \<times> 'a esd_server_scheme) option" where
  "poll_client client len s = do {
     c \<leftarrow> the_client client s;
     if cl_state c = ESD_STREAMING_DATA then Some (len, s)
     else if sys_select_rd (cl_fd c) s = 0 then Some (len, s)
     else do {
       (is_ok, len, s) \<leftarrow>
         (case cl_state c of
            ESD_NEEDS_REQDATA \<Rightarrow> poll_needs_reqdata client len s
          | ESD_CACHING_SAMPLE \<Rightarrow> do { (r, s) \<leftarrow> esd_proto_sample_cache client s; Some (r, len, s) }
          | ESD_NEXT_REQUEST \<Rightarrow> poll_next_request client s
          | _ \<Rightarrow> Some (0, len, s));
       _ \<leftarrow> the_client client s;
       Some (len, if is_ok = 0 then erase_client client s else s) } }"

text \<open>The clients are those in the list at the start: a turn unlinks only the one it handled.\<close>

fun poll_loop ::
  "addr list \<Rightarrow> int \<Rightarrow> 'a esd_server_scheme \<Rightarrow> 'a esd_server_scheme option" where
  "poll_loop [] len s = Some s"
| "poll_loop (a # as) len s = do { (len, s) \<leftarrow> poll_client a len s; poll_loop as len s }"

definition poll_client_requests :: "'a esd_server_scheme \<Rightarrow> 'a esd_server_scheme option" where
  "poll_client_requests s = poll_loop (map cl_addr (esd_clients_list s)) 0 s"

end
