(* ===== verification/Esd_Server.thy ===== *)
theory Esd_Server
  imports Esd_Proto
begin

text \<open>
  The daemon's main loop (end of \<open>clients.c\<close>), its exit, and the set-up of the buffers in
  \<open>main\<close> (\<open>esd.c\<close>). One turn of the loop is the function \<open>esd_comm_turn\<close>; what the blocking
  \<open>select\<close> of the turn returns is its argument. The loop is the step relation \<open>comm_step\<close>.
\<close>

subsection \<open>State\<close>

text \<open>
  The rest of the globals of \<open>esd.c\<close>, and the variables \<open>first\<close> and \<open>is_paused_here\<close> of
  the loop. \<open>write_wait\<close> is a static variable that is 0 and never assigned: the branches
  for a non-zero value are dead.
\<close>

record esd_daemon = esd_server +
  listen_socket :: int
  esd_autostandby_secs :: int
  esd_last_activity :: int
  esd_pending_driver_reconnect :: bool
  esd_terminate :: bool
  esd_use_tcpip :: bool
  sock_unlinked :: bool    \<comment> \<open>the unix socket and its directory were removed\<close>
  comm_first :: bool
  is_paused_here :: bool

text \<open>
  The result of \<open>select\<close>: an error, no descriptor ready in time, or some ready, with the
  listening socket among them or not. After \<open>EINTR\<close> the descriptor set is unspecified, so
  the flag is there too.
\<close>

datatype sel_result = SelEintr bool | SelEagain | SelError | SelTimeout | SelReady bool

datatype outcome = Running esd_daemon | Exited int esd_daemon

definition clean_exit :: "esd_daemon \<Rightarrow> outcome" where
  "clean_exit s =
    (let s = esd_audio_close s;
         s = sys_close (listen_socket s) s;
         s = fold (\<lambda>c. sys_close (cl_fd c)) (esd_clients_list s) s
     in Exited 0 (if esd_use_tcpip s then s else s\<lparr>sock_unlinked := True\<rparr>))"

definition reconnect_driver :: "esd_daemon \<Rightarrow> esd_daemon" where
  "reconnect_driver s = s\<lparr>esd_pending_driver_reconnect := True\<rparr>"

subsection \<open>Start-up\<close>

text \<open>
  The formats \<open>main\<close> tries after the default one, in order, and the sizes and buffers it
  sets up from the block size of the device.
\<close>

definition fallback_formats :: "(int \<times> int) list" where
  "fallback_formats =
    [(ESD_BITS8 OR ESD_STEREO, 44100), (ESD_BITS16 OR ESD_STEREO, 48000),
     (ESD_BITS8 OR ESD_STEREO, 22050), (ESD_BITS16, 44100), (ESD_BITS8, 22050),
     (ESD_BITS8 OR ESD_STEREO, 11025), (ESD_BITS8, 11025), (ESD_BITS8, 8192), (ESD_BITS8, 8000)]"

fun try_formats :: "(int \<times> int) list \<Rightarrow> 'a esd_server_scheme \<Rightarrow> bool \<times> 'a esd_server_scheme" where
  "try_formats [] s = (False, s)"
| "try_formats ((format, rate) # fs) s =
     (let (r, s) = esd_audio_open (s\<lparr>esd_audio_format := format, esd_audio_rate := rate\<rparr>)
      in if r < 0 then try_formats fs s else (True, s))"

text \<open>The result is the code \<open>main\<close> exits with, 0 when the device is open.\<close>

definition open_device :: "int \<Rightarrow> int \<Rightarrow> 'a esd_server_scheme \<Rightarrow> int \<times> 'a esd_server_scheme" where
  "open_device default_format default_rate s =
    (let (itmp, s) = esd_audio_open
           (s\<lparr>esd_audio_format := default_format, esd_audio_rate := default_rate\<rparr>)
     in if itmp = -2 then (2, s)
        else if itmp < 0 then
          let (ok, s) = try_formats fallback_formats s in (if ok then 0 else 1, s)
        else (0, s))"

definition setup_buffers :: "'a esd_server_scheme \<Rightarrow> 'a esd_server_scheme option" where
  "setup_buffers s =
    (let sample_size = (if esd_audio_format s AND ESD_MASK_BITS = ESD_BITS16 then 2 else 1);
         s = s\<lparr>esd_buf_size_samples := esound_getblksize s sdiv sample_size,
               esd_buf_size_octets := esound_getblksize s\<rparr>;
         (o1, s) = malloc (esd_buf_size_octets s) s;
         (m1, s) = malloc (4 * esd_buf_size_samples s) s
     in if o1 = 0 \<and> esd_buf_size_octets s \<noteq> 0 then None
        else Some (s\<lparr>output_buffer := replicate (nat (esd_buf_size_octets s)) 0,
                     mixed_buffer := (if m1 = 0 then [] else
                       map (\<lambda>i. le32 (junk s m1 (4 * i)) (junk s m1 (4 * i + 1))
                                      (junk s m1 (4 * i + 2)) (junk s m1 (4 * i + 3)))
                         [0..<nat (esd_buf_size_samples s)])\<rparr>))"

subsection \<open>The main loop\<close>

text \<open>The time-out given to \<open>select\<close>: seconds and microseconds, or none.\<close>

definition comm_timeout :: "esd_daemon \<Rightarrow> ((int \<times> int) option \<times> esd_daemon) option" where
  "comm_timeout s =
    (if esd_recorder_list s \<noteq> [] \<or> esd_playing_samples s \<noteq> 0 then Some (Some (0, 0), s)
     else if is_paused_here s \<and> (esd_autostandby_secs s < 0 \<or> esd_on_standby s) then Some (None, s)
     else if is_paused_here s then
       let (now, s) = sys_time s;
           t = esd_last_activity s + esd_autostandby_secs s + 1 - now
       in Some (Some (if t < 0 \<or> t > esd_autostandby_secs s + 1 then 0 else t, 0), s)
     else if esd_audio_rate s = 0 then None
     else
       let samples = (if esd_audio_format s AND ESD_MASK_CHAN = ESD_STEREO then 2 else 1)
       in Some (Some (0, (samples * 1000 sdiv esd_audio_rate s + 1) * 1000), s))"

definition comm_reconnect :: "esd_daemon \<Rightarrow> esd_daemon" where
  "comm_reconnect s =
    (if esd_pending_driver_reconnect s
     then snd (esd_audio_open (esd_audio_close (s\<lparr>esd_pending_driver_reconnect := False\<rparr>)))
     else s)"

text \<open>Nothing ready: pause the device, and after the configured time go to standby.\<close>

definition comm_pause :: "esd_daemon \<Rightarrow> esd_daemon" where
  "comm_pause s =
    (if \<not> is_paused_here s \<and> esd_playing_samples s = 0 \<and> esd_recorder_list s = [] then
       let s = esd_audio_flush s;
           s = (if comm_first s then s else esd_audio_pause s);
           (now, s) = sys_time s
       in s\<lparr>esd_last_activity := now, is_paused_here := True\<rparr>
     else s)"

definition comm_autostandby :: "esd_daemon \<Rightarrow> esd_daemon" where
  "comm_autostandby s =
    (if is_paused_here s \<and> esd_autostandby_secs s \<ge> 0 then
       let (now, s) = sys_time s
       in if now > esd_last_activity s + esd_autostandby_secs s
          then (snd (esd_server_standby s))\<lparr>esd_on_autostandby := True\<rparr> else s
     else s)"

text \<open>A round of requests, mixing and output.\<close>

definition comm_output :: "int \<Rightarrow> octet list \<Rightarrow> esd_daemon \<Rightarrow> esd_daemon option" where
  "comm_output len output s =
    (if len > 0 then do {
       s \<leftarrow> (if \<not> esd_on_standby s then do {
              (_, s) \<leftarrow> esd_audio_write output len s;
              let (now, s) = sys_time s;
              Some (s\<lparr>esd_last_activity := now\<rparr>) }
            else Some s);
       if esd_monitor_list s \<noteq> [] \<and> \<not> esd_on_standby s then monitor_write output len s else Some s }
     else Some s)"

definition comm_round :: "esd_daemon \<Rightarrow> esd_daemon option" where
  "comm_round s = do {
     s \<leftarrow> poll_client_requests s;
     let s = s\<lparr>comm_first := False\<rparr>;
     let (_, s) = refresh_mix_funcs s;
     (len, output, s) \<leftarrow> mix_players (output_buffer s) (esd_buf_size_octets s) s;
     let s = (if esd_on_autostandby s \<and> len \<noteq> 0 \<and> \<not> esd_forced_standby s
              then snd (esd_server_resume s) else s);
     (len, output, s) \<leftarrow>
       (if esd_filter_list s \<noteq> [] \<and> \<not> esd_on_standby s
        then filter_write output len (esd_audio_format s) (esd_audio_rate s) s
        else Some (len, output, s));
     comm_output len output (s\<lparr>output_buffer := output\<rparr>) }"

definition comm_record :: "esd_daemon \<Rightarrow> esd_daemon option" where
  "comm_record s =
    (if esd_recorder_list s \<noteq> [] \<and> \<not> esd_on_standby s then do {
       let ((len, bs), s) = esd_audio_read (esd_buf_size_octets s) s;
       output \<leftarrow> blit (output_buffer s) 0 bs;
       let s = s\<lparr>output_buffer := output\<rparr>;
       if len \<noteq> 0 then do {
         (_, s) \<leftarrow> recorder_write output len s;
         let (now, s) = sys_time s;
         Some (s\<lparr>esd_last_activity := now\<rparr>) }
       else Some s }
     else Some s)"

definition comm_active :: "bool \<Rightarrow> bool \<Rightarrow> esd_daemon \<Rightarrow> esd_daemon option" where
  "comm_active ready listening s = do {
     let s = s\<lparr>is_paused_here := False\<rparr>;
     let s = (if listening then snd (get_new_clients s) else s);
     s \<leftarrow> (if ready \<or> esd_playing_samples s \<noteq> 0 then comm_round s else Some s);
     comm_record s }"

definition esd_comm_turn :: "sel_result \<Rightarrow> esd_daemon \<Rightarrow> outcome option" where
  "esd_comm_turn sel s = do {
     let s = comm_reconnect s;
     if esd_clients_list s = [] \<and> \<not> comm_first s \<and> esd_terminate s
        \<and> (esd_autostandby_secs s < 0 \<or> esd_on_autostandby s)
     then Some (clean_exit s)
     else do {
       (timeout, s) \<leftarrow> comm_timeout s;
       case sel of
         SelEintr listening \<Rightarrow>
           if timeout = None then map_option Running (comm_active True listening s)
           else Some (Running s)
       | SelEagain \<Rightarrow> Some (Running s)
       | SelError \<Rightarrow> Some (Exited 1 s)
       | SelTimeout \<Rightarrow>
           let s = comm_autostandby (comm_pause s)
           in if esd_recorder_list s = [] \<and> is_paused_here s then Some (Running s)
              else map_option Running (comm_active False False s)
       | SelReady listening \<Rightarrow> map_option Running (comm_active True listening s) } }"

text \<open>
  The loop: one turn after the other, with the signal handler and the world (bytes and
  connections that arrive, devices that come and go) acting between turns.
\<close>

inductive comm_step :: "esd_daemon \<Rightarrow> esd_daemon \<Rightarrow> bool" where
  turn: "esd_comm_turn sel s = Some (Running s') \<Longrightarrow> comm_step s s'"
| sigusr1: "comm_step s (reconnect_driver s)"
| world: "comm_step s (s\<lparr>rx := r, wres := w, sel_err := e, wrdy := d, mallocs := m, junk := j,
      clock := c, accepts := a, dev_open := p, dev_ioctl := i, dev_select := l\<rparr>)"

inductive_cases comm_step_cases: "comm_step s s'"

end
