(* ===== verification/Esd_Ownership.thy ===== *)
theory Esd_Ownership
  imports Esd_Server
begin

text \<open>
  The ownership invariant of the server: who points to whom. A stream player, recorder,
  monitor or filter points to a connected client that is streaming, and no two of them
  share a client; a player of a sample points to a cached sample, and the sample counts
  its players. The invariant is a property of a small view of the state, so an operation
  that leaves the view alone keeps it for free.
\<close>

subsection \<open>The view\<close>

definition cview :: "esd_client \<Rightarrow> addr \<times> bool" where
  "cview c = (cl_addr c, cl_state c = ESD_STREAMING_DATA)"

definition pview :: "esd_player \<Rightarrow> addr \<times> int \<times> addr" where
  "pview p = (pl_addr p, pl_format p AND ESD_MASK_MODE, pl_parent p)"

definition sview :: "esd_sample \<Rightarrow> addr \<times> int" where
  "sview m = (sm_addr m, sm_ref_count m)"

record view =
  vC :: "(addr \<times> bool) list"
  vP :: "(addr \<times> int \<times> addr) list"
  vR :: "(addr \<times> int \<times> addr) list"
  vM :: "(addr \<times> int \<times> addr) list"
  vF :: "(addr \<times> int \<times> addr) list"
  vS :: "(addr \<times> int) list"
  vN :: int
  vK :: addr

definition view :: "'a esd_server_scheme \<Rightarrow> view" where
  "view s = \<lparr>vC = map cview (esd_clients_list s), vP = map pview (esd_players_list s),
     vR = map pview (esd_recorder_list s), vM = map pview (esd_monitor_list s),
     vF = map pview (esd_filter_list s), vS = map sview (esd_samples_list s),
     vN = esd_playing_samples s, vK = next_addr s\<rparr>"

definition is_smp :: "addr \<times> int \<times> addr \<Rightarrow> bool" where
  "is_smp p \<longleftrightarrow> fst (snd p) = ESD_SAMPLE"

definition is_str :: "addr \<times> int \<times> addr \<Rightarrow> bool" where
  "is_str p \<longleftrightarrow> fst (snd p) = ESD_STREAM"

abbreviation par :: "addr \<times> int \<times> addr \<Rightarrow> addr" where
  "par p \<equiv> snd (snd p)"

text \<open>How many players of the list play the sample at \<open>a\<close>; the clients that are spoken for.\<close>

definition refs :: "addr \<Rightarrow> (addr \<times> int \<times> addr) list \<Rightarrow> nat" where
  "refs a P = length (filter (\<lambda>p. is_smp p \<and> par p = a) P)"

definition owners :: "view \<Rightarrow> addr list" where
  "owners v = map par (filter is_str (vP v) @ vR v @ vM v @ vF v)"

definition addrs_ok :: "addr \<Rightarrow> addr list \<Rightarrow> bool" where
  "addrs_ok k as \<longleftrightarrow> distinct as \<and> (\<forall>a \<in> set as. 0 < a \<and> a < k)"

definition addresses_ok :: "view \<Rightarrow> bool" where
  "addresses_ok v \<longleftrightarrow> addrs_ok (vK v) (map fst (vC v)) \<and> addrs_ok (vK v) (map fst (vP v))
     \<and> addrs_ok (vK v) (map fst (vR v)) \<and> addrs_ok (vK v) (map fst (vM v))
     \<and> addrs_ok (vK v) (map fst (vF v)) \<and> addrs_ok (vK v) (map fst (vS v)) \<and> 0 < vK v"

definition modes_ok :: "view \<Rightarrow> bool" where
  "modes_ok v \<longleftrightarrow> (\<forall>p \<in> set (vP v). is_smp p \<or> is_str p) \<and> (\<forall>p \<in> set (vR v @ vM v @ vF v). is_str p)"

definition samples_ok :: "view \<Rightarrow> bool" where
  "samples_ok v \<longleftrightarrow> vN v = int (length (filter is_smp (vP v)))
     \<and> (\<forall>p \<in> set (vP v). is_smp p \<longrightarrow> par p \<in> fst ` set (vS v))
     \<and> (\<forall>m \<in> set (vS v). snd m = int (refs (fst m) (vP v)))"

definition owners_ok :: "view \<Rightarrow> bool" where
  "owners_ok v \<longleftrightarrow> distinct (owners v) \<and> (\<forall>a \<in> set (owners v). (a, True) \<in> set (vC v))"

definition view_ok :: "view \<Rightarrow> bool" where
  "view_ok v \<longleftrightarrow> addresses_ok v \<and> modes_ok v \<and> samples_ok v \<and> owners_ok v"

definition srv_inv :: "'a esd_server_scheme \<Rightarrow> bool" where
  "srv_inv s \<longleftrightarrow> view_ok (view s)"

lemmas view_ok_defs = view_ok_def addresses_ok_def modes_ok_def samples_ok_def owners_ok_def

lemma srv_inv_view: "view s' = view s \<Longrightarrow> srv_inv s \<Longrightarrow> srv_inv s'"
  by (simp add: srv_inv_def)

subsection \<open>Changes of a view that keep it in order\<close>

lemma addrs_ok_mono: "addrs_ok k as \<Longrightarrow> k \<le> k' \<Longrightarrow> addrs_ok k' as"
  by (auto simp: addrs_ok_def)

lemma view_ok_alloc: "view_ok v \<Longrightarrow> vK v \<le> k \<Longrightarrow> view_ok (v\<lparr>vK := k\<rparr>)"
  by (auto simp: view_ok_defs owners_def intro: addrs_ok_mono)

lemma addrs_ok_cons: "addrs_ok k as \<Longrightarrow> 0 < k \<Longrightarrow> addrs_ok (Suc k) (k # as)"
  by (auto simp: addrs_ok_def)

text \<open>A new connection.\<close>

lemma view_ok_new_client:
  assumes "view_ok v"
  shows "view_ok (v\<lparr>vC := (vK v, False) # vC v, vK := Suc (vK v)\<rparr>)"
  using assms addrs_ok_cons [of "vK v" "map fst (vC v)"]
  by (auto simp: view_ok_defs owners_def intro: addrs_ok_mono)

text \<open>Removing a client that owns nothing, and removing an owner together with its client.\<close>

lemma addrs_ok_filter: "addrs_ok k (map fst xs) \<Longrightarrow> addrs_ok k (map fst (filter f xs))"
  by (auto simp: addrs_ok_def distinct_map_filter)

lemma view_ok_drop_client:
  assumes "view_ok v" "a \<notin> set (owners v)"
  shows "view_ok (v\<lparr>vC := filter (\<lambda>c. fst c \<noteq> a) (vC v)\<rparr>)"
  using assms by (auto simp: view_ok_defs owners_def addrs_ok_filter)

lemma split_at_addr:
  assumes "distinct (map fst P)" "p \<in> set P"
  obtains xs ys where "P = xs @ p # ys" "filter (\<lambda>q. fst q \<noteq> fst p) P = xs @ ys"
proof -
  from split_list [OF assms(2)] obtain xs ys where P: "P = xs @ p # ys" by auto
  have "filter (\<lambda>q. fst q \<noteq> fst p) xs = xs" "filter (\<lambda>q. fst q \<noteq> fst p) ys = ys"
    using assms(1) P by (auto simp: filter_id_conv rev_image_eqI)
  with P that show thesis by simp
qed

lemma refs_app: "refs a (xs @ ys) = refs a xs + refs a ys"
  by (simp add: refs_def)

lemma refs_cons: "refs a (p # xs) = (if is_smp p \<and> par p = a then 1 else 0) + refs a xs"
  by (simp add: refs_def)

lemma not_smp_str: "is_str p \<Longrightarrow> \<not> is_smp p"
  by (auto simp: is_str_def is_smp_def)

text \<open>Erasing a stream player together with its client.\<close>

lemma view_ok_cut_stream_player:
  assumes "view_ok v" "vP v = xs @ p # ys" "is_str p"
  shows "view_ok (v\<lparr>vP := xs @ ys, vC := filter (\<lambda>c. fst c \<noteq> par p) (vC v)\<rparr>)"
proof -
  let ?v = "v\<lparr>vP := xs @ ys, vC := filter (\<lambda>c. fst c \<noteq> par p) (vC v)\<rparr>"
  have "addresses_ok ?v"
    using assms(1) by (auto simp: view_ok_def addresses_ok_def addrs_ok_filter assms(2)) (auto simp: addrs_ok_def)
  moreover have "modes_ok ?v" using assms(1) by (auto simp: view_ok_def modes_ok_def assms(2))
  moreover have "samples_ok ?v"
    using assms(1) not_smp_str [OF assms(3)]
    by (auto simp: view_ok_def samples_ok_def assms(2) refs_app refs_cons)
  moreover have "owners_ok ?v"
    using assms(1,3) by (auto simp: view_ok_def owners_ok_def owners_def assms(2))
  ultimately show ?thesis by (simp add: view_ok_def)
qed

lemma view_ok_drop_stream_player:
  assumes "view_ok v" "p \<in> set (vP v)" "is_str p"
  shows "view_ok (v\<lparr>vP := filter (\<lambda>q. fst q \<noteq> fst p) (vP v), vC := filter (\<lambda>c. fst c \<noteq> par p) (vC v)\<rparr>)"
proof -
  have d: "distinct (map fst (vP v))" using assms(1) by (simp add: view_ok_defs addrs_ok_def)
  from split_at_addr [OF d assms(2)] obtain xs ys where
    P: "vP v = xs @ p # ys" "filter (\<lambda>q. fst q \<noteq> fst p) (vP v) = xs @ ys" .
  show ?thesis unfolding P(2) by (rule view_ok_cut_stream_player [OF assms(1) P(1) assms(3)])
qed

text \<open>Erasing a recorder, a monitor or a filter together with its client.\<close>

lemma owners_ok_drop:
  assumes "distinct (map fst R)" "p \<in> set R" "distinct (as @ map par R @ bs)"
    "\<forall>a \<in> set (as @ map par R @ bs). (a, True) \<in> set C"
  shows "distinct (as @ map par (filter (\<lambda>q. fst q \<noteq> fst p) R) @ bs)
    \<and> (\<forall>a \<in> set (as @ map par (filter (\<lambda>q. fst q \<noteq> fst p) R) @ bs).
         (a, True) \<in> set (filter (\<lambda>c. fst c \<noteq> par p) C))"
proof -
  from split_at_addr [OF assms(1,2)] obtain xs ys where
    R: "R = xs @ p # ys" "filter (\<lambda>q. fst q \<noteq> fst p) R = xs @ ys" .
  show ?thesis unfolding R(2) using assms(3,4) by (auto simp: R(1))
qed

lemma view_ok_drop_recorder:
  assumes "view_ok v" "p \<in> set (vR v)"
  shows "view_ok (v\<lparr>vR := filter (\<lambda>q. fst q \<noteq> fst p) (vR v), vC := filter (\<lambda>c. fst c \<noteq> par p) (vC v)\<rparr>)"
proof -
  have "distinct (map fst (vR v))" using assms(1) by (simp add: view_ok_defs addrs_ok_def)
  from owners_ok_drop [OF this assms(2), of "map par (filter is_str (vP v))" "map par (vM v @ vF v)" "vC v"] assms(1)
  show ?thesis
    by (auto simp: view_ok_def owners_ok_def owners_def addresses_ok_def addrs_ok_filter
        modes_ok_def samples_ok_def)
qed

lemma view_ok_drop_monitor:
  assumes "view_ok v" "p \<in> set (vM v)"
  shows "view_ok (v\<lparr>vM := filter (\<lambda>q. fst q \<noteq> fst p) (vM v), vC := filter (\<lambda>c. fst c \<noteq> par p) (vC v)\<rparr>)"
proof -
  have "distinct (map fst (vM v))" using assms(1) by (simp add: view_ok_defs addrs_ok_def)
  from owners_ok_drop [OF this assms(2), of "map par (filter is_str (vP v) @ vR v)" "map par (vF v)" "vC v"] assms(1)
  show ?thesis
    by (auto simp: view_ok_def owners_ok_def owners_def addresses_ok_def addrs_ok_filter
        modes_ok_def samples_ok_def)
qed

lemma view_ok_drop_filter:
  assumes "view_ok v" "p \<in> set (vF v)"
  shows "view_ok (v\<lparr>vF := filter (\<lambda>q. fst q \<noteq> fst p) (vF v), vC := filter (\<lambda>c. fst c \<noteq> par p) (vC v)\<rparr>)"
proof -
  have "distinct (map fst (vF v))" using assms(1) by (simp add: view_ok_defs addrs_ok_def)
  from owners_ok_drop [OF this assms(2), of "map par (filter is_str (vP v) @ vR v @ vM v)" "[]" "vC v"] assms(1)
  show ?thesis
    by (auto simp: view_ok_def owners_ok_def owners_def addresses_ok_def addrs_ok_filter
        modes_ok_def samples_ok_def)
qed

text \<open>Erasing a player of a sample: its count goes down.\<close>

definition bump :: "addr \<Rightarrow> int \<Rightarrow> (addr \<times> int) list \<Rightarrow> (addr \<times> int) list" where
  "bump b d S = map (\<lambda>m. if fst m = b then (fst m, snd m + d) else m) S"

lemma map_fst_bump [simp]: "map fst (bump b d S) = map fst S"
  by (auto simp: bump_def)

lemma fst_set_bump [simp]: "fst ` set (bump b d S) = fst ` set S"
  by (metis list.set_map map_fst_bump)

lemma set_bump: "m \<in> set (bump b d S) \<Longrightarrow>
    \<exists>n \<in> set S. fst m = fst n \<and> snd m = snd n + (if fst n = b then d else 0)"
proof -
  assume "m \<in> set (bump b d S)"
  then obtain n where "n \<in> set S" "m = (if fst n = b then (fst n, snd n + d) else n)"
    unfolding bump_def set_map by blast
  then show ?thesis by (intro bexI [of _ n]) auto
qed

lemma view_ok_cut_sample_player:
  assumes "view_ok v" "vP v = xs @ p # ys" "is_smp p"
  shows "view_ok (v\<lparr>vP := xs @ ys, vN := vN v - 1, vS := bump (par p) (-1) (vS v)\<rparr>)"
proof -
  let ?v = "v\<lparr>vP := xs @ ys, vN := vN v - 1, vS := bump (par p) (-1) (vS v)\<rparr>"
  have ns: "\<not> is_str p" using assms(3) not_smp_str by blast
  have "addresses_ok ?v"
    using assms(1) by (auto simp: view_ok_def addresses_ok_def assms(2)) (auto simp: addrs_ok_def)
  moreover have "modes_ok ?v" using assms(1) by (auto simp: view_ok_def modes_ok_def assms(2))
  moreover have "samples_ok ?v"
    using assms(1,3)
    by (auto simp: view_ok_def samples_ok_def assms(2) refs_app refs_cons dest!: set_bump)
  moreover have "owners_ok ?v"
    using assms(1) ns by (auto simp: view_ok_def owners_ok_def owners_def assms(2))
  ultimately show ?thesis by (simp add: view_ok_def)
qed

lemma view_ok_drop_sample_player:
  assumes "view_ok v" "p \<in> set (vP v)" "is_smp p"
  shows "view_ok (v\<lparr>vP := filter (\<lambda>q. fst q \<noteq> fst p) (vP v), vN := vN v - 1,
     vS := bump (par p) (-1) (vS v)\<rparr>)"
proof -
  have d: "distinct (map fst (vP v))" using assms(1) by (simp add: view_ok_defs addrs_ok_def)
  from split_at_addr [OF d assms(2)] obtain xs ys where
    P: "vP v = xs @ p # ys" "filter (\<lambda>q. fst q \<noteq> fst p) (vP v) = xs @ ys" .
  show ?thesis unfolding P(2) by (rule view_ok_cut_sample_player [OF assms(1) P(1) assms(3)])
qed

text \<open>Dropping samples nobody plays, caching a new one, playing one.\<close>

lemma refs_zero: "samples_ok v \<Longrightarrow> (a, 0) \<in> set (vS v) \<Longrightarrow> p \<in> set (vP v) \<Longrightarrow> is_smp p \<Longrightarrow> par p \<noteq> a"
  by (fastforce simp: samples_ok_def refs_def filter_empty_conv)

lemma view_ok_drop_sample:
  assumes "view_ok v" "vS v = xs @ (a, 0) # ys"
  shows "view_ok (v\<lparr>vS := xs @ ys\<rparr>)"
proof -
  have z: "\<And>p. p \<in> set (vP v) \<Longrightarrow> is_smp p \<Longrightarrow> par p \<noteq> a"
    using refs_zero [of v a] assms by (auto simp: view_ok_def)
  have "addresses_ok (v\<lparr>vS := xs @ ys\<rparr>)"
    using assms(1) by (auto simp: view_ok_def addresses_ok_def assms(2)) (auto simp: addrs_ok_def)
  moreover have "samples_ok (v\<lparr>vS := xs @ ys\<rparr>)"
    using assms(1) z by (auto simp: view_ok_def samples_ok_def assms(2) image_Un)
  ultimately show ?thesis using assms(1)
    by (simp add: view_ok_def modes_ok_def owners_ok_def owners_def)
qed

lemma addrs_ok_push: "addrs_ok k as \<Longrightarrow> a = k \<Longrightarrow> 0 < k \<Longrightarrow> a < k' \<Longrightarrow> addrs_ok k' (a # as)"
  by (fastforce simp: addrs_ok_def)

lemma view_ok_new_sample:
  assumes "view_ok v" "a = vK v" "a < k"
  shows "view_ok (v\<lparr>vS := (a, 0) # vS v, vK := k\<rparr>)"
proof -
  have a: "a \<notin> fst ` set (vS v)" using assms by (auto simp: view_ok_defs addrs_ok_def)
  have r: "refs a (vP v) = 0"
    using assms(1) a by (fastforce simp: view_ok_def samples_ok_def refs_def filter_empty_conv)
  have "addresses_ok (v\<lparr>vS := (a, 0) # vS v, vK := k\<rparr>)"
    using assms addrs_ok_mono [of "vK v" _ k] addrs_ok_push [of "vK v" "map fst (vS v)" a k]
    by (simp add: view_ok_def addresses_ok_def)
  moreover have "samples_ok (v\<lparr>vS := (a, 0) # vS v, vK := k\<rparr>)"
    using assms(1) r by (auto simp: view_ok_def samples_ok_def)
  ultimately show ?thesis using assms(1)
    by (simp add: view_ok_def modes_ok_def owners_ok_def owners_def)
qed

lemma view_ok_new_sample_player:
  assumes "view_ok v" "a = vK v" "a < k" "b \<in> fst ` set (vS v)"
  shows "view_ok (v\<lparr>vP := (a, ESD_SAMPLE, b) # vP v, vN := vN v + 1, vK := k, vS := bump b 1 (vS v)\<rparr>)"
proof -
  let ?v = "v\<lparr>vP := (a, ESD_SAMPLE, b) # vP v, vN := vN v + 1, vK := k, vS := bump b 1 (vS v)\<rparr>"
  have "addresses_ok ?v"
    using assms(1-3) addrs_ok_mono [of "vK v" _ k] addrs_ok_push [of "vK v" "map fst (vP v)" a k]
    by (simp add: view_ok_def addresses_ok_def)
  moreover have "modes_ok ?v" using assms(1) by (auto simp: view_ok_def modes_ok_def is_smp_def)
  moreover have "samples_ok ?v"
    using assms(1,4) by (auto simp: view_ok_def samples_ok_def refs_cons is_smp_def dest!: set_bump)
  moreover have "owners_ok ?v"
    using assms(1) by (auto simp: view_ok_def owners_ok_def owners_def is_str_def)
  ultimately show ?thesis by (simp add: view_ok_def)
qed

text \<open>A client starts to stream: it owns nothing yet, and from now on exactly one object.\<close>

definition mark :: "addr \<Rightarrow> bool \<Rightarrow> (addr \<times> bool) list \<Rightarrow> (addr \<times> bool) list" where
  "mark c b C = map (\<lambda>x. if fst x = c then (c, b) else x) C"

lemma map_fst_mark [simp]: "map fst (mark c b C) = map fst C"
  by (auto simp: mark_def)

lemma mark_id: "distinct (map fst C) \<Longrightarrow> (c, b) \<in> set C \<Longrightarrow> mark c b C = C"
  unfolding mark_def by (rule map_idI) (auto dest: eq_key_imp_eq_value)

lemma idle_not_owner: "view_ok v \<Longrightarrow> (c, False) \<in> set (vC v) \<Longrightarrow> c \<notin> set (owners v)"
  by (metis addresses_ok_def addrs_ok_def eq_key_imp_eq_value owners_ok_def view_ok_def)

lemma mark_true: "(a, True) \<in> set C \<Longrightarrow> (a, True) \<in> set (mark c True C)"
  by (force simp: mark_def)

lemma mark_self: "(c, b) \<in> set C \<Longrightarrow> (c, b') \<in> set (mark c b' C)"
  by (force simp: mark_def)

lemma new_owner_ok:
  assumes "distinct (as @ bs)" "\<forall>a \<in> set (as @ bs). (a, True) \<in> set C" "c \<notin> set (as @ bs)" "(c, b) \<in> set C"
  shows "distinct (as @ c # bs)" "\<forall>a \<in> set (as @ c # bs). (a, True) \<in> set (mark c True C)"
  using assms mark_true [of _ C c] mark_self [of c b C True] by auto

lemma view_ok_new_player:
  assumes "view_ok v" "a = vK v" "a < k" "(c, False) \<in> set (vC v)"
  shows "view_ok (v\<lparr>vK := k, vP := (a, ESD_STREAM, c) # vP v, vC := mark c True (vC v)\<rparr>)"
proof -
  let ?v = "v\<lparr>vK := k, vP := (a, ESD_STREAM, c) # vP v, vC := mark c True (vC v)\<rparr>"
  have s: "is_str (a, ESD_STREAM, c)" "\<not> is_smp (a, ESD_STREAM, c)" by (simp_all add: is_str_def is_smp_def)
  have "addresses_ok ?v"
    using assms(1-3) addrs_ok_mono [of "vK v" _ k] addrs_ok_push [of "vK v" "map fst (vP v)" a k]
    by (simp add: view_ok_def addresses_ok_def)
  moreover have "modes_ok ?v" "samples_ok ?v"
    using assms(1) s by (auto simp: view_ok_def modes_ok_def samples_ok_def refs_cons)
  moreover have "owners_ok ?v"
    using new_owner_ok [of "[]" "owners v" "vC v" c False] idle_not_owner [OF assms(1,4)] assms(1,4) s
    by (simp add: view_ok_def owners_ok_def owners_def)
  ultimately show ?thesis by (simp add: view_ok_def)
qed

lemma view_ok_new_recorder:
  assumes "view_ok v" "a = vK v" "a < k" "(c, False) \<in> set (vC v)"
  shows "view_ok (v\<lparr>vK := k, vR := (a, ESD_STREAM, c) # vR v, vC := mark c True (vC v)\<rparr>)"
proof -
  let ?v = "v\<lparr>vK := k, vR := (a, ESD_STREAM, c) # vR v, vC := mark c True (vC v)\<rparr>"
  have "addresses_ok ?v"
    using assms(1-3) addrs_ok_mono [of "vK v" _ k] addrs_ok_push [of "vK v" "map fst (vR v)" a k]
    by (simp add: view_ok_def addresses_ok_def)
  moreover have "modes_ok ?v" "samples_ok ?v"
    using assms(1) by (auto simp: view_ok_def modes_ok_def samples_ok_def is_str_def)
  moreover have "owners_ok ?v"
    using new_owner_ok [of "map par (filter is_str (vP v))" "map par (vR v @ vM v @ vF v)" "vC v" c False]
      idle_not_owner [OF assms(1,4)] assms(1,4)
    by (simp add: view_ok_def owners_ok_def owners_def)
  ultimately show ?thesis by (simp add: view_ok_def)
qed

lemma view_ok_new_monitor:
  assumes "view_ok v" "a = vK v" "a < k" "(c, False) \<in> set (vC v)"
  shows "view_ok (v\<lparr>vK := k, vM := (a, ESD_STREAM, c) # vM v, vC := mark c True (vC v)\<rparr>)"
proof -
  let ?v = "v\<lparr>vK := k, vM := (a, ESD_STREAM, c) # vM v, vC := mark c True (vC v)\<rparr>"
  have "addresses_ok ?v"
    using assms(1-3) addrs_ok_mono [of "vK v" _ k] addrs_ok_push [of "vK v" "map fst (vM v)" a k]
    by (simp add: view_ok_def addresses_ok_def)
  moreover have "modes_ok ?v" "samples_ok ?v"
    using assms(1) by (auto simp: view_ok_def modes_ok_def samples_ok_def is_str_def)
  moreover have "owners_ok ?v"
    using new_owner_ok [of "map par (filter is_str (vP v) @ vR v)" "map par (vM v @ vF v)" "vC v" c False]
      idle_not_owner [OF assms(1,4)] assms(1,4)
    by (simp add: view_ok_def owners_ok_def owners_def)
  ultimately show ?thesis by (simp add: view_ok_def)
qed

lemma view_ok_new_filter:
  assumes "view_ok v" "a = vK v" "a < k" "(c, False) \<in> set (vC v)"
  shows "view_ok (v\<lparr>vK := k, vF := (a, ESD_STREAM, c) # vF v, vC := mark c True (vC v)\<rparr>)"
proof -
  let ?v = "v\<lparr>vK := k, vF := (a, ESD_STREAM, c) # vF v, vC := mark c True (vC v)\<rparr>"
  have "addresses_ok ?v"
    using assms(1-3) addrs_ok_mono [of "vK v" _ k] addrs_ok_push [of "vK v" "map fst (vF v)" a k]
    by (simp add: view_ok_def addresses_ok_def)
  moreover have "modes_ok ?v" "samples_ok ?v"
    using assms(1) by (auto simp: view_ok_def modes_ok_def samples_ok_def is_str_def)
  moreover have "owners_ok ?v"
    using new_owner_ok [of "map par (filter is_str (vP v) @ vR v @ vM v)" "map par (vF v)" "vC v" c False]
      idle_not_owner [OF assms(1,4)] assms(1,4)
    by (simp add: view_ok_def owners_ok_def owners_def)
  ultimately show ?thesis by (simp add: view_ok_def)
qed

end
