(* ===== verification/Esd_Audio_Frame.thy ===== *)
theory Esd_Audio_Frame
  imports Esd_Audio
begin

text \<open>
  What the operations on the audio device leave alone. An observation of the state that does
  not look at the device and at what was written and closed is the same after every operation of
  \<open>audio.c\<close>; the theories about the server interpret this for the parts they reason about.
\<close>

locale audio_frame =
  fixes obs :: "'a audio_scheme \<Rightarrow> 'b"
  assumes obs_os: "obs (s\<lparr>rx := a\<rparr>) = obs s" "obs (s\<lparr>wres := b\<rparr>) = obs s" "obs (s\<lparr>tx := c\<rparr>) = obs s"
      "obs (s\<lparr>closed := d\<rparr>) = obs s"
    and obs_dev: "obs (s\<lparr>esd_audio_fd := e\<rparr>) = obs s" "obs (s\<lparr>select_works := f\<rparr>) = obs s"
      "obs (s\<lparr>esd_write_size := g\<rparr>) = obs s" "obs (s\<lparr>dev_open := h\<rparr>) = obs s"
      "obs (s\<lparr>dev_ioctl := i\<rparr>) = obs s" "obs (s\<lparr>dev_select := j\<rparr>) = obs s"
begin

lemma obs_sys: "obs (snd (sys_read fd n s)) = obs s" "obs (snd (sys_write fd bs s)) = obs s" "obs (sys_close fd s) = obs s"
    "obs (snd (sys_ioctl v s)) = obs s" "obs (snd (sys_open_dev s)) = obs s" "obs (snd (sys_select_dev s)) = obs s"
  by (auto simp: sys_read_def sys_write_def sys_close_def sys_ioctl_def sys_open_dev_def sys_select_dev_def
      obs_os obs_dev split: list.splits rdres.splits wrres.splits)

lemma obs_oss: "obs (snd (oss_fail fd s)) = obs s" "obs (snd (oss_blksize fd t s)) = obs s"
    "obs (snd (oss_speed fd s)) = obs s" "obs (snd (oss_channels fd s)) = obs s" "obs (snd (oss_format fd s)) = obs s"
  unfolding oss_format_def oss_channels_def oss_speed_def oss_blksize_def oss_fail_def
  by (simp_all add: Let_def case_prod_beta obs_os obs_dev obs_sys)

lemma obs_device: "obs (snd (esd_audio_open s)) = obs s" "obs (esd_audio_close s) = obs s"
    "obs (snd (esd_audio_read n s)) = obs s" "obs (esd_audio_pause s) = obs s" "obs (esd_audio_flush s) = obs s"
  unfolding esd_audio_open_def esd_audio_close_def esd_audio_read_def esd_audio_pause_def esd_audio_flush_def
  by (simp_all add: Let_def case_prod_beta obs_os obs_dev obs_sys obs_oss)

lemma obs_audio_write_loop:
  assumes "audio_write_loop buf n pos ws s = Some rs"
  shows "obs (snd rs) = obs s"
proof (rule audio_write_loop.raw_induct [OF _ assms, where P = "\<lambda>buf n pos ws s rs. obs (snd rs) = obs s"],
    goal_cases)
  case (1 awl buf n pos ws s rs)
  note IH = 1(1)
  obtain ret s1 where sel: "(if select_works s then sys_select_dev s else (1, s)) = (ret, s1)" by fastforce
  have v1: "obs s1 = obs s" using sel obs_sys(6) [of s] by (auto split: if_splits)
  define w where "w = (if n - pos < ws then n - pos else ws)"
  obtain nw tr s2 where wr: "sys_write (esd_audio_fd s1) (take (nat w) (drop (nat pos) buf)) s1 = ((nw, tr), s2)"
    by (metis surj_pair)
  have v2: "obs s2 = obs s"
    using obs_sys(2) [of "esd_audio_fd s1" "take (nat w) (drop (nat pos) buf)" s1] v1 by (simp add: wr)
  have "(if n - pos > 0 then if ret = 0 then awl buf n pos w s1
      else if ret < 0 then Some (if pos > 0 then pos else -1, s1)
      else if nw = -1 then if tr then awl buf n pos w s2 else Some (if pos > 0 then pos else -1, s2)
      else awl buf n (pos + nw) w s2 else Some (pos, s)) = Some rs"
    using 1(2) by (simp only: Let_def w_def [symmetric] sel wr prod.case)
  then show ?case
    using v1 v2 IH [of buf n pos w s1 rs] IH [of buf n pos w s2 rs] IH [of buf n "pos + nw" w s2 rs]
    by (cases "n - pos > 0"; cases "ret = 0"; cases "ret < 0"; cases "nw = -1"; cases tr) auto
qed

lemma obs_audio_write: "esd_audio_write buf n s = Some (r, s') \<Longrightarrow> obs s' = obs s"
  by (auto simp: esd_audio_write_def split: if_splits dest!: obs_audio_write_loop)

lemma obs_audio_open: "esd_audio_open s = (r, s') \<Longrightarrow> obs s' = obs s"
  using obs_device(1) [of s] by simp

end

end
