(* ===== verification/Esd_Ownership_Ops.thy ===== *)
theory Esd_Ownership_Ops
  imports Esd_Ownership Esd_Audio_Frame
begin

text \<open>
  The ownership invariant under the operations on clients, samples and players, the mixing round,
  the filter chain and the arrival of clients: what each does to the view, and that it preserves
  the invariant.
\<close>

subsection \<open>The view of each operation\<close>

named_theorems vsimps "what an operation does to the view"

lemma view_sel [simp]:
  "vC (view s) = map cview (esd_clients_list s)" "vP (view s) = map pview (esd_players_list s)"
  "vR (view s) = map pview (esd_recorder_list s)" "vM (view s) = map pview (esd_monitor_list s)"
  "vF (view s) = map pview (esd_filter_list s)" "vS (view s) = map sview (esd_samples_list s)"
  "vN (view s) = esd_playing_samples s" "vK (view s) = next_addr s"
  by (simp_all add: view_def)

lemma view_os [vsimps]:
  "view (s\<lparr>rx := a\<rparr>) = view s" "view (s\<lparr>wres := b\<rparr>) = view s" "view (s\<lparr>tx := c\<rparr>) = view s"
  "view (s\<lparr>closed := d\<rparr>) = view s" "view (s\<lparr>mallocs := e\<rparr>) = view s" "view (s\<lparr>clock := f\<rparr>) = view s"
  "view (s\<lparr>accepts := g\<rparr>) = view s" "view (s\<lparr>sel_err := h\<rparr>) = view s" "view (s\<lparr>wrdy := i\<rparr>) = view s"
  "view (s\<lparr>junk := j\<rparr>) = view s"
  by (simp_all add: view_def)

lemma view_audio [vsimps]:
  "view (s\<lparr>esd_audio_format := a\<rparr>) = view s" "view (s\<lparr>esd_audio_rate := b\<rparr>) = view s"
  "view (s\<lparr>esd_audio_fd := b\<rparr>) = view s" "view (s\<lparr>select_works := c\<rparr>) = view s"
  "view (s\<lparr>esd_write_size := b\<rparr>) = view s" "view (s\<lparr>dev_open := d\<rparr>) = view s"
  "view (s\<lparr>dev_ioctl := e\<rparr>) = view s" "view (s\<lparr>dev_select := d\<rparr>) = view s"
  by (simp_all add: view_def)

lemma view_server [vsimps]:
  "view (s\<lparr>esd_next_sample_id := a\<rparr>) = view s" "view (s\<lparr>esd_is_owned := b\<rparr>) = view s"
  "view (s\<lparr>esd_is_locked := b\<rparr>) = view s" "view (s\<lparr>esd_owner_key := c\<rparr>) = view s"
  "view (s\<lparr>esd_on_standby := b\<rparr>) = view s" "view (s\<lparr>esd_on_autostandby := b\<rparr>) = view s"
  "view (s\<lparr>esd_forced_standby := b\<rparr>) = view s" "view (s\<lparr>esd_buf_size_octets := a\<rparr>) = view s"
  "view (s\<lparr>esd_buf_size_samples := a\<rparr>) = view s" "view (s\<lparr>mixed_buffer := d\<rparr>) = view s"
  "view (s\<lparr>output_buffer := c\<rparr>) = view s" "view (s\<lparr>esd_first_filter_func := e\<rparr>) = view s"
  by (simp_all add: view_def)

lemma view_daemon [vsimps]:
  fixes s :: esd_daemon
  shows "view (s\<lparr>esd_last_activity := a\<rparr>) = view s" "view (s\<lparr>esd_pending_driver_reconnect := b\<rparr>) = view s"
    "view (s\<lparr>comm_first := b\<rparr>) = view s" "view (s\<lparr>is_paused_here := b\<rparr>) = view s"
  by (simp_all add: view_def)

text \<open>System calls and the device leave the view alone, allocation moves the next address.\<close>

lemma view_sys_read: "sys_read fd n s = (r, s') \<Longrightarrow> view s' = view s"
  by (drule sys_read_frame) (auto simp: vsimps)

lemma view_sys_write: "sys_write fd bs s = (r, s') \<Longrightarrow> view s' = view s"
  by (drule sys_write_frame) (auto simp: vsimps)

lemma view_sys_close [vsimps]: "view (sys_close fd s) = view s"
  by (simp add: sys_close_def vsimps)

lemma view_sys_time: "sys_time s = (t, s') \<Longrightarrow> view s' = view s"
  by (auto simp: sys_time_def vsimps split: list.splits)

lemma view_malloc: "malloc n s = (a, s') \<Longrightarrow>
    view s' = (view s)\<lparr>vK := next_addr s'\<rparr> \<and> next_addr s \<le> next_addr s'
    \<and> (a \<noteq> 0 \<longrightarrow> a = next_addr s \<and> a < next_addr s')"
  by (auto simp: malloc_def view_def split: if_splits list.splits)

interpretation dview: audio_frame "view :: 'a esd_server_scheme \<Rightarrow> view"
  by unfold_locales (simp_all add: view_def)

lemmas view_audio_open = dview.obs_audio_open

lemmas view_audio_write = dview.obs_audio_write

lemmas view_snd_audio_open [vsimps] = dview.obs_device(1)

lemmas view_audio_close [vsimps] = dview.obs_device(2)

lemmas view_audio_pause = dview.obs_device(4)

subsection \<open>Preservation\<close>

text \<open>The invariant, with room for \<open>n\<close> more players before a counter overflows.\<close>

definition inv_room :: "nat \<Rightarrow> 'a esd_server_scheme \<Rightarrow> bool" where
  "inv_room n s \<longleftrightarrow> srv_inv s \<and> int (length (esd_players_list s)) + int n < 2147483648"

lemma inv_room_view:
  assumes "view s' = view s" "inv_room n s"
  shows "inv_room n s'"
proof -
  have "map pview (esd_players_list s') = map pview (esd_players_list s)"
    using assms(1) by (metis view_sel(2))
  then have "length (esd_players_list s') = length (esd_players_list s)" by (metis length_map)
  then show ?thesis using assms by (simp add: inv_room_def srv_inv_def)
qed

lemma map_view_unlink:
  assumes "distinct (map ad ns)" "\<And>n. fst (f n) = ad n"
  shows "map f (unlink ad a ns) = filter (\<lambda>x. fst x \<noteq> a) (map f ns)"
  using assms by (simp add: unlink_filter filter_map comp_def)

lemma map_view_upd: "(\<And>n. n \<in> set ns \<Longrightarrow> ad n = a \<Longrightarrow> g (f n) = g n) \<Longrightarrow> map g (upd_node ad a f ns) = map g ns"
  by (auto simp: upd_node_def)

lemma view_fst [simp]: "fst (cview c) = cl_addr c" "fst (pview p) = pl_addr p" "fst (sview m) = sm_addr m"
  "snd (sview m) = sm_ref_count m" "par (pview p) = pl_parent p"
  "snd (cview c) = (cl_state c = ESD_STREAMING_DATA)"
  by (simp_all add: cview_def pview_def sview_def)

lemma view_maps: "map fst (map cview cs) = map cl_addr cs" "map fst (map pview ps) = map pl_addr ps"
  "map fst (map sview ms) = map sm_addr ms"
  by simp_all

lemma inv_distinct:
  assumes "srv_inv s"
  shows "distinct (map cl_addr (esd_clients_list s))" "distinct (map pl_addr (esd_players_list s))"
    "distinct (map pl_addr (esd_recorder_list s))" "distinct (map pl_addr (esd_monitor_list s))"
    "distinct (map pl_addr (esd_filter_list s))" "distinct (map sm_addr (esd_samples_list s))"
  using assms
  by (simp_all only: srv_inv_def view_ok_def addresses_ok_def addrs_ok_def view_sel view_maps)

lemma view_erase_client: "distinct (map cl_addr (esd_clients_list s)) \<Longrightarrow>
    view (erase_client a s) = (view s)\<lparr>vC := filter (\<lambda>c. fst c \<noteq> a) (vC (view s))\<rparr>"
  using erase_client_frame [of a s] erase_client_list [of a s]
    map_view_unlink [of cl_addr "esd_clients_list s" cview a]
  by (auto simp: view_def simp del: erase_client_list)

text \<open>The clients.\<close>

lemma inv_erase_idle_client:
  assumes "inv_room n s" "a \<notin> set (owners (view s))"
  shows "inv_room n (erase_client a s)"
proof -
  have "srv_inv s" using assms(1) by (simp add: inv_room_def)
  from view_ok_drop_client [of "view s" a] view_erase_client [OF inv_distinct(1) [OF this], of a] assms
  have "srv_inv (erase_client a s)" by (simp add: srv_inv_def inv_room_def)
  moreover have "esd_players_list (erase_client a s) = esd_players_list s"
    using erase_client_frame [of a s] by auto
  ultimately show ?thesis using assms(1) by (simp add: inv_room_def)
qed

lemma view_set_client_same:
  "(\<And>c. cview (f c) = cview c) \<Longrightarrow> view (set_client a f s) = view s"
  by (simp add: set_client_def view_def map_view_upd)

lemma view_set_client_state: "view (set_client a (\<lambda>c. c\<lparr>cl_state := st\<rparr>) s)
    = (view s)\<lparr>vC := mark a (st = ESD_STREAMING_DATA) (vC (view s))\<rparr>"
  by (auto simp: set_client_def view_def mark_def upd_node_def cview_def)

text \<open>Samples.\<close>

lemma view_set_sample_same:
  "(\<And>m. sview (f m) = sview m) \<Longrightarrow> view (set_sample a f s) = view s"
  by (simp add: set_sample_def view_def map_view_upd)

lemma erase_sample_loop_cases:
  "map sview (erase_sample_loop i False ms) = map sview ms
   \<or> (\<exists>xs m ys. ms = xs @ m # ys \<and> erase_sample_loop i False ms = xs @ ys \<and> sm_ref_count m = 0)"
proof (induction ms)
  case (Cons m ms)
  show ?case
  proof (cases "sm_id m = i")
    case True
    then show ?thesis by (cases "sm_ref_count m = 0") (auto simp: sview_def intro: exI [of _ "[]"])
  next
    case False
    with Cons.IH show ?thesis
      by (auto simp: image_iff) (metis append_Cons)
  qed
qed simp

lemma inv_erase_sample:
  assumes "inv_room n s"
  shows "inv_room n (erase_sample i False s)"
proof -
  let ?ms = "esd_samples_list s"
  have v: "view (erase_sample i False s) = (view s)\<lparr>vS := map sview (erase_sample_loop i False ?ms)\<rparr>"
    by (simp add: erase_sample_def view_def)
  from erase_sample_loop_cases [of i ?ms] have "view_ok (view (erase_sample i False s))"
  proof (elim disjE exE conjE)
    assume "map sview (erase_sample_loop i False ?ms) = map sview ?ms"
    then have "view (erase_sample i False s) = view s" using v by (simp add: view_def)
    then show ?thesis using assms by (simp add: inv_room_def srv_inv_def)
  next
    fix xs m ys
    assume ms: "?ms = xs @ m # ys" "erase_sample_loop i False ?ms = xs @ ys" "sm_ref_count m = 0"
    have "vS (view s) = map sview xs @ (sm_addr m, 0) # map sview ys" using ms by (simp add: sview_def)
    from view_ok_drop_sample [OF _ this] assms ms v show ?thesis
      by (simp add: inv_room_def srv_inv_def)
  qed
  then show ?thesis using assms by (simp add: inv_room_def srv_inv_def erase_sample_def)
qed

text \<open>Erasing a player: of a stream with its client, of a sample with one reference to it.\<close>

lemma view_unlink_player: "srv_inv s \<Longrightarrow> view (s\<lparr>esd_players_list := unlink pl_addr a (esd_players_list s)\<rparr>)
    = (view s)\<lparr>vP := filter (\<lambda>p. fst p \<noteq> a) (vP (view s))\<rparr>"
  using map_view_unlink [OF inv_distinct(2), of s pview a] by (simp add: view_def)

lemma length_unlink: "length (unlink ad a ns) \<le> length ns"
  by (induction ns) auto

lemma inv_sample_of:
  assumes "srv_inv s" "p \<in> set (esd_players_list s)" "pl_format p AND ESD_MASK_MODE = ESD_SAMPLE"
  obtains m where "the_sample (pl_parent p) s = Some m" "m \<in> set (esd_samples_list s)" "sm_addr m = pl_parent p"
    "0 < sm_ref_count m" "sm_ref_count m \<le> int (length (esd_players_list s))"
proof -
  have p: "pview p \<in> set (vP (view s))" "is_smp (pview p)"
    using assms(2,3) by (auto simp: is_smp_def pview_def)
  with assms(1) have "pl_parent p \<in> fst ` set (vS (view s))"
    by (force simp: srv_inv_def view_ok_def samples_ok_def simp del: view_sel(2,6))
  then have "pl_parent p \<in> sm_addr ` set (esd_samples_list s)" by (simp add: image_image)
  then obtain m where m: "the_sample (pl_parent p) s = Some m"
    using node_None_iff [of sm_addr "pl_parent p" "esd_samples_list s"] by (auto simp: the_sample_def)
  then have m': "m \<in> set (esd_samples_list s)" "sm_addr m = pl_parent p"
    by (auto simp: the_sample_def dest: node_Some)
  have "sview m \<in> set (vS (view s))" using m' by simp
  then have "sm_ref_count m = int (refs (pl_parent p) (vP (view s)))"
    using assms(1) m' by (fastforce simp: srv_inv_def view_ok_def samples_ok_def simp del: view_sel(2))
  moreover have "refs (pl_parent p) (vP (view s)) \<le> length (esd_players_list s)"
    using length_filter_le [of _ "vP (view s)"] by (simp add: refs_def)
  moreover have "0 < refs (pl_parent p) (vP (view s))"
    unfolding refs_def length_greater_0_conv filter_empty_conv using p(2) assms(2) by auto
  ultimately show thesis using that m m' by simp
qed

lemma bump_set_refs:
  assumes "distinct (map sm_addr ms)" "m \<in> set ms" "sm_addr m = a"
  shows "map sview (upd_node sm_addr a (\<lambda>x. x\<lparr>sm_ref_count := sm_ref_count m + d\<rparr>) ms) = bump a d (map sview ms)"
  using assms by (auto simp: bump_def upd_node_def sview_def distinct_map inj_on_def)

lemma srv_inv_players: "srv_inv s \<Longrightarrow> esd_playing_samples s = int (length (filter is_smp (vP (view s))))"
  by (simp add: srv_inv_def view_ok_def samples_ok_def del: view_sel(2))

lemma inv_erase_stream_player:
  assumes "inv_room n s" "node pl_addr a (esd_players_list s) = Some p" "is_str (pview p)"
  shows "\<exists>s'. erase_player a s = Some s' \<and> inv_room n s'"
proof -
  have i: "srv_inv s" using assms(1) by (simp add: inv_room_def)
  have p: "p \<in> set (esd_players_list s)" "pl_addr p = a" using node_Some [OF assms(2)] by simp_all
  let ?u = "s\<lparr>esd_players_list := unlink pl_addr a (esd_players_list s)\<rparr>"
  have "erase_player a s = Some (erase_client (pl_parent p) ?u)"
    using assms(2,3) by (simp add: erase_player_def free_player_def is_str_def pview_def)
  moreover have "view_ok (view (erase_client (pl_parent p) ?u))"
    using view_ok_drop_stream_player [of "view s" "pview p"] assms(3) i view_unlink_player [OF i, of a] p
      view_erase_client [of ?u "pl_parent p"] inv_distinct(1) [OF i] by (simp add: srv_inv_def)
  moreover have "esd_players_list (erase_client (pl_parent p) ?u) = unlink pl_addr a (esd_players_list s)"
    using erase_client_frame [of "pl_parent p" ?u] by auto
  ultimately show ?thesis
    using assms(1) length_unlink [of pl_addr a "esd_players_list s"] by (simp add: inv_room_def srv_inv_def)
qed

lemma playing_bounds:
  assumes "srv_inv s" "p \<in> set (esd_players_list s)" "is_smp (pview p)"
  shows "0 < esd_playing_samples s" "esd_playing_samples s \<le> int (length (esd_players_list s))"
proof -
  have "pview p \<in> set (filter is_smp (vP (view s)))" using assms(2,3) by simp
  then have "0 < length (filter is_smp (vP (view s)))" by (rule length_pos_if_in_set)
  then show "0 < esd_playing_samples s" using srv_inv_players [OF assms(1)] by simp
  show "esd_playing_samples s \<le> int (length (esd_players_list s))"
    using srv_inv_players [OF assms(1)] length_filter_le [of is_smp "vP (view s)"] by simp
qed

lemma inv_erase_sample_player:
  assumes "inv_room n s" "node pl_addr a (esd_players_list s) = Some p" "is_smp (pview p)"
  shows "\<exists>s'. erase_player a s = Some s' \<and> inv_room n s'"
proof -
  have i: "srv_inv s" and len: "int (length (esd_players_list s)) + int n < 2147483648"
    using assms by (simp_all add: inv_room_def)
  have p: "p \<in> set (esd_players_list s)" "pl_addr p = a" using node_Some [OF assms(2)] by simp_all
  have mode: "pl_format p AND ESD_MASK_MODE = ESD_SAMPLE" using assms(3) by (simp add: is_smp_def pview_def)
  from inv_sample_of [OF i p(1) mode] obtain m where m: "the_sample (pl_parent p) s = Some m"
    "m \<in> set (esd_samples_list s)" "sm_addr m = pl_parent p" "0 < sm_ref_count m"
    "sm_ref_count m \<le> int (length (esd_players_list s))" .
  have r: "i32 (sm_ref_count m - 1) = sm_ref_count m + (-1)" using m(4,5) len by (simp add: i32_small)
  have pi: "i32 (esd_playing_samples s - 1) = esd_playing_samples s - 1"
    using playing_bounds [OF i p(1) assms(3)] len by (simp add: i32_small)
  let ?u = "s\<lparr>esd_players_list := unlink pl_addr a (esd_players_list s)\<rparr>"
  let ?t = "(set_sample (pl_parent p) (\<lambda>x. x\<lparr>sm_ref_count := sm_ref_count m + (-1)\<rparr>) ?u)
      \<lparr>esd_playing_samples := esd_playing_samples s - 1\<rparr>"
  have "view ?t = (view s)\<lparr>vP := filter (\<lambda>q. fst q \<noteq> a) (vP (view s)), vN := vN (view s) - 1,
      vS := bump (pl_parent p) (-1) (vS (view s))\<rparr>"
    using bump_set_refs [OF inv_distinct(6) [OF i] m(2,3), of "-1"] view_unlink_player [OF i, of a]
    by (simp add: set_sample_def view_def)
  then have it: "inv_room n ?t"
    using view_ok_drop_sample_player [of "view s" "pview p"] assms(3) i p len
      length_unlink [of pl_addr a "esd_players_list s"]
    by (simp add: inv_room_def srv_inv_def set_sample_def)
  have "erase_player a s = Some (if sm_erase_when_done m \<and> sm_ref_count m + (-1) = 0
      then erase_sample (sm_id m) False ?t else ?t)"
    using assms(2) mode m(1) r pi i32_small [of 0]
    by (simp add: erase_player_def free_player_def the_sample_def set_sample_def Let_def)
  with it inv_erase_sample [OF it] show ?thesis by auto
qed

lemma inv_erase_player:
  assumes "inv_room n s"
  shows "\<exists>s'. erase_player a s = Some s' \<and> inv_room n s'"
proof (cases "node pl_addr a (esd_players_list s)")
  case None
  with assms show ?thesis by (simp add: erase_player_def)
next
  case (Some p)
  then have "pview p \<in> set (vP (view s))" using node_Some by fastforce
  then have "is_smp (pview p) \<or> is_str (pview p)"
    using assms by (simp add: inv_room_def srv_inv_def view_ok_def modes_ok_def del: view_sel(2))
  with inv_erase_stream_player [OF assms Some] inv_erase_sample_player [OF assms Some] show ?thesis by blast
qed

text \<open>
  Recorders, monitors and filters go with their clients. The three lists satisfy one
  contract, the locale \<open>owned_list\<close>: a list of stream objects, its place in the view, and
  the operation that erases one of them.
\<close>

lemma in_modes_ok: "srv_inv s \<Longrightarrow> p \<in> set (esd_recorder_list s) \<union> set (esd_monitor_list s) \<union> set (esd_filter_list s)
    \<Longrightarrow> is_str (pview p)"
  by (auto simp: srv_inv_def view_ok_def modes_ok_def)

lemma free_stream: "is_str (pview p) \<Longrightarrow> free_player p s = Some (erase_client (pl_parent p) s)"
  by (simp add: free_player_def is_str_def pview_def)

lemma erase_client_keeps [simp]:
  "esd_players_list (erase_client c s) = esd_players_list s"
  "esd_recorder_list (erase_client c s) = esd_recorder_list s"
  "esd_monitor_list (erase_client c s) = esd_monitor_list s"
  "esd_filter_list (erase_client c s) = esd_filter_list s"
  using erase_client_frame [of c s] by auto

lemma map_upd_same:
  assumes "distinct (map pl_addr ps)" "node pl_addr a ps = Some p" "pview q = pview p"
  shows "map pview (upd_node pl_addr a (\<lambda>_. q) ps) = map pview ps"
proof (rule map_view_upd)
  fix r assume "r \<in> set ps" "pl_addr r = a"
  with assms(1,2) node_distinct [of pl_addr ps r] have "r = p" by simp
  with assms(3) show "pview q = pview r" by simp
qed

lemma length_upd_node [simp]: "length (upd_node ad a f ns) = length ns"
  by (simp add: upd_node_def)

locale owned_list =
  fixes items :: "'a esd_server_scheme \<Rightarrow> esd_player list"
    and put :: "esd_player list \<Rightarrow> 'a esd_server_scheme \<Rightarrow> 'a esd_server_scheme"
    and erase :: "addr \<Rightarrow> 'a esd_server_scheme \<Rightarrow> 'a esd_server_scheme option"
    and vget :: "view \<Rightarrow> (addr \<times> int \<times> addr) list"
    and vput :: "(addr \<times> int \<times> addr) list \<Rightarrow> view \<Rightarrow> view"
  assumes erase_eq: "erase a s = (case node pl_addr a (items s) of
        Some p \<Rightarrow> free_player p (put (unlink pl_addr a (items s)) s) | None \<Rightarrow> Some s)"
    and view_put: "view (put ns s) = vput (map pview ns) (view s)"
    and vget_view: "vget (view s) = map pview (items s)"
    and vput_vget: "vput (vget v) v = v"
    and vput_vC: "vput ps (v\<lparr>vC := C\<rparr>) = (vput ps v)\<lparr>vC := C\<rparr>"
    and vC_vput: "vC (vput ps v) = vC v"
    and put_keeps: "esd_clients_list (put ns s) = esd_clients_list s" "esd_players_list (put ns s) = esd_players_list s"
    and items_erase_client: "items (erase_client c s) = items s"
    and items_str: "srv_inv s \<Longrightarrow> p \<in> set (items s) \<Longrightarrow> is_str (pview p)"
    and items_distinct: "srv_inv s \<Longrightarrow> distinct (map pl_addr (items s))"
    and drop_ok: "view_ok v \<Longrightarrow> x \<in> set (vget v) \<Longrightarrow>
        view_ok ((vput (filter (\<lambda>y. fst y \<noteq> fst x) (vget v)) v)\<lparr>vC := filter (\<lambda>z. fst z \<noteq> par x) (vC v)\<rparr>)"
begin

lemma inv_upd:
  assumes "inv_room n s" "node pl_addr a (items s) = Some p" "pview q = pview p"
  shows "inv_room n (put (upd_node pl_addr a (\<lambda>_. q) (items s)) s)"
proof (rule inv_room_view [OF _ assms(1)])
  have "map pview (upd_node pl_addr a (\<lambda>_. q) (items s)) = vget (view s)"
    using map_upd_same [OF items_distinct assms(2,3)] assms(1) by (simp add: inv_room_def vget_view)
  then show "view (put (upd_node pl_addr a (\<lambda>_. q) (items s)) s) = view s"
    by (simp add: view_put vput_vget)
qed

text \<open>With its client still connected or just erased: the result is the same.\<close>

lemma erase_from:
  assumes "inv_room n s" "node pl_addr a (items s) = Some p" "t = s \<or> t = erase_client (pl_parent p) s"
  shows "\<exists>s'. erase a t = Some s' \<and> inv_room n s'"
proof -
  have i: "srv_inv s" using assms(1) by (simp add: inv_room_def)
  have p: "p \<in> set (items s)" "pl_addr p = a" using node_Some [OF assms(2)] by simp_all
  have l: "items t = items s" "esd_players_list t = esd_players_list s"
    "distinct (map cl_addr (esd_clients_list t))"
    using assms(3) inv_distinct(1) [OF i] by (auto simp: items_erase_client distinct_unlink)
  have v: "(view t)\<lparr>vC := filter (\<lambda>c. fst c \<noteq> pl_parent p) (vC (view t))\<rparr>
      = (view s)\<lparr>vC := filter (\<lambda>c. fst c \<noteq> pl_parent p) (vC (view s))\<rparr>"
    using assms(3) view_erase_client [OF inv_distinct(1) [OF i], of "pl_parent p"] by (auto simp del: view_sel)
  let ?u = "put (unlink pl_addr a (items t)) t"
  have e: "erase a t = Some (erase_client (pl_parent p) ?u)"
    using assms(2) l free_stream [OF items_str [OF i p(1)]] by (simp add: erase_eq)
  have "view (erase_client (pl_parent p) ?u) =
      vput (filter (\<lambda>q. fst q \<noteq> a) (vget (view s))) ((view s)\<lparr>vC := filter (\<lambda>c. fst c \<noteq> pl_parent p) (vC (view s))\<rparr>)"
    using view_erase_client [of ?u "pl_parent p"] l put_keeps
      map_view_unlink [OF items_distinct [OF i], of pview a] v [symmetric]
    by (simp add: view_put vput_vC vC_vput vget_view del: view_sel)
  then have "view_ok (view (erase_client (pl_parent p) ?u))"
    using drop_ok [of "view s" "pview p"] i p by (simp add: srv_inv_def vput_vC vget_view del: view_sel)
  then show ?thesis using e assms(1) l by (simp add: inv_room_def srv_inv_def put_keeps)
qed

lemma inv_erase:
  assumes "inv_room n s"
  shows "\<exists>s'. erase a s = Some s' \<and> inv_room n s'"
proof (cases "node pl_addr a (items s)")
  case None
  with assms show ?thesis by (simp add: erase_eq)
next
  case (Some p)
  then show ?thesis by (rule erase_from [OF assms]) simp
qed

end

interpretation recs: owned_list esd_recorder_list "\<lambda>ns s. s\<lparr>esd_recorder_list := ns\<rparr>" erase_recorder
    vR "\<lambda>ps v. v\<lparr>vR := ps\<rparr>"
  using in_modes_ok inv_distinct(3) view_ok_drop_recorder
  by unfold_locales (auto simp: erase_recorder_def view_def split: option.splits)

interpretation mons: owned_list esd_monitor_list "\<lambda>ns s. s\<lparr>esd_monitor_list := ns\<rparr>" erase_monitor
    vM "\<lambda>ps v. v\<lparr>vM := ps\<rparr>"
  using in_modes_ok inv_distinct(4) view_ok_drop_monitor
  by unfold_locales (auto simp: erase_monitor_def view_def split: option.splits)

interpretation filts: owned_list esd_filter_list "\<lambda>ns s. s\<lparr>esd_filter_list := ns\<rparr>" erase_filter
    vF "\<lambda>ps v. v\<lparr>vF := ps\<rparr>"
  using in_modes_ok inv_distinct(5) view_ok_drop_filter
  by unfold_locales (auto simp: erase_filter_def view_def split: option.splits)

text \<open>Reading a player changes its buffer, not its place in the view.\<close>

lemma copy_from_sample_pview: "copy_from_sample m k p = Some q \<Longrightarrow> pview q = pview p"
  by (auto simp: copy_from_sample_def pview_def split: if_splits Option.bind_splits)

lemma loop_sample_player_pview:
  assumes "loop_sample_player m n p = Some r"
  shows "pview (snd r) = pview p"
proof (rule loop_sample_player.raw_induct [OF _ assms, where P = "\<lambda>m n p r. pview (snd r) = pview p"], goal_cases)
  case (1 lsp m n p r)
  have lp: "pview (p\<lparr>pl_last_pos := 0\<rparr>) = pview p" for p by (simp add: pview_def)
  from 1(2) show ?case
    by (auto simp: Let_def lp split: if_splits Option.bind_splits dest!: 1(1) copy_from_sample_pview)
qed

lemma rx_id: "\<exists>f. s = s\<lparr>rx := f\<rparr>"
  by (rule exI [of _ "rx s"]) simp

lemma read_stream_player_frame: "read_stream_player p s = Some (r, q, s') \<Longrightarrow>
    pview q = pview p \<and> (\<exists>f. s' = s\<lparr>rx := f\<rparr>)"
proof -
  assume h: "read_stream_player p s = Some (r, q, s')"
  obtain a t bs s1 where rd: "sys_read (pl_source_id p) (nat (pl_buffer_length p - pl_actual_length p)) s = ((a, t, bs), s1)"
    by (metis surj_pair)
  obtain f where "s1 = s\<lparr>rx := f\<rparr>" using sys_read_frame [OF rd] by blast
  then show ?thesis using h rd
    by (auto simp: read_stream_player_def Let_def pview_def rx_id split: if_splits Option.bind_splits)
qed

lemma read_player_frame:
  assumes "read_player p s = Some (r, q, s')"
  shows "pview q = pview p \<and> (\<exists>f. s' = s\<lparr>rx := f\<rparr>)"
  using assms read_stream_player_frame [of p s r q s']
  unfolding read_player_def read_sample_player_def
  by (auto simp: Let_def rx_id split: if_splits Option.bind_splits
      dest!: copy_from_sample_pview loop_sample_player_pview)

text \<open>The mixer.\<close>

lemma inv_set_player:
  assumes "inv_room n s" "node pl_addr a (esd_players_list s) = Some p" "pview q = pview p"
  shows "inv_room n (set_player a (\<lambda>_. q) s)"
proof (rule inv_room_view [OF _ assms(1)])
  show "view (set_player a (\<lambda>_. q) s) = view s"
    using map_upd_same [OF inv_distinct(2) assms(2,3)] assms(1) by (simp add: inv_room_def set_player_def view_def)
qed

lemma inv_mix_read_pass:
  "inv_room n s \<Longrightarrow> mix_read_pass as len mn s = Some (mn', s') \<Longrightarrow> inv_room n s'"
proof (induction as arbitrary: mn s)
  case (Cons a as)
  from Cons.prems(2) obtain p actual q s1 where p: "node pl_addr a (esd_players_list s) = Some p"
    "read_player p s = Some (actual, q, s1)"
    by (auto split: Option.bind_splits)
  obtain f where f: "s1 = s\<lparr>rx := f\<rparr>" "pview q = pview p" using read_player_frame [OF p(2)] by blast
  have "inv_room n s1" by (rule inv_room_view [OF _ Cons.prems(1)]) (simp add: f vsimps)
  then have i: "inv_room n (set_player a (\<lambda>_. q) s1)"
    by (rule inv_set_player) (use f p(1) in simp_all)
  obtain s2 where e: "erase_player a (set_player a (\<lambda>_. q) s1) = Some s2" "inv_room n s2"
    using inv_erase_player [OF i] by blast
  show ?case using Cons.prems(2) p e Cons.IH [OF i] Cons.IH [OF e(2)]
    by (auto simp: Let_def split: if_splits Option.bind_splits)
qed simp

lemma consume_pview: "consume p used = Some q \<Longrightarrow> pview q = pview p"
  by (auto simp: consume_def Let_def pview_def split: if_splits Option.bind_splits)

lemma inv_mix_add_pass:
  "inv_room n s \<Longrightarrow> mix_add_pass as mn mx s = Some (mx', s') \<Longrightarrow> inv_room n s'"
proof (induction as arbitrary: mx s)
  case (Cons a as)
  from Cons.prems(2) obtain p where p: "node pl_addr a (esd_players_list s) = Some p"
    by (auto split: Option.bind_splits)
  have step: "inv_room n s'"
    if "consume p u = Some q" "mix_add_pass as mn m ((set_player a (\<lambda>_. q) s)\<lparr>mixed_buffer := mb\<rparr>) = Some (mx', s')"
    for u q m mb
    by (rule Cons.IH [OF inv_room_view [OF _ inv_set_player [OF Cons.prems(1) p consume_pview [OF that(1)]]] that(2)])
      (simp add: vsimps)
  show ?case using Cons.prems p Cons.IH [OF Cons.prems(1)]
    by (auto split: if_splits Option.bind_splits dest: step)
qed simp

lemma inv_mix_players:
  assumes "inv_room n s" "mix_players output len s = Some (r, out, s')"
  shows "inv_room n s'"
proof -
  have "inv_room n (s\<lparr>mixed_buffer := b\<rparr>)" for b by (rule inv_room_view [OF _ assms(1)]) (simp add: vsimps)
  with assms(2) show ?thesis
    by (auto simp: mix_players_def Let_def split: if_splits Option.bind_splits
        dest!: inv_mix_add_pass [rotated] inv_mix_read_pass [rotated])
qed

text \<open>Monitors and recorders.\<close>

lemma translate_player_pview: "translate_player p b l r = Some (k, q) \<Longrightarrow> pview q = pview p"
  by (auto simp: translate_player_def pview_def split: Option.bind_splits)

lemma sys_write_lists:
  "sys_write fd bs s = (r, s') \<Longrightarrow> esd_monitor_list s' = esd_monitor_list s
     \<and> esd_recorder_list s' = esd_recorder_list s \<and> esd_filter_list s' = esd_filter_list s"
  by (drule sys_write_frame) auto

lemma node_upd_self: "node pl_addr a ps = Some p \<Longrightarrow> pl_addr q = a \<Longrightarrow>
    node pl_addr a (upd_node pl_addr a (\<lambda>_. q) ps) = Some q"
  by (induction ps) (auto split: if_splits)

lemma pview_addr: "pview q = pview p \<Longrightarrow> pl_addr q = pl_addr p"
  by (simp add: pview_def)

lemma inv_monitor_write_loop:
  "inv_room n s \<Longrightarrow> monitor_write_loop as output len s = Some s' \<Longrightarrow> inv_room n s'"
proof (induction as arbitrary: len s)
  case (Cons a as)
  from Cons.prems(2) obtain p where p: "node pl_addr a (esd_monitor_list s) = Some p"
    by (auto split: Option.bind_splits)
  show ?case
  proof (cases "sys_select_wr (pl_source_id p) s > 0")
    case False
    with Cons.prems p Cons.IH show ?thesis by simp
  next
    case True
    with Cons.prems(2) p obtain k q bs where q: "translate_player p output len (esd_audio_rate s) = Some (k, q)"
      "buf_bytes (pl_data q) (pl_buffer_length q) = Some bs" by (auto split: Option.bind_splits)
    let ?t = "s\<lparr>esd_monitor_list := upd_node pl_addr a (\<lambda>_. q) (esd_monitor_list s)\<rparr>"
    note qv = translate_player_pview [OF q(1)]
    have it: "inv_room n ?t" by (rule mons.inv_upd [OF Cons.prems(1) p qv])
    obtain l tr s1 where w: "sys_write (pl_source_id q) bs ?t = ((l, tr), s1)" by (metis surj_pair)
    have i1: "inv_room n s1" by (rule inv_room_view [OF view_sys_write [OF w] it])
    have "node pl_addr a (esd_monitor_list s1) = Some q"
      using sys_write_lists [OF w] node_upd_self [OF p, of q] pview_addr [OF qv] node_Some [OF p] by simp
    from mons.erase_from [OF i1 this, of "erase_client (pl_parent q) s1"] obtain s2 where
      s2: "erase_monitor a (erase_client (pl_parent q) s1) = Some s2" "inv_room n s2" by auto
    show ?thesis using Cons.prems(2) True p q w s2 Cons.IH [OF s2(2)] Cons.IH [OF i1]
      by (auto split: if_splits)
  qed
qed simp

lemma txw_id: "\<exists>t w. s = s\<lparr>tx := t, wres := w\<rparr>"
  by (intro exI [of _ "tx s"] exI [of _ "wres s"]) simp

lemma send_player_frame:
  assumes "send_player p b l r s = Some (k, q, s')"
  shows "pview q = pview p \<and> (\<exists>t w. s' = s\<lparr>tx := t, wres := w\<rparr>)"
proof -
  from assms obtain len p1 buf bs where p: "translate_player p b l r = Some (len, p1)" "q = p1\<lparr>pl_data := buf\<rparr>"
    and s': "s' = snd (sys_write (pl_source_id p1) bs s)"
    by (auto simp: send_player_def Let_def case_prod_beta split: Option.bind_splits)
  have "pview q = pview p" using translate_player_pview [OF p(1)] p(2) by (simp add: pview_def)
  with sys_write_frame [of "pl_source_id p1" bs s _ s'] s' show ?thesis by (metis prod.collapse)
qed

lemma write_player_frame:
  assumes "write_player p b l r fm s = Some (k, q, s')"
  shows "pview q = pview p \<and> (\<exists>t w. s' = s\<lparr>tx := t, wres := w\<rparr>)"
  using assms send_player_frame [of p b l r s k q s']
  by (auto simp: write_player_def Let_def txw_id split: if_splits)

lemma inv_recorder_write_loop:
  "inv_room n s \<Longrightarrow> recorder_write_loop as b len w s = Some (w', s') \<Longrightarrow> inv_room n s'"
proof (induction as arbitrary: w s)
  case (Cons a as)
  from Cons.prems(2) obtain p k q s0 where p: "node pl_addr a (esd_recorder_list s) = Some p"
    "write_player p b len (esd_audio_rate s) (esd_audio_format s) s = Some (k, q, s0)"
    by (auto split: Option.bind_splits)
  obtain t u where f: "s0 = s\<lparr>tx := t, wres := u\<rparr>" "pview q = pview p"
    using write_player_frame [OF p(2)] by blast
  have i0: "inv_room n s0" by (rule inv_room_view [OF _ Cons.prems(1)]) (simp add: f vsimps)
  have p0: "node pl_addr a (esd_recorder_list s0) = Some p" using p(1) f by simp
  let ?s1 = "s0\<lparr>esd_recorder_list := upd_node pl_addr a (\<lambda>_. q) (esd_recorder_list s0)\<rparr>"
  have i1: "inv_room n ?s1" by (rule recs.inv_upd [OF i0 p0 f(2)])
  have "node pl_addr a (esd_recorder_list ?s1) = Some q"
    using node_upd_self [OF p0, of q] pview_addr [OF f(2)] node_Some [OF p0] by simp
  from recs.erase_from [OF i1 this, of "erase_client (pl_parent q) ?s1"] obtain s2 where
    s2: "erase_recorder a (erase_client (pl_parent q) ?s1) = Some s2" "inv_room n s2" by auto
  show ?case using Cons.prems(2) p s2 Cons.IH [OF s2(2)] Cons.IH [OF i1]
    by (auto simp: Let_def split: if_splits)
qed simp

lemma inv_recorder_write:
  assumes "inv_room n s" "recorder_write b len s = Some (w, s')"
  shows "inv_room n s'"
proof -
  from assms(2) obtain s1 where s1: "recorder_write_loop (map pl_addr (esd_recorder_list s)) b len 0 s = Some (w, s1)"
    and v: "view s' = view s1"
    by (auto simp: recorder_write_def Let_def vsimps split: Option.bind_splits)
  show ?thesis by (rule inv_room_view [OF v inv_recorder_write_loop [OF assms(1) s1]])
qed

text \<open>Filters.\<close>

lemma filter_send_frame: "filter_send fd buf got sz s = Some (d, s') \<Longrightarrow> \<exists>t w. s' = s\<lparr>tx := t, wres := w\<rparr>"
proof (induction fd buf got sz s rule: filter_send.induct)
  case (1 fd buf got sz s)
  show ?case
  proof (cases "got < sz \<and> 0 \<le> got \<and> sz \<le> int (length buf)")
    case False
    with 1(2) show ?thesis by (subst (asm) filter_send.simps) (auto simp: txw_id split: if_splits)
  next
    case True
    obtain n tr s1 where w: "sys_write fd (take (nat (sz - got)) (drop (nat got) buf)) s = ((n, tr), s1)"
      by (metis surj_pair)
    obtain t u where f: "s1 = s\<lparr>tx := t, wres := u\<rparr>" using sys_write_frame [OF w] by blast
    have IH: "\<not> n \<le> 0 \<Longrightarrow> filter_send fd buf (got + n) sz s1 = Some (d, s') \<Longrightarrow> \<exists>t w. s' = s1\<lparr>tx := t, wres := w\<rparr>"
      using 1(1) [OF _ _ w [symmetric] refl] True by auto
    from 1(2) True w f IH show ?thesis
      by (subst (asm) filter_send.simps) (auto split: if_splits)
  qed
qed

lemma inv_set_filter_data: "inv_room n s \<Longrightarrow> inv_room n (set_filter a (\<lambda>q. q\<lparr>pl_data := d\<rparr>) s)"
  by (rule inv_room_view) (simp_all add: set_filter_def view_def map_view_upd pview_def)

lemma inv_filter_exchange:
  assumes "inv_room n s" "filter_exchange a d s = Some (dead, q, s')"
  shows "inv_room n s'"
proof -
  from assms(2) obtain p b s1 where p: "node pl_addr a (esd_filter_list s) = Some p"
    "filter_send (pl_source_id p) (pl_data p) 0 d s = Some (b, s1)"
    by (auto simp: filter_exchange_def split: Option.bind_splits)
  obtain t w where f1: "s1 = s\<lparr>tx := t, wres := w\<rparr>" using filter_send_frame [OF p(2)] by blast
  have i1: "inv_room n s1" by (rule inv_room_view [OF _ assms(1)]) (simp add: f1 vsimps)
  show ?thesis
  proof (cases b)
    case True
    with assms(2) p i1 show ?thesis by (simp add: filter_exchange_def)
  next
    case False
    with assms(2) p obtain k r s2 where r: "read_player p s1 = Some (k, r, s2)"
      by (auto simp: filter_exchange_def split: Option.bind_splits)
    obtain f where f2: "s2 = s1\<lparr>rx := f\<rparr>" "pview r = pview p" using read_player_frame [OF r] by blast
    have i2: "inv_room n s2" by (rule inv_room_view [OF _ i1]) (simp add: f2 vsimps)
    have p2: "node pl_addr a (esd_filter_list s2) = Some p" using p(1) f1 f2 by simp
    have s': "s' = s2\<lparr>esd_filter_list := upd_node pl_addr a (\<lambda>_. q) (esd_filter_list s2)\<rparr>"
      "pview q = pview p"
      using assms(2) p r False f2(2) by (auto simp: filter_exchange_def Let_def set_filter_def pview_def)
    show ?thesis unfolding s'(1) by (rule filts.inv_upd [OF i2 p2 s'(2)])
  qed
qed

lemma inv_filter_pass:
  "inv_room n s \<Longrightarrow> filter_pass nxt p b sz fm r s = Some (d, b', s') \<Longrightarrow> inv_room n s'"
  by (auto simp: filter_pass_def inv_set_filter_data split: Option.bind_splits option.splits)

lemma inv_filter_chain:
  "inv_room n s \<Longrightarrow> filter_chain as b sz fm r d s = Some (d', b', s') \<Longrightarrow> inv_room n s'"
proof (induction as arbitrary: b d s)
  case (Cons a as)
  from Cons.prems(2) obtain dead p s1 d1 b1 s2 s3 where
    s: "filter_exchange a d s = Some (dead, p, s1)"
      "filter_pass (case as of [] \<Rightarrow> None | b # _ \<Rightarrow> Some b) p b sz fm r s1 = Some (d1, b1, s2)"
      "(if dead then erase_filter a s2 else Some s2) = Some s3"
      "filter_chain as b1 sz fm r d1 s3 = Some (d', b', s')"
    by (auto simp: filter_step_def split: Option.bind_splits)
  have i2: "inv_room n s2" by (rule inv_filter_pass [OF inv_filter_exchange [OF Cons.prems(1) s(1)] s(2)])
  have "inv_room n s3" using s(3) i2 filts.inv_erase [OF i2, of a] by (auto split: if_splits)
  then show ?case using Cons.IH s(4) by blast
qed simp

lemma inv_filter_write:
  assumes "inv_room n s" "filter_write b sz fm r s = Some (d, b', s')"
  shows "inv_room n s'"
  using assms inv_filter_chain [OF inv_set_filter_data [OF assms(1)]]
  by (auto simp: filter_write_def Let_def split: list.splits Option.bind_splits)

lemma view_refresh [vsimps]: "view (snd (refresh_mix_funcs s)) = view s"
proof -
  have "map pview (refresh_filters ps) = map pview ps" for ps
    by (induction ps) (auto simp: pview_def)
  then show ?thesis by (simp add: refresh_mix_funcs_def view_def)
qed

text \<open>New connections.\<close>

lemma inv_room_iff: "inv_room n s \<longleftrightarrow> view_ok (view s) \<and> int (length (vP (view s))) + int n < 2147483648"
  by (simp add: inv_room_def srv_inv_def)

lemma inv_malloc: "inv_room n s \<Longrightarrow> malloc k s = (a, s') \<Longrightarrow> inv_room n s'"
  using view_malloc [of k s a s'] view_ok_alloc [of "view s" "next_addr s'"]
  by (simp add: inv_room_iff del: view_sel(2))

lemma view_add_client: "view (add_new_client (fresh_client a fd s0) s) = (view s)\<lparr>vC := (a, False) # vC (view s)\<rparr>"
  by (simp add: add_new_client_def view_def fresh_client_def cview_def)

lemma inv_add_client:
  assumes "inv_room n s" "malloc k s = (a, s')" "a \<noteq> 0"
  shows "inv_room n (add_new_client (fresh_client a fd s') s')"
proof -
  have v: "view s' = (view s)\<lparr>vK := Suc a\<rparr>" "a = vK (view s)"
    using view_malloc [OF assms(2)] malloc_fresh [OF assms(2,3)] assms(3) by (auto simp: view_def)
  then show ?thesis
    using assms(1) view_ok_new_client [of "view s"] view_add_client [of a fd s' s']
    by (simp add: inv_room_iff view_def)
qed

lemma inv_get_new_clients: "inv_room n s \<Longrightarrow> inv_room n (snd (get_new_clients s))"
proof (induction s rule: get_new_clients.induct)
  case (1 s)
  show ?case
  proof (cases "accepts s")
    case Nil
    with 1(2) show ?thesis by (simp add: get_new_clients.simps)
  next
    case (Cons x r)
    obtain fd ok where x: "x = (fd, ok)" by fastforce
    let ?s1 = "s\<lparr>accepts := r\<rparr>"
    have i1: "inv_room n ?s1" by (rule inv_room_view [OF _ 1(2)]) (simp add: vsimps)
    obtain a s2 where m: "malloc 1120 ?s1 = (a, s2)" by fastforce
    have i2: "inv_room n s2" by (rule inv_malloc [OF i1 m])
    then have ic: "inv_room n (sys_close fd s2)" by (rule inv_room_view [rotated]) (simp add: vsimps)
    have IH: "inv_room n (snd (get_new_clients (add_new_client (fresh_client a fd s2) s2)))"
      if "0 < fd" "a \<noteq> 0" "ok"
      using 1(1) [OF Cons x [symmetric] refl _ m [symmetric] refl] that inv_add_client [OF i1 m] by auto
    show ?thesis
      using Cons x m i1 ic IH inv_add_client [OF i1 m, of fd]
      by (subst get_new_clients.simps) (auto simp: Let_def)
  qed
qed

end
