(* ===== verification/Esd_Ownership_Proto.thy ===== *)
theory Esd_Ownership_Proto
  imports Esd_Ownership_Ops
begin

text \<open>
  The ownership invariant under the protocol: every handler of the table keeps it.
\<close>

subsection \<open>Handlers\<close>

text \<open>
  A handler is called for a client that is not streaming. It keeps the invariant, adds at
  most one player, and a client it rejects still owns nothing, so it can be erased.
\<close>

definition idle :: "addr \<Rightarrow> 'a esd_server_scheme \<Rightarrow> bool" where
  "idle client s \<longleftrightarrow> (client, False) \<in> set (vC (view s))"

definition hpost :: "nat \<Rightarrow> addr \<Rightarrow> int \<times> 'a esd_server_scheme \<Rightarrow> bool" where
  "hpost n client = (\<lambda>(r, s'). inv_room n s' \<and> (r = 0 \<longrightarrow> idle client s'))"

definition keeps_inv :: "'a handler \<Rightarrow> bool" where
  "keeps_inv h \<longleftrightarrow> (\<forall>n client s rs. inv_room (Suc n) s \<longrightarrow> idle client s \<longrightarrow> h client s = Some rs \<longrightarrow> hpost n client rs)"

lemma keeps_invI:
  "(\<And>n client s r s'. inv_room (Suc n) s \<Longrightarrow> idle client s \<Longrightarrow> h client s = Some (r, s') \<Longrightarrow> hpost n client (r, s'))
   \<Longrightarrow> keeps_inv h"
  by (auto simp: keeps_inv_def)

lemma inv_room_less: "inv_room (Suc n) s \<Longrightarrow> inv_room n s"
  by (simp add: inv_room_def)

lemma hpost_view: "inv_room (Suc n) s \<Longrightarrow> idle client s \<Longrightarrow> view s' = view s \<Longrightarrow> hpost n client (r, s')"
  using inv_room_view [of s' s n] inv_room_less [of n s] by (simp add: hpost_def idle_def del: view_sel)

lemma hpost_alloc: "inv_room (Suc n) s \<Longrightarrow> idle client s \<Longrightarrow> view s' = (view s)\<lparr>vK := k\<rparr> \<Longrightarrow>
    next_addr s \<le> k \<Longrightarrow> hpost n client (r, s')"
  using view_ok_alloc [of "view s" k] by (simp add: hpost_def idle_def inv_room_iff del: view_sel(1,2))

lemma view_only_handler: "(\<And>client s r s'. h client s = Some (r, s') \<Longrightarrow> view s' = view s) \<Longrightarrow> keeps_inv h"
  by (rule keeps_invI) (blast intro: hpost_view)

lemma view_reply_int: "reply_int c x s = (r, s') \<Longrightarrow> view s' = view s"
  by (auto simp: reply_int_def Let_def split: prod.splits dest: view_sys_write)

lemma view_snd_reply [vsimps]: "view (snd (reply_int c x s)) = view s"
  by (metis view_reply_int prod.collapse)

lemma view_write_seq: "write_seq fd bs s = (r, s') \<Longrightarrow> view s' = view s"
  by (induction fd bs s rule: write_seq.induct)
    (auto simp: Let_def split: prod.splits if_splits dest!: view_sys_write)

lemma view_validate: "esd_validate_source c k own s = (r, s') \<Longrightarrow> view s' = view s"
  by (auto simp: esd_validate_source_def vsimps split: if_splits)

lemma view_check_endian: "esd_check_endian client e s = (r, s') \<Longrightarrow> view s' = view s"
  by (auto simp: esd_check_endian_def cview_def split: if_splits intro!: view_set_client_same)

lemma view_standby: "esd_server_standby s = (r, s') \<Longrightarrow> view s' = view s"
  by (auto simp: esd_server_standby_def vsimps)

lemma view_resume: "esd_server_resume s = (r, s') \<Longrightarrow> view s' = view s"
  by (auto simp: esd_server_resume_def Let_def vsimps split: if_splits prod.splits dest!: view_audio_open)

lemma view_server_info: "server_info c s = (r, s') \<Longrightarrow> view s' = view s"
  unfolding server_info_def by (rule view_write_seq)

lemmas view_parts = view_server_info view_reply_int view_validate view_check_endian view_standby view_resume view_write_seq

lemma keeps_get_latency: "keeps_inv esd_proto_get_latency"
  by (rule view_only_handler)
    (auto simp: esd_proto_get_latency_def Let_def split: Option.bind_splits prod.splits dest!: view_reply_int)

lemma keeps_unimplemented: "keeps_inv esd_proto_unimplemented"
  by (rule view_only_handler) (simp add: esd_proto_unimplemented_def)

lemma keeps_connect: "keeps_inv esd_proto_connect"
  by (rule view_only_handler)
    (auto simp: esd_proto_connect_def Let_def split: Option.bind_splits prod.splits if_splits dest!: view_parts)

lemma keeps_lock: "keeps_inv esd_proto_lock"
  by (rule view_only_handler)
    (auto simp: esd_proto_lock_def Let_def vsimps split: Option.bind_splits prod.splits if_splits dest!: view_parts)

lemma keeps_unlock: "keeps_inv esd_proto_unlock"
  by (rule view_only_handler)
    (auto simp: esd_proto_unlock_def Let_def vsimps split: Option.bind_splits prod.splits if_splits dest!: view_parts)

lemma keeps_standby: "keeps_inv esd_proto_standby"
  by (rule view_only_handler)
    (auto simp: esd_proto_standby_def Let_def vsimps split: Option.bind_splits prod.splits if_splits dest!: view_parts)

lemma keeps_resume: "keeps_inv esd_proto_resume"
  by (rule view_only_handler)
    (auto simp: esd_proto_resume_def Let_def vsimps split: Option.bind_splits prod.splits if_splits dest!: view_parts)

lemma keeps_standby_mode: "keeps_inv esd_proto_standby_mode"
  by (rule view_only_handler)
    (auto simp: esd_proto_standby_mode_def Let_def split: Option.bind_splits prod.splits dest!: view_parts)

lemma keeps_sample_getid: "keeps_inv esd_proto_sample_getid"
  by (rule view_only_handler)
    (auto simp: esd_proto_sample_getid_def Let_def split: Option.bind_splits prod.splits dest!: view_parts)

lemma keeps_server_info: "keeps_inv esd_proto_server_info"
  by (rule view_only_handler)
    (auto simp: esd_proto_server_info_def Let_def split: Option.bind_splits prod.splits dest!: view_parts)

lemma view_info_players: "info_players c ps l r s = Some (ok, l', r', s') \<Longrightarrow> view s' = view s"
  by (induction c ps l r s rule: info_players.induct)
    (auto simp: Let_def simp del: write_seq.simps split: Option.bind_splits prod.splits if_splits
      dest!: view_write_seq)

lemma view_info_samples: "info_samples c ms l r s = (ok, s') \<Longrightarrow> view s' = view s"
  by (induction c ms l r s rule: info_samples.induct)
    (auto simp: Let_def simp del: write_seq.simps split: prod.splits if_splits dest!: view_write_seq)

lemma keeps_all_info: "keeps_inv esd_proto_all_info"
  by (rule view_only_handler)
    (auto simp: esd_proto_all_info_def Let_def split: Option.bind_splits prod.splits if_splits
      dest!: view_parts view_info_players view_info_samples)

text \<open>Panning changes volumes only.\<close>

lemma pan_stream_pview: "pan_stream i l r ps = (ok, ps') \<Longrightarrow> map pview ps' = map pview ps"
  by (induction ps arbitrary: ok ps') (auto simp: pview_def Let_def split: if_splits prod.splits)

lemma pan_sample_sview: "pan_sample i l r ms = (ok, ms') \<Longrightarrow> map sview ms' = map sview ms"
  by (induction ms arbitrary: ok ms') (auto simp: sview_def Let_def split: if_splits prod.splits)

lemma keeps_stream_pan: "keeps_inv esd_proto_stream_pan"
  by (rule view_only_handler)
    (auto simp: esd_proto_stream_pan_def pan_request_def Let_def view_def
      split: Option.bind_splits prod.splits if_splits
      dest!: view_reply_int [unfolded view_def] pan_stream_pview)

lemma keeps_sample_pan: "keeps_inv esd_proto_sample_pan"
  by (rule view_only_handler)
    (auto simp: esd_proto_sample_pan_def pan_request_def Let_def view_def
      split: Option.bind_splits prod.splits if_splits
      dest!: view_reply_int [unfolded view_def] pan_sample_sview)

text \<open>Streams: a new object is fresh, in stream mode, and gets the idle client as its owner.\<close>

definition fresh_stream :: "'a esd_server_scheme \<Rightarrow> esd_player \<Rightarrow> 'a esd_server_scheme \<Rightarrow> bool" where
  "fresh_stream s p s' \<longleftrightarrow> pl_addr p = next_addr s \<and> next_addr s < next_addr s'
     \<and> pl_format p AND ESD_MASK_MODE = ESD_STREAM \<and> pl_parent p = 0"

lemma view_two_mallocs:
  assumes "malloc a s = (x, s1)" "malloc b s1 = (y, s2)"
  shows "view s2 = (view s)\<lparr>vK := next_addr s2\<rparr> \<and> next_addr s \<le> next_addr s2
    \<and> (x \<noteq> 0 \<longrightarrow> x = next_addr s \<and> x < next_addr s2)"
  using view_malloc [OF assms(1)] view_malloc [OF assms(2)] by (auto simp del: view_sel(2))

lemma stream_mode: "(x AND - 3841) AND 3840 = (0::int)"
  using fmt_and_not [of x 3840] by simp

lemma view_new_stream_player:
  assumes "new_stream_player client s = Some (po, s')"
  shows "view s' = (view s)\<lparr>vK := next_addr s'\<rparr>" "next_addr s \<le> next_addr s'"
    "po = Some p \<Longrightarrow> fresh_stream s p s'"
proof -
  obtain a s1 where m: "malloc 232 s = (a, s1)" by fastforce
  note v = view_malloc [OF m]
  have "view s' = (view s)\<lparr>vK := next_addr s'\<rparr> \<and> next_addr s \<le> next_addr s' \<and> (po = Some p \<longrightarrow> fresh_stream s p s')"
  proof (cases "a = 0")
    case True
    with assms m v show ?thesis by (auto simp: new_stream_player_def split: Option.bind_splits)
  next
    case False
    have "view s2 = (view s)\<lparr>vK := next_addr s2\<rparr> \<and> next_addr s \<le> next_addr s2 \<and> a < next_addr s2 \<and> a = next_addr s"
      if "malloc n s1 = (d, s2)" for n d s2
      using view_two_mallocs [OF m that] False by blast
    with assms m v False show ?thesis
      by (auto simp: new_stream_player_def Let_def fresh_stream_def stream_mode
          split: Option.bind_splits option.splits prod.splits if_splits)
  qed
  then show "view s' = (view s)\<lparr>vK := next_addr s'\<rparr>" "next_addr s \<le> next_addr s'"
    "po = Some p \<Longrightarrow> fresh_stream s p s'" by blast+
qed

lemma view_streaming: "view (streaming client s) = (view s)\<lparr>vC := mark client True (vC (view s))\<rparr>"
  unfolding streaming_def by (simp only: view_set_client_state simp_thms)

lemma view_push:
  "view (s\<lparr>esd_players_list := p # esd_players_list s\<rparr>) = (view s)\<lparr>vP := pview p # vP (view s)\<rparr>"
  "view (s\<lparr>esd_recorder_list := p # esd_recorder_list s\<rparr>) = (view s)\<lparr>vR := pview p # vR (view s)\<rparr>"
  "view (s\<lparr>esd_monitor_list := p # esd_monitor_list s\<rparr>) = (view s)\<lparr>vM := pview p # vM (view s)\<rparr>"
  "view (s\<lparr>esd_filter_list := p # esd_filter_list s\<rparr>) = (view s)\<lparr>vF := pview p # vF (view s)\<rparr>"
  by (simp_all add: view_def)

text \<open>
  The handlers that only make a stream object and push it on a list. \<open>upd\<close> is what the
  push does to the view.
\<close>

lemma stream_handler:
  assumes h: "\<And>client s. h client s = do { (po, s) \<leftarrow> new_stream_player client s;
       case po of None \<Rightarrow> Some (0, s) | Some p \<Rightarrow> Some (1, streaming client (push (p\<lparr>pl_parent := client\<rparr>) s)) }"
    and push: "\<And>p s. view (push p s) = upd (pview p) (view s)"
    and ok: "\<And>v a k c. view_ok v \<Longrightarrow> a = vK v \<Longrightarrow> a < k \<Longrightarrow> (c, False) \<in> set (vC v) \<Longrightarrow>
       view_ok ((upd (a, ESD_STREAM, c) (v\<lparr>vK := k\<rparr>))\<lparr>vC := mark c True (vC v)\<rparr>)"
    and room: "\<And>x v. length (vP (upd x v)) \<le> Suc (length (vP v))" "\<And>x v. vC (upd x v) = vC v"
  shows "keeps_inv h"
proof (rule keeps_invI)
  fix n client s r s'
  assume i: "inv_room (Suc n) s" "idle client s" and hs: "h client s = Some (r, s')"
  from hs obtain po s1 where n: "new_stream_player client s = Some (po, s1)"
    by (auto simp: h split: Option.bind_splits)
  note v = view_new_stream_player [OF n]
  show "hpost n client (r, s')"
  proof (cases po)
    case None
    with hs n have "s' = s1" by (simp add: h)
    with hpost_alloc [OF i v(1,2)] show ?thesis by simp
  next
    case (Some p)
    note f = v(3) [OF Some, unfolded fresh_stream_def]
    have s': "r = 1" "s' = streaming client (push (p\<lparr>pl_parent := client\<rparr>) s1)" using hs n Some by (simp_all add: h)
    have pv: "pview (p\<lparr>pl_parent := client\<rparr>) = (next_addr s, ESD_STREAM, client)" using f by (simp add: pview_def)
    have "view s' = (upd (next_addr s, ESD_STREAM, client) ((view s)\<lparr>vK := next_addr s1\<rparr>))
        \<lparr>vC := mark client True (vC (view s))\<rparr>"
      unfolding s'(2) view_streaming push pv by (subst (1 2) v(1)) (simp add: room(2))
    moreover have "int (length (vP (upd (next_addr s, ESD_STREAM, client) ((view s)\<lparr>vK := next_addr s1\<rparr>)))) + int n < 2147483648"
      using room(1) [of "(next_addr s, ESD_STREAM, client)" "(view s)\<lparr>vK := next_addr s1\<rparr>"] i(1)
      by (simp add: inv_room_iff)
    ultimately show ?thesis
      using ok [of "view s" "next_addr s" "next_addr s1" client] i f s'(1)
      by (simp add: hpost_def inv_room_iff idle_def del: view_sel(1,2))
  qed
qed

lemma keeps_stream_play: "keeps_inv esd_proto_stream_play"
  by (rule stream_handler [where push = "\<lambda>p s. s\<lparr>esd_players_list := p # esd_players_list s\<rparr>"
        and upd = "\<lambda>x v. v\<lparr>vP := x # vP v\<rparr>"])
    (auto simp: esd_proto_stream_play_def add_player_def view_push cong: option.case_cong intro: view_ok_new_player)

lemma keeps_stream_filter: "keeps_inv esd_proto_stream_filter"
  by (rule stream_handler [where push = "\<lambda>p s. s\<lparr>esd_filter_list := p # esd_filter_list s\<rparr>"
        and upd = "\<lambda>x v. v\<lparr>vF := x # vF v\<rparr>"])
    (auto simp: esd_proto_stream_filter_def view_push intro: view_ok_new_filter)

lemma keeps_stream_monitor: "keeps_inv esd_proto_stream_monitor"
  by (rule stream_handler [where push = "\<lambda>p s. s\<lparr>esd_monitor_list :=
        p\<lparr>pl_translate := Some (get_translate_func (esd_audio_format s))\<rparr> # esd_monitor_list s\<rparr>"
        and upd = "\<lambda>x v. v\<lparr>vM := x # vM v\<rparr>"])
    (auto simp: esd_proto_stream_monitor_def view_push pview_def Let_def cong: option.case_cong intro: view_ok_new_monitor)

text \<open>Recorders: the device is reopened in between, and a failure frees the new object.\<close>

lemma view_reopen: "reopen_for_record s = (ok, s') \<Longrightarrow> view s' = view s"
  by (auto simp: reopen_for_record_def Let_def vsimps split: if_splits prod.splits dest!: view_audio_open)

lemma hpost_free_unowned:
  assumes "inv_room (Suc n) s" "idle client s" "pl_format p AND ESD_MASK_MODE = ESD_STREAM" "pl_parent p = 0"
    and "free_player p s = Some s1"
  shows "hpost n client (r, s1)"
proof -
  have s1: "s1 = erase_client 0 s" using assms(3-5) by (simp add: free_player_def)
  have i: "srv_inv s" using assms(1) by (simp add: inv_room_def)
  have z: "\<forall>c \<in> set (vC (view s)). fst c \<noteq> 0"
    using i by (auto simp: srv_inv_def view_ok_def addresses_ok_def addrs_ok_def simp del: view_sel)
  then have "filter (\<lambda>c. fst c \<noteq> 0) (vC (view s)) = vC (view s)" by (simp add: filter_id_conv del: view_sel)
  then have "view s1 = view s"
    using view_erase_client [OF inv_distinct(1) [OF i], of 0] s1 by (simp del: view_sel)
  then show ?thesis by (rule hpost_view [OF assms(1,2)])
qed

lemma idle_view: "view s' = view s \<Longrightarrow> idle client s \<Longrightarrow> idle client s'"
  by (simp add: idle_def del: view_sel)


lemma recorder_tail:
  assumes i: "inv_room (Suc n) s" "idle client s"
    and n: "new_stream_player client s = Some (Some p, s1)" and o: "reopen_for_record s1 = (ok, s2)"
    and h: "(if \<not> ok then do {
             s \<leftarrow> free_player p s2;
             Some (0, snd (esd_audio_open (s\<lparr>esd_audio_format := esd_audio_format s AND NOT ESD_RECORD\<rparr>))) }
           else Some (1, streaming client (add_recorder (Some (p\<lparr>pl_parent := client,
                   pl_translate := Some (get_translate_func (esd_audio_format s2))\<rparr>)) s2))) = Some (r, s')"
  shows "hpost n client (r, s')"
proof -
  note v = view_new_stream_player [OF n]
  note f = v(3) [OF refl, unfolded fresh_stream_def]
  note v2 = view_reopen [OF o]
  have i2: "inv_room (Suc n) s2" "idle client s2"
    using view_ok_alloc [of "view s" "next_addr s1"] i v(1,2) v2
    by (simp_all add: inv_room_iff idle_def del: view_sel(1,2))
  show ?thesis
  proof (cases ok)
    case False
    with h obtain s3 where fp: "free_player p s2 = Some s3"
      and s': "r = 0" "s' = snd (esd_audio_open (s3\<lparr>esd_audio_format := esd_audio_format s3 AND NOT ESD_RECORD\<rparr>))"
      by (auto split: Option.bind_splits)
    have "hpost n client (r, s3)" by (rule hpost_free_unowned [OF i2 _ _ fp]) (use f in auto)
    moreover have vs: "view s' = view s3" by (simp add: s' vsimps)
    ultimately show ?thesis using inv_room_view [OF vs] idle_view [OF vs] by (auto simp: hpost_def)
  next
    case True
    let ?p = "p\<lparr>pl_parent := client, pl_translate := Some (get_translate_func (esd_audio_format s2))\<rparr>"
    have s': "r = 1" "s' = streaming client (s2\<lparr>esd_recorder_list := ?p # esd_recorder_list s2\<rparr>)"
      using h True by (auto simp: add_recorder_def)
    have pv: "pview ?p = (next_addr s, ESD_STREAM, client)" using f by (simp add: pview_def)
    have "view s' = (view s)\<lparr>vK := next_addr s1, vR := (next_addr s, ESD_STREAM, client) # vR (view s),
        vC := mark client True (vC (view s))\<rparr>"
      unfolding s'(2) view_streaming view_push pv v2 v(1) by (simp del: view_sel)
    then show ?thesis
      using view_ok_new_recorder [of "view s" "next_addr s" "next_addr s1" client] i f s'(1)
      by (simp add: hpost_def inv_room_iff idle_def del: view_sel(1,2,3))
  qed
qed

lemma view_snd_resume [vsimps]: "view (snd (esd_server_resume s)) = view s"
  by (metis view_resume prod.collapse)

lemma keeps_stream_recorder: "keeps_inv esd_proto_stream_recorder"
proof (rule keeps_invI)
  fix n client s0 r s'
  assume i0: "inv_room (Suc n) s0" "idle client s0" and h: "esd_proto_stream_recorder client s0 = Some (r, s')"
  define s where "s = (if esd_on_autostandby s0 \<and> \<not> esd_forced_standby s0 then snd (esd_server_resume s0) else s0)"
  have "view s = view s0" by (simp add: s_def vsimps)
  then have i: "inv_room (Suc n) s" "idle client s" using inv_room_view idle_view i0 by blast+
  note h = h [unfolded esd_proto_stream_recorder_def s_def [symmetric] Let_def]
  show "hpost n client (r, s')"
  proof (cases "esd_on_standby s")
    case True
    with h have "s' = s" by simp
    then show ?thesis using hpost_view [OF i refl] by simp
  next
    case False
    then obtain po s1 where n: "new_stream_player client s = Some (po, s1)"
      using h by (auto split: Option.bind_splits)
    note v = view_new_stream_player [OF n]
    show ?thesis
    proof (cases po)
      case None
      with h n False have "s' = s1" by simp
      with hpost_alloc [OF i v(1,2)] show ?thesis by simp
    next
      case (Some p)
      obtain ok s2 where o: "reopen_for_record s1 = (ok, s2)" by fastforce
      from h n Some o False show ?thesis by (intro recorder_tail [OF i n [unfolded Some] o]) simp
    qed
  qed
qed

text \<open>Samples: freeing keeps what is played, playing counts.\<close>

lemma sample_request_keeps:
  assumes "\<And>n client i s s'. inv_room (Suc n) s \<Longrightarrow> idle client s \<Longrightarrow> act i s = Some s' \<Longrightarrow>
      inv_room n s' \<and> idle client s'"
  shows "keeps_inv (sample_request act)"
proof (rule keeps_invI)
  fix n client s r s'
  assume i: "inv_room (Suc n) s" "idle client s" and h: "sample_request act client s = Some (r, s')"
  from h obtain c ident s1 x y where s1: "act ident s = Some s1" and s': "reply_int c x s1 = (y, s')"
    by (auto simp: sample_request_def Let_def split: Option.bind_splits prod.splits)
  note v = view_reply_int [OF s']
  show "hpost n client (r, s')"
    using assms [OF i s1] inv_room_view [OF v] idle_view [OF v] by (simp add: hpost_def)
qed

lemma idle_erase_sample: "idle client (erase_sample i f s) = idle client s"
  by (simp add: idle_def erase_sample_def)

lemma keeps_sample_free: "keeps_inv esd_proto_sample_free"
  unfolding esd_proto_sample_free_def
  by (rule sample_request_keeps) (auto simp: inv_erase_sample inv_room_less idle_erase_sample)

lemma stop_sample_pview:
  "stop_sample_loop i ps = (r, ps') \<Longrightarrow> map pview ps' = map pview ps"
proof (induction ps arbitrary: r ps')
  case (Cons p ps)
  have "((f AND NOT ESD_MASK_FUNC) OR ESD_STOP) AND ESD_MASK_MODE = f AND ESD_MASK_MODE" for f
    using fmt_field_keep [of "0xF000" "0xF00" f] by simp
  with Cons show ?case by (auto simp: pview_def Let_def split: if_splits prod.splits)
qed simp

lemma keeps_sample_stop: "keeps_inv esd_proto_sample_stop"
  unfolding esd_proto_sample_stop_def
proof (rule sample_request_keeps, simp)
  fix n :: nat and client :: addr and i :: int and s s' :: "'a esd_server_scheme"
  assume i: "inv_room (Suc n) s" "idle client s" and s': "snd (stop_sample i s) = s'"
  obtain r ps where l: "stop_sample_loop i (esd_players_list s) = (r, ps)" by fastforce
  have v: "view s' = view s"
    using s' stop_sample_pview [OF l] l by (auto simp: stop_sample_def view_def)
  show "inv_room n s' \<and> idle client s'"
    using inv_room_view [OF v inv_room_less [OF i(1)]] idle_view [OF v i(2)] by simp
qed

lemma sample_mode: "sample_player_format f l AND ESD_MASK_MODE = ESD_SAMPLE"
proof -
  have d: "(x OR y) AND m = (x AND m) OR (y AND m)" for x y m :: int
    by (rule bit.conj_disj_distrib2)
  have a: "((x AND NOT ESD_MASK_MODE) OR ESD_SAMPLE) AND ESD_MASK_MODE = ESD_SAMPLE" for x
    unfolding d fmt_and_not by simp
  have b: "((x AND NOT ESD_MASK_FUNC) OR ESD_LOOP) AND ESD_MASK_MODE = x AND ESD_MASK_MODE" for x
    unfolding d by (subst fmt_field_keep) simp_all
  show ?thesis unfolding sample_player_format_def Let_def by (cases l) (simp_all only: a b if_True if_False)
qed

text \<open>What a started sample player does to the view.\<close>

lemma bump_count:
  assumes "distinct (map sm_addr ms)" "m \<in> set ms" "\<And>x. x \<in> set ms \<Longrightarrow> i32 (sm_ref_count x + 1) = sm_ref_count x + 1"
  shows "map sview (upd_node sm_addr (sm_addr m) (\<lambda>x. x\<lparr>sm_ref_count := i32 (sm_ref_count x + 1)\<rparr>) ms)
    = bump (sm_addr m) 1 (map sview ms)"
  using assms by (auto simp: bump_def upd_node_def sview_def)

lemma ref_count_bound:
  assumes "srv_inv s" "m \<in> set (esd_samples_list s)"
  shows "0 \<le> sm_ref_count m" "sm_ref_count m \<le> int (length (esd_players_list s))"
proof -
  have "sview m \<in> set (vS (view s))" using assms(2) by simp
  moreover have "\<forall>x \<in> set (vS (view s)). snd x = int (refs (fst x) (vP (view s)))"
    using assms(1) unfolding srv_inv_def view_ok_def samples_ok_def by blast
  ultimately have "sm_ref_count m = int (refs (sm_addr m) (vP (view s)))"
    by (metis view_fst(3,4))
  moreover have "refs (sm_addr m) (vP (view s)) \<le> length (esd_players_list s)"
    using length_filter_le [of _ "vP (view s)"] by (simp add: refs_def)
  ultimately show "0 \<le> sm_ref_count m" "sm_ref_count m \<le> int (length (esd_players_list s))" by simp_all
qed

lemma playing_range:
  "srv_inv s \<Longrightarrow> 0 \<le> esd_playing_samples s \<and> esd_playing_samples s \<le> int (length (esd_players_list s))"
  using srv_inv_players [of s] length_filter_le [of is_smp "vP (view s)"] by simp

lemma find_in: "find P xs = Some x \<Longrightarrow> x \<in> set xs"
  by (auto simp: find_Some_iff)


lemma new_sample_player_cases:
  assumes "new_sample_player i l s = Some (po, s')"
  obtains (none) k where "po = None" "view s' = (view s)\<lparr>vK := k\<rparr>" "next_addr s \<le> k"
  | (some) m p s2 k where "po = Some p" "m \<in> set (esd_samples_list s)" "pview p = (next_addr s, ESD_SAMPLE, sm_addr m)"
      "view s2 = (view s)\<lparr>vK := k\<rparr>" "next_addr s < k" "esd_samples_list s2 = esd_samples_list s"
      "esd_playing_samples s2 = esd_playing_samples s"
      "s' = set_sample (sm_addr m) (\<lambda>m. m\<lparr>sm_ref_count := i32 (sm_ref_count m + 1)\<rparr>)
              (s2\<lparr>esd_playing_samples := i32 (esd_playing_samples s + 1)\<rparr>)"
proof (cases "find (\<lambda>m. sm_id m = i) (esd_samples_list s)")
  case None
  with assms have "po = None" "view s' = (view s)\<lparr>vK := next_addr s\<rparr>"
    by (auto simp: new_sample_player_def view_def)
  with none show thesis by blast
next
  case (Some m)
  obtain a s1 where m1: "malloc 232 s = (a, s1)" by fastforce
  note v1 = view_malloc [OF m1]
  let ?f = "sample_player_format (sm_format m) l"
  note h = assms [unfolded new_sample_player_def Let_def]
  show thesis
  proof (cases "a = 0")
    case True
    with h Some m1 v1 none [of "next_addr s1"] show thesis by simp
  next
    case False
    with h Some m1 obtain n where n: "player_buffer_length ?f (sm_rate m) s1 = Some n"
      by (auto split: Option.bind_splits)
    obtain d s2 where m2: "malloc n s1 = (d, s2)" by fastforce
    note v2 = view_two_mallocs [OF m1 m2]
    show thesis
    proof (cases "get_mix_func ?f (sm_left_vol m) (sm_right_vol m) = None \<or> d = 0")
      case True
      then have "po = None \<and> (s' = s1 \<or> s' = s2)"
        using h Some m1 False n m2 by (auto split: option.splits)
      with none v1 v2 show thesis by blast
    next
      case nd: False
      have "esd_samples_list s2 = esd_samples_list s" "esd_playing_samples s2 = esd_playing_samples s"
        using malloc_frame [OF m1] malloc_frame [OF m2] by auto
      moreover from this h Some m1 False n m2 nd obtain p where "po = Some p" "pl_addr p = a" "pl_format p = ?f"
        "pl_parent p = sm_addr m"
        "s' = set_sample (sm_addr m) (\<lambda>m. m\<lparr>sm_ref_count := i32 (sm_ref_count m + 1)\<rparr>)
              (s2\<lparr>esd_playing_samples := i32 (esd_playing_samples s + 1)\<rparr>)"
        by auto
      ultimately show thesis
        using False v2 find_in [OF Some] by (intro some [of p m s2 "next_addr s2"]) (auto simp: pview_def sample_mode)
    qed
  qed
qed

lemma inv_play_sample:
  assumes i: "inv_room (Suc n) s" "idle client s" and h: "play_sample ident l s = Some (r, s')"
  shows "inv_room n s' \<and> idle client s'"
proof -
  from h obtain po s1 where n: "new_sample_player ident l s = Some (po, s1)"
    and s': "s' = (if po = None then s1 else add_player po s1)"
    by (auto simp: play_sample_def split: Option.bind_splits if_splits)
  from n show ?thesis
  proof (cases rule: new_sample_player_cases)
    case (none k)
    with hpost_alloc [OF i none(2,3), of 0] s' show ?thesis by (simp add: hpost_def)
  next
    case (some m p s2 k)
    have inv: "srv_inv s" and len: "int (length (esd_players_list s)) + 1 < 2147483648"
      using i(1) by (simp_all add: inv_room_def)
    have r: "i32 (sm_ref_count x + 1) = sm_ref_count x + 1" if "x \<in> set (esd_samples_list s)" for x
      using ref_count_bound [OF inv that] len by (simp add: i32_small)
    have pl: "i32 (esd_playing_samples s + 1) = esd_playing_samples s + 1"
      using playing_range [OF inv] len by (simp add: i32_small)
    have b: "map sview (upd_node sm_addr (sm_addr m) (\<lambda>x. x\<lparr>sm_ref_count := i32 (sm_ref_count x + 1)\<rparr>) (esd_samples_list s))
        = bump (sm_addr m) 1 (vS (view s))"
      using bump_count [OF inv_distinct(6) [OF inv] some(2) r] by simp
    have "view s' = (view s2)\<lparr>vP := pview p # vP (view s2), vN := vN (view s) + 1, vS := bump (sm_addr m) 1 (vS (view s))\<rparr>"
      using b pl some(1,6,8) s' by (simp add: add_player_def set_sample_def view_def)
    then have v: "view s' = (view s)\<lparr>vP := (next_addr s, ESD_SAMPLE, sm_addr m) # vP (view s), vN := vN (view s) + 1,
        vK := k, vS := bump (sm_addr m) 1 (vS (view s))\<rparr>"
      unfolding some(3,4) by (simp del: view_sel)
    have "sm_addr m \<in> fst ` set (vS (view s))" using some(2) by (simp add: image_image)
    from view_ok_new_sample_player [OF _ _ some(5) this] i v show ?thesis
      by (simp add: inv_room_iff idle_def del: view_sel(1,2,6,7))
  qed
qed

lemma keeps_sample_play: "keeps_inv esd_proto_sample_play"
  unfolding esd_proto_sample_play_def
  by (rule sample_request_keeps) (auto dest: inv_play_sample)

lemma keeps_sample_loop: "keeps_inv esd_proto_sample_loop"
  unfolding esd_proto_sample_loop_def
  by (rule sample_request_keeps) (auto dest: inv_play_sample)

text \<open>Caching.\<close>

lemma view_read_sample: "read_sample a s = Some (r, s') \<Longrightarrow> view s' = view s"
proof -
  assume "read_sample a s = Some (r, s')"
  then obtain fd sw b l c d t buf s1 where l: "read_sample_loop fd sw b l c d s = Some (r, t, buf, s1)"
    and s': "s' = set_sample a (\<lambda>m. m\<lparr>sm_data := buf, sm_cached := (if r = 0 then sm_cached m else t)\<rparr>) s1"
    by (auto simp: read_sample_def split: Option.bind_splits)
  obtain f where "s1 = s\<lparr>rx := f\<rparr>" using read_sample_loop_frame [OF l] by blast
  then have "view s1 = view s" by (simp add: vsimps)
  then show ?thesis unfolding s' by (subst view_set_sample_same) (simp_all add: sview_def)
qed

lemma hpost_cache_sample:
  assumes "inv_room (Suc n) s" "idle client s" "cache_sample client a s = Some (r, s')"
  shows "hpost n client (r, s')"
proof -
  have mk: "mark client False (vC (view t)) = vC (view t)" if "view t = view s" for t :: "'a esd_server_scheme"
    using assms(1,2) that
    by (intro mark_id) (auto simp: inv_room_def srv_inv_def view_ok_def addresses_ok_def addrs_ok_def idle_def
        simp del: view_sel)
  have vc: "view (set_client client (\<lambda>c. c\<lparr>cl_state := st\<rparr>) t) = view t"
    if "view t = view s" "st \<noteq> ESD_STREAMING_DATA" for t :: "'a esd_server_scheme" and st
    using mk [OF that(1)] that(2) by (simp add: view_set_client_state del: view_sel)
  have v0: "view (set_sample a (\<lambda>m. m\<lparr>sm_parent := client\<rparr>) s) = view s"
    by (rule view_set_sample_same) (simp add: sview_def)
  have "view s' = view s"
    using assms(3) unfolding cache_sample_def Let_def
    by (auto simp: v0 vc split: Option.bind_splits if_splits prod.splits dest!: view_read_sample view_reply_int)
  then show ?thesis by (rule hpost_view [OF assms(1,2)])
qed

lemma new_sample_cases:
  assumes "new_sample client s = Some (mo, s')"
  obtains (none) k where "mo = None" "view s' = (view s)\<lparr>vK := k\<rparr>" "next_addr s \<le> k"
  | (some) m k where "mo = Some m" "sview m = (next_addr s, 0)" "view s' = (view s)\<lparr>vK := k\<rparr>" "next_addr s < k"
proof -
  obtain a s1 where m1: "malloc 208 s = (a, s1)" by fastforce
  note v1 = view_malloc [OF m1]
  show thesis
  proof (cases "a = 0")
    case True
    with assms m1 have "mo = None" "s' = s1" by (auto simp: new_sample_def split: Option.bind_splits)
    with none v1 show thesis by blast
  next
    case False
    let ?s1 = "s1\<lparr>esd_next_sample_id := i32 (esd_next_sample_id s1 + 1)\<rparr>"
    from assms m1 False obtain c fmt rate len where
        c: "the_client client s = Some c" "get32 (proto_data c) 0 = Some fmt"
          "get32 (proto_data c) 4 = Some rate" "get32 (proto_data c) 8 = Some len"
      by (auto simp: new_sample_def Let_def case_prod_beta split: Option.bind_splits)
    obtain d s2 where m2: "malloc (maybe_swap_32 (swap_byte_order c) len) ?s1 = (d, s2)" by fastforce
    from assms m1 False c m2
    have c: "mo = None \<and> s' = s2 \<or> (\<exists>m. mo = Some m \<and> sview m = (a, 0)) \<and> (\<exists>bs fd. s' = snd (sys_write fd bs s2))"
      by (fastforce simp: new_sample_def Let_def case_prod_beta sview_def split: if_splits)
    have v2: "view s2 = (view s)\<lparr>vK := next_addr s2\<rparr>" "next_addr s \<le> next_addr s2" "next_addr s < next_addr s2"
      and a: "a = next_addr s"
      using view_malloc [OF m2] v1 False by (auto simp: view_def)
    from c show thesis
    proof (elim disjE exE conjE)
      assume "mo = None" "s' = s2"
      with none v2 show thesis by blast
    next
      fix m bs fd
      assume m: "mo = Some m" and s': "s' = snd (sys_write fd bs s2)" and sv: "sview m = (a, 0)"
      have "view s' = view s2" unfolding s' by (metis view_sys_write prod.collapse)
      with some [OF m] v2 sv a show thesis by auto
    qed
  qed
qed

lemma keeps_sample_cache: "keeps_inv esd_proto_sample_cache"
proof (rule keeps_invI)
  fix n client and s s' :: "'a esd_server_scheme" and r
  assume i: "inv_room (Suc n) s" "idle client s" and h: "esd_proto_sample_cache client s = Some (r, s')"
  have fin: "hpost n client (r, s')" if "inv_room (Suc n) t" "idle client t"
    "(case mo of None \<Rightarrow> Some (0, t) | Some m \<Rightarrow> cache_sample client (sm_addr m) t) = Some (r, s')" for mo t
    using that hpost_view [OF that(1,2), of t] hpost_cache_sample [OF that(1,2)] by (auto split: option.splits)
  from h obtain c where c: "the_client client s = Some c"
    by (auto simp: esd_proto_sample_cache_def split: Option.bind_splits)
  show "hpost n client (r, s')"
  proof (cases "cl_state c = ESD_CACHING_SAMPLE")
    case True
    with h c i fin show ?thesis
      by (auto simp: esd_proto_sample_cache_def split: Option.bind_splits)
  next
    case False
    with h c obtain mo s1 where ns: "new_sample client s = Some (mo, s1)"
      and rest: "(case mo of None \<Rightarrow> Some (0, add_sample mo s1)
        | Some m \<Rightarrow> cache_sample client (sm_addr m) (add_sample mo s1)) = Some (r, s')"
      by (auto simp: esd_proto_sample_cache_def split: Option.bind_splits)
    have "inv_room (Suc n) (add_sample mo s1) \<and> idle client (add_sample mo s1)"
      using ns
    proof (cases rule: new_sample_cases)
      case (none k)
      then show ?thesis using i view_ok_alloc [of "view s" k]
        by (simp add: add_sample_def idle_def inv_room_iff del: view_sel(1,2))
    next
      case (some m k)
      have "view (add_sample mo s1) = (view s)\<lparr>vS := (next_addr s, 0) # vS (view s), vK := k\<rparr>"
        using some(1,2,3) by (auto simp: add_sample_def view_def)
      then show ?thesis using i some(4) view_ok_new_sample [of "view s" "next_addr s" k]
        by (simp add: idle_def inv_room_iff del: view_sel(1,2,6))
    qed
    with fin rest show ?thesis by blast
  qed
qed

end
