(* ===== verification/Esd_Mix_Laws.thy ===== *)
theory Esd_Mix_Laws
  imports Esd_Mix
begin

text \<open>
  What the loops of \<open>mix.c\<close> compute. The three targets a loop writes to (the mix buffer,
  a buffer of bytes, a buffer of shorts) satisfy one interface, the locale \<open>mix_target\<close>;
  the loops are characterised once, inside it. On top of that: the mixing functions add
  exactly the resampled, scaled frames of the player, stay inside the buffers, and the
  special-cased paths agree with the general ones.
\<close>

subsection \<open>Targets of a loop\<close>

locale mix_target =
  fixes put :: "'b \<Rightarrow> nat \<Rightarrow> int \<Rightarrow> 'b option"
    and cells :: "'b \<Rightarrow> nat" and cell :: "'b \<Rightarrow> nat \<Rightarrow> 'v" and upd :: "'v \<Rightarrow> int \<Rightarrow> 'v"
  assumes put_in: "i < cells b \<Longrightarrow> \<exists>b'. put b i x = Some b' \<and> cells b' = cells b
      \<and> (\<forall>j < cells b. cell b' j = (if j = i then upd (cell b j) x else cell b j))"
    and put_out: "cells b \<le> i \<Longrightarrow> put b i x = None"
begin

lemma put_cells: "put b i x = Some b' \<Longrightarrow> cells b' = cells b"
  using put_in [of i b x] put_out [of b i x] by (cases "i < cells b") auto

lemma loop1_cells: "loop1 put f wr lim b = Some (n, b') \<Longrightarrow> cells b' = cells b"
proof (induction "lim - wr" arbitrary: wr b)
  case 0
  then show ?case by (simp add: loop1.simps)
next
  case (Suc d)
  then have "wr < lim" by simp
  with Suc.prems obtain x b1 where b1: "f wr = Some x" "put b wr x = Some b1"
      "loop1 put f (wr + 1) lim b1 = Some (n, b')"
    by (subst (asm) loop1.simps) (auto split: Option.bind_splits)
  have "d = lim - (wr + 1)" using Suc.hyps(2) by simp
  from Suc.hyps(1) [OF this b1(3)] put_cells [OF b1(2)] show ?case by simp
qed

lemma loop2_cells: "loop2 put f wr lim b = Some (n, b') \<Longrightarrow> cells b' = cells b"
proof (induction "lim - wr" arbitrary: wr b rule: less_induct)
  case less
  show ?case
  proof (cases "wr < lim")
    case False
    with less.prems show ?thesis by (simp add: loop2.simps)
  next
    case True
    with less.prems obtain x y b1 b2 where b1: "put b wr x = Some b1" "put b1 (wr + 1) y = Some b2"
      "loop2 put f (wr + 2) lim b2 = Some (n, b')"
      by (subst (asm) loop2.simps) (auto split: Option.bind_splits)
    from less.hyps [OF _ b1(3)] True put_cells [OF b1(1)] put_cells [OF b1(2)] show ?thesis by simp
  qed
qed

lemma loop1_spec:
  assumes "lim \<le> cells b" "wr \<le> lim" "\<And>i. wr \<le> i \<Longrightarrow> i < lim \<Longrightarrow> f i = Some (g i)"
  shows "\<exists>b'. loop1 put f wr lim b = Some (lim, b') \<and> cells b' = cells b
    \<and> (\<forall>j < cells b. cell b' j = (if wr \<le> j \<and> j < lim then upd (cell b j) (g j) else cell b j))"
  using assms
proof (induction "lim - wr" arbitrary: wr b)
  case 0
  then show ?case by (auto simp: loop1.simps)
next
  case (Suc d)
  then have lt: "wr < lim" "d = lim - (wr + 1)" by simp_all
  with Suc.prems(1) put_in [of wr b "g wr"] obtain b1 where
    b1: "put b wr (g wr) = Some b1" "cells b1 = cells b"
      "\<forall>j < cells b. cell b1 j = (if j = wr then upd (cell b j) (g wr) else cell b j)" by auto
  have "loop1 put f wr lim b = loop1 put f (wr + 1) lim b1"
    using lt b1 Suc.prems(3) [of wr] by (subst loop1.simps) simp
  with Suc.hyps(1) [OF lt(2), of b1] Suc.prems b1 lt show ?case
    by (auto simp: not_less_eq_eq dest: le_antisym)
qed

lemma loop2_loop1:
  assumes "even (lim - wr)"
    and "\<And>i. wr \<le> i \<Longrightarrow> i < lim \<Longrightarrow> even (i - wr) \<Longrightarrow> f i = do { x \<leftarrow> g i; y \<leftarrow> g (i + 1); Some (x, y) }"
  shows "loop2 put f wr lim b = loop1 put g wr lim b"
  using assms
proof (induction "lim - wr" arbitrary: wr b rule: less_induct)
  case less
  show ?case
  proof (cases "wr < lim")
    case False
    then show ?thesis by (simp add: loop1.simps loop2.simps)
  next
    case True
    with less.prems(1) have lt: "wr + 1 < lim" by presburger
    have IH: "loop2 put f (wr + 2) lim b2 = loop1 put g (wr + 2) lim b2" for b2
      using less.hyps [of "wr + 2" b2] less.prems True lt by auto
    have f: "f wr = do { x \<leftarrow> g wr; y \<leftarrow> g (wr + 1); Some (x, y) }"
      using less.prems(2) [of wr] True by simp
    show ?thesis
      using True lt IH
      by (simp add: f loop2.simps [of put f wr] loop1.simps [of put g wr] loop1.simps [of put g "Suc wr"]
          split: Option.bind_splits)
  qed
qed

lemma loop2_spec:
  assumes "lim \<le> cells b" "wr \<le> lim" "even (lim - wr)"
    and "\<And>i. wr \<le> i \<Longrightarrow> i < lim \<Longrightarrow> even (i - wr) \<Longrightarrow> f i = Some (g i, g (i + 1))"
  shows "\<exists>b'. loop2 put f wr lim b = Some (lim, b') \<and> cells b' = cells b
    \<and> (\<forall>j < cells b. cell b' j = (if wr \<le> j \<and> j < lim then upd (cell b j) (g j) else cell b j))"
proof -
  have "loop2 put f wr lim b = loop1 put (\<lambda>i. Some (g i)) wr lim b"
    using assms(3,4) by (intro loop2_loop1) simp_all
  then show ?thesis using loop1_spec [of lim b wr "\<lambda>i. Some (g i)" g] assms(1,2) by simp
qed

end

interpretation mixbuf: mix_target mix_add length nth "\<lambda>x v. i32 (x + v)"
  by unfold_locales (auto simp: mix_add_def nth_list_update)

interpretation ucbuf: mix_target uc_put length nth "\<lambda>_ v. word_of_int v"
  by unfold_locales (auto simp: uc_put_def nth_list_update)

lemma le16_bytes: "le16 (word_of_int x) (word_of_int (x div 256)) = i16 x"
proof -
  have "x mod 256 + 256 * (x div 256 mod 256) = x mod 65536"
    using mod_split [of 256 65536 256 x] by simp
  moreover have "i16 (x mod 65536) = i16 x"
    using signed_take_bit_take_bit [of 15 16 x] by (simp add: i16_def take_bit_eq_mod)
  ultimately show ?thesis by (simp only: le16_def uint_byte)
qed

interpretation ssbuf: mix_target ss_put "\<lambda>b. length b div 2"
  "\<lambda>b i. le16 (b ! (2 * i)) (b ! (2 * i + 1))" "\<lambda>_ v. i16 v"
proof
  fix i :: nat and b :: "octet list" and x :: int
  assume "i < length b div 2"
  then have i: "2 * i + 1 < length b" by linarith
  have "le16 (b[2 * i := word_of_int x, 2 * i + 1 := word_of_int (x div 256)] ! (2 * j))
            (b[2 * i := word_of_int x, 2 * i + 1 := word_of_int (x div 256)] ! (2 * j + 1)) =
          (if j = i then i16 x else le16 (b ! (2 * j)) (b ! (2 * j + 1)))" for j
  proof -
    have "2 * i + 1 \<noteq> 2 * j" "2 * i \<noteq> 2 * j + 1" by presburger+
    then show ?thesis using i by (auto simp: nth_list_update le16_bytes)
  qed
  then show "\<exists>b'. ss_put b i x = Some b' \<and> length b' div 2 = length b div 2 \<and>
        (\<forall>j<length b div 2. le16 (b' ! (2 * j)) (b' ! (2 * j + 1)) =
            (if j = i then i16 x else le16 (b ! (2 * j)) (b ! (2 * j + 1))))"
    using i by (simp add: ss_put_def)
next
  fix i :: nat and b :: "octet list" and x :: int
  assume "length b div 2 \<le> i"
  then show "ss_put b i x = None" by (simp add: ss_put_def)
qed

subsection \<open>The mixing functions add resampled frames\<close>

text \<open>Add the frame \<open>h j\<close> (left, right) to output frame \<open>j\<close>, for the first \<open>T\<close> frames.\<close>

definition chan :: "int \<times> int \<Rightarrow> nat \<Rightarrow> int" where
  "chan fr i = (if even i then fst fr else snd fr)"

definition add_frames :: "(nat \<Rightarrow> int \<times> int) \<Rightarrow> nat \<Rightarrow> int list \<Rightarrow> int list" where
  "add_frames h T mb =
     map (\<lambda>i. if i < 2 * T then i32 (mb ! i + chan (h (i div 2)) i) else mb ! i) [0..<length mb]"

lemma mix_lim_frames: "4 * int T < 2147483648 \<Longrightarrow> mix_lim (4 * int T) = 2 * T"
  by (simp add: mix_lim_def u64_id)

lemma mix_loop1_ref:
  assumes "2 * T \<le> length mb" "4 * int T < 2147483648"
    and "\<And>i. i < 2 * T \<Longrightarrow> f i = Some (chan (h (i div 2)) i)"
  shows "mix_result (loop1 mix_add f 0 (mix_lim (4 * int T)) mb) = Some (4 * int T, add_frames h T mb)"
proof -
  from mixbuf.loop1_spec [of "2 * T" mb 0 f "\<lambda>i. chan (h (i div 2)) i"] assms
  obtain b where b: "loop1 mix_add f 0 (2 * T) mb = Some (2 * T, b)" "length b = length mb"
    "\<forall>j < length mb. b ! j = (if j < 2 * T then i32 (mb ! j + chan (h (j div 2)) j) else mb ! j)"
    by auto
  then have "b = add_frames h T mb"
    by (intro nth_equalityI) (auto simp: add_frames_def)
  with b(1) assms(2) show ?thesis
    by (simp add: mix_lim_frames mix_result_def i32_small)
qed

lemma mix_loop2_ref:
  assumes "2 * T \<le> length mb" "4 * int T < 2147483648"
    and "\<And>j. j < T \<Longrightarrow> f (2 * j) = Some (h j)"
  shows "mix_result (loop2 mix_add f 0 (mix_lim (4 * int T)) mb) = Some (4 * int T, add_frames h T mb)"
proof -
  have "loop2 mix_add f 0 (2 * T) mb = loop1 mix_add (\<lambda>i. Some (chan (h (i div 2)) i)) 0 (2 * T) mb"
  proof (rule mixbuf.loop2_loop1)
    fix i assume i: "i < 2 * T" "even (i - 0)"
    then obtain j where "i = 2 * j" "j < T" by auto
    with assms(3) show "f i = Some (chan (h (i div 2)) i) \<bind>
        (\<lambda>x. Some (chan (h ((i + 1) div 2)) (i + 1)) \<bind> (\<lambda>y. Some (x, y)))"
      by (simp add: chan_def)
  qed simp
  then show ?thesis
    using mix_loop1_ref [of T mb "\<lambda>i. Some (chan (h (i div 2)) i)" h] assms(1,2)
    by (simp add: mix_lim_frames)
qed

text \<open>Reading positions: output frame \<open>j\<close> comes from source frame \<open>j * rate div arate\<close>.\<close>

lemma rd_pos_ok:
  assumes "0 < rate" "0 < arate" "arate < 2147483648" "int wr * rate < 2147483648"
  shows "rd_pos wr rate arate = Some (int wr * rate div arate)"
proof (cases "wr = 0")
  case True
  with assms show ?thesis by (simp add: rd_pos_def u32_id i32_def)
next
  case False
  then have "1 * rate \<le> int wr * rate" using assms(1) by (intro mult_right_mono) auto
  then have "rate < 2147483648" using assms(4) by linarith
  then have r: "u32 rate = rate" using assms(1) by (intro u32_id) auto
  have a: "u32 arate = arate" using assms by (intro u32_id) auto
  have w: "u32 (int wr * rate) = int wr * rate" using assms by (intro u32_id) auto
  have n: "0 \<le> int wr * rate" using assms(1) by simp
  then have "0 \<le> int wr * rate div arate" using assms(2) by (simp add: pos_imp_zdiv_nonneg_iff)
  moreover have "int wr * rate div arate \<le> int wr * rate div 1"
    using assms(2) n by (intro zdiv_mono2) auto
  ultimately show ?thesis using assms r a w by (simp add: rd_pos_def i32_small)
qed

definition src_pos :: "esd_player \<Rightarrow> int \<Rightarrow> nat \<Rightarrow> nat" where
  "src_pos p arate j = nat (int j * pl_rate p div arate)"

lemma half_pos: "(2 * a) div b div 2 = a div (b::int)" if "0 < b"
  using that zdiv_zmult2_eq [of 2 "2 * a" b] by simp

lemma and_not_mask: "x AND NOT (mask n) = push_bit n (drop_bit n x)" for x :: int
  by (rule bit_eqI) (auto simp: bit_simps)

lemma and_not_1: "x AND NOT 1 = 2 * (x div (2::int))" "x AND - 2 = 2 * (x div (2::int))"
  using and_not_mask [of x 1] by (simp_all add: push_bit_eq_mult drop_bit_eq_div)

lemma rd_pos_frame:
  assumes "0 < pl_rate p" "0 < arate" "arate < 2147483648" "2 * int T * pl_rate p < 2147483648" "j < T"
  shows "\<exists>rd. rd_pos (2 * j) (pl_rate p) arate = Some rd \<and> rd sdiv 2 = int (src_pos p arate j)
    \<and> rd AND NOT 1 = 2 * int (src_pos p arate j)"
proof -
  have "int j * pl_rate p \<le> int T * pl_rate p" using assms by simp
  then have "int (2 * j) * pl_rate p < 2147483648" using assms(4) by (simp add: ac_simps)
  with assms rd_pos_ok [of "pl_rate p" arate "2 * j"]
  have rd: "rd_pos (2 * j) (pl_rate p) arate = Some (2 * (int j * pl_rate p) div arate)"
    by (simp add: mult.assoc)
  have n: "0 \<le> int j * pl_rate p div arate" "0 \<le> 2 * (int j * pl_rate p) div arate"
    using assms by (simp_all add: pos_imp_zdiv_nonneg_iff)
  then show ?thesis
    using rd half_pos [OF assms(2), of "int j * pl_rate p"]
    by (simp add: sdiv_nonneg and_not_1 src_pos_def)
qed


text \<open>The frames of a player's buffer, as the mixing functions read them.\<close>

definition mf_mono :: "mix_func \<Rightarrow> bool" where
  "mf_mono f = (f \<in> {mix_mono_8u_sv, mix_mono_16s_sv, mix_mono_8u, mix_mono_16s})"

definition mf_8u :: "mix_func \<Rightarrow> bool" where
  "mf_8u f = (f \<in> {mix_mono_8u_sv, mix_stereo_8u_sv, mix_mono_8u, mix_stereo_8u})"

definition mf_sv :: "mix_func \<Rightarrow> bool" where
  "mf_sv f = (f \<in> {mix_mono_8u_sv, mix_stereo_8u_sv, mix_mono_16s_sv, mix_stereo_16s_sv})"

definition frame_bytes :: "mix_func \<Rightarrow> nat" where
  "frame_bytes f = (if mf_mono f then 1 else 2) * (if mf_8u f then 1 else 2)"

definition smp :: "mix_func \<Rightarrow> octet list \<Rightarrow> nat \<Rightarrow> int" where
  "smp f bs k = (if mf_8u f then from_8u (uint (bs ! k)) else le16 (bs ! (2 * k)) (bs ! (2 * k + 1)))"

definition src_frame :: "mix_func \<Rightarrow> octet list \<Rightarrow> nat \<Rightarrow> int \<times> int" where
  "src_frame f bs k =
     (if mf_mono f then (smp f bs k, smp f bs k) else (smp f bs (2 * k), smp f bs (2 * k + 1)))"

definition scale_frame :: "mix_func \<Rightarrow> int \<Rightarrow> int \<Rightarrow> int \<times> int \<Rightarrow> int \<times> int" where
  "scale_frame f lv rv fr =
     (if mf_sv f then fr
      else if f = mix_mono_8u then
        (let x = (fst fr * lv sdiv 256) * rv sdiv 256 in (x, x))
      else (fst fr * lv sdiv 256, snd fr * rv sdiv 256))"

lemma smp_range: "- 32768 \<le> smp f bs k \<and> smp f bs k < 32768"
  using i16_range by (simp add: smp_def from_8u_def le16_def)

lemma scale_bound:
  assumes "- 32768 \<le> x" "x < 32768" "0 \<le> s" "s \<le> (256::int)"
  shows "- 32768 \<le> x * s sdiv 256 \<and> x * s sdiv 256 < 32768 \<and> vol x s = x * s sdiv 256"
proof -
  have m: "- 8388608 \<le> x * s \<and> x * s < 8388608"
  proof (cases "0 \<le> x")
    case True
    then have "0 \<le> x * s" "x * s \<le> x * 256" using assms by (simp_all add: mult_left_mono)
    with assms show ?thesis by linarith
  next
    case False
    then have "x * s \<le> 0" "x * 256 \<le> x * s" using assms
      by (simp_all add: mult_nonpos_nonneg mult_left_mono_neg)
    with assms show ?thesis by linarith
  qed
  have "- 32768 \<le> x * s sdiv 256 \<and> x * s sdiv 256 < 32768"
  proof (cases "0 \<le> x * s")
    case True
    with m show ?thesis by (simp add: sdiv_nonneg) linarith
  next
    case False
    then have "x * s sdiv 256 = - (- (x * s) div 256)" by (simp add: signed_divide_int_def sgn_if)
    moreover have "0 \<le> - (x * s) div 256" "- (x * s) div 256 \<le> 32768" using False m by auto
    ultimately show ?thesis by linarith
  qed
  with m show ?thesis by (simp add: vol_def i32_small)
qed

lemma vol_smp:
  assumes "0 \<le> s" "s \<le> 256"
  shows "vol (smp f bs k) s = smp f bs k * s sdiv 256"
    and "i16 (vol (smp f bs k) s) = smp f bs k * s sdiv 256"
  using scale_bound [of "smp f bs k" s] smp_range [of f bs k] assms by (simp_all add: i16_small)

lemma uc_at_smp: "mf_8u f \<Longrightarrow> k < length bs \<Longrightarrow> \<exists>x. uc_at bs (int k) = Some x \<and> from_8u x = smp f bs k
    \<and> i16 ((x - 127) * 256) = smp f bs k"
proof -
  assume h: "mf_8u f" "k < length bs"
  have "i16 (uint (bs ! k) - 127) = uint (bs ! k) - 127"
    using uint_octet [of "bs ! k"] by (intro i16_small) linarith+
  with h show ?thesis by (simp add: uc_at_def smp_def from_8u_def)
qed

lemma ss_at_smp: "\<not> mf_8u f \<Longrightarrow> 2 * k + 1 < length bs \<Longrightarrow> ss_at bs (int k) = Some (smp f bs k)"
  by (auto simp: ss_at_def smp_def nat_mult_distrib nat_add_distrib)


text \<open>One turn of the loops delivers the scaled source frame.\<close>

lemmas mf_defs = mf_mono_def mf_8u_def mf_sv_def

lemma frame_in_data:
  assumes "frame_bytes f * (k + 1) \<le> length bs"
  shows "mf_mono f \<Longrightarrow> mf_8u f \<Longrightarrow> k < length bs"
    and "\<not> mf_mono f \<Longrightarrow> mf_8u f \<Longrightarrow> 2 * k < length bs \<and> 2 * k + 1 < length bs"
    and "mf_mono f \<Longrightarrow> \<not> mf_8u f \<Longrightarrow> 2 * k + 1 < length bs"
    and "\<not> mf_mono f \<Longrightarrow> \<not> mf_8u f \<Longrightarrow> 2 * (2 * k) + 1 < length bs \<and> 2 * (2 * k + 1) + 1 < length bs"
  using assms by (auto simp: frame_bytes_def)

lemma mono_turn:
  assumes "mf_mono f" "frame_bytes f * (src_pos p arate j + 1) \<le> length (pl_data p)"
    and "rd_pos (2 * j) (pl_rate p) arate = Some rd" "rd sdiv 2 = int (src_pos p arate j)"
  shows "mf_8u f \<Longrightarrow> \<exists>x. uc_at (pl_data p) (rd sdiv 2) = Some x \<and> from_8u x = smp f (pl_data p) (src_pos p arate j)"
    and "\<not> mf_8u f \<Longrightarrow> ss_at (pl_data p) (rd sdiv 2) = Some (smp f (pl_data p) (src_pos p arate j))"
  using frame_in_data [OF assms(2)] assms(1,4) uc_at_smp [of f "src_pos p arate j" "pl_data p"]
    ss_at_smp [of f "src_pos p arate j" "pl_data p"] by auto

lemma stereo_turn:
  assumes "\<not> mf_mono f" "frame_bytes f * (k + 1) \<le> length bs"
  shows "mf_8u f \<Longrightarrow> \<exists>x y. uc_at bs (2 * int k) = Some x \<and> uc_at bs (2 * int k + 1) = Some y
      \<and> from_8u x = smp f bs (2 * k) \<and> from_8u y = smp f bs (2 * k + 1)
      \<and> i16 ((x - 127) * 256) = smp f bs (2 * k) \<and> i16 ((y - 127) * 256) = smp f bs (2 * k + 1)"
    and "\<not> mf_8u f \<Longrightarrow> ss_at bs (2 * int k) = Some (smp f bs (2 * k))
      \<and> ss_at bs (2 * int k + 1) = Some (smp f bs (2 * k + 1))"
  using frame_in_data [OF assms(2)] assms(1) uc_at_smp [of f "2 * k" bs] uc_at_smp [of f "2 * k + 1" bs]
    ss_at_smp [of f "2 * k" bs] ss_at_smp [of f "2 * k + 1" bs]
  by (auto simp: algebra_simps)

lemma src_pos_same: "pl_rate p = arate \<Longrightarrow> 0 < arate \<Longrightarrow> src_pos p arate j = j"
  by (simp add: src_pos_def)


text \<open>
  What a call needs: positive rates whose products fit, room in the mix buffer, enough
  frames in the player's buffer, and volumes that do not amplify.
\<close>

definition mixable :: "mix_func \<Rightarrow> esd_player \<Rightarrow> int \<Rightarrow> nat \<Rightarrow> int list \<Rightarrow> bool" where
  "mixable f p arate T mb \<longleftrightarrow>
     0 < pl_rate p \<and> 0 < arate \<and> arate < 2147483648 \<and> 2 * int T * pl_rate p < 2147483648
     \<and> 4 * int T < 2147483648 \<and> 2 * T \<le> length mb
     \<and> (\<forall>j < T. frame_bytes f * (src_pos p arate j + 1) \<le> length (pl_data p))
     \<and> pl_left_vol p \<in> {0..256} \<and> pl_right_vol p \<in> {0..256}"

definition mixed_in :: "mix_func \<Rightarrow> esd_player \<Rightarrow> int \<Rightarrow> nat \<Rightarrow> int list \<Rightarrow> int list" where
  "mixed_in f p arate T mb = add_frames (\<lambda>j. scale_frame f (pl_left_vol p) (pl_right_vol p)
     (src_frame f (pl_data p) (src_pos p arate j))) T mb"

lemma mixable_pos:
  assumes "mixable f p arate T mb" "j < T"
  shows "\<exists>rd. rd_pos (2 * j) (pl_rate p) arate = Some rd \<and> rd sdiv 2 = int (src_pos p arate j)
    \<and> rd AND NOT 1 = 2 * int (src_pos p arate j)"
    and "frame_bytes f * (src_pos p arate j + 1) \<le> length (pl_data p)"
  using assms rd_pos_frame [of p arate T j] by (auto simp: mixable_def)

lemma mixable_room:
  assumes "mixable f p arate T mb"
  shows "2 * T \<le> length mb" "4 * int T < 2147483648" "0 < arate"
    "0 \<le> pl_left_vol p" "pl_left_vol p \<le> 256" "0 \<le> pl_right_vol p" "pl_right_vol p \<le> 256"
  using assms by (simp_all add: mixable_def)

lemma mix_mono_16s_adds:
  assumes "mixable f p arate T mb" "f = mix_mono_16s_sv \<or> f = mix_mono_16s"
  shows "call_mix_func f p (4 * int T) arate mb = Some (4 * int T, mixed_in f p arate T mb)"
proof -
  have f: "mf_mono f" "\<not> mf_8u f" "f \<noteq> mix_mono_8u" using assms(2) by (auto simp: mf_defs)
  { fix j assume "j < T"
    from mixable_pos [OF assms(1) this] obtain rd where
      rd: "rd_pos (2 * j) (pl_rate p) arate = Some rd" "rd sdiv 2 = int (src_pos p arate j)"
        "frame_bytes f * (src_pos p arate j + 1) \<le> length (pl_data p)" by auto
    note t = rd(1) mono_turn(2) [OF f(1) rd(3,1,2) f(2)]
    have "do { rd \<leftarrow> rd_pos (2 * j) (pl_rate p) arate; x \<leftarrow> ss_at (pl_data p) (rd sdiv 2);
          Some (if f = mix_mono_16s then (vol x (pl_left_vol p), vol x (pl_right_vol p)) else (x, x)) } =
        Some (scale_frame f (pl_left_vol p) (pl_right_vol p) (src_frame f (pl_data p) (src_pos p arate j)))"
      using t f assms(2) vol_smp(1) mixable_room [OF assms(1)]
      by (auto simp: scale_frame_def src_frame_def mf_sv_def) }
  note step = this
  show ?thesis
    using assms(2) mix_loop2_ref [OF mixable_room(1,2) [OF assms(1)], of _ "\<lambda>j. scale_frame f
        (pl_left_vol p) (pl_right_vol p) (src_frame f (pl_data p) (src_pos p arate j))"] step
    by (auto simp: call_mix_func_def mix_mono_16s_to_stereo_32s_sv_def mix_mono_16s_to_stereo_32s_def
        mixed_in_def)
qed


lemma mix_mono_8u_adds:
  assumes "mixable f p arate T mb" "f = mix_mono_8u_sv \<or> f = mix_mono_8u"
  shows "call_mix_func f p (4 * int T) arate mb = Some (4 * int T, mixed_in f p arate T mb)"
proof -
  have f: "mf_mono f" "mf_8u f" using assms(2) by (auto simp: mf_defs)
  note r = mixable_room [OF assms(1)]
  { fix j assume "j < T"
    from mixable_pos [OF assms(1) this] obtain rd where
      rd: "rd_pos (2 * j) (pl_rate p) arate = Some rd" "rd sdiv 2 = int (src_pos p arate j)"
        "frame_bytes f * (src_pos p arate j + 1) \<le> length (pl_data p)" by auto
    let ?x = "smp f (pl_data p) (src_pos p arate j)"
    obtain b where b: "uc_at (pl_data p) (rd sdiv 2) = Some b" "from_8u b = ?x"
      using mono_turn(1) [OF f(1) rd(3,1,2) f(2)] by auto
    have "i16 (vol (i16 (vol ?x (pl_left_vol p))) (pl_right_vol p))
        = ?x * pl_left_vol p sdiv 256 * pl_right_vol p sdiv 256"
      using scale_bound [of ?x "pl_left_vol p"] smp_range [of f "pl_data p" "src_pos p arate j"] r
        scale_bound [of "?x * pl_left_vol p sdiv 256" "pl_right_vol p"] by (simp add: i16_small)
    then have "do { rd \<leftarrow> rd_pos (2 * j) (pl_rate p) arate; x \<leftarrow> uc_at (pl_data p) (rd sdiv 2);
          Some (if f = mix_mono_8u
            then (let x = i16 (vol (i16 (vol (from_8u x) (pl_left_vol p))) (pl_right_vol p)) in (x, x))
            else (from_8u x, from_8u x)) } =
        Some (scale_frame f (pl_left_vol p) (pl_right_vol p) (src_frame f (pl_data p) (src_pos p arate j)))"
      using rd(1) b f assms(2) by (auto simp: scale_frame_def src_frame_def mf_sv_def Let_def) }
  note step = this
  show ?thesis
    using assms(2) mix_loop2_ref [OF r(1,2), of _ "\<lambda>j. scale_frame f
        (pl_left_vol p) (pl_right_vol p) (src_frame f (pl_data p) (src_pos p arate j))"] step
    by (auto simp: call_mix_func_def mix_mono_8u_to_stereo_32s_sv_def mix_mono_8u_to_stereo_32s_def
        mixed_in_def Let_def)
qed

lemma loop1_frame_index:
  assumes "\<And>k. k < T \<Longrightarrow> do { x \<leftarrow> g (2 * k); y \<leftarrow> g (2 * k + 1); Some (x, y) } = Some (h k)"
    and "i < 2 * T"
  shows "g i = Some (chan (h (i div 2)) i)"
proof -
  have g: "g (2 * k) = Some (fst (h k)) \<and> g (2 * k + 1) = Some (snd (h k))" if "k < T" for k
    using assms(1) [OF that] by (auto split: Option.bind_splits) (metis fst_conv, metis snd_conv)
  show ?thesis
  proof (cases "even i")
    case True
    then obtain k where "i = 2 * k" by auto
    with g assms(2) show ?thesis by (simp add: chan_def)
  next
    case False
    then obtain k where "i = 2 * k + 1" by (rule oddE)
    with g assms(2) show ?thesis by (simp add: chan_def)
  qed
qed

lemma mix_stereo_16s_adds:
  assumes "mixable f p arate T mb" "f = mix_stereo_16s_sv \<or> f = mix_stereo_16s"
  shows "call_mix_func f p (4 * int T) arate mb = Some (4 * int T, mixed_in f p arate T mb)"
proof -
  have f: "\<not> mf_mono f" "\<not> mf_8u f" "f \<noteq> mix_mono_8u" using assms(2) by (auto simp: mf_defs)
  note r = mixable_room [OF assms(1)]
  let ?h = "\<lambda>j. scale_frame f (pl_left_vol p) (pl_right_vol p) (src_frame f (pl_data p) (src_pos p arate j))"
  { fix j assume "j < T"
    from mixable_pos [OF assms(1) this] obtain rd where
      rd: "rd_pos (2 * j) (pl_rate p) arate = Some rd" "rd AND NOT 1 = 2 * int (src_pos p arate j)"
        "frame_bytes f * (src_pos p arate j + 1) \<le> length (pl_data p)" by auto
    have "do { rd \<leftarrow> (if pl_rate p = arate then Some (2 * int j)
                        else do { rd \<leftarrow> rd_pos (2 * j) (pl_rate p) arate; Some (rd AND NOT 1) });
              x \<leftarrow> ss_at (pl_data p) rd; y \<leftarrow> ss_at (pl_data p) (rd + 1);
          Some (if f = mix_stereo_16s then (i16 (vol x (pl_left_vol p)), i16 (vol y (pl_right_vol p)))
                else (x, y)) } = Some (?h j)"
      using rd stereo_turn(2) [OF f(1) rd(3) f(2)] f assms(2) vol_smp(2) r src_pos_same [of p arate j]
      by (auto simp: scale_frame_def src_frame_def mf_sv_def) }
  note step = this
  show ?thesis
  proof (cases "pl_rate p = arate")
    case False
    show ?thesis
      using False assms(2) mix_loop2_ref [OF r(1,2), of _ ?h] step
      by (auto simp: call_mix_func_def mix_stereo_16s_to_stereo_32s_sv_def
          mix_stereo_16s_to_stereo_32s_def mixed_in_def Let_def)
  next
    case True
    have "f = mix_stereo_16s_sv \<Longrightarrow> i < 2 * T \<Longrightarrow>
        ss_at (pl_data p) (int i) = Some (chan (?h (i div 2)) i)" for i
      using step True
      by (intro loop1_frame_index [of T "\<lambda>i. ss_at (pl_data p) (int i)" ?h])
        (auto simp: add.commute)
    then show ?thesis
      using True assms(2) mix_loop2_ref [OF r(1,2), of _ ?h] mix_loop1_ref [OF r(1,2), of _ ?h] step
      by (auto simp: call_mix_func_def mix_stereo_16s_to_stereo_32s_sv_def
          mix_stereo_16s_to_stereo_32s_def mixed_in_def Let_def)
  qed
qed

lemma mix_stereo_8u_adds:
  assumes "mixable f p arate T mb" "f = mix_stereo_8u_sv \<or> f = mix_stereo_8u"
  shows "call_mix_func f p (4 * int T) arate mb = Some (4 * int T, mixed_in f p arate T mb)"
proof -
  have f: "\<not> mf_mono f" "mf_8u f" "f \<noteq> mix_mono_8u" using assms(2) by (auto simp: mf_defs)
  note r = mixable_room [OF assms(1)]
  let ?h = "\<lambda>j. scale_frame f (pl_left_vol p) (pl_right_vol p) (src_frame f (pl_data p) (src_pos p arate j))"
  { fix j assume "j < T"
    from mixable_pos [OF assms(1) this] obtain rd where
      rd: "rd_pos (2 * j) (pl_rate p) arate = Some rd" "rd AND NOT 1 = 2 * int (src_pos p arate j)"
        "frame_bytes f * (src_pos p arate j + 1) \<le> length (pl_data p)" by auto
    have "do { rd \<leftarrow> (if pl_rate p = arate then Some (2 * int j)
                        else do { rd \<leftarrow> rd_pos (2 * j) (pl_rate p) arate; Some (rd AND NOT 1) });
              x \<leftarrow> uc_at (pl_data p) rd; y \<leftarrow> uc_at (pl_data p) (rd + 1);
          Some (if f = mix_stereo_8u then (i16 (vol (c x) (pl_left_vol p)), i16 (vol (c y) (pl_right_vol p)))
                else (c x, c y)) } = Some (?h j)"
      if "c = from_8u \<or> c = (\<lambda>x. i16 ((x - 127) * 256))" for c
      using rd stereo_turn(1) [OF f(1) rd(3) f(2)] f assms(2) vol_smp(2) r that src_pos_same [of p arate j]
      by (auto simp: scale_frame_def src_frame_def mf_sv_def) }
  note step = this
  show ?thesis
  proof (cases "pl_rate p = arate")
    case False
    show ?thesis
      using False assms(2) mix_loop2_ref [OF r(1,2), of _ ?h] step
      by (auto simp: call_mix_func_def mix_stereo_8u_to_stereo_32s_sv_def
          mix_stereo_8u_to_stereo_32s_def mixed_in_def Let_def)
  next
    case True
    have "f = mix_stereo_8u_sv \<Longrightarrow> i < 2 * T \<Longrightarrow>
        do { x \<leftarrow> uc_at (pl_data p) (int i); Some (i16 ((x - 127) * 256)) } = Some (chan (?h (i div 2)) i)" for i
      using step True
      by (intro loop1_frame_index [of T "\<lambda>i. do { x \<leftarrow> uc_at (pl_data p) (int i); Some (i16 ((x - 127) * 256)) }" ?h])
        (auto simp: add.commute)
    then show ?thesis
      using True assms(2) mix_loop2_ref [OF r(1,2), of _ ?h] mix_loop1_ref [OF r(1,2), of _ ?h] step
      by (auto simp: call_mix_func_def mix_stereo_8u_to_stereo_32s_sv_def
          mix_stereo_8u_to_stereo_32s_def mixed_in_def Let_def)
  qed
qed



lemma call_mix_func_adds:
  assumes "mixable f p arate T mb"
  shows "call_mix_func f p (4 * int T) arate mb = Some (4 * int T, mixed_in f p arate T mb)"
  using mix_mono_8u_adds [OF assms] mix_mono_16s_adds [OF assms]
    mix_stereo_8u_adds [OF assms] mix_stereo_16s_adds [OF assms] by (cases f) auto

lemma neutral_scale: "x * 256 sdiv 256 = (x::int)"
  by (cases "0 \<le> x") (auto simp: signed_divide_int_def sgn_if)

lemma get_mix_func_sv: "get_mix_func fmt lv rv = Some f \<Longrightarrow> mf_sv f \<Longrightarrow> lv = 256 \<and> rv = 256"
  by (auto simp: get_mix_func_def mf_sv_def Let_def split: if_splits)

lemma scale_frame_chosen:
  assumes "get_mix_func fmt lv rv = Some f"
  shows "scale_frame f lv rv fr = (if f = mix_mono_8u then (fst fr * lv sdiv 256 * rv sdiv 256, fst fr * lv sdiv 256 * rv sdiv 256)
    else (fst fr * lv sdiv 256, snd fr * rv sdiv 256))"
  using get_mix_func_sv [OF assms(1)] by (auto simp: scale_frame_def neutral_scale Let_def mf_sv_def)

text \<open>A player for the concrete runs.\<close>

definition player0 :: "int \<Rightarrow> int \<Rightarrow> int \<Rightarrow> octet list \<Rightarrow> esd_player" where
  "player0 fmt lv rv bs = \<lparr>pl_addr = 1, pl_parent = 2, pl_format = fmt, pl_rate = 22050,
     pl_left_vol = lv, pl_right_vol = rv, pl_source_id = 5, pl_data = bs,
     pl_buffer_length = 8, pl_actual_length = int (length bs), pl_last_pos = 0, pl_name = [],
     pl_mix_func = None, pl_translate = None\<rparr>"

lemma mixable_witness:
  "mixable mix_stereo_16s (player0 0x21 128 64 [0, 1, 0, 2]) 44100 2 [5, 6, 7, 8]"
  by (auto simp: mixable_def player0_def src_pos_def frame_bytes_def mf_defs less_2_cases_iff)

text \<open>
  C25. The mixing function chosen for a player, whichever of the eight it is and whichever path through it is taken
  (equal rates or resampling, neutral volume or scaled), adds to each of the first \<open>T\<close> frames of the mix buffer the
  player's frame at the resampled position, touches nothing else, and stays inside both buffers. Seven of
  them scale each channel by its volume; the one that scales mono 8 bit sound multiplies its sample with both volumes and adds
  the product to both channels. The rates are positive and their products with the positions fit into an \<open>int\<close>, the buffers
  are long enough, and the volumes are between 0 and 256, so that nothing is amplified.
\<close>

theorem mix_func_adds_frames:
  assumes "get_mix_func (pl_format p) (pl_left_vol p) (pl_right_vol p) = Some f" and "mixable f p arate T mb"
  shows "call_mix_func f p (4 * int T) arate mb = Some (4 * int T,
    add_frames (\<lambda>j. let (l, r) = src_frame f (pl_data p) (src_pos p arate j)
                     in if f = mix_mono_8u then (l * pl_left_vol p sdiv 256 * pl_right_vol p sdiv 256,
                          l * pl_left_vol p sdiv 256 * pl_right_vol p sdiv 256)
                        else (l * pl_left_vol p sdiv 256, r * pl_right_vol p sdiv 256)) T mb)"
  using call_mix_func_adds [OF assms(2)] scale_frame_chosen [OF assms(1)]
  by (simp add: mixed_in_def case_prod_beta Let_def)

theorem mix_func_adds_frames_witness:
  "call_mix_func mix_stereo_16s (player0 0x21 128 64 [0, 1, 0, 2]) 8 44100 [5, 6, 7, 8] = Some (8, [133, 134, 135, 136])
   \<and> call_mix_func mix_mono_8u (player0 0x10 128 64 [131]) 8 44100 [5, 6, 7, 8] = Some (8, [133, 134, 135, 136])"
proof
  let ?p = "player0 0x21 128 64 [0, 1, 0, 2]" and ?q = "player0 0x10 128 64 [131]"
  have f: "get_mix_func (pl_format ?p) (pl_left_vol ?p) (pl_right_vol ?p) = Some mix_stereo_16s"
      "get_mix_func (pl_format ?q) (pl_left_vol ?q) (pl_right_vol ?q) = Some mix_mono_8u"
    by (simp_all add: get_mix_func_def player0_def)
  from mix_func_adds_frames [OF f(1) mixable_witness]
  show "call_mix_func mix_stereo_16s (player0 0x21 128 64 [0, 1, 0, 2]) 8 44100 [5, 6, 7, 8] = Some (8, [133, 134, 135, 136])"
    by (simp add: add_frames_def player0_def src_frame_def src_pos_def smp_def mf_defs chan_def
        le16_def i16_def i32_def signed_divide_int_def upt_rec)
  have "mixable mix_mono_8u ?q 44100 2 [5, 6, 7, 8]"
    by (auto simp: mixable_def player0_def src_pos_def frame_bytes_def mf_defs less_2_cases_iff)
  from mix_func_adds_frames [OF f(2) this]
  show "call_mix_func mix_mono_8u (player0 0x10 128 64 [131]) 8 44100 [5, 6, 7, 8] = Some (8, [133, 134, 135, 136])"
    by (simp add: add_frames_def player0_def src_frame_def src_pos_def smp_def mf_defs chan_def
        from_8u_def i16_def i32_def signed_divide_int_def upt_rec)
qed

text \<open>
  The volume-scaling function for mono 8 bit sound multiplies both channels by both
  volumes: panned to one side, the sound is not moved but silenced.
\<close>

theorem mix_mono_8u_pan_silences:
  assumes "mixable mix_mono_8u p arate T mb" "pl_left_vol p = 0 \<or> pl_right_vol p = 0"
  shows "call_mix_func mix_mono_8u p (4 * int T) arate mb = Some (4 * int T, add_frames (\<lambda>j. (0, 0)) T mb)"
proof -
  have "scale_frame mix_mono_8u (pl_left_vol p) (pl_right_vol p) fr = (0, 0)" for fr
    using assms(2) by (auto simp: scale_frame_def mf_sv_def signed_divide_int_def sgn_if)
  then show ?thesis using call_mix_func_adds [OF assms(1)] by (simp add: mixed_in_def)
qed

theorem mix_mono_8u_pan_silences_witness:
  "call_mix_func mix_mono_8u (player0 0x10 256 0 [200]) 8 44100 [5, 6, 7, 8] = Some (8, [5, 6, 7, 8])"
proof -
  have "mixable mix_mono_8u (player0 0x10 256 0 [200]) 44100 2 [5, 6, 7, 8]"
    by (auto simp: mixable_def player0_def src_pos_def frame_bytes_def mf_defs less_2_cases_iff)
  from mix_mono_8u_pan_silences [OF this] show ?thesis
    by (simp add: player0_def add_frames_def chan_def i32_def upt_rec)
qed

subsection \<open>Clipping\<close>

lemma clip_16s_range: "- 32768 \<le> clip_16s x \<and> clip_16s x < 32768"
  by (simp add: clip_16s_def)

lemma clip_8u_range: "0 \<le> clip_8u x \<and> clip_8u x < 256"
proof (cases "x < -32768 \<or> x > 32767")
  case False
  then have "- 128 \<le> x sdiv 256 \<and> x sdiv 256 < 128"
    by (cases "0 \<le> x") (auto simp: signed_divide_int_def sgn_if)
  with False show ?thesis by (auto simp: clip_8u_def)
qed (auto simp: clip_8u_def)

lemma loop1_keeps:
  assumes "\<And>b i x b'. put b i x = Some b' \<Longrightarrow> P b' = P b"
  shows "loop1 put f wr lim b = Some (n, b') \<Longrightarrow> P b' = P b"
proof (induction "lim - wr" arbitrary: wr b)
  case 0
  then show ?case by (simp add: loop1.simps)
next
  case (Suc d)
  then have "wr < lim" by simp
  with Suc.prems obtain x b1 where b1: "put b wr x = Some b1" "loop1 put f (wr + 1) lim b1 = Some (n, b')"
    by (subst (asm) loop1.simps) (auto split: Option.bind_splits)
  have "d = lim - (wr + 1)" using Suc.hyps(2) by simp
  from Suc.hyps(1) [OF this b1(2)] assms [OF b1(1)] show ?case by simp
qed

lemma clip_16s_ref:
  assumes "4 * int T < 2147483648" "2 * T \<le> length mb" "4 * T \<le> length out"
  shows "\<exists>out'. clip_mix_to_output_16s out (4 * int T) mb = Some out' \<and> length out' = length out
    \<and> (\<forall>i < 2 * T. ss_at out' (int i) = Some (max (-32768) (min 32767 (mb ! i))))"
proof -
  have "2 * T \<le> length out div 2" using assms(3) by linarith
  then obtain b where b: "loop1 ss_put (\<lambda>i. map_option clip_16s (mixed_at mb i)) 0 (2 * T) out = Some (2 * T, b)"
    and l: "length b div 2 = length out div 2"
    and c: "\<forall>j < length out div 2. le16 (b ! (2 * j)) (b ! (2 * j + 1)) =
        (if 0 \<le> j \<and> j < 2 * T then i16 (clip_16s (mb ! j)) else le16 (out ! (2 * j)) (out ! (2 * j + 1)))"
    using ssbuf.loop1_spec [of "2 * T" out 0 "\<lambda>i. map_option clip_16s (mixed_at mb i)" "\<lambda>i. clip_16s (mb ! i)"]
      assms(2) by (auto simp: mixed_at_def)
  have len: "length b = length out"
    using loop1_keeps [of ss_put length, OF ss_put_length b] .
  have "ss_at b (int i) = Some (max (-32768) (min 32767 (mb ! i)))" if "i < 2 * T" for i
  proof -
    have "2 * i + 1 < length b" "i < length out div 2" using that assms(3) len by linarith+
    then show ?thesis using c that i16_small [of "clip_16s (mb ! i)"] clip_16s_range [of "mb ! i"]
      by (simp add: ss_at_def nat_mult_distrib nat_add_distrib clip_16s_def)
  qed
  with b len show ?thesis by (simp add: clip_mix_to_output_16s_def mix_lim_frames [OF assms(1)])
qed

text \<open>
  Clipping saturates: every short of the output is the mixed value where that fits in 16
  bits, and the nearest limit where it does not; the rest of the buffer is untouched.
\<close>

theorem clip_16s_saturates:
  assumes "4 * int T < 2147483648" "2 * T \<le> length mb" "4 * T \<le> length out"
  shows "\<exists>out'. clip_mix_to_output_16s out (4 * int T) mb = Some out' \<and> length out' = length out
    \<and> (\<forall>i < 2 * T. ss_at out' (int i) = Some (max (-32768) (min 32767 (mb ! i))))"
  by (rule clip_16s_ref [OF assms])

theorem clip_16s_saturates_witness:
  "\<exists>out'. clip_mix_to_output_16s [0, 0, 0, 0] 4 [40000, -5] = Some out' \<and> length out' = 4
    \<and> ss_at out' 0 = Some 32767 \<and> ss_at out' 1 = Some (-5)"
  using clip_16s_saturates [of 1 "[40000, -5]" "[0, 0, 0, 0]"]
  by (auto simp: less_2_cases_iff all_conj_distrib)

end
