(* ===== verification/Esd_Ownership_Loop.thy ===== *)
theory Esd_Ownership_Loop
  imports Esd_Ownership_Proto Esd_Mix_Laws
begin

text \<open>
  The ownership invariant in the main loop: the polling round, a turn, and runs of the daemon.
\<close>

subsection \<open>The polling round\<close>

lemma keeps_proto_map: "\<forall>e \<in> set esd_proto_map. keeps_inv (snd e)"
  by (simp add: esd_proto_map_def keeps_connect keeps_lock keeps_unlock keeps_stream_play keeps_stream_recorder
      keeps_stream_monitor keeps_sample_cache keeps_sample_free keeps_sample_play keeps_sample_loop
      keeps_sample_stop keeps_unimplemented keeps_standby keeps_resume keeps_sample_getid keeps_stream_filter
      keeps_server_info keeps_all_info keeps_stream_pan keeps_sample_pan keeps_standby_mode keeps_get_latency)

lemma keeps_invD: "keeps_inv h \<Longrightarrow> inv_room (Suc n) s \<Longrightarrow> idle client s \<Longrightarrow> h client s = Some rs \<Longrightarrow> hpost n client rs"
  unfolding keeps_inv_def by blast

lemma keeps_proto_entry:
  fixes h :: "'a handler"
  assumes "proto_entry r = Some (n, h)"
  shows "keeps_inv h"
proof -
  note assms
  moreover have "length (esd_proto_map :: (int \<times> 'a handler) list) = 24" by (simp add: esd_proto_map_def)
  ultimately have "(n, h) \<in> set esd_proto_map"
    by (auto simp: proto_entry_def set_conv_nth split: if_splits intro!: exI [of _ "nat r"])
  with keeps_proto_map show ?thesis by fastforce
qed

lemma view_set_idle:
  assumes "inv_room n s" "idle client s" "\<And>c. cl_addr (f c) = cl_addr c" "\<And>c. cl_state c \<noteq> ESD_STREAMING_DATA \<Longrightarrow> cl_state (f c) \<noteq> ESD_STREAMING_DATA"
  shows "view (set_client client f s) = view s"
proof -
  have d: "distinct (map fst (vC (view s)))"
    using assms(1) by (simp add: inv_room_def srv_inv_def view_ok_def addresses_ok_def addrs_ok_def del: view_sel)
  have "cview (f c) = cview c" if "c \<in> set (esd_clients_list s)" "cl_addr c = client" for c
  proof -
    have "cview c \<in> set (vC (view s))" using that by simp
    with d assms(2) that have "cview c = (client, False)"
      by (metis cview_def eq_key_imp_eq_value idle_def)
    with assms(3,4) [of c] that show ?thesis by (auto simp: cview_def)
  qed
  then show ?thesis by (auto simp: set_client_def view_def upd_node_def)
qed

lemma poll_needs_reqdata_inv:
  fixes s :: "'a esd_server_scheme"
  assumes "inv_room (Suc n) s" "idle client s" "poll_needs_reqdata client len s = Some (r, len', s')"
  shows "hpost n client (r, s')"
proof -
  have run: "hpost n client (r, s')"
    if h: "keeps_inv h" and t: "view t = view s" and "h client (set_client client (\<lambda>c. c\<lparr>cl_state := ESD_NEXT_REQUEST\<rparr>) t) = Some (r, s')"
    for h t
  proof -
    have i: "inv_room (Suc n) t" "idle client t" using inv_room_view [OF t assms(1)] idle_view [OF t assms(2)] by auto
    have v: "view (set_client client (\<lambda>c. c\<lparr>cl_state := ESD_NEXT_REQUEST\<rparr>) t) = view t"
      by (rule view_set_idle [OF i]) simp_all
    show ?thesis using h that(3) inv_room_view [OF v i(1)] idle_view [OF v i(2)] by (auto simp: keeps_inv_def)
  qed
  have v: "view (set_client client (\<lambda>c. c\<lparr>proto_data := b, proto_data_length := k c\<rparr>) t) = view s" if "view t = view s" for b k and t :: "'a esd_server_scheme"
    using that by (subst view_set_client_same) (simp_all add: cview_def)
  from assms(3) obtain c dl and h :: "'a handler" where c: "the_client client s = Some c" and e: "proto_entry (cl_request c) = Some (dl, h)"
    by (auto simp: poll_needs_reqdata_def split: Option.bind_splits)
  show ?thesis
  proof (cases "proto_data_length c > dl \<or> dl = 0")
    case True
    with assms c e run [OF keeps_proto_entry [OF e] refl] show ?thesis
      by (auto simp: poll_needs_reqdata_def hpost_view split: Option.bind_splits if_splits)
  next
    case False
    obtain k tr bs s1 where rd: "sys_read (cl_fd c) (nat (dl - proto_data_length c)) s = ((k, tr, bs), s1)"
      by (metis surj_pair)
    obtain buf where b: "(if k > 0 then blit (proto_data c) (proto_data_length c) bs else Some (proto_data c)) = Some buf"
      using assms(3) False c e rd by (auto simp: poll_needs_reqdata_def Let_def split: Option.bind_splits)
    let ?t = "set_client client (\<lambda>c. c\<lparr>proto_data := buf, proto_data_length := i32 (proto_data_length c + k)\<rparr>) s1"
    note vt = v [OF view_sys_read [OF rd], of "\<lambda>c. i32 (proto_data_length c + k)" buf]
    from assms(3) False c e rd b hpost_view [OF assms(1,2) vt] run [OF keeps_proto_entry [OF e] vt] show ?thesis
      by (auto simp: poll_needs_reqdata_def Let_def split: Option.bind_splits if_splits)
  qed
qed

lemma poll_next_request_inv:
  fixes s :: "'a esd_server_scheme"
  assumes "inv_room (Suc n) s" "idle client s" "poll_next_request client s = Some (r, len', s')"
  shows "hpost n client (r, s')"
proof -
  obtain c where c: "the_client client s = Some c"
    using assms(3) by (auto simp: poll_next_request_def split: Option.bind_splits)
  obtain k tr bs s1 where rd: "sys_read (cl_fd c) 4 s = ((k, tr, bs), s1)" by (metis surj_pair)
  obtain q where q: "get32 (bs @ drop (length bs) (put32 (cl_request c))) 0 = Some q"
    using assms(3) c rd by (auto simp: poll_next_request_def Let_def split: Option.bind_splits)
  define req where "req = (if swap_byte_order c then swap_endian_32 q else q)"
  define s2 where "s2 = set_client client (\<lambda>c. c\<lparr>cl_request := req\<rparr>) s1"
  define s3 where "s3 = set_client client (\<lambda>c. c\<lparr>cl_state := ESD_NEEDS_REQDATA, proto_data_length := 0\<rparr>) s2"
  define s4 where "s4 = set_client client (\<lambda>c. c\<lparr>cl_state := ESD_NEXT_REQUEST\<rparr>) s3"
  note v1 = view_sys_read [OF rd]
  have v2: "view s2 = view s"
    unfolding s2_def v1 [symmetric] by (rule view_set_client_same) (simp add: cview_def)
  note i2 = inv_room_view [OF v2 assms(1)] idle_view [OF v2 assms(2)]
  have v3: "view s3 = view s" unfolding s3_def v2 [symmetric] by (rule view_set_idle [OF i2]) simp_all
  note i3 = inv_room_view [OF v3 assms(1)] idle_view [OF v3 assms(2)]
  have v4: "view s4 = view s" unfolding s4_def v3 [symmetric] by (rule view_set_idle [OF i3]) simp_all
  have body: "(if k = 0 \<or> (k < 0 \<and> \<not> tr) then Some (0, k, s2)
     else if req > ESD_PROTO_CONNECT \<and> req < ESD_PROTO_MAX then do {
       (data_length, handler) \<leftarrow> proto_entry req;
       if data_length = 0 then do { (is_ok, s) \<leftarrow> handler client s4; Some (is_ok, k, s) }
       else Some (1, k, s3) }
     else Some (0, k, s2)) = Some (r, len', s')"
    using assms(3) c rd q unfolding poll_next_request_def Let_def req_def s2_def s3_def s4_def
    by (simp split del: if_split)
  have run: "hpost n client (r, s')" if "proto_entry req = Some (dl, h)" "h client s4 = Some (r, s')" for dl h
    using keeps_proto_entry [OF that(1)] that(2) inv_room_view [OF v4 assms(1)] idle_view [OF v4 assms(2)]
    by (auto simp: keeps_inv_def)
  from body run hpost_view [OF assms(1,2) v2] hpost_view [OF assms(1,2) v3] show ?thesis
    by (auto split: Option.bind_splits if_splits)
qed

lemma the_client_idle:
  assumes "the_client client s = Some c" "cl_state c \<noteq> ESD_STREAMING_DATA"
  shows "idle client s"
  using assms by (force simp: the_client_def idle_def cview_def dest: node_Some)

lemma poll_client_inv:
  assumes "inv_room (Suc n) s" "poll_client client len s = Some (len', s')"
  shows "inv_room n s'"
proof -
  obtain c where c: "the_client client s = Some c"
    using assms(2) by (auto simp: poll_client_def split: Option.bind_splits)
  show ?thesis
  proof (cases "cl_state c = ESD_STREAMING_DATA \<or> sys_select_rd (cl_fd c) s = 0")
    case True
    with assms c show ?thesis by (auto simp: poll_client_def inv_room_less split: if_splits)
  next
    case False
    then have idle: "idle client s" using the_client_idle [OF c] by blast
    from assms(2) c False obtain ok len2 s2 where m: "(case cl_state c of
            ESD_NEEDS_REQDATA \<Rightarrow> poll_needs_reqdata client len s
          | ESD_CACHING_SAMPLE \<Rightarrow> do { (r, s) \<leftarrow> esd_proto_sample_cache client s; Some (r, len, s) }
          | ESD_NEXT_REQUEST \<Rightarrow> poll_next_request client s
          | _ \<Rightarrow> Some (0, len, s)) = Some (ok, len2, s2)"
      and s': "s' = (if ok = 0 then erase_client client s2 else s2)"
      by (auto simp: poll_client_def split: Option.bind_splits)
    have hp: "hpost n client (ok, s2)"
      using m assms(1) idle poll_needs_reqdata_inv poll_next_request_inv keeps_invD [OF keeps_sample_cache assms(1) idle] hpost_view [OF assms(1) idle, of s]
      by (auto split: esd_client_state.splits Option.bind_splits)
    then show ?thesis
      using s' inv_erase_idle_client [of n s2 client] idle_not_owner [of "view s2" client]
      by (auto simp: hpost_def idle_def inv_room_def srv_inv_def split: if_splits simp del: view_sel)
  qed
qed

lemma poll_loop_inv:
  "inv_room (length as + n) s \<Longrightarrow> poll_loop as len s = Some s' \<Longrightarrow> inv_room n s'"
  by (induction as arbitrary: len s) (auto split: Option.bind_splits dest: poll_client_inv)

lemma poll_client_requests_inv:
  "inv_room (length (esd_clients_list s) + n) s \<Longrightarrow> poll_client_requests s = Some s' \<Longrightarrow> inv_room n s'"
  unfolding poll_client_requests_def by (rule poll_loop_inv) simp_all

subsection \<open>A turn of the main loop\<close>

lemma view_snd_standby [vsimps]: "view (snd (esd_server_standby s)) = view s"
  by (metis view_standby prod.collapse)

lemma inv_comm_output:
  assumes "inv_room n s" "comm_output len output s = Some s'"
  shows "inv_room n s'"
proof (cases "len > 0")
  case False
  with assms show ?thesis by (simp add: comm_output_def)
next
  case True
  with assms(2) obtain s1 where s1: "(if \<not> esd_on_standby s then do {
        (_, s) \<leftarrow> esd_audio_write output len s;
        let (now, s) = sys_time s;
        Some (s\<lparr>esd_last_activity := now\<rparr>) } else Some s) = Some s1"
    and s': "(if esd_monitor_list s1 \<noteq> [] \<and> \<not> esd_on_standby s1 then monitor_write output len s1 else Some s1) = Some s'"
    by (auto simp: comm_output_def split: Option.bind_splits)
  from s1 have "view s1 = view s"
    by (auto simp: Let_def vsimps split: if_splits Option.bind_splits prod.splits dest!: view_audio_write view_sys_time)
  from inv_room_view [OF this assms(1)] s' inv_monitor_write_loop show ?thesis
    by (auto simp: monitor_write_def split: if_splits)
qed

lemma inv_comm_round:
  assumes "inv_room (length (esd_clients_list s) + n) s" "comm_round s = Some s'"
  shows "inv_room n s'"
proof -
  from assms(2) obtain s1 where s1: "poll_client_requests s = Some s1"
    by (auto simp: comm_round_def split: Option.bind_splits)
  define s2 where "s2 = snd (refresh_mix_funcs (s1\<lparr>comm_first := False\<rparr>))"
  have "view s2 = view s1" unfolding s2_def by (simp add: vsimps)
  then have i2: "inv_room n s2" by (rule inv_room_view) (rule poll_client_requests_inv [OF assms(1) s1])
  from assms(2) s1 obtain len out s3 where s3: "mix_players (output_buffer s2) (esd_buf_size_octets s2) s2 = Some (len, out, s3)"
    by (auto simp: comm_round_def s2_def Let_def case_prod_beta split: Option.bind_splits)
  define s4 where "s4 = (if esd_on_autostandby s3 \<and> len \<noteq> 0 \<and> \<not> esd_forced_standby s3
    then snd (esd_server_resume s3) else s3)"
  have "view s4 = view s3" unfolding s4_def by (simp add: vsimps)
  then have i4: "inv_room n s4" by (rule inv_room_view) (rule inv_mix_players [OF i2 s3])
  have "comm_round s = (if esd_filter_list s4 \<noteq> [] \<and> \<not> esd_on_standby s4
       then filter_write out len (esd_audio_format s4) (esd_audio_rate s4) s4
       else Some (len, out, s4)) \<bind> (\<lambda>(len, out, s). comm_output len out (s\<lparr>output_buffer := out\<rparr>))"
    using s1 s3 unfolding comm_round_def s2_def s4_def Let_def case_prod_beta by simp
  with assms(2) obtain len2 out2 s5 where
    s5: "(if esd_filter_list s4 \<noteq> [] \<and> \<not> esd_on_standby s4
       then filter_write out len (esd_audio_format s4) (esd_audio_rate s4) s4
       else Some (len, out, s4)) = Some (len2, out2, s5)"
    and s': "comm_output len2 out2 (s5\<lparr>output_buffer := out2\<rparr>) = Some s'"
    by (auto split: Option.bind_splits)
  have i5: "inv_room n s5" using s5 i4 inv_filter_write by (auto split: if_splits)
  have "inv_room n (s5\<lparr>output_buffer := out2\<rparr>)" by (rule inv_room_view [OF _ i5]) (simp add: vsimps)
  from inv_comm_output [OF this s'] show ?thesis .
qed

lemma inv_comm_record:
  assumes "inv_room n s" "comm_record s = Some s'"
  shows "inv_room n s'"
proof (cases "esd_recorder_list s \<noteq> [] \<and> \<not> esd_on_standby s")
  case False
  with assms show ?thesis by (auto simp: comm_record_def)
next
  case True
  obtain len bs s1 where rd: "esd_audio_read (esd_buf_size_octets s) s = ((len, bs), s1)" by (metis surj_pair)
  then have v1: "view s1 = view s" by (auto simp: esd_audio_read_def Let_def split: prod.splits dest!: view_sys_read)
  have i: "inv_room n (s1\<lparr>output_buffer := b\<rparr>)" for b
    by (rule inv_room_view [OF _ assms(1)]) (simp add: vsimps v1)
  have t: "inv_room n (snd (sys_time t)\<lparr>esd_last_activity := x\<rparr>)" if "inv_room n t" for t :: esd_daemon and x
    using that view_sys_time [of t] by (metis inv_room_view prod.collapse view_daemon(1))
  from assms(2) True rd i inv_recorder_write t show ?thesis
    by (fastforce simp: comm_record_def Let_def case_prod_beta split: if_splits Option.bind_splits)
qed

text \<open>
  The counters are C ints: a turn is safe from overflow when the players, the clients that may
  each start one more, and the connections that wait are together fewer than \<open>2^31\<close>.
\<close>

definition fits :: "'a esd_server_scheme \<Rightarrow> bool" where
  "fits s \<longleftrightarrow> length (esd_players_list s) + length (esd_clients_list s) + length (accepts s) < 2147483648"

lemma get_new_clients_sizes:
  "esd_players_list (snd (get_new_clients s)) = esd_players_list s
   \<and> length (esd_clients_list (snd (get_new_clients s))) \<le> length (esd_clients_list s) + length (accepts s)"
proof (induction s rule: get_new_clients.induct)
  case (1 s)
  show ?case
  proof (cases "accepts s")
    case Nil
    then show ?thesis by (simp add: get_new_clients.simps)
  next
    case (Cons x r)
    obtain fd ok where x: "x = (fd, ok)" by fastforce
    obtain a s1 where m: "malloc 1120 (s\<lparr>accepts := r\<rparr>) = (a, s1)" by fastforce
    obtain k ms where "s1 = s\<lparr>accepts := r\<rparr>\<lparr>next_addr := k, mallocs := ms\<rparr>" using malloc_frame [OF m] by blast
    then have s1: "esd_players_list s1 = esd_players_list s" "esd_clients_list s1 = esd_clients_list s" "accepts s1 = r"
      by simp_all
    show ?thesis
    proof (cases "fd < 0 \<or> a = 0 \<or> \<not> ok \<or> fd = 0")
      case True
      then have "snd (get_new_clients s) \<in> {s\<lparr>accepts := r\<rparr>, sys_close fd s1, add_new_client (fresh_client a fd s1) s1}"
        using Cons x m by (elim disjE) (simp_all add: get_new_clients.simps [of s] Let_def)
      then show ?thesis using s1 Cons by (elim insertE) (simp_all add: add_new_client_def sys_close_def)
    next
      case False
      then have e: "get_new_clients s = get_new_clients (add_new_client (fresh_client a fd s1) s1)"
        using Cons x m by (subst get_new_clients.simps) simp
      from 1 [OF Cons x [symmetric] refl _ m [symmetric] refl] False s1 Cons show ?thesis
        unfolding e by (auto simp: add_new_client_def)
    qed
  qed
qed

lemma inv_comm_active:
  assumes "srv_inv s" "fits s" "comm_active ready listening s = Some s'"
  shows "srv_inv s'"
proof -
  define s1 where "s1 = (if listening then snd (get_new_clients (s\<lparr>is_paused_here := False\<rparr>))
    else s\<lparr>is_paused_here := False\<rparr>)"
  let ?n = "length (esd_clients_list s1)"
  note g = get_new_clients_sizes [of "s\<lparr>is_paused_here := False\<rparr>"]
  have "inv_room ?n s"
    using assms(1,2) g by (simp add: inv_room_def fits_def s1_def)
  then have "inv_room ?n (s\<lparr>is_paused_here := False\<rparr>)"
    by (rule inv_room_view [rotated]) (simp add: vsimps)
  then have i1: "inv_room (?n + 0) s1"
    using inv_get_new_clients [of ?n "s\<lparr>is_paused_here := False\<rparr>"] by (cases listening) (simp_all add: s1_def)
  have less: "inv_room 0 s1" using i1 by (simp add: inv_room_def)
  from assms(3) obtain s2 where s2: "(if ready \<or> esd_playing_samples s1 \<noteq> 0 then comm_round s1 else Some s1) = Some s2"
    and s': "comm_record s2 = Some s'"
    unfolding comm_active_def Let_def s1_def [symmetric] by (auto split: Option.bind_splits)
  have "inv_room 0 s2" using s2 less inv_comm_round [OF i1] by (auto split: if_splits)
  from inv_comm_record [OF this s'] show ?thesis by (simp add: inv_room_def)
qed

lemma fits_view: "view s' = view s \<Longrightarrow> accepts s' = accepts s \<Longrightarrow> fits s \<Longrightarrow> fits s'"
  unfolding fits_def by (metis view_sel(1,2) length_map)

text \<open>Connections wait while the device is used.\<close>

interpretation daccepts: audio_frame "accepts :: 'a audio_scheme \<Rightarrow> (int \<times> bool) list"
  by unfold_locales simp_all

lemmas accepts_device = daccepts.obs_device

lemma accepts_sys_time: "sys_time s = (t, s') \<Longrightarrow> accepts s' = accepts s"
  by (auto simp: sys_time_def split: list.splits)

lemma comm_reconnect_keeps: "view (comm_reconnect s) = view s" "accepts (comm_reconnect s) = accepts s"
  by (simp_all add: comm_reconnect_def vsimps accepts_device)

lemma comm_timeout_keeps: "comm_timeout s = Some (t, s') \<Longrightarrow> view s' = view s \<and> accepts s' = accepts s"
  by (auto simp: comm_timeout_def Let_def split: if_splits prod.splits dest: view_sys_time accepts_sys_time)

lemma snd_keeps:
  "view (snd (sys_time s)) = view s" "accepts (snd (sys_time s)) = accepts s"
  "view (esd_audio_pause s) = view s" "accepts (esd_audio_pause s) = accepts s"
  by (metis view_sys_time prod.collapse, metis accepts_sys_time prod.collapse,
      rule view_audio_pause, rule accepts_device)

lemma comm_pause_keeps: "view (comm_pause s) = view s" "accepts (comm_pause s) = accepts s"
  by (simp_all add: comm_pause_def Let_def case_prod_beta esd_audio_flush_def vsimps snd_keeps)

lemma comm_autostandby_keeps: "view (comm_autostandby s) = view s" "accepts (comm_autostandby s) = accepts s"
  by (simp_all add: comm_autostandby_def Let_def case_prod_beta vsimps esd_server_standby_def accepts_device snd_keeps)

lemma inv_turn:
  assumes "srv_inv s" "fits s" "esd_comm_turn sel s = Some (Running s')"
  shows "srv_inv s'"
proof -
  define s1 where "s1 = comm_reconnect s"
  have "\<not> (esd_clients_list s1 = [] \<and> \<not> comm_first s1 \<and> esd_terminate s1
        \<and> (esd_autostandby_secs s1 < 0 \<or> esd_on_autostandby s1))"
    using assms(3) by (auto simp: esd_comm_turn_def s1_def Let_def clean_exit_def)
  with assms(3) obtain t s2 where s2: "comm_timeout s1 = Some (t, s2)"
    by (auto simp: esd_comm_turn_def s1_def Let_def split: Option.bind_splits)
  have k2: "view s2 = view s" "accepts s2 = accepts s"
    using comm_timeout_keeps [OF s2] comm_reconnect_keeps [of s] by (simp_all add: s1_def)
  note i2 = srv_inv_view [OF k2(1) assms(1)] fits_view [OF k2 assms(2)]
  define s3 where "s3 = comm_autostandby (comm_pause s2)"
  have k3: "view s3 = view s" "accepts s3 = accepts s"
    unfolding s3_def comm_autostandby_keeps comm_pause_keeps k2 by simp_all
  note i3 = srv_inv_view [OF k3(1) assms(1)] fits_view [OF k3 assms(2)]
  show ?thesis
    using assms(3) s2 i2 i3 inv_comm_active [OF i2] inv_comm_active [OF i3]
    by (auto simp: esd_comm_turn_def Let_def s1_def [symmetric] s3_def [symmetric]
        clean_exit_def split: sel_result.splits if_splits)
qed

subsection \<open>Runs\<close>

text \<open>
  \<open>boot\<close> is a daemon that has its device and its buffers and has met nobody yet: what \<open>main\<close> hands
  to the loop. A run is a sequence of steps of the loop, each from a state that fits.
\<close>

definition boot :: "esd_daemon \<Rightarrow> bool" where
  "boot s \<longleftrightarrow> esd_clients_list s = [] \<and> esd_players_list s = [] \<and> esd_recorder_list s = []
     \<and> esd_monitor_list s = [] \<and> esd_filter_list s = [] \<and> esd_samples_list s = []
     \<and> esd_playing_samples s = 0 \<and> 0 < next_addr s"

inductive comm_run :: "esd_daemon \<Rightarrow> esd_daemon \<Rightarrow> bool" for s0 where
  none: "comm_run s0 s0"
| more: "comm_run s0 s \<Longrightarrow> fits s \<Longrightarrow> comm_step s s' \<Longrightarrow> comm_run s0 s'"

lemma boot_inv: "boot s \<Longrightarrow> srv_inv s"
  by (simp add: boot_def srv_inv_def view_ok_def addresses_ok_def addrs_ok_def modes_ok_def samples_ok_def
      owners_ok_def owners_def)

lemma step_inv: "comm_step s s' \<Longrightarrow> srv_inv s \<Longrightarrow> fits s \<Longrightarrow> srv_inv s'"
proof (induction rule: comm_step.induct)
  case (turn sel s s')
  then show ?case by (blast intro: inv_turn)
next
  case (sigusr1 s)
  show ?case by (rule srv_inv_view [OF _ sigusr1(1)]) (simp add: reconnect_driver_def vsimps)
next
  case (world s)
  show ?case by (rule srv_inv_view [OF _ world(1)]) (simp add: vsimps)
qed

lemma run_inv: "comm_run s0 s \<Longrightarrow> srv_inv s0 \<Longrightarrow> srv_inv s"
  by (induction rule: comm_run.induct) (auto intro: step_inv)

text \<open>What the invariant says of the lists themselves.\<close>

lemma inv_stream_parent:
  assumes "srv_inv s"
    and "p \<in> set (filter (\<lambda>p. pl_format p AND ESD_MASK_MODE = ESD_STREAM) (esd_players_list s)
      @ esd_recorder_list s @ esd_monitor_list s @ esd_filter_list s)"
  shows "\<exists>c. the_client (pl_parent p) s = Some c \<and> cl_state c = ESD_STREAMING_DATA"
proof -
  have "pl_parent p \<in> set (owners (view s))"
    using assms(2) by (force simp: owners_def pview_def is_str_def)
  then have "(pl_parent p, True) \<in> set (vC (view s))"
    using assms(1) by (simp add: srv_inv_def view_ok_def owners_ok_def del: view_sel)
  then obtain c where "c \<in> set (esd_clients_list s)" "cl_addr c = pl_parent p" "cl_state c = ESD_STREAMING_DATA"
    by (auto simp: cview_def)
  with node_distinct [OF inv_distinct(1) [OF assms(1)]] show ?thesis by (metis the_client_def)
qed

lemma inv_sample_parent:
  assumes "srv_inv s" "p \<in> set (esd_players_list s)" "pl_format p AND ESD_MASK_MODE \<noteq> ESD_STREAM"
  shows "\<exists>m. the_sample (pl_parent p) s = Some m"
proof -
  have "is_smp (pview p)" using assms by (auto simp: srv_inv_def view_ok_def modes_ok_def is_str_def pview_def)
  then have "pl_parent p \<in> sm_addr ` set (esd_samples_list s)"
    using assms(1,2) by (force simp: srv_inv_def view_ok_def samples_ok_def pview_def sview_def)
  then show ?thesis using node_None_iff [of sm_addr "pl_parent p" "esd_samples_list s"]
    by (auto simp: the_sample_def)
qed

lemma inv_ref_count:
  assumes "srv_inv s" "m \<in> set (esd_samples_list s)"
  shows "sm_ref_count m = int (length (filter (\<lambda>p. pl_format p AND ESD_MASK_MODE = ESD_SAMPLE \<and> pl_parent p = sm_addr m)
    (esd_players_list s)))"
proof -
  have "sview m \<in> set (vS (view s))" using assms(2) by simp
  with assms(1) have "sm_ref_count m = int (refs (sm_addr m) (vP (view s)))"
    by (auto simp: srv_inv_def view_ok_def samples_ok_def sview_def)
  then show ?thesis by (simp add: refs_def filter_map o_def is_smp_def pview_def)
qed

subsection \<open>Properties of runs\<close>

text \<open>A daemon with a streaming client and a sample that is being played.\<close>

definition daemon0 :: esd_daemon where
  "daemon0 = \<lparr>rx = (\<lambda>_. []), wres = (\<lambda>_. []), tx = [], sel_err = (\<lambda>_. False),
     wrdy = (\<lambda>_. True), closed = [], mallocs = [], next_addr = 5, junk = (\<lambda>_ _. 0), clock = [], accepts = [],
     esd_audio_format = 0x21, esd_audio_rate = 44100, esd_audio_fd = 3, select_works = True,
     esd_write_size = 8, dev_open = [], dev_ioctl = [], dev_select = [],
     esd_clients_list = [\<lparr>cl_addr = 1, cl_state = ESD_STREAMING_DATA, cl_request = 3, cl_fd = 5,
       swap_byte_order = False, proto_data = replicate 1024 0, proto_data_length = 136\<rparr>],
     esd_players_list = [(player0 0x1021 256 256 [])\<lparr>pl_addr := 2, pl_parent := 1\<rparr>,
       (player0 0x1121 256 256 [])\<lparr>pl_addr := 4, pl_parent := 3, pl_source_id := 1\<rparr>],
     esd_recorder_list = [], esd_monitor_list = [], esd_filter_list = [],
     esd_samples_list = [\<lparr>sm_addr = 3, sm_parent = 0, sm_format = 0x21, sm_rate = 44100, sm_left_vol = 256,
       sm_right_vol = 256, sm_id = 1, sm_data = [0, 1, 0, 2, 0, 1, 0, 2], sm_length = 8, sm_cached = 8,
       sm_ref_count = 1, sm_erase_when_done = False, sm_name = []\<rparr>],
     esd_playing_samples = 1, esd_next_sample_id = 2, esd_is_owned = True, esd_is_locked = False,
     esd_owner_key = replicate 16 7, esd_on_standby = False, esd_on_autostandby = False, esd_forced_standby = False,
     esd_buf_size_octets = 8, esd_buf_size_samples = 4, mixed_buffer = [0, 0, 0, 0], output_buffer = replicate 8 0,
     esd_first_filter_func = None, listen_socket = 4, esd_autostandby_secs = -1, esd_last_activity = 0,
     esd_pending_driver_reconnect = False, esd_terminate = False, esd_use_tcpip = False, sock_unlinked = False, comm_first = False, is_paused_here = False\<rparr>"

lemma daemon0_inv: "srv_inv daemon0"
  by (simp add: daemon0_def player0_def srv_inv_def view_ok_def addresses_ok_def addrs_ok_def modes_ok_def
      samples_ok_def owners_ok_def owners_def pview_def cview_def sview_def is_smp_def is_str_def refs_def)

lemma daemon0_run: "comm_run daemon0 (reconnect_driver daemon0)"
  by (rule comm_run.more [OF comm_run.none _ comm_step.sigusr1]) (simp add: fits_def daemon0_def)

lemma daemon0_parts:
  "esd_players_list (reconnect_driver daemon0) = esd_players_list daemon0"
  "esd_samples_list (reconnect_driver daemon0) = esd_samples_list daemon0"
  by (simp_all add: reconnect_driver_def)

text \<open>
  C1. The ownership invariant holds in every state the daemon can reach from its start-up,
  whatever the clients send and the devices do, as long as the numbers of players, clients and
  waiting connections stay below \<open>2^31\<close>: addresses in a list are distinct, every list
  entry's owner is there, no client has two streams, and the counters count.
\<close>

theorem ownership_invariant: "boot s0 \<Longrightarrow> comm_run s0 s \<Longrightarrow> srv_inv s"
  using run_inv boot_inv by blast

theorem ownership_invariant_witness:
  "srv_inv (reconnect_driver (daemon0\<lparr>esd_clients_list := [], esd_players_list := [], esd_samples_list := [],
     esd_playing_samples := 0\<rparr>))"
proof -
  let ?s = "daemon0\<lparr>esd_clients_list := [], esd_players_list := [], esd_samples_list := [], esd_playing_samples := 0\<rparr>"
  have "boot ?s" by (simp add: boot_def daemon0_def)
  moreover have "comm_run ?s (reconnect_driver ?s)"
    by (rule comm_run.more [OF comm_run.none _ comm_step.sigusr1]) (simp add: fits_def daemon0_def)
  ultimately show ?thesis by (rule ownership_invariant)
qed

text \<open>
  C2. Nothing dangles: along a run every stream player, recorder, monitor and filter belongs to a
  connected client that is in the streaming state, and every other player plays a sample that
  is still cached.
\<close>

theorem no_dangling_parent:
  assumes "srv_inv s0" "comm_run s0 s"
  shows "(p \<in> set (filter (\<lambda>p. pl_format p AND ESD_MASK_MODE = ESD_STREAM) (esd_players_list s)
      @ esd_recorder_list s @ esd_monitor_list s @ esd_filter_list s)
      \<longrightarrow> (\<exists>c. the_client (pl_parent p) s = Some c \<and> cl_state c = ESD_STREAMING_DATA))
    \<and> (p \<in> set (esd_players_list s) \<and> pl_format p AND ESD_MASK_MODE \<noteq> ESD_STREAM
      \<longrightarrow> (\<exists>m. the_sample (pl_parent p) s = Some m))"
  using inv_stream_parent inv_sample_parent run_inv [OF assms(2,1)] by blast

theorem no_dangling_parent_witness:
  "(\<exists>c. the_client 1 (reconnect_driver daemon0) = Some c \<and> cl_state c = ESD_STREAMING_DATA)
    \<and> (\<exists>m. the_sample 3 (reconnect_driver daemon0) = Some m)"
  using no_dangling_parent [OF daemon0_inv daemon0_run, of "esd_players_list daemon0 ! 0"]
    no_dangling_parent [OF daemon0_inv daemon0_run, of "esd_players_list daemon0 ! 1"]
  by (simp add: daemon0_parts) (simp add: daemon0_def player0_def)

text \<open>
  C24. Reference counting is exact: along a run the count of a sample is the number of players
  that play it, and \<open>esd_playing_samples\<close> the number of all players of samples, so a sample is
  freed only when nobody plays it and the main loop knows whether it may block.
\<close>

theorem sample_counts_exact:
  assumes "srv_inv s0" "comm_run s0 s"
  shows "(\<forall>m \<in> set (esd_samples_list s). sm_ref_count m =
      int (length (filter (\<lambda>p. pl_format p AND ESD_MASK_MODE = ESD_SAMPLE \<and> pl_parent p = sm_addr m) (esd_players_list s))))
    \<and> esd_playing_samples s = int (length (filter (\<lambda>p. pl_format p AND ESD_MASK_MODE = ESD_SAMPLE) (esd_players_list s)))"
proof -
  have i: "srv_inv s" by (rule run_inv [OF assms(2,1)])
  then have "esd_playing_samples s = int (length (filter is_smp (vP (view s))))"
    by (auto simp: srv_inv_def view_ok_def samples_ok_def)
  with inv_ref_count [OF i] show ?thesis by (simp add: filter_map o_def is_smp_def pview_def)
qed

theorem sample_counts_exact_witness:
  "sm_ref_count (esd_samples_list (reconnect_driver daemon0) ! 0) = 1
    \<and> esd_playing_samples (reconnect_driver daemon0) = 1"
  using sample_counts_exact [OF daemon0_inv daemon0_run] unfolding daemon0_parts
  by (simp add: daemon0_def player0_def)

end
