(* ===== verification/Esd_Mgr.thy ===== *)
theory Esd_Mgr
  imports Esd_Samples
begin

text \<open>
  The remote management library (\<open>esdmgr.c\<close>): requests for information about the server, its
  players and its samples, panning and the standby mode. Fields are read with plain \<open>read\<close>
  calls into structures whose memory is fresh from \<open>malloc\<close>; a short read leaves the rest of a
  field as it was. Following a pointer that was never set is the value \<open>None\<close>.
\<close>

record esd_server_info =
  si_version :: int
  si_format :: int
  si_rate :: int

record esd_player_info =
  pi_source_id :: int
  pi_name :: "octet list"
  pi_rate :: int
  pi_left_vol_scale :: int
  pi_right_vol_scale :: int
  pi_format :: int

record esd_sample_info =
  mi_sample_id :: int
  mi_name :: "octet list"
  mi_rate :: int
  mi_left_vol_scale :: int
  mi_right_vol_scale :: int
  mi_format :: int
  mi_length :: int

record esd_info =
  ai_server :: esd_server_info
  ai_player_list :: "esd_player_info list"
  ai_sample_list :: "esd_sample_info list"

subsection \<open>Fields\<close>

text \<open>\<open>read (esd, &field, n)\<close> over the old bytes of the field.\<close>

definition read_bytes :: "int \<Rightarrow> octet list \<Rightarrow> 'a os_scheme \<Rightarrow> (int \<times> octet list) \<times> 'a os_scheme" where
  "read_bytes fd old s =
    (let ((n, _, bs), s) = sys_read fd (length old) s in ((n, bs @ drop (length bs) old), s))"

definition read_word :: "int \<Rightarrow> octet list \<Rightarrow> 'a os_scheme \<Rightarrow> (int \<times> int) \<times> 'a os_scheme" where
  "read_word fd old s =
    (let ((n, bs), s) = read_bytes fd old s in ((n, case get32 bs 0 of Some x \<Rightarrow> x | None \<Rightarrow> 0), s))"

text \<open>Word \<open>i\<close> of fresh memory.\<close>

definition junk_word :: "'a os_scheme \<Rightarrow> addr \<Rightarrow> nat \<Rightarrow> octet list" where
  "junk_word s a i = map (junk s a) [4 * i..<4 * i + 4]"

definition write_word :: "int \<Rightarrow> int \<Rightarrow> 'a os_scheme \<Rightarrow> int \<times> 'a os_scheme" where
  "write_word fd x s = (let ((n, _), s) = sys_write fd (put32 x) s in (n, s))"

subsection \<open>Server information\<close>

text \<open>\<open>version\<close>, \<open>rate\<close> and \<open>format\<close>, in that order; only the last length is looked at.\<close>

definition read_server_info :: "int \<Rightarrow> addr \<Rightarrow> 'a os_scheme \<Rightarrow> esd_server_info option \<times> 'a os_scheme" where
  "read_server_info esd a s =
    (let ((_, version), s) = read_word esd (junk_word s a 0) s;
         ((_, rate), s) = read_word esd (junk_word s a 2) s;
         ((n, format), s) = read_word esd (junk_word s a 1) s
     in (if n \<noteq> 4 then None else Some \<lparr>si_version = version, si_format = format, si_rate = rate\<rparr>, s))"

definition esd_get_server_info :: "int \<Rightarrow> 'a os_scheme \<Rightarrow> esd_server_info option \<times> 'a os_scheme" where
  "esd_get_server_info esd s =
    (let (server_info, s) = malloc 12 s
     in if server_info = 0 then (None, s) else
     let (_, s) = write_word esd ESD_PROTO_SERVER_INFO s;
         (n, s) = write_word esd 0 s
     in if n \<noteq> 4 then (None, s) else read_server_info esd server_info s)"

subsection \<open>Everything\<close>

definition read_player_info :: "int \<Rightarrow> addr \<Rightarrow> 'a os_scheme \<Rightarrow> (int \<times> esd_player_info) \<times> 'a os_scheme" where
  "read_player_info esd a s =
    (let ((_, source_id), s) = read_word esd (junk_word s a 4) s;
         ((_, name), s) = read_bytes esd (map (junk s a) [20..<148]) s;
         ((_, rate), s) = read_word esd (junk_word s a 37) s;
         ((_, left), s) = read_word esd (junk_word s a 38) s;
         ((_, right), s) = read_word esd (junk_word s a 39) s;
         ((n, format), s) = read_word esd (junk_word s a 40) s
     in ((n, \<lparr>pi_source_id = source_id, pi_name = name[ESD_NAME_MAX - 1 := 0], pi_rate = rate,
           pi_left_vol_scale = left, pi_right_vol_scale = right, pi_format = format\<rparr>), s))"

definition read_sample_info :: "int \<Rightarrow> addr \<Rightarrow> 'a os_scheme \<Rightarrow> (int \<times> esd_sample_info) \<times> 'a os_scheme" where
  "read_sample_info esd a s =
    (let ((_, sample_id), s) = read_word esd (junk_word s a 4) s;
         ((_, name), s) = read_bytes esd (map (junk s a) [20..<148]) s;
         ((_, rate), s) = read_word esd (junk_word s a 37) s;
         ((_, left), s) = read_word esd (junk_word s a 38) s;
         ((_, right), s) = read_word esd (junk_word s a 39) s;
         ((_, format), s) = read_word esd (junk_word s a 40) s;
         ((n, len), s) = read_word esd (junk_word s a 41) s
     in ((n, \<lparr>mi_sample_id = sample_id, mi_name = name[ESD_NAME_MAX - 1 := 0], mi_rate = rate,
           mi_left_vol_scale = left, mi_right_vol_scale = right, mi_format = format, mi_length = len\<rparr>), s))"

text \<open>The bytes a script still has for a descriptor: what bounds the loops below.\<close>

definition unread :: "int \<Rightarrow> 'a os_scheme \<Rightarrow> nat" where
  "unread fd s = sum_list (map (\<lambda>r. case r of RdData bs \<Rightarrow> length bs | _ \<Rightarrow> 0) (rx s fd))"

lemma sys_read_unread:
  "sys_read fd n s = ((k, t, bs), s') \<Longrightarrow> unread fd s' \<le> unread fd s \<and> (0 < k \<longrightarrow> unread fd s' < unread fd s)"
  by (auto simp: sys_read_def unread_def split: list.splits rdres.splits if_splits)

lemma read_bytes_unread:
  "read_bytes fd old s = ((k, bs), s') \<Longrightarrow> unread fd s' \<le> unread fd s \<and> (0 < k \<longrightarrow> unread fd s' < unread fd s)"
  unfolding read_bytes_def Let_def by (auto split: prod.splits dest!: sys_read_unread)

lemma read_word_unread:
  "read_word fd old s = ((k, x), s') \<Longrightarrow> unread fd s' \<le> unread fd s \<and> (0 < k \<longrightarrow> unread fd s' < unread fd s)"
  unfolding read_word_def Let_def by (auto split: prod.splits dest!: read_bytes_unread)

lemma malloc_unread: "malloc n s = (a, s') \<Longrightarrow> unread fd s' = unread fd s"
  by (auto simp: unread_def dest!: malloc_frame)

lemma read_player_info_unread:
  assumes "read_player_info fd a s = ((n, p), s')" "n = 4"
  shows "unread fd s' < unread fd s"
  using assms unfolding read_player_info_def Let_def
  by (auto split: prod.splits dest!: read_word_unread read_bytes_unread)

lemma read_sample_info_unread:
  assumes "read_sample_info fd a s = ((n, p), s')" "n = 4"
  shows "unread fd s' < unread fd s"
  using assms unfolding read_sample_info_def Let_def
  by (auto split: prod.splits dest!: read_word_unread read_bytes_unread)

lemma player_step: "malloc k s = (a, s1) \<Longrightarrow> read_player_info fd a s1 = (r, s2) \<Longrightarrow> fst r = 4 \<Longrightarrow> unread fd s2 < unread fd s"
  using malloc_unread [of k s a s1 fd] read_player_info_unread [of fd a s1 "fst r" "snd r" s2] by (cases r) simp

lemma sample_step: "malloc k s = (a, s1) \<Longrightarrow> read_sample_info fd a s1 = (r, s2) \<Longrightarrow> fst r = 4 \<Longrightarrow> unread fd s2 < unread fd s"
  using malloc_unread [of k s a s1 fd] read_sample_info_unread [of fd a s1 "fst r" "snd r" s2] by (cases r) simp

text \<open>The two loops: records are put in front of the list until one has no positive id.\<close>

function get_players :: "int \<Rightarrow> esd_player_info list \<Rightarrow> 'a os_scheme \<Rightarrow> esd_player_info list option \<times> 'a os_scheme" where
  "get_players esd ps s =
    (let (a, s) = malloc 168 s
     in if a = 0 then (None, s) else
     let (r, s) = read_player_info esd a s
     in if fst r \<noteq> 4 then (None, s)
        else if pi_source_id (snd r) > 0 then get_players esd (snd r # ps) s else (Some ps, s))"
  by pat_completeness auto
termination
proof (relation "measure (\<lambda>(fd, ps, s). unread fd s)", goal_cases)
  case (2 esd ps s x a s1 y r s2)
  then show ?case using player_step [of 168 s a s1 esd r s2] by simp
qed simp

function get_samples :: "int \<Rightarrow> esd_sample_info list \<Rightarrow> 'a os_scheme \<Rightarrow> esd_sample_info list option \<times> 'a os_scheme" where
  "get_samples esd ms s =
    (let (a, s) = malloc 168 s
     in if a = 0 then (None, s) else
     let (r, s) = read_sample_info esd a s
     in if fst r \<noteq> 4 then (None, s)
        else if mi_sample_id (snd r) > 0 then get_samples esd (snd r # ms) s else (Some ms, s))"
  by pat_completeness auto
termination
proof (relation "measure (\<lambda>(fd, ps, s). unread fd s)", goal_cases)
  case (2 esd ps s x a s1 y r s2)
  then show ?case using sample_step [of 168 s a s1 esd r s2] by simp
qed simp

declare get_players.simps [simp del] get_samples.simps [simp del]

text \<open>
  The result is a fault when the first allocation fails (its result is used unchecked), and when
  the server information cannot be got: \<open>esd_free_all_info\<close> then frees \<open>info->server\<close>, which has
  not been set. Otherwise it is the information, or \<open>NULL\<close>.
\<close>

definition esd_get_all_info :: "int \<Rightarrow> 'a os_scheme \<Rightarrow> (esd_info option \<times> 'a os_scheme) option" where
  "esd_get_all_info esd s =
    (let (info, s) = malloc 24 s
     in if info = 0 then None else
     let (server_info, s) = malloc 12 s
     in if server_info = 0 then None else
     let (_, s) = write_word esd ESD_PROTO_ALL_INFO s;
         (n, s) = write_word esd 0 s
     in if n \<noteq> 4 then None else
     let (srv, s) = read_server_info esd server_info s
     in case srv of None \<Rightarrow> None | Some srv \<Rightarrow>
     let (ps, s) = get_players esd [] s
     in case ps of None \<Rightarrow> Some (None, s) | Some ps \<Rightarrow>
     let (ms, s) = get_samples esd [] s
     in case ms of None \<Rightarrow> Some (None, s) | Some ms \<Rightarrow>
        Some (Some \<lparr>ai_server = srv, ai_player_list = ps, ai_sample_list = ms\<rparr>, s))"

subsection \<open>Panning and standby mode\<close>

fun write_words :: "int \<Rightarrow> int list \<Rightarrow> 'a os_scheme \<Rightarrow> bool \<times> 'a os_scheme" where
  "write_words fd [] s = (True, s)"
| "write_words fd (x # xs) s =
     (let (n, s) = write_word fd x s in if n \<noteq> 4 then (False, s) else write_words fd xs s)"

definition set_pan :: "int \<Rightarrow> int \<Rightarrow> int \<Rightarrow> int \<Rightarrow> int \<Rightarrow> 'a os_scheme \<Rightarrow> int \<times> 'a os_scheme" where
  "set_pan proto esd ident left_scale right_scale s =
    (let (ok, s) = write_words esd [proto, ident, left_scale, right_scale] s
     in if \<not> ok then (-1, s)
        else let ((n, ok), s) = read_word esd (junk_word s 0 0) s in (if n \<noteq> 4 then -1 else ok, s))"

definition esd_set_stream_pan :: "int \<Rightarrow> int \<Rightarrow> int \<Rightarrow> int \<Rightarrow> 'a os_scheme \<Rightarrow> int \<times> 'a os_scheme" where
  "esd_set_stream_pan = set_pan ESD_PROTO_STREAM_PAN"

definition esd_set_default_sample_pan :: "int \<Rightarrow> int \<Rightarrow> int \<Rightarrow> int \<Rightarrow> 'a os_scheme \<Rightarrow> int \<times> 'a os_scheme" where
  "esd_set_default_sample_pan = set_pan ESD_PROTO_SAMPLE_PAN"

definition esd_get_standby_mode :: "int \<Rightarrow> 'a os_scheme \<Rightarrow> int \<times> 'a os_scheme" where
  "esd_get_standby_mode esd s =
    (let (_, s) = write_word esd ESD_PROTO_STANDBY_MODE s;
         (n, s) = write_word esd 0 s
     in if n \<noteq> 4 then (0, s)
        else let ((n, mode), s) = read_word esd (put32 0) s in (if n \<noteq> 4 then 0 else mode, s))"

end
