(* ===== verification/Esd_Cstring.thy ===== *)
theory Esd_Cstring
  imports Esd_Prelude
begin

text \<open>
  The functions of the C library on strings that \<open>esd_config.c\<close>, \<open>esdlib.c\<close> and \<open>esd.c\<close>
  call, on strings as lists of characters without the terminating NUL, in the C locale.
\<close>

text \<open>The bytes of a string.\<close>

definition octets_of_string :: "string \<Rightarrow> octet list" where
  "octets_of_string str = map of_char str"

definition isspace :: "char \<Rightarrow> bool" where
  "isspace c \<longleftrightarrow> c \<in> {CHR '' '', CHR 0x09, CHR 0x0A, CHR 0x0B, CHR 0x0C, CHR 0x0D}"

definition tolower :: "char \<Rightarrow> char" where
  "tolower c = (if 65 \<le> (of_char c :: nat) \<and> (of_char c :: nat) \<le> 90 then char_of ((of_char c :: nat) + 32) else c)"

text \<open>\<open>strcasecmp (a, b) == 0\<close>\<close>

definition strcaseeq :: "string \<Rightarrow> string \<Rightarrow> bool" where
  "strcaseeq a b \<longleftrightarrow> map tolower a = map tolower b"

definition strcspn :: "string \<Rightarrow> string \<Rightarrow> nat" where
  "strcspn s reject = length (takeWhile (\<lambda>c. c \<notin> set reject) s)"

text \<open>One call of \<open>strtok\<close>: the token, and the rest of the string it keeps for the next call.\<close>

definition strtok :: "string \<Rightarrow> string \<Rightarrow> string option \<times> string" where
  "strtok s delim =
    (let t = dropWhile (\<lambda>c. c \<in> set delim) s
     in if t = [] then (None, [])
        else (Some (takeWhile (\<lambda>c. c \<notin> set delim) t), drop 1 (dropWhile (\<lambda>c. c \<notin> set delim) t)))"

text \<open>
  \<open>strtol\<close>: the value, saturated to a 64-bit \<open>long\<close>, and the unconverted rest; without a digit
  the rest is the whole string. Base 0 looks at the prefix.
\<close>

definition digit_val :: "nat \<Rightarrow> char \<Rightarrow> int option" where
  "digit_val base c =
    (let n = (of_char c :: nat);
         d = (if 48 \<le> n \<and> n \<le> 57 then n - 48
              else if 97 \<le> n \<and> n \<le> 122 then n - 87
              else if 65 \<le> n \<and> n \<le> 90 then n - 55 else 36)
     in if d < base then Some (int d) else None)"

fun digits :: "nat \<Rightarrow> int \<Rightarrow> string \<Rightarrow> int \<times> string" where
  "digits base acc [] = (acc, [])"
| "digits base acc (c # cs) =
     (case digit_val base c of Some d \<Rightarrow> digits base (acc * int base + d) cs | None \<Rightarrow> (acc, c # cs))"

definition has_digit :: "nat \<Rightarrow> string \<Rightarrow> bool" where
  "has_digit base s \<longleftrightarrow> s \<noteq> [] \<and> digit_val base (hd s) \<noteq> None"

definition long_sat :: "int \<Rightarrow> int" where
  "long_sat x = max (- (2 ^ 63)) (min (2 ^ 63 - 1) x)"

definition strtol :: "string \<Rightarrow> nat \<Rightarrow> int \<times> string" where
  "strtol s base =
    (let t = dropWhile isspace s;
         (neg, t) = (if t \<noteq> [] \<and> hd t = CHR ''-'' then (True, tl t)
                     else if t \<noteq> [] \<and> hd t = CHR ''+'' then (False, tl t) else (False, t));
         hex = (base = 0 \<and> take 1 t = ''0'' \<and> map tolower (take 1 (drop 1 t)) = ''x'' \<and> has_digit 16 (drop 2 t));
         b = (if base \<noteq> 0 then base else if hex then 16 else if take 1 t = ''0'' then 8 else 10);
         t = (if hex then drop 2 t else t)
     in if \<not> has_digit b t then (0, s)
        else let (v, rest) = digits b 0 t in (long_sat (if neg then - v else v), rest))"

text \<open>\<open>atoi\<close> is \<open>strtol\<close> in base 10, truncated to an \<open>int\<close>.\<close>

definition atoi :: "string \<Rightarrow> int" where
  "atoi s = i32 (fst (strtol s 10))"

subsection \<open>Laws\<close>

lemma strcspn_le: "strcspn s r \<le> length s"
  by (simp add: strcspn_def length_takeWhile_le)

lemma strcspn_found: "strcspn s r < length s \<Longrightarrow> s ! strcspn s r \<in> set r"
  using nth_length_takeWhile [of "\<lambda>c. c \<notin> set r" s] by (simp add: strcspn_def)

lemma strcspn_take: "set (take (strcspn s r) s) \<inter> set r = {}"
  by (auto simp: strcspn_def takeWhile_eq_take [symmetric] dest: set_takeWhileD)

text \<open>A token is not empty, has no delimiter in it and is no longer than the string.\<close>

lemma strtok_token:
  assumes "strtok s d = (Some t, r)"
  shows "t \<noteq> []" "set t \<inter> set d = {}" "length t + length r \<le> length s"
proof -
  let ?u = "dropWhile (\<lambda>c. c \<in> set d) s"
  have u: "?u \<noteq> []" and t: "t = takeWhile (\<lambda>c. c \<notin> set d) ?u"
    and r: "r = drop 1 (dropWhile (\<lambda>c. c \<notin> set d) ?u)"
    using assms by (auto simp: strtok_def Let_def split: if_splits)
  show "t \<noteq> []" using u hd_dropWhile [OF u] unfolding t by (cases ?u) simp_all
  show "set t \<inter> set d = {}" unfolding t by (auto dest: set_takeWhileD)
  have "length t + length (dropWhile (\<lambda>c. c \<notin> set d) ?u) = length ?u"
    unfolding t by (metis length_append takeWhile_dropWhile_id)
  moreover have "length ?u \<le> length s" by (rule length_dropWhile_le)
  ultimately show "length t + length r \<le> length s" unfolding r by simp
qed

lemma strtol_empty: "strtol [] b = (0, [])"
  by (simp add: strtol_def Let_def has_digit_def)

end
