(* ===== verification/Esd_Config.thy ===== *)
theory Esd_Config
  imports Esd_Cstring "HOL-Library.Monad_Syntax"
begin

text \<open>
  Reading the configuration (\<open>esd_config.c\<close>): the system file, the user's file, then the
  environment. Files are their contents; a copy that would overflow one of the static
  buffers is the value \<open>None\<close>.
\<close>

abbreviation (input) LINEBUF_SIZE :: nat where "LINEBUF_SIZE \<equiv> 1024"

record esd_conf =
  esd_no_spawn :: bool
  esd_spawn_wait_ms :: int
  esd_spawn_options :: string
  esd_default_options :: string
  read_esd_config :: bool

definition conf0 :: esd_conf where
  "conf0 = \<lparr>esd_no_spawn = False, esd_spawn_wait_ms = 100,
     esd_spawn_options = ''-terminate -nobeeps -as 2'', esd_default_options = '''', read_esd_config = False\<rparr>"

text \<open>What the process finds around it: environment variables and the two files.\<close>

record conf_env =
  getenv :: "string \<Rightarrow> string option"
  sys_conf :: "string option"
  home_conf :: "string option"

text \<open>\<open>fgets\<close>: at most \<open>LINEBUF_SIZE - 1\<close> characters, up to and with a newline.\<close>

definition fgets :: "string \<Rightarrow> (string \<times> string) option" where
  "fgets f =
    (if f = [] then None
     else let n = min (LINEBUF_SIZE - 1) (Suc (strcspn f [CHR 0x0A])) in Some (take n f, drop n f))"

text \<open>A string in a buffer ends at the first NUL.\<close>

definition to_nul :: "string \<Rightarrow> string" where
  "to_nul = takeWhile (\<lambda>c. c \<noteq> CHR 0x00)"

definition chomp :: "string \<Rightarrow> string" where
  "chomp aline = rev (dropWhile isspace (rev (dropWhile isspace aline)))"

definition strcpy_buf :: "string \<Rightarrow> string option" where
  "strcpy_buf v = (if length v < LINEBUF_SIZE then Some v else None)"

definition config_set :: "string \<Rightarrow> string \<Rightarrow> esd_conf \<Rightarrow> esd_conf option" where
  "config_set key val c =
    (if strcaseeq key ''auto_spawn'' then
       Some (if strcaseeq val ''true'' \<or> strcaseeq val ''yes'' \<or> strcaseeq val ''1''
             then c\<lparr>esd_no_spawn := False\<rparr>
             else if strcaseeq val ''false'' \<or> strcaseeq val ''no'' \<or> strcaseeq val ''0''
             then c\<lparr>esd_no_spawn := True\<rparr> else c)
     else if strcaseeq key ''spawn_options'' then
       do { v \<leftarrow> strcpy_buf val; Some (c\<lparr>esd_spawn_options := v\<rparr>) }
     else if strcaseeq key ''default_options'' then
       do { v \<leftarrow> strcpy_buf val; Some (c\<lparr>esd_default_options := v\<rparr>) }
     else if strcaseeq key ''spawn_wait_ms'' then
       (let (v, endptr) = strtol val 0
        in Some (if endptr = [] then c\<lparr>esd_spawn_wait_ms := i32 v\<rparr> else c))
     else Some c)"

text \<open>The test \<open>value != '\0'\<close> compares the pointer, so it is always true.\<close>

definition config_line :: "string \<Rightarrow> esd_conf \<Rightarrow> esd_conf option" where
  "config_line raw c =
    (let aline = chomp (to_nul raw)
     in if aline = [] \<or> hd aline = CHR ''#'' \<or> hd aline = CHR ''['' then Some c
        else case strtok aline ''='' of
               (None, _) \<Rightarrow> Some c
             | (Some key, rest) \<Rightarrow> config_set key (case fst (strtok rest ''='') of None \<Rightarrow> '''' | Some v \<Rightarrow> v) c)"

function esd_config_read_file :: "string \<Rightarrow> esd_conf \<Rightarrow> esd_conf option" where
  "esd_config_read_file fh c =
    (case fgets fh of
       None \<Rightarrow> Some c
     | Some (aline, fh) \<Rightarrow> do { c \<leftarrow> config_line aline c; esd_config_read_file fh c })"
  by pat_completeness auto
termination
  by (relation "measure (\<lambda>(f, c). length f)") (auto simp: fgets_def Let_def split: if_splits)

declare esd_config_read_file.simps [simp del]

definition read_conf_file :: "string option \<Rightarrow> esd_conf \<Rightarrow> esd_conf option" where
  "read_conf_file f c = (case f of None \<Rightarrow> Some c | Some fh \<Rightarrow> esd_config_read_file fh c)"

definition env_option :: "string option \<Rightarrow> string option" where
  "env_option v = (case v of Some x \<Rightarrow> if length x < LINEBUF_SIZE - 1 then Some x else None | None \<Rightarrow> None)"

definition esd_config_read :: "conf_env \<Rightarrow> esd_conf \<Rightarrow> esd_conf option" where
  "esd_config_read e c =
    (if read_esd_config c then Some c
     else do {
       c \<leftarrow> read_conf_file (sys_conf e) c;
       c \<leftarrow> (case getenv e ''HOME'' of None \<Rightarrow> Some c | Some _ \<Rightarrow> read_conf_file (home_conf e) c);
       let c = (if getenv e ''ESD_NO_SPAWN'' \<noteq> None then c\<lparr>esd_no_spawn := True\<rparr> else c);
       c \<leftarrow> (case env_option (getenv e ''ESD_SPAWN_OPTIONS'') of None \<Rightarrow> Some c
             | Some x \<Rightarrow> do { v \<leftarrow> strcpy_buf x; Some (c\<lparr>esd_spawn_options := v\<rparr>) });
       c \<leftarrow> (case env_option (getenv e ''ESD_DEFAULT_OPTIONS'') of None \<Rightarrow> Some c
             | Some x \<Rightarrow> do { v \<leftarrow> strcpy_buf x; Some (c\<lparr>esd_default_options := v\<rparr>) });
       Some (c\<lparr>read_esd_config := True\<rparr>) })"

subsection \<open>The buffers hold what is copied into them\<close>

definition conf_ok :: "esd_conf \<Rightarrow> bool" where
  "conf_ok c \<longleftrightarrow> length (esd_spawn_options c) < LINEBUF_SIZE \<and> length (esd_default_options c) < LINEBUF_SIZE
     \<and> - 2147483648 \<le> esd_spawn_wait_ms c \<and> esd_spawn_wait_ms c < 2147483648"

definition conf_step :: "(esd_conf \<Rightarrow> esd_conf option) \<Rightarrow> bool" where
  "conf_step f \<longleftrightarrow> (\<forall>c. conf_ok c \<longrightarrow> (\<exists>c'. f c = Some c' \<and> conf_ok c'))"

lemma conf_stepD: "conf_step f \<Longrightarrow> conf_ok c \<Longrightarrow> \<exists>c'. f c = Some c' \<and> conf_ok c'"
  by (simp add: conf_step_def)

lemma strcpy_buf_some [simp]: "length v < LINEBUF_SIZE \<Longrightarrow> strcpy_buf v = Some v"
  by (simp add: strcpy_buf_def)

lemma config_set_ok: "length val < LINEBUF_SIZE \<Longrightarrow> conf_step (config_set key val)"
  using i32_range [of "fst (strtol val 0)"]
  by (auto simp: conf_step_def config_set_def conf_ok_def Let_def split: prod.splits)

lemma chomp_length: "length (chomp s) \<le> length s"
  unfolding chomp_def by (metis le_trans length_dropWhile_le length_rev)

lemma config_line_ok:
  assumes "length raw < LINEBUF_SIZE"
  shows "conf_step (config_line raw)"
proof -
  let ?a = "chomp (to_nul raw)"
  have l: "length ?a < LINEBUF_SIZE"
    using assms chomp_length [of "to_nul raw"] by (simp add: to_nul_def) (meson le_less_trans length_takeWhile_le)
  have v: "length v < LINEBUF_SIZE" if "strtok ?a ''='' = (Some key, rest)" "strtok rest ''='' = (Some v, r)" for key rest v r
    using strtok_token(3) [OF that(1)] strtok_token(3) [OF that(2)] l by simp
  show ?thesis
    unfolding conf_step_def
  proof (intro allI impI)
    fix c assume ok: "conf_ok c"
    show "\<exists>c'. config_line raw c = Some c' \<and> conf_ok c'"
    proof (cases "strtok ?a ''=''")
      case (Pair k rest)
      show ?thesis
      proof (cases k)
        case None
        with Pair ok show ?thesis by (simp add: config_line_def Let_def)
      next
        case (Some key)
        have "length (case fst (strtok rest ''='') of None \<Rightarrow> '''' | Some v \<Rightarrow> v) < LINEBUF_SIZE"
          using v [OF Pair [unfolded Some]] by (cases "strtok rest ''=''") (auto split: option.splits)
        from conf_stepD [OF config_set_ok [OF this] ok] Pair Some ok show ?thesis
          by (simp add: config_line_def Let_def)
      qed
    qed
  qed
qed

lemma fgets_length: "fgets f = Some (l, r) \<Longrightarrow> length l < LINEBUF_SIZE"
  by (auto simp: fgets_def Let_def split: if_splits)

lemma config_file_ok: "conf_ok c \<Longrightarrow> \<exists>c'. esd_config_read_file f c = Some c' \<and> conf_ok c'"
proof (induction f c rule: esd_config_read_file.induct)
  case (1 f c)
  show ?case
  proof (cases "fgets f")
    case None
    with 1(2) show ?thesis by (simp add: esd_config_read_file.simps)
  next
    case (Some lr)
    obtain l r where lr: "lr = (l, r)" by fastforce
    obtain c1 where c1: "config_line l c = Some c1" "conf_ok c1"
      using conf_stepD [OF config_line_ok [OF fgets_length [OF Some [unfolded lr]]] 1(2)] by blast
    from 1(1) [OF Some lr [symmetric] c1] Some lr c1 show ?thesis
      by (simp add: esd_config_read_file.simps [of f])
  qed
qed

lemma conf_file_ok: "conf_ok c \<Longrightarrow> \<exists>c'. read_conf_file f c = Some c' \<and> conf_ok c'"
  by (auto simp: read_conf_file_def config_file_ok split: option.splits)

lemma env_option_short: "env_option v = Some x \<Longrightarrow> length x < LINEBUF_SIZE"
  by (auto simp: env_option_def split: option.splits if_splits)

lemma env_spawn_ok: "conf_ok c \<Longrightarrow> \<exists>c'. (case env_option v of None \<Rightarrow> Some c
    | Some x \<Rightarrow> do { v \<leftarrow> strcpy_buf x; Some (c\<lparr>esd_spawn_options := v\<rparr>) }) = Some c' \<and> conf_ok c'"
  by (cases "env_option v") (simp_all add: conf_ok_def env_option_short)

lemma env_default_ok: "conf_ok c \<Longrightarrow> \<exists>c'. (case env_option v of None \<Rightarrow> Some c
    | Some x \<Rightarrow> do { v \<leftarrow> strcpy_buf x; Some (c\<lparr>esd_default_options := v\<rparr>) }) = Some c' \<and> conf_ok c'"
  by (cases "env_option v") (simp_all add: conf_ok_def env_option_short)

text \<open>
  C12. Whatever the files and the environment hold, reading the configuration ends without
  overflowing a buffer, leaves options that fit their buffers and a waiting time that is an
  \<open>int\<close>, and is done once: a second call changes nothing.
\<close>

theorem esd_config_read_safe:
  assumes "conf_ok c"
  shows "\<exists>c'. esd_config_read e c = Some c' \<and> conf_ok c' \<and> read_esd_config c' \<and> esd_config_read e' c' = Some c'"
proof (cases "read_esd_config c")
  case True
  with assms show ?thesis by (simp add: esd_config_read_def)
next
  case False
  obtain c1 where c1: "read_conf_file (sys_conf e) c = Some c1" "conf_ok c1"
    using conf_file_ok [OF assms] by blast
  obtain c2 where c2: "(case getenv e ''HOME'' of None \<Rightarrow> Some c1 | Some _ \<Rightarrow> read_conf_file (home_conf e) c1) = Some c2"
    "conf_ok c2" using c1(2) conf_file_ok [OF c1(2), of "home_conf e"] by (cases "getenv e ''HOME''") auto
  let ?c3 = "if getenv e ''ESD_NO_SPAWN'' \<noteq> None then c2\<lparr>esd_no_spawn := True\<rparr> else c2"
  have c3: "conf_ok ?c3" using c2(2) by (simp add: conf_ok_def)
  obtain c4 where c4: "(case env_option (getenv e ''ESD_SPAWN_OPTIONS'') of None \<Rightarrow> Some ?c3
      | Some x \<Rightarrow> do { v \<leftarrow> strcpy_buf x; Some (?c3\<lparr>esd_spawn_options := v\<rparr>) }) = Some c4" "conf_ok c4"
    using env_spawn_ok [OF c3] by blast
  obtain c5 where c5: "(case env_option (getenv e ''ESD_DEFAULT_OPTIONS'') of None \<Rightarrow> Some c4
      | Some x \<Rightarrow> do { v \<leftarrow> strcpy_buf x; Some (c4\<lparr>esd_default_options := v\<rparr>) }) = Some c5" "conf_ok c5"
    using env_default_ok [OF c4(2)] by blast
  have "esd_config_read e c = Some (c5\<lparr>read_esd_config := True\<rparr>)"
    using False c1(1) c2(1) c4(1) c5(1) by (simp only: esd_config_read_def Let_def if_False bind.bind_lunit)
  moreover have "esd_config_read e' (c5\<lparr>read_esd_config := True\<rparr>) = Some (c5\<lparr>read_esd_config := True\<rparr>)"
    by (simp add: esd_config_read_def)
  ultimately show ?thesis using c5(2) by (simp add: conf_ok_def)
qed

theorem esd_config_read_safe_witness:
  "\<exists>c'. esd_config_read \<lparr>getenv = (\<lambda>_. None), sys_conf = Some ''spawn_wait_ms=50'', home_conf = None\<rparr> conf0 = Some c'
    \<and> conf_ok c' \<and> read_esd_config c' \<and> esd_config_read \<lparr>getenv = Some, sys_conf = None, home_conf = None\<rparr> c' = Some c'"
  by (rule esd_config_read_safe) (simp add: conf_ok_def conf0_def)

text \<open>
  A \<open>spawn_wait_ms\<close> line without a value is taken as 0 milliseconds, not rejected as
  invalid: the test for an empty value compares the pointer.
\<close>

theorem empty_spawn_wait_accepted:
  "strcaseeq key ''spawn_wait_ms'' \<Longrightarrow> config_set key '''' c = Some (c\<lparr>esd_spawn_wait_ms := 0\<rparr>)"
proof -
  assume k: "strcaseeq key ''spawn_wait_ms''"
  have l: "length key = length ''spawn_wait_ms''"
    using k map_eq_imp_length_eq unfolding strcaseeq_def by blast
  have n: "\<not> strcaseeq key s" if "length s \<noteq> length ''spawn_wait_ms''" for s
    using l that by (auto simp: strcaseeq_def dest: map_eq_imp_length_eq)
  have "\<not> strcaseeq key ''spawn_options''"
  proof
    assume "strcaseeq key ''spawn_options''"
    with k have "map tolower ''spawn_options'' = map tolower ''spawn_wait_ms''"
      unfolding strcaseeq_def by (metis (no_types))
    then show False by (rule notE [rotated]) code_simp
  qed
  with k n [of "''auto_spawn''"] n [of "''default_options''"] show ?thesis
    by (simp add: config_set_def strtol_empty i32_id)
qed

theorem empty_spawn_wait_accepted_witness:
  "config_set ''Spawn_Wait_Ms'' '''' conf0 = Some (conf0\<lparr>esd_spawn_wait_ms := 0\<rparr>)"
  by (rule empty_spawn_wait_accepted) code_simp

end
