(* ===== verification/Esd_Lib.thy ===== *)
theory Esd_Lib
  imports Esd_Samples Esd_Config
begin

text \<open>
  The client library (\<open>esdlib.c\<close>): reads and writes with a timeout, finding and spawning a
  server, the authorisation, and the requests. The state is that of the client's process:
  its own scripts of the system calls (\<open>poll\<close>, \<open>fcntl\<close>, \<open>socket\<close>, \<open>connect\<close>, \<open>open\<close>), the
  environment and the configuration. The build is the one without IPv6; \<open>Esd_Ipv6\<close> has the other way to connect. The key that
  \<open>esound_genrand\<close> makes up is the field \<open>genkey\<close>.
\<close>

subsection \<open>State\<close>

text \<open>
  Results of \<open>poll\<close> on one descriptor: an error, no event in time, or events (readable,
  writable, error or hang-up); an exhausted script is a descriptor that is ready.
\<close>

datatype pollres = PollErr errno | PollTimeout | PollEvents bool bool bool
datatype connres = ConnOk | ConnProgress | ConnFail
datatype target = UnixSocket | InetSocket string int
datatype sighandler = SIG_APP | dummy_signal

record esd_lib = audio +
  polls :: "pollres list"
  getfls :: "bool list"               \<comment> \<open>whether \<open>fcntl (fd, F_GETFL)\<close> works; then it does\<close>
  nonblock :: "int \<Rightarrow> bool"           \<comment> \<open>\<open>O_NONBLOCK\<close> of a descriptor\<close>
  sigpipe :: sighandler
  sockbufs :: "(int \<times> int) list"      \<comment> \<open>\<open>SO_SNDBUF\<close> and \<open>SO_RCVBUF\<close> as set\<close>
  lib_env :: conf_env
  lib_conf :: esd_conf
  opens :: "int list"                 \<comment> \<open>results of \<open>open\<close>; then -1\<close>
  genkey :: "octet list"
  sockets :: "int list"               \<comment> \<open>results of \<open>socket\<close>; then -1\<close>
  sockopts :: "bool list"             \<comment> \<open>whether setting an option works; then it does\<close>
  connects :: "connres list"          \<comment> \<open>results of \<open>connect\<close>; then success\<close>
  dialled :: "(int \<times> target) list"    \<comment> \<open>calls of \<open>connect\<close>\<close>
  gethostbyname :: "string \<Rightarrow> bool"   \<comment> \<open>whether the name resolves\<close>
  gethostname :: string
  unix_access :: bool                 \<comment> \<open>the socket can be accessed\<close>
  esd_exists :: bool                  \<comment> \<open>\<open>SERVERDIR/esd\<close> can be executed\<close>
  pipe_fds :: "(int \<times> int) option"
  spawn_select :: int                 \<comment> \<open>result of the \<open>select\<close> on the pipe\<close>
  spawned :: "(string \<times> int) list"    \<comment> \<open>servers started: options and descriptor to report on\<close>

text \<open>\<open>signal (SIGPIPE, handler)\<close>: the handler that was installed, and the new one in its place.\<close>

definition signal_pipe :: "sighandler \<Rightarrow> 'a esd_lib_scheme \<Rightarrow> sighandler \<times> 'a esd_lib_scheme" where
  "signal_pipe handler s = (sigpipe s, s\<lparr>sigpipe := handler\<rparr>)"

subsection \<open>Reading and writing with a timeout\<close>

text \<open>\<open>do poll while (rv == -1 \<and> errno is one of again)\<close>\<close>

fun poll_wait :: "errno set \<Rightarrow> pollres list \<Rightarrow> pollres \<times> pollres list" where
  "poll_wait again [] = (PollEvents True True False, [])"
| "poll_wait again (PollErr e # r) = (if e \<in> again then poll_wait again r else (PollErr e, r))"
| "poll_wait again (p # r) = (p, r)"

definition sys_poll :: "errno set \<Rightarrow> 'a esd_lib_scheme \<Rightarrow> pollres \<times> 'a esd_lib_scheme" where
  "sys_poll again s = (let (p, r) = poll_wait again (polls s) in (p, s\<lparr>polls := r\<rparr>))"

definition sys_getfl :: "'a esd_lib_scheme \<Rightarrow> bool \<times> 'a esd_lib_scheme" where
  "sys_getfl s = (case getfls s of [] \<Rightarrow> (True, s) | b # r \<Rightarrow> (b, s\<lparr>getfls := r\<rparr>))"

definition set_nonblock :: "int \<Rightarrow> bool \<Rightarrow> 'a esd_lib_scheme \<Rightarrow> 'a esd_lib_scheme" where
  "set_nonblock fd b s = s\<lparr>nonblock := (nonblock s)(fd := b)\<rparr>"

function read_eintr :: "int \<Rightarrow> nat \<Rightarrow> 'a os_scheme \<Rightarrow> (int \<times> octet list) \<times> 'a os_scheme" where
  "read_eintr fd n s =
    (case rx s fd of
       RdErr EINTR # r \<Rightarrow> read_eintr fd n (s\<lparr>rx := (rx s)(fd := r)\<rparr>)
     | _ \<Rightarrow> let ((len, _, bs), s) = sys_read fd n s in ((len, bs), s))"
  by pat_completeness auto
termination
  by (relation "measure (\<lambda>(fd, n, s). length (rx s fd))") auto

function write_eintr :: "int \<Rightarrow> octet list \<Rightarrow> 'a os_scheme \<Rightarrow> int \<times> 'a os_scheme" where
  "write_eintr fd bs s =
    (case wres s fd of
       WrErr EINTR # r \<Rightarrow> write_eintr fd bs (s\<lparr>wres := (wres s)(fd := r)\<rparr>)
     | _ \<Rightarrow> let ((n, _), s) = sys_write fd bs s in (n, s))"
  by pat_completeness auto
termination
  by (relation "measure (\<lambda>(fd, bs, s). length (wres s fd))") auto

declare read_eintr.simps [simp del] write_eintr.simps [simp del]

definition read_timeout :: "int \<Rightarrow> nat \<Rightarrow> 'a esd_lib_scheme \<Rightarrow> (int \<times> octet list) \<times> 'a esd_lib_scheme" where
  "read_timeout fd buflen s =
    (let (p, s) = sys_poll {EINTR, EAGAIN} s
     in if (case p of PollEvents rd wr err \<Rightarrow> \<not> rd | _ \<Rightarrow> True) then ((-1, []), s)
        else
          let (ok, s) = sys_getfl s; flags = nonblock s fd
          in if \<not> ok then ((-1, []), s)
             else let (r, s) = read_eintr fd buflen (set_nonblock fd True s)
                  in (r, set_nonblock fd flags s))"

lemma write_eintr_less:
  "write_eintr fd bs s = (n, s') \<Longrightarrow> n \<noteq> -1 \<Longrightarrow> n < int (length bs) \<Longrightarrow> length (wres s' fd) < length (wres s fd)"
proof (induction fd bs s rule: write_eintr.induct)
  case (1 fd bs s)
  show ?case
  proof (cases "wres s fd")
    case Nil
    with 1(2-4) show ?thesis by (simp add: write_eintr.simps [of fd bs s] sys_write_def)
  next
    case (Cons w r)
    show ?thesis
    proof (cases "w = WrErr EINTR")
      case True
      with 1(1) [OF Cons, of EINTR] 1(2-4) Cons show ?thesis
        by (simp add: write_eintr.simps [of fd bs s])
    next
      case False
      with Cons 1(2-4) show ?thesis
        by (auto simp: write_eintr.simps [of fd bs s] sys_write_def Let_def split: wrres.splits errno.splits)
    qed
  qed
qed

text \<open>The loop of \<open>write_timeout\<close>; the flags are restored by its caller on every exit.\<close>

function write_loop :: "int \<Rightarrow> octet list \<Rightarrow> nat \<Rightarrow> 'a esd_lib_scheme \<Rightarrow> int \<times> 'a esd_lib_scheme" where
  "write_loop fd buf nwritten s =
    (let (p, s) = sys_poll {EINTR, EAGAIN} s
     in if (case p of PollEvents rd wr err \<Rightarrow> \<not> wr \<or> err | _ \<Rightarrow> True) then (-1, s)
        else
          let (n, s) = write_eintr fd (drop nwritten buf) s
          in if n = -1 then (-1, s)
             else if nwritten + nat n < length buf then write_loop fd buf (nwritten + nat n) s
             else (int nwritten + n, s))"
  by pat_completeness auto
termination
proof (relation "measure (\<lambda>(fd, buf, k, s). length (wres s fd))", simp, goal_cases)
  case (1 fd buf k s x p s1 y n s2)
  have "wres s1 fd = wres s fd" using 1(1,2) by (auto simp: sys_poll_def Let_def split: prod.splits)
  moreover have "length (wres s2 fd) < length (wres s1 fd)"
  proof (rule write_eintr_less)
    show "write_eintr fd (drop k buf) s1 = (n, s2)" using 1 by auto
    show "n \<noteq> -1" "n < int (length (drop k buf))" using 1 by auto
  qed
  ultimately show ?case by simp
qed

declare write_loop.simps [simp del]

definition write_timeout :: "int \<Rightarrow> octet list \<Rightarrow> 'a esd_lib_scheme \<Rightarrow> int \<times> 'a esd_lib_scheme" where
  "write_timeout fd buf s =
    (let (ok, s) = sys_getfl s; flags = nonblock s fd
     in if \<not> ok then (-1, s)
        else let (n, s) = write_loop fd buf 0 (set_nonblock fd True s) in (n, set_nonblock fd flags s))"

subsection \<open>Socket buffers, latency\<close>

definition esd_set_socket_buffers :: "int \<Rightarrow> int \<Rightarrow> int \<Rightarrow> int \<Rightarrow> 'a esd_lib_scheme \<Rightarrow> int \<times> 'a esd_lib_scheme" where
  "esd_set_socket_buffers sock src_format src_rate base_rate s =
    (let n = ESD_BUF_SIZE;
         n = (if src_rate > 0 then i32 (n * base_rate) sdiv src_rate else n);
         n = (if src_format AND ESD_MASK_BITS = ESD_BITS16 then i32 (n * 2) else n);
         n = (if src_format AND ESD_MASK_CHAN \<noteq> ESD_MONO then i32 (n * 2) else n)
     in (n, s\<lparr>sockbufs := sockbufs s @ [(sock, n)]\<rparr>))"

text \<open>The reply to a request: an \<open>int\<close>, or \<open>None\<close> when fewer bytes came.\<close>

definition read_int :: "int \<Rightarrow> 'a esd_lib_scheme \<Rightarrow> int option \<times> 'a esd_lib_scheme" where
  "read_int fd s = (let ((n, bs), s) = read_timeout fd 4 s in (if n \<noteq> 4 then None else get32 bs 0, s))"

text \<open>
  Every request saves the handler of \<open>SIGPIPE\<close>, installs one that does nothing, and has to put the saved
  one back wherever it returns.
\<close>

definition esd_get_latency :: "int \<Rightarrow> 'a esd_lib_scheme \<Rightarrow> int \<times> 'a esd_lib_scheme" where
  "esd_get_latency esd s =
    (let (phandler, s) = signal_pipe dummy_signal s;
         (n, s) = write_timeout esd (put32 ESD_PROTO_LATENCY) s
     in if n \<noteq> 4 then (-1, snd (signal_pipe phandler s)) else
     let (lag, s) = read_int esd s
     in case lag of
          None \<Rightarrow> (-1, snd (signal_pipe phandler s))
        | Some lag \<Rightarrow> (i32 (lag + ESD_BUF_SIZE * 2), snd (signal_pipe phandler s)))"

subsection \<open>Authorisation\<close>

definition sys_open :: "'a esd_lib_scheme \<Rightarrow> int \<times> 'a esd_lib_scheme" where
  "sys_open s = (case opens s of [] \<Rightarrow> (-1, s) | fd # r \<Rightarrow> (fd, s\<lparr>opens := r\<rparr>))"

text \<open>
  \<open>esd_send_auth\<close>, from the point where the key is known: key and byte order go out, the verdict comes
  back. Every way ends at \<open>exit_fd\<close>, where the file with the key is closed and the handler restored.
\<close>

definition send_key :: "sighandler \<Rightarrow> int \<Rightarrow> int \<Rightarrow> octet list \<Rightarrow> 'a esd_lib_scheme \<Rightarrow> int \<times> 'a esd_lib_scheme" where
  "send_key phandler auth_fd sock key s =
    (let (n, s) = write_timeout sock key s
     in if n \<noteq> int ESD_KEY_LEN then (0, snd (signal_pipe phandler (sys_close auth_fd s))) else
     let (n, s) = write_timeout sock (put32 ESD_ENDIAN_KEY) s
     in if n \<noteq> 4 then (0, snd (signal_pipe phandler (sys_close auth_fd s))) else
     let (reply, s) = read_int sock s
     in case reply of
          None \<Rightarrow> (0, snd (signal_pipe phandler (sys_close auth_fd s)))
        | Some reply \<Rightarrow>
            if reply = 0 then (0, snd (signal_pipe phandler (sys_close auth_fd s)))
            else (1, snd (signal_pipe phandler (sys_close auth_fd s))))"

definition esd_send_auth :: "int \<Rightarrow> 'a esd_lib_scheme \<Rightarrow> int \<times> 'a esd_lib_scheme" where
  "esd_send_auth sock s =
    (let (phandler, s) = signal_pipe dummy_signal s
     in case getenv (lib_env s) ''HOME'' of
       None \<Rightarrow> (-1, snd (signal_pipe phandler s))
     | Some home \<Rightarrow>
         let (auth_filename, s) = malloc (int (length home) + 12) s
         in if auth_filename = 0 then (-1, snd (signal_pipe phandler s)) else
         let (auth_fd, s) = sys_open s
         in if auth_fd = -1 then
              let (auth_fd, s) = sys_open s
              in if auth_fd = -1 then (0, snd (signal_pipe phandler s))
                 else let (_, s) = write_timeout auth_fd (genkey s) s
                      in send_key phandler auth_fd sock (genkey s) s
            else
              let ((n, key), s) = read_timeout auth_fd ESD_KEY_LEN s
              in if n \<noteq> int ESD_KEY_LEN then (0, snd (signal_pipe phandler (sys_close auth_fd s)))
                 else send_key phandler auth_fd sock key s)"

text \<open>The requests that carry the key again; what \<open>esd_send_auth\<close> returns is not looked at.\<close>

definition esd_lock :: "int \<Rightarrow> 'a esd_lib_scheme \<Rightarrow> int \<times> 'a esd_lib_scheme" where
  "esd_lock esd s =
    (let (phandler, s) = signal_pipe dummy_signal s;
         (_, s) = write_timeout esd (put32 ESD_PROTO_LOCK) s;
         (_, s) = esd_send_auth esd s;
         (ok, s) = read_int esd s
     in case ok of
          None \<Rightarrow> (-1, snd (signal_pipe phandler s))
        | Some ok \<Rightarrow> (ok, snd (signal_pipe phandler s)))"

definition esd_unlock :: "int \<Rightarrow> 'a esd_lib_scheme \<Rightarrow> int \<times> 'a esd_lib_scheme" where
  "esd_unlock esd s =
    (let (phandler, s) = signal_pipe dummy_signal s;
         (_, s) = write_timeout esd (put32 ESD_PROTO_UNLOCK) s;
         (_, s) = esd_send_auth esd s;
         (ok, s) = read_int esd s
     in case ok of
          None \<Rightarrow> (-1, snd (signal_pipe phandler s))
        | Some ok \<Rightarrow> (ok, snd (signal_pipe phandler s)))"

definition esd_standby :: "int \<Rightarrow> 'a esd_lib_scheme \<Rightarrow> int \<times> 'a esd_lib_scheme" where
  "esd_standby esd s =
    (let (phandler, s) = signal_pipe dummy_signal s;
         (_, s) = write_timeout esd (put32 ESD_PROTO_STANDBY) s;
         (_, s) = esd_send_auth esd s;
         (ok, s) = read_int esd s
     in case ok of
          None \<Rightarrow> (-1, snd (signal_pipe phandler s))
        | Some ok \<Rightarrow> (ok, snd (signal_pipe phandler s)))"

definition esd_resume :: "int \<Rightarrow> 'a esd_lib_scheme \<Rightarrow> int \<times> 'a esd_lib_scheme" where
  "esd_resume esd s =
    (let (phandler, s) = signal_pipe dummy_signal s;
         (_, s) = write_timeout esd (put32 ESD_PROTO_RESUME) s;
         (_, s) = esd_send_auth esd s;
         (ok, s) = read_int esd s
     in case ok of
          None \<Rightarrow> (-1, snd (signal_pipe phandler s))
        | Some ok \<Rightarrow> (ok, snd (signal_pipe phandler s)))"

subsection \<open>Connecting\<close>

definition sys_socket :: "'a esd_lib_scheme \<Rightarrow> int \<times> 'a esd_lib_scheme" where
  "sys_socket s = (case sockets s of [] \<Rightarrow> (-1, s) | fd # r \<Rightarrow> (fd, s\<lparr>sockets := r\<rparr>))"

definition sys_sockopt :: "'a esd_lib_scheme \<Rightarrow> bool \<times> 'a esd_lib_scheme" where
  "sys_sockopt s = (case sockopts s of [] \<Rightarrow> (True, s) | b # r \<Rightarrow> (b, s\<lparr>sockopts := r\<rparr>))"

definition sys_connect :: "int \<Rightarrow> target \<Rightarrow> 'a esd_lib_scheme \<Rightarrow> connres \<times> 'a esd_lib_scheme" where
  "sys_connect fd t s =
    (let s = s\<lparr>dialled := dialled s @ [(fd, t)]\<rparr>
     in case connects s of [] \<Rightarrow> (ConnOk, s) | c # r \<Rightarrow> (c, s\<lparr>connects := r\<rparr>))"

text \<open>On failure the descriptor stays non-blocking; its callers close it.\<close>

definition connect_timeout :: "int \<Rightarrow> target \<Rightarrow> 'a esd_lib_scheme \<Rightarrow> int \<times> 'a esd_lib_scheme" where
  "connect_timeout sockfd serv_addr s =
    (let (ok, s) = sys_getfl s; flags = nonblock s sockfd
     in if \<not> ok then (-1, s) else
     let (c, s) = sys_connect sockfd serv_addr (set_nonblock sockfd True s)
     in case c of
          ConnOk \<Rightarrow> (0, set_nonblock sockfd flags s)
        | ConnFail \<Rightarrow> (-1, s)
        | ConnProgress \<Rightarrow>
            let (p, s) = sys_poll {EINTR} s
            in if (case p of PollEvents rd wr err \<Rightarrow> rd \<or> wr | _ \<Rightarrow> False)
               then (0, set_nonblock sockfd flags s) else (-1, s))"

definition open_socket :: "target \<Rightarrow> 'a esd_lib_scheme \<Rightarrow> int \<times> 'a esd_lib_scheme" where
  "open_socket t s =
    (let (socket_out, s) = sys_socket s
     in if socket_out < 0 then (-1, s) else
     let (ok, s) = sys_sockopt s
     in if \<not> ok then (-1, sys_close socket_out s) else
     let (ok, s) = sys_sockopt s
     in if \<not> ok then (-1, sys_close socket_out s) else
     let (r, s) = connect_timeout socket_out t s
     in if r < 0 then (-1, sys_close socket_out s) else (socket_out, s))"

text \<open>
  The host and port in \<open>host:port\<close>. The name is copied into 64 bytes with \<open>strncpy\<close> and searched
  for the colon before it is terminated: without a NUL or a colon among them the search runs out
  of the buffer, the value \<open>None\<close>.
\<close>

definition split_host :: "string \<Rightarrow> (string \<times> int) option" where
  "split_host espeaker =
    (if 64 \<le> length espeaker \<and> CHR '':'' \<notin> set (take 64 espeaker) then None
     else
       let host_div = strcspn (take 64 espeaker) '':'';
           name = (if host_div = 0 then ''127.0.0.1'' else take host_div espeaker);
           port = (if host_div < length espeaker then atoi (drop (host_div + 1) espeaker) else 16001)
       in Some (name, if port = 0 then 16001 else port))"

definition esd_connect_tcpip :: "string option \<Rightarrow> 'a esd_lib_scheme \<Rightarrow> (int \<times> 'a esd_lib_scheme) option" where
  "esd_connect_tcpip host s =
    (case host of
       Some espeaker \<Rightarrow>
         if espeaker = [] then Some (open_socket (InetSocket ''127.0.0.1'' 16001) s)
         else do {
           (name, port) \<leftarrow> split_host espeaker;
           Some (if gethostbyname s name then open_socket (InetSocket name (port mod 65536)) s else (-1, s)) }
     | None \<Rightarrow> Some (open_socket (InetSocket ''127.0.0.1'' 16001) s))"

definition esd_connect_unix :: "'a esd_lib_scheme \<Rightarrow> int \<times> 'a esd_lib_scheme" where
  "esd_connect_unix = open_socket UnixSocket"

definition is_host_local :: "string option \<Rightarrow> 'a esd_lib_scheme \<Rightarrow> bool" where
  "is_host_local host s =
    (case host of None \<Rightarrow> True
     | Some h \<Rightarrow> h = [] \<or> strcaseeq h (gethostname s) \<or> strcaseeq h ''localhost'')"

subsection \<open>Spawning a server\<close>

definition strstr :: "string \<Rightarrow> string \<Rightarrow> nat option" where
  "strstr s sub = find (\<lambda>i. take (length sub) (drop i s) = sub) [0..<Suc (length s - length sub)]"

text \<open>
  The child takes \<open>libesddsp\<close> out of \<open>LD_PRELOAD\<close>: it looks for the entry around the match, and
  copies what is before and after it into a new buffer. The buffer is one byte too short for
  the terminating NUL, and when the entry is the last one the copy starts behind the end of the
  string: both are the value \<open>None\<close>.
\<close>

function preload_entry :: "string \<Rightarrow> nat \<Rightarrow> nat \<Rightarrow> nat \<Rightarrow> nat \<times> nat" where
  "preload_entry preload lib start fin =
    (if fin < lib then
       preload_entry preload lib (fin + 1) (fin + 1 + strcspn (drop (fin + 1) preload) [CHR 0x09, CHR 0x0A])
     else (start, fin))"
  by pat_completeness auto
termination
  by (relation "measure (\<lambda>(p, lib, start, fin). lib - fin)") auto

declare preload_entry.simps [simp del]

lemma preload_entry_le: "preload_entry p lib a b = (c, d) \<Longrightarrow> a \<le> b \<Longrightarrow> c \<le> d"
  by (induction p lib a b rule: preload_entry.induct) (auto simp: preload_entry.simps split: if_splits)

function strip_preload :: "string \<Rightarrow> string option" where
  "strip_preload preload =
    (case strstr preload ''libesddsp'' of
       None \<Rightarrow> Some preload
     | Some lib \<Rightarrow>
         let (start, fin) = preload_entry preload lib 0 (strcspn preload [CHR '' '', CHR 0x09, CHR 0x0A]);
             len = int (length preload) - int (fin + 1);
             room = 11 + int start + len;
             preload2 = ''LD_PRELOAD='' @ take start preload @ drop (fin + 1) preload
         in if len < 0 \<or> room < int (length preload2) + 1 then None else strip_preload preload2)"
  by pat_completeness auto
termination
  by (relation "{}") (auto simp: min_def split: if_splits dest!: sym [THEN preload_entry_le])

declare strip_preload.simps [simp del]

definition spawn_child :: "int \<Rightarrow> 'a esd_lib_scheme \<Rightarrow> 'a esd_lib_scheme" where
  "spawn_child report s =
    (case getenv (lib_env s) ''LD_PRELOAD'' of
       Some p \<Rightarrow> (case strip_preload p of None \<Rightarrow> s
                 | Some _ \<Rightarrow> s\<lparr>spawned := spawned s @ [(esd_spawn_options (lib_conf s), report)]\<rparr>)
     | None \<Rightarrow> s\<lparr>spawned := spawned s @ [(esd_spawn_options (lib_conf s), report)]\<rparr>)"

definition spawn_esd :: "string option \<Rightarrow> 'a esd_lib_scheme \<Rightarrow> (int \<times> 'a esd_lib_scheme) option" where
  "spawn_esd host s = do {
     conf \<leftarrow> esd_config_read (lib_env s) (lib_conf s);
     let s = s\<lparr>lib_conf := conf\<rparr>;
     if esd_no_spawn conf \<or> \<not> esd_exists s then Some (-1, s)
     else case pipe_fds s of
       None \<Rightarrow> Some (-1, s)
     | Some (rd, wr) \<Rightarrow> do {
         let s = sys_close wr (spawn_child wr s);
         (socket_out, s) \<leftarrow>
           (if spawn_select s = 1 then
              let ((n, _), s) = read_timeout rd 1 s
              in if n = 1 then
                   let (socket_out, s) = esd_connect_unix s
                   in if socket_out < 0 then esd_connect_tcpip host s else Some (socket_out, s)
                 else Some (-1, s)
            else Some (-1, s));
         Some (socket_out, sys_close rd s) } }"

subsection \<open>Opening a connection\<close>

definition choose_host :: "string option \<Rightarrow> conf_env \<Rightarrow> string option" where
  "choose_host rhost e =
    (let host = (case rhost of Some h \<Rightarrow> Some h | None \<Rightarrow> getenv e ''ESPEAKER'')
     in if host = None \<or> host = Some '''' then
          (case getenv e ''DISPLAY'' of
             None \<Rightarrow> host
           | Some display \<Rightarrow>
               let len = strcspn display '':''
               in if len = 0 then host else Some (take (min len 255) display))
        else host)"

definition esd_open_sound :: "string option \<Rightarrow> 'a esd_lib_scheme \<Rightarrow> (int \<times> 'a esd_lib_scheme) option" where
  "esd_open_sound rhost s = do {
     let host = choose_host rhost (lib_env s);
     let (socket_out, s) = (if is_host_local host s \<and> unix_access s then esd_connect_unix s else (-1, s));
     (socket_out, s) \<leftarrow> (if socket_out \<ge> 0 then Some (socket_out, s) else esd_connect_tcpip host s);
     (socket_out, s) \<leftarrow> (if socket_out \<ge> 0 then Some (socket_out, s)
                        else if is_host_local host s then spawn_esd host s else Some (socket_out, s));
     if socket_out \<ge> 0 then
       let (auth, s) = esd_send_auth socket_out s
       in Some (if auth = 0 then (-1, sys_close socket_out s) else (socket_out, s))
     else Some (socket_out, s) }"

subsection \<open>Streams\<close>

text \<open>
  \<open>strncpy\<close> of the name into \<open>ESD_NAME_MAX\<close> bytes, padded with NULs; without a name only the first
  byte is set, and the rest is what was on the stack.
\<close>

definition name_buf :: "octet list option \<Rightarrow> 'a os_scheme \<Rightarrow> octet list" where
  "name_buf name s =
    (case name of None \<Rightarrow> 0 # uninit s 0 (ESD_NAME_MAX - 1)
     | Some n \<Rightarrow> take ESD_NAME_MAX (cstr n @ replicate ESD_NAME_MAX 0))"

definition esd_play_stream ::
  "int \<Rightarrow> int \<Rightarrow> string option \<Rightarrow> octet list option \<Rightarrow> 'a esd_lib_scheme \<Rightarrow> (int \<times> 'a esd_lib_scheme) option" where
  "esd_play_stream format rate host name s = do {
     (sock, s) \<leftarrow> esd_open_sound host s;
     Some (if sock < 0 then (sock, s) else
       let buf = name_buf name s;
           (phandler, s) = signal_pipe dummy_signal s;
           (n, s) = write_timeout sock (put32 ESD_PROTO_STREAM_PLAY) s
       in if n \<noteq> 4 then (-1, snd (signal_pipe phandler s)) else
       let (n, s) = write_timeout sock (put32 format) s
       in if n \<noteq> 4 then (-1, snd (signal_pipe phandler s)) else
       let (n, s) = write_timeout sock (put32 rate) s
       in if n \<noteq> 4 then (-1, snd (signal_pipe phandler s)) else
       let (n, s) = write_timeout sock buf s
       in if n \<noteq> int ESD_NAME_MAX then (-1, snd (signal_pipe phandler s)) else
       let (_, s) = esd_set_socket_buffers sock format rate 44100 s
       in (sock, snd (signal_pipe phandler s))) }"

definition esd_monitor_stream ::
  "int \<Rightarrow> int \<Rightarrow> string option \<Rightarrow> octet list option \<Rightarrow> 'a esd_lib_scheme \<Rightarrow> (int \<times> 'a esd_lib_scheme) option" where
  "esd_monitor_stream format rate host name s = do {
     (sock, s) \<leftarrow> esd_open_sound host s;
     Some (if sock < 0 then (sock, s) else
       let buf = name_buf name s;
           (phandler, s) = signal_pipe dummy_signal s;
           (n, s) = write_timeout sock (put32 ESD_PROTO_STREAM_MON) s
       in if n \<noteq> 4 then (-1, snd (signal_pipe phandler s)) else
       let (n, s) = write_timeout sock (put32 format) s
       in if n \<noteq> 4 then (-1, snd (signal_pipe phandler s)) else
       let (n, s) = write_timeout sock (put32 rate) s
       in if n \<noteq> 4 then (-1, snd (signal_pipe phandler s)) else
       let (n, s) = write_timeout sock buf s
       in if n \<noteq> int ESD_NAME_MAX then (-1, snd (signal_pipe phandler s)) else
       let (_, s) = esd_set_socket_buffers sock format rate 44100 s
       in (sock, snd (signal_pipe phandler s))) }"

definition esd_filter_stream ::
  "int \<Rightarrow> int \<Rightarrow> string option \<Rightarrow> octet list option \<Rightarrow> 'a esd_lib_scheme \<Rightarrow> (int \<times> 'a esd_lib_scheme) option" where
  "esd_filter_stream format rate host name s = do {
     (sock, s) \<leftarrow> esd_open_sound host s;
     Some (if sock < 0 then (sock, s) else
       let buf = name_buf name s;
           (phandler, s) = signal_pipe dummy_signal s;
           (n, s) = write_timeout sock (put32 ESD_PROTO_STREAM_FILT) s
       in if n \<noteq> 4 then (-1, snd (signal_pipe phandler s)) else
       let (n, s) = write_timeout sock (put32 format) s
       in if n \<noteq> 4 then (-1, snd (signal_pipe phandler s)) else
       let (n, s) = write_timeout sock (put32 rate) s
       in if n \<noteq> 4 then (-1, snd (signal_pipe phandler s)) else
       let (n, s) = write_timeout sock buf s
       in if n \<noteq> int ESD_NAME_MAX then (-1, snd (signal_pipe phandler s)) else
       let (_, s) = esd_set_socket_buffers sock format rate 44100 s
       in (sock, snd (signal_pipe phandler s))) }"

definition esd_record_stream ::
  "int \<Rightarrow> int \<Rightarrow> string option \<Rightarrow> octet list option \<Rightarrow> 'a esd_lib_scheme \<Rightarrow> (int \<times> 'a esd_lib_scheme) option" where
  "esd_record_stream format rate host name s = do {
     (sock, s) \<leftarrow> esd_open_sound host s;
     Some (if sock < 0 then (sock, s) else
       let buf = name_buf name s;
           (phandler, s) = signal_pipe dummy_signal s;
           (n, s) = write_timeout sock (put32 ESD_PROTO_STREAM_REC) s
       in if n \<noteq> 4 then (-1, snd (signal_pipe phandler s)) else
       let (n, s) = write_timeout sock (put32 format) s
       in if n \<noteq> 4 then (-1, snd (signal_pipe phandler s)) else
       let (n, s) = write_timeout sock (put32 rate) s
       in if n \<noteq> 4 then (-1, snd (signal_pipe phandler s)) else
       let (n, s) = write_timeout sock buf s
       in if n \<noteq> int ESD_NAME_MAX then (-1, snd (signal_pipe phandler s)) else
       let (_, s) = esd_set_socket_buffers sock format rate 44100 s
       in (sock, snd (signal_pipe phandler s))) }"

text \<open>When no server answers and no host was named, the device is opened directly.\<close>

definition esd_play_stream_fallback ::
  "int \<Rightarrow> int \<Rightarrow> string option \<Rightarrow> octet list option \<Rightarrow> 'a esd_lib_scheme \<Rightarrow> (int \<times> 'a esd_lib_scheme) option" where
  "esd_play_stream_fallback format rate host name s = do {
     let host = (case host of Some h \<Rightarrow> Some h | None \<Rightarrow> getenv (lib_env s) ''ESPEAKER'');
     (socket_out, s) \<leftarrow> esd_play_stream format rate host name s;
     Some (if socket_out \<ge> 0 then (socket_out, s)
       else if host \<noteq> None then (-1, s)
       else esd_audio_open (s\<lparr>esd_audio_format := format, esd_audio_rate := rate\<rparr>)) }"

definition esd_record_stream_fallback ::
  "int \<Rightarrow> int \<Rightarrow> string option \<Rightarrow> octet list option \<Rightarrow> 'a esd_lib_scheme \<Rightarrow> (int \<times> 'a esd_lib_scheme) option" where
  "esd_record_stream_fallback format rate host name s = do {
     let host = (case host of Some h \<Rightarrow> Some h | None \<Rightarrow> getenv (lib_env s) ''ESPEAKER'');
     (socket_out, s) \<leftarrow> esd_record_stream format rate host name s;
     Some (if socket_out \<ge> 0 then (socket_out, s)
       else if host \<noteq> None then (-1, s)
       else let (socket_out, s) = esd_audio_open (s\<lparr>esd_audio_format := format, esd_audio_rate := rate\<rparr>)
            in (socket_out, snd (esd_set_socket_buffers socket_out format rate 44100 s))) }"

subsection \<open>Samples\<close>

definition esd_sample_cache ::
  "int \<Rightarrow> int \<Rightarrow> int \<Rightarrow> int \<Rightarrow> octet list option \<Rightarrow> 'a esd_lib_scheme \<Rightarrow> int \<times> 'a esd_lib_scheme" where
  "esd_sample_cache esd format rate sz name s =
    (let buf = name_buf name s;
         (phandler, s) = signal_pipe dummy_signal s;
         (n, s) = write_timeout esd (put32 ESD_PROTO_SAMPLE_CACHE) s
     in if n \<noteq> 4 then (-1, snd (signal_pipe phandler s)) else
     let (n, s) = write_timeout esd (put32 format) s
     in if n \<noteq> 4 then (-1, snd (signal_pipe phandler s)) else
     let (n, s) = write_timeout esd (put32 rate) s
     in if n \<noteq> 4 then (-1, snd (signal_pipe phandler s)) else
     let (n, s) = write_timeout esd (put32 sz) s
     in if n \<noteq> 4 then (-1, snd (signal_pipe phandler s)) else
     let (n, s) = write_timeout esd buf s
     in if n \<noteq> int ESD_NAME_MAX then (-1, snd (signal_pipe phandler s)) else
     let (ident, s) = read_int esd s
     in case ident of
          None \<Rightarrow> (-1, snd (signal_pipe phandler s))
        | Some ident \<Rightarrow> (ident, snd (signal_pipe phandler s)))"

definition esd_confirm_sample_cache :: "int \<Rightarrow> 'a esd_lib_scheme \<Rightarrow> int \<times> 'a esd_lib_scheme" where
  "esd_confirm_sample_cache esd s =
    (let (phandler, s) = signal_pipe dummy_signal s;
         (ident, s) = read_int esd s
     in case ident of
          None \<Rightarrow> (-1, snd (signal_pipe phandler s))
        | Some ident \<Rightarrow> (ident, snd (signal_pipe phandler s)))"

definition esd_sample_getid :: "int \<Rightarrow> octet list option \<Rightarrow> 'a esd_lib_scheme \<Rightarrow> int \<times> 'a esd_lib_scheme" where
  "esd_sample_getid esd name s =
    (let (phandler, s) = signal_pipe dummy_signal s;
         (n, s) = write_timeout esd (put32 ESD_PROTO_SAMPLE_GETID) s
     in if n \<noteq> 4 then (-1, snd (signal_pipe phandler s)) else
     let (n, s) = write_timeout esd (name_buf name s) s
     in if n \<noteq> int ESD_NAME_MAX then (-1, snd (signal_pipe phandler s)) else
     let (ident, s) = read_int esd s
     in case ident of
          None \<Rightarrow> (-1, snd (signal_pipe phandler s))
        | Some ident \<Rightarrow> (ident, snd (signal_pipe phandler s)))"

definition esd_sample_free :: "int \<Rightarrow> int \<Rightarrow> 'a esd_lib_scheme \<Rightarrow> int \<times> 'a esd_lib_scheme" where
  "esd_sample_free esd sample s =
    (let (phandler, s) = signal_pipe dummy_signal s;
         (n, s) = write_timeout esd (put32 ESD_PROTO_SAMPLE_FREE) s
     in if n \<noteq> 4 then (-1, snd (signal_pipe phandler s)) else
     let (n, s) = write_timeout esd (put32 sample) s
     in if n \<noteq> 4 then (-1, snd (signal_pipe phandler s)) else
     let (ident, s) = read_int esd s
     in case ident of
          None \<Rightarrow> (-1, snd (signal_pipe phandler s))
        | Some ident \<Rightarrow> (ident, snd (signal_pipe phandler s)))"

definition esd_sample_play :: "int \<Rightarrow> int \<Rightarrow> 'a esd_lib_scheme \<Rightarrow> int \<times> 'a esd_lib_scheme" where
  "esd_sample_play esd sample s =
    (let (phandler, s) = signal_pipe dummy_signal s;
         (n, s) = write_timeout esd (put32 ESD_PROTO_SAMPLE_PLAY) s
     in if n \<noteq> 4 then (-1, snd (signal_pipe phandler s)) else
     let (n, s) = write_timeout esd (put32 sample) s
     in if n \<noteq> 4 then (-1, snd (signal_pipe phandler s)) else
     let (is_ok, s) = read_int esd s
     in case is_ok of
          None \<Rightarrow> (-1, snd (signal_pipe phandler s))
        | Some is_ok \<Rightarrow> (is_ok, snd (signal_pipe phandler s)))"

definition esd_sample_loop :: "int \<Rightarrow> int \<Rightarrow> 'a esd_lib_scheme \<Rightarrow> int \<times> 'a esd_lib_scheme" where
  "esd_sample_loop esd sample s =
    (let (phandler, s) = signal_pipe dummy_signal s;
         (n, s) = write_timeout esd (put32 ESD_PROTO_SAMPLE_LOOP) s
     in if n \<noteq> 4 then (-1, snd (signal_pipe phandler s)) else
     let (n, s) = write_timeout esd (put32 sample) s
     in if n \<noteq> 4 then (-1, snd (signal_pipe phandler s)) else
     let (is_ok, s) = read_int esd s
     in case is_ok of
          None \<Rightarrow> (-1, snd (signal_pipe phandler s))
        | Some is_ok \<Rightarrow> (is_ok, snd (signal_pipe phandler s)))"

definition esd_sample_stop :: "int \<Rightarrow> int \<Rightarrow> 'a esd_lib_scheme \<Rightarrow> int \<times> 'a esd_lib_scheme" where
  "esd_sample_stop esd sample s =
    (let (phandler, s) = signal_pipe dummy_signal s;
         (n, s) = write_timeout esd (put32 ESD_PROTO_SAMPLE_STOP) s
     in if n \<noteq> 4 then (-1, snd (signal_pipe phandler s)) else
     let (n, s) = write_timeout esd (put32 sample) s
     in if n \<noteq> 4 then (-1, snd (signal_pipe phandler s)) else
     let (is_ok, s) = read_int esd s
     in case is_ok of
          None \<Rightarrow> (-1, snd (signal_pipe phandler s))
        | Some is_ok \<Rightarrow> (is_ok, snd (signal_pipe phandler s)))"

definition esd_sample_kill :: "int \<Rightarrow> int \<Rightarrow> 'a esd_lib_scheme \<Rightarrow> int \<times> 'a esd_lib_scheme" where
  "esd_sample_kill esd sample s =
    (let (phandler, s) = signal_pipe dummy_signal s;
         (n, s) = write_timeout esd (put32 ESD_PROTO_SAMPLE_KILL) s
     in if n \<noteq> 4 then (-1, snd (signal_pipe phandler s)) else
     let (n, s) = write_timeout esd (put32 sample) s
     in if n \<noteq> 4 then (-1, snd (signal_pipe phandler s)) else
     let (is_ok, s) = read_int esd s
     in case is_ok of
          None \<Rightarrow> (-1, snd (signal_pipe phandler s))
        | Some is_ok \<Rightarrow> (is_ok, snd (signal_pipe phandler s)))"

definition esd_close :: "int \<Rightarrow> 'a esd_lib_scheme \<Rightarrow> 'a esd_lib_scheme" where
  "esd_close esd s = sys_close esd s"

end
