(* ===== verification/Esd_Lib_Laws.thy ===== *)
theory Esd_Lib_Laws
  imports Esd_Lib
begin

text \<open>
  What the client library guarantees about the descriptors it uses: the bytes that go out, the
  flags and the signal handler that come back, and where it breaks its promises.
\<close>

subsection \<open>The bytes that go out\<close>

text \<open>What a call appended to the log of a descriptor.\<close>

definition sent :: "int \<Rightarrow> 'a os_scheme \<Rightarrow> 'b os_scheme \<Rightarrow> octet list \<Rightarrow> bool" where
  "sent fd s s' bs \<longleftrightarrow> (\<exists>log. tx s' = tx s @ map (Pair fd) log \<and> concat log = bs)"

lemma sent_none [simp]: "tx s' = tx s \<Longrightarrow> sent fd s s' []"
  unfolding sent_def by (auto intro: exI [of _ "[]"])

lemma sent_trans: "sent fd s s1 a \<Longrightarrow> sent fd s1 s2 b \<Longrightarrow> sent fd s s2 (a @ b)"
  unfolding sent_def by (metis append.assoc concat_append map_append)

lemma sent_tx: "tx s1 = tx s \<Longrightarrow> tx s2 = tx s' \<Longrightarrow> sent fd s1 s2 b = sent fd s s' b"
  by (simp add: sent_def)

lemma write_eintr_sent:
  "write_eintr fd bs s = (n, s') \<Longrightarrow>
    (n = -1 \<and> sent fd s s' [] \<or> 0 \<le> n \<and> n \<le> int (length bs) \<and> sent fd s s' (take (nat n) bs))
    \<and> (\<exists>t w. s' = s\<lparr>tx := t, wres := w\<rparr>)"
proof (induction fd bs s rule: write_eintr.induct)
  case (1 fd bs s)
  have one: "sent fd s (s\<lparr>tx := tx s @ [(fd, b)], wres := w\<rparr>) b" "sent fd s (s\<lparr>tx := tx s @ [(fd, b)]\<rparr>) b" for b w
    by (auto simp: sent_def intro!: exI [of _ "[b]"])
  have fr: "\<exists>t w. s\<lparr>tx := x\<rparr> = s\<lparr>tx := t, wres := w\<rparr>" "\<exists>t w. s\<lparr>wres := y\<rparr> = s\<lparr>tx := t, wres := w\<rparr>" for x y
    by (rule exI [of _ x], rule exI [of _ "wres s"], simp, rule exI [of _ "tx s"], rule exI [of _ y], simp)
  show ?case
  proof (cases "wres s fd")
    case Nil
    with 1(2) one fr show ?thesis by (auto simp: write_eintr.simps [of fd bs s] sys_write_def)
  next
    case (Cons w r)
    show ?thesis
    proof (cases "w = WrErr EINTR")
      case True
      with 1(2) Cons have "write_eintr fd bs (s\<lparr>wres := (wres s)(fd := r)\<rparr>) = (n, s')"
        by (simp add: write_eintr.simps [of fd bs s])
      from 1(1) [OF Cons True refl this] show ?thesis by (auto simp: sent_def)
    next
      case False
      with Cons False 1(2) one fr show ?thesis
        by (cases w) (auto simp: write_eintr.simps [of fd bs s] sys_write_def min_def split: errno.splits)
    qed
  qed
qed

text \<open>What a call of the library may change of the process besides the log.\<close>

definition quiet :: "'a esd_lib_scheme \<Rightarrow> 'a esd_lib_scheme \<Rightarrow> bool" where
  "quiet s s' \<longleftrightarrow> (\<exists>t w p g r n. s' = s\<lparr>rx := r, wres := w, tx := t, polls := p, getfls := g, nonblock := n\<rparr>)"

lemma quietI: "s' = s\<lparr>rx := r, wres := w, tx := t, polls := p, getfls := g, nonblock := n\<rparr> \<Longrightarrow> quiet s s'"
  unfolding quiet_def by blast

lemma quiet_id [simp]: "quiet s s"
  by (rule quietI [where r = "rx s" and w = "wres s" and t = "tx s" and p = "polls s" and g = "getfls s"
        and n = "nonblock s"]) simp

lemma quiet_trans:
  assumes "quiet s s1" "quiet s1 s2"
  shows "quiet s s2"
proof -
  obtain t w p g r n t' w' p' g' r' n' where
    "s1 = s\<lparr>rx := r, wres := w, tx := t, polls := p, getfls := g, nonblock := n\<rparr>"
    "s2 = s1\<lparr>rx := r', wres := w', tx := t', polls := p', getfls := g', nonblock := n'\<rparr>"
    using assms unfolding quiet_def by blast
  then have "s2 = s\<lparr>rx := r', wres := w', tx := t', polls := p', getfls := g', nonblock := n'\<rparr>" by simp
  then show ?thesis by (rule quietI)
qed

lemma quiet_parts:
  "quiet s (s\<lparr>tx := t, wres := w\<rparr>)" "quiet s (s\<lparr>polls := p\<rparr>)" "quiet s (s\<lparr>getfls := g\<rparr>)"
  "quiet s (s\<lparr>nonblock := n\<rparr>)" "quiet s (s\<lparr>rx := r\<rparr>)"
proof -
  show "quiet s (s\<lparr>tx := t, wres := w\<rparr>)"
    by (rule quietI [where r = "rx s" and w = w and t = t and p = "polls s" and g = "getfls s" and n = "nonblock s"])
      (cases s, simp)
  show "quiet s (s\<lparr>polls := p\<rparr>)"
    by (rule quietI [where r = "rx s" and w = "wres s" and t = "tx s" and g = "getfls s" and n = "nonblock s"]) simp
  show "quiet s (s\<lparr>getfls := g\<rparr>)"
    by (rule quietI [where r = "rx s" and w = "wres s" and t = "tx s" and p = "polls s" and n = "nonblock s"]) simp
  show "quiet s (s\<lparr>nonblock := n\<rparr>)"
    by (rule quietI [where r = "rx s" and w = "wres s" and t = "tx s" and p = "polls s" and g = "getfls s"]) simp
  show "quiet s (s\<lparr>rx := r\<rparr>)"
    by (rule quietI [where w = "wres s" and t = "tx s" and p = "polls s" and g = "getfls s" and n = "nonblock s"]) simp
qed

lemma sys_poll_quiet: "sys_poll a s = (p, s') \<Longrightarrow> quiet s s' \<and> tx s' = tx s \<and> nonblock s' = nonblock s \<and> rx s' = rx s"
  by (auto simp: sys_poll_def Let_def quiet_parts split: prod.splits)

lemma sys_getfl_quiet: "sys_getfl s = (p, s') \<Longrightarrow> quiet s s' \<and> tx s' = tx s \<and> nonblock s' = nonblock s \<and> rx s' = rx s"
  by (auto simp: sys_getfl_def quiet_parts split: list.splits)

lemma write_loop_sent:
  assumes "write_loop fd buf k s = (n, s')" "k \<le> length buf"
  shows "(n = -1 \<and> (\<exists>m. sent fd s s' (take m (drop k buf))) \<or> n = int (length buf) \<and> sent fd s s' (drop k buf))
    \<and> quiet s s' \<and> nonblock s' = nonblock s \<and> rx s' = rx s"
  using assms
proof (induction fd buf k s rule: write_loop.induct)
  case (1 fd buf k s)
  obtain p s1 where p: "sys_poll {EINTR, EAGAIN} s = (p, s1)" by fastforce
  note q1 = sys_poll_quiet [OF p]
  show ?case
  proof (cases "case p of PollEvents rd wr err \<Rightarrow> \<not> wr \<or> err | _ \<Rightarrow> True")
    case True
    with 1(2) p have "n = -1" "s' = s1" by (simp_all add: write_loop.simps [of fd buf k s])
    moreover have "sent fd s s1 (take 0 (drop k buf))" using q1 by simp
    ultimately show ?thesis using q1 by blast
  next
    case ready: False
    obtain m s2 where m: "write_eintr fd (drop k buf) s1 = (m, s2)" by fastforce
    note w = write_eintr_sent [OF m]
    have q2: "quiet s s2" "nonblock s2 = nonblock s" "rx s2 = rx s"
      using w q1 quiet_trans [of s s1 s2] quiet_parts(1) [of s1] by auto
    have s2: "sent fd s s2 b = sent fd s1 s2 b" for b using q1 by (intro sent_tx) simp_all
    show ?thesis
    proof (cases "m = -1")
      case True
      with 1(2) p ready m have "n = -1" "s' = s2" by (simp_all add: write_loop.simps [of fd buf k s])
      moreover have "sent fd s s2 (take 0 (drop k buf))" using w True s2 by auto
      ultimately show ?thesis using q2 by blast
    next
      case ok: False
      then have m0: "0 \<le> m" "m \<le> int (length (drop k buf))" "sent fd s s2 (take (nat m) (drop k buf))"
        using w s2 by auto
      show ?thesis
      proof (cases "k + nat m < length buf")
        case False
        with 1(2) p ready m ok have "n = int k + m" "s' = s2" by (simp_all add: write_loop.simps [of fd buf k s])
        with False m0 q2 1(3) show ?thesis by auto
      next
        case True
        with 1(2) p ready m ok have r: "write_loop fd buf (k + nat m) s2 = (n, s')"
          by (simp add: write_loop.simps [of fd buf k s])
        have ih: "(n = -1 \<and> (\<exists>j. sent fd s2 s' (take j (drop (k + nat m) buf)))
            \<or> n = int (length buf) \<and> sent fd s2 s' (drop (k + nat m) buf))
          \<and> quiet s2 s' \<and> nonblock s' = nonblock s2 \<and> rx s' = rx s2"
          using 1(1) [OF p [symmetric] refl ready m [symmetric] refl ok True r] True by simp
        have d: "drop (k + nat m) buf = drop (nat m) (drop k buf)" by (simp add: add.commute)
        have c1: "sent fd s s' (drop k buf)" if "sent fd s2 s' (drop (nat m) (drop k buf))"
          using sent_trans [OF m0(3) that] by (simp only: append_take_drop_id)
        have c2: "sent fd s s' (take (nat m + j) (drop k buf))" if "sent fd s2 s' (take j (drop (nat m) (drop k buf)))" for j
          using sent_trans [OF m0(3) that] by (simp only: take_add)
        show ?thesis using ih c1 c2 q2 quiet_trans [OF q2(1)] unfolding d by metis
      qed
    qed
  qed
qed

lemma write_timeout_sent:
  assumes "write_timeout fd buf s = (n, s')"
  shows "(n = -1 \<and> (\<exists>m. sent fd s s' (take m buf)) \<or> n = int (length buf) \<and> sent fd s s' buf)
    \<and> quiet s s' \<and> nonblock s' = nonblock s \<and> rx s' = rx s"
proof -
  obtain ok s1 where g: "sys_getfl s = (ok, s1)" by fastforce
  note q1 = sys_getfl_quiet [OF g]
  show ?thesis
  proof (cases ok)
    case False
    with assms g q1 show ?thesis
      by (auto simp: write_timeout_def intro!: exI [of _ 0])
  next
    case True
    obtain m s2 where w: "write_loop fd buf 0 (set_nonblock fd True s1) = (m, s2)" by fastforce
    have r: "n = m" "s' = set_nonblock fd (nonblock s1 fd) s2"
      using assms g True w by (simp_all add: write_timeout_def)
    have nb: "nonblock s2 = (nonblock s1)(fd := True)" and rx2: "rx s2 = rx s1"
      and q2: "quiet (set_nonblock fd True s1) s2"
      and c: "m = -1 \<and> (\<exists>j. sent fd (set_nonblock fd True s1) s2 (take j buf))
        \<or> m = int (length buf) \<and> sent fd (set_nonblock fd True s1) s2 buf"
      using write_loop_sent [OF w] by (auto simp: set_nonblock_def)
    have "sent fd (set_nonblock fd True s1) s2 b = sent fd s s' b" for b
      using q1 by (intro sent_tx) (simp_all add: r set_nonblock_def)
    moreover have "quiet s s'"
      using q1 q2 quiet_parts(4) [of s1] quiet_parts(4) [of s2] unfolding r set_nonblock_def by (metis quiet_trans)
    moreover have "nonblock s' = nonblock s" using nb q1 by (simp add: r set_nonblock_def)
    moreover have "rx s' = rx s" using rx2 q1 by (simp add: r set_nonblock_def)
    ultimately show ?thesis using c r(1) by simp
  qed
qed

lemma read_eintr_frame:
  "read_eintr fd n s = ((len, bs), s') \<Longrightarrow> length bs \<le> n \<and> (0 \<le> len \<longrightarrow> len = int (length bs)) \<and> (\<exists>r. s' = s\<lparr>rx := r\<rparr>)"
proof (induction fd n s rule: read_eintr.induct)
  case (1 fd n s)
  show ?case
  proof (cases "\<exists>r. rx s fd = RdErr EINTR # r")
    case True
    then obtain r where r: "rx s fd = RdErr EINTR # r" by blast
    with 1(2) have "read_eintr fd n (s\<lparr>rx := (rx s)(fd := r)\<rparr>) = ((len, bs), s')"
      by (simp add: read_eintr.simps [of fd n s])
    from 1(1) [OF r refl refl this] show ?thesis by auto
  next
    case False
    have "read_eintr fd n s = (let ((len, _, bs), s) = sys_read fd n s in ((len, bs), s))"
      using False by (auto simp: read_eintr.simps [of fd n s] split: list.splits rdres.splits errno.splits)
    with 1(2) obtain tr where "sys_read fd n s = ((len, tr, bs), s')" by (auto split: prod.splits)
    from sys_read_length [OF this] sys_read_frame [OF this] show ?thesis by blast
  qed
qed

lemma read_timeout_frame:
  assumes "read_timeout fd n s = ((len, bs), s')"
  shows "length bs \<le> n \<and> (0 \<le> len \<longrightarrow> len = int (length bs)) \<and> quiet s s' \<and> nonblock s' = nonblock s \<and> tx s' = tx s"
proof -
  obtain p s1 where p: "sys_poll {EINTR, EAGAIN} s = (p, s1)" by fastforce
  obtain ok s2 where g: "sys_getfl s1 = (ok, s2)" by fastforce
  note q = sys_poll_quiet [OF p] sys_getfl_quiet [OF g]
  have q2: "quiet s s2" using q quiet_trans by blast
  show ?thesis
  proof (cases "(case p of PollEvents rd wr err \<Rightarrow> \<not> rd | _ \<Rightarrow> True) \<or> \<not> ok")
    case True
    with assms p g q q2 show ?thesis by (auto simp: read_timeout_def split: if_splits)
  next
    case False
    obtain l b s3 where r: "read_eintr fd n (set_nonblock fd True s2) = ((l, b), s3)" by (metis surj_pair)
    have e: "len = l" "bs = b" "s' = set_nonblock fd (nonblock s2 fd) s3"
      using assms p g False r by (simp_all add: read_timeout_def)
    obtain f where f: "s3 = (set_nonblock fd True s2)\<lparr>rx := f\<rparr>" using read_eintr_frame [OF r] by blast
    have "quiet s2 s'"
      unfolding e f set_nonblock_def
      by (rule quiet_trans [OF quiet_trans [OF quiet_parts(4) quiet_parts(5)] quiet_parts(4)])
    with read_eintr_frame [OF r] q q2 quiet_trans show ?thesis
      unfolding e(1,2) by (auto simp: e f set_nonblock_def)
  qed
qed

text \<open>Successive writes, up to the first that does not write everything.\<close>

fun send_all :: "int \<Rightarrow> octet list list \<Rightarrow> 'a esd_lib_scheme \<Rightarrow> bool \<times> 'a esd_lib_scheme" where
  "send_all fd [] s = (True, s)"
| "send_all fd (b # bs) s =
     (let (n, s) = write_timeout fd b s in if n \<noteq> int (length b) then (False, s) else send_all fd bs s)"

lemma send_all_sent:
  "send_all fd bs s = (ok, s') \<Longrightarrow>
    (if ok then sent fd s s' (concat bs) else (\<exists>m. sent fd s s' (take m (concat bs))))
    \<and> quiet s s' \<and> nonblock s' = nonblock s \<and> rx s' = rx s"
proof (induction bs arbitrary: s)
  case (Cons b bs)
  obtain n s1 where w: "write_timeout fd b s = (n, s1)" by fastforce
  note W = write_timeout_sent [OF w]
  show ?case
  proof (cases "n = int (length b)")
    case False
    with Cons.prems w have "\<not> ok" "s' = s1" by simp_all
    moreover from W False obtain m where "sent fd s s1 (take m b)" by auto
    then have "sent fd s s1 (take (min m (length b)) (concat (b # bs)))"
      by (cases "m \<le> length b") simp_all
    then have "\<exists>m. sent fd s s1 (take m (concat (b # bs)))" by blast
    ultimately show ?thesis using W by simp
  next
    case True
    with Cons.prems w have r: "send_all fd bs s1 = (ok, s')" by simp
    have s1: "sent fd s s1 b" using W True by auto
    have t: "sent fd s s' (take (length b + m) (concat (b # bs)))" if "sent fd s1 s' (take m (concat bs))" for m
      using sent_trans [OF s1 that] by (simp add: take_add)
    have c: "sent fd s s' (concat (b # bs))" if "sent fd s1 s' (concat bs)"
      using sent_trans [OF s1 that] by simp
    have "if ok then sent fd s s' (concat (b # bs)) else \<exists>m. sent fd s s' (take m (concat (b # bs)))"
      using Cons.IH [OF r] t c by (metis (full_types))
    then show ?thesis using Cons.IH [OF r] W quiet_trans [of s s1 s'] by simp
  qed
qed auto

lemma read_int_frame: "read_int fd s = (r, s') \<Longrightarrow> quiet s s' \<and> nonblock s' = nonblock s \<and> tx s' = tx s"
  by (auto simp: read_int_def Let_def split: prod.splits dest: read_timeout_frame)

subsection \<open>Properties\<close>

text \<open>When the descriptor is ready and the kernel takes everything at once.\<close>

lemma sys_poll_ready: "polls s = [] \<Longrightarrow> sys_poll a s = (PollEvents True True False, s)"
proof -
  assume p: "polls s = []"
  have "s\<lparr>polls := polls s\<rparr> = s" by simp
  with p show ?thesis by (simp add: sys_poll_def)
qed

lemma write_timeout_ready:
  assumes "polls s = []" "getfls s = []" "wres s fd = []"
  shows "write_timeout fd b s = (int (length b), s\<lparr>tx := tx s @ [(fd, b)]\<rparr>)"
proof -
  have "write_eintr fd b (set_nonblock fd True s) = (int (length b), (set_nonblock fd True s)\<lparr>tx := tx s @ [(fd, b)]\<rparr>)"
    using assms by (simp add: write_eintr.simps [of fd b] set_nonblock_def sys_write_def)
  then have "write_loop fd b 0 (set_nonblock fd True s) = (int (length b), (set_nonblock fd True s)\<lparr>tx := tx s @ [(fd, b)]\<rparr>)"
    using assms sys_poll_ready [of "set_nonblock fd True s"]
    by (simp add: write_loop.simps [of fd b 0] set_nonblock_def)
  moreover have "s\<lparr>tx := x, nonblock := nonblock s\<rparr> = s\<lparr>tx := x\<rparr>"
    "s\<lparr>nonblock := f, tx := x, nonblock := nonblock s\<rparr> = s\<lparr>tx := x\<rparr>" for x f by (cases s, simp)+
  ultimately show ?thesis using assms by (simp add: write_timeout_def sys_getfl_def set_nonblock_def)
qed

lemma send_all_ready:
  "polls s = [] \<Longrightarrow> getfls s = [] \<Longrightarrow> wres s fd = [] \<Longrightarrow>
   send_all fd bs s = (True, s\<lparr>tx := tx s @ map (Pair fd) bs\<rparr>)"
  by (induction bs arbitrary: s) (simp_all add: write_timeout_ready)

text \<open>A client's process with nothing scripted: everything works.\<close>

definition lib0 :: esd_lib where
  "lib0 = \<lparr>rx = (\<lambda>_. []), wres = (\<lambda>_. []), tx = [], sel_err = (\<lambda>_. False),
     wrdy = (\<lambda>_. True), closed = [], mallocs = [], next_addr = 1, junk = (\<lambda>_ _. 0), clock = [], accepts = [],
     esd_audio_format = 0, esd_audio_rate = 0, esd_audio_fd = -1, select_works = False,
     esd_write_size = 0, dev_open = [], dev_ioctl = [], dev_select = [],
     polls = [], getfls = [], nonblock = (\<lambda>_. False), sigpipe = SIG_APP, sockbufs = [],
     lib_env = \<lparr>getenv = (\<lambda>_. None), sys_conf = None, home_conf = None\<rparr>, lib_conf = conf0, opens = [],
     genkey = replicate 16 7, sockets = [4], sockopts = [], connects = [], dialled = [],
     gethostbyname = (\<lambda>_. True), gethostname = ''box'', unix_access = True, esd_exists = True,
     pipe_fds = Some (8, 9), spawn_select = 1, spawned = []\<rparr>"

text \<open>
  C10. A write with a timeout returns, and all or nothing is reported: either -1, when some
  prefix of the buffer has gone out, or the length of the buffer, when the bytes on the
  descriptor are exactly the buffer, however the kernel split, interrupted or delayed them.
  In both cases the descriptor has its old flags back.
\<close>

theorem write_timeout_delivers:
  "\<exists>n s'. write_timeout fd buf s = (n, s')
    \<and> (n = -1 \<and> (\<exists>m. sent fd s s' (take m buf)) \<or> n = int (length buf) \<and> sent fd s s' buf)
    \<and> nonblock s' = nonblock s"
  using write_timeout_sent by (metis surj_pair)

text \<open>
  C13. Taking \<open>libesddsp\<close> out of \<open>LD_PRELOAD\<close> always overflows: whenever the variable mentions it,
  the child writes behind the buffer it allocated (by the terminating NUL, or by everything
  behind the string when the entry is the last), so no server is started.
\<close>

theorem strip_preload_overflows:
  "strip_preload p = (if strstr p ''libesddsp'' = None then Some p else None)"
proof (cases "strstr p ''libesddsp''")
  case None
  then show ?thesis by (simp add: strip_preload.simps [of p])
next
  case (Some lib)
  obtain a b where e: "preload_entry p lib 0 (strcspn p [CHR '' '', CHR 0x09, CHR 0x0A]) = (a, b)" by fastforce
  have "a \<le> b" using preload_entry_le [OF e] by simp
  with Some e show ?thesis
    by (subst strip_preload.simps) (auto simp: Let_def min_def)
qed

text \<open>Connecting sends nothing.\<close>

named_theorems silent "calls that send nothing and leave the environment alone"

lemma silent_calls [silent]:
  "tx (snd (sys_socket s)) = tx s" "lib_env (snd (sys_socket s)) = lib_env s"
  "tx (snd (sys_sockopt s)) = tx s" "lib_env (snd (sys_sockopt s)) = lib_env s"
  "tx (snd (sys_getfl s)) = tx s" "lib_env (snd (sys_getfl s)) = lib_env s"
  "tx (snd (sys_poll a s)) = tx s" "lib_env (snd (sys_poll a s)) = lib_env s"
  "tx (snd (sys_connect fd t s)) = tx s" "lib_env (snd (sys_connect fd t s)) = lib_env s"
  "tx (set_nonblock fd b s) = tx s" "lib_env (set_nonblock fd b s) = lib_env s"
  "tx (sys_close fd s) = tx s" "lib_env (sys_close fd s) = lib_env s"
  "tx (spawn_child fd s) = tx s" "lib_env (spawn_child fd s) = lib_env s"
  by (simp_all add: sys_socket_def sys_sockopt_def sys_getfl_def sys_poll_def sys_connect_def set_nonblock_def
      sys_close_def spawn_child_def Let_def case_prod_beta split: list.splits option.splits)

lemma silent_read [silent]:
  "tx (snd (read_timeout fd n s)) = tx s" "lib_env (snd (read_timeout fd n s)) = lib_env s"
  using read_timeout_frame [of fd n s "fst (fst (read_timeout fd n s))" "snd (fst (read_timeout fd n s))"
      "snd (read_timeout fd n s)"]
  by (auto simp: quiet_def)

lemma silent_connect [silent]:
  "tx (snd (connect_timeout fd t s)) = tx s" "lib_env (snd (connect_timeout fd t s)) = lib_env s"
  by (simp_all add: connect_timeout_def Let_def case_prod_beta silent split: connres.split)

lemma silent_open_socket [silent]:
  "tx (snd (open_socket t s)) = tx s" "lib_env (snd (open_socket t s)) = lib_env s"
  by (simp_all add: open_socket_def Let_def case_prod_beta silent)

lemma silent_unix [silent]:
  "tx (snd (esd_connect_unix s)) = tx s" "lib_env (snd (esd_connect_unix s)) = lib_env s"
  by (simp_all add: esd_connect_unix_def silent)

lemma silent_unixD: "esd_connect_unix s = rs \<Longrightarrow> tx (snd rs) = tx s \<and> lib_env (snd rs) = lib_env s"
  by (auto simp: silent)

lemma silent_tcpip: "esd_connect_tcpip h s = Some rs \<Longrightarrow> tx (snd rs) = tx s \<and> lib_env (snd rs) = lib_env s"
  by (auto simp: esd_connect_tcpip_def silent split: option.splits if_splits Option.bind_splits)

lemma silent_spawn: "spawn_esd h s = Some rs \<Longrightarrow> tx (snd rs) = tx s \<and> lib_env (snd rs) = lib_env s"
  by (auto simp: spawn_esd_def Let_def case_prod_beta silent split: Option.bind_splits if_splits option.splits
      dest!: silent_tcpip silent_unixD)

subsection \<open>Requests leave the process as it was\<close>

text \<open>
  What a request with a message does: the words go out one after the other, and only when all of them
  have, the answer is read. The functions of the library are compared with this; the handler is what each
  of them restores by itself.
\<close>

definition talk :: "int \<Rightarrow> octet list list \<Rightarrow> 'a esd_lib_scheme \<Rightarrow> int option \<times> 'a esd_lib_scheme" where
  "talk esd msg s = (let (ok, s) = send_all esd msg s in if \<not> ok then (None, s) else read_int esd s)"

definition undisturbed :: "int \<Rightarrow> octet list list \<Rightarrow> 'a esd_lib_scheme \<Rightarrow> int \<times> 'a esd_lib_scheme \<Rightarrow> bool" where
  "undisturbed esd msg s rs \<longleftrightarrow>
     sigpipe (snd rs) = sigpipe s \<and> nonblock (snd rs) = nonblock s \<and> closed (snd rs) = closed s
     \<and> (\<exists>m. sent esd s (snd rs) (take m (concat msg))) \<and> (fst rs \<noteq> -1 \<longrightarrow> sent esd s (snd rs) (concat msg))"

lemma talk_sent:
  assumes "talk esd msg s = (r, s')"
  shows "nonblock s' = nonblock s" "closed s' = closed s" "\<exists>m. sent esd s s' (take m (concat msg))"
    "r \<noteq> None \<Longrightarrow> sent esd s s' (concat msg)"
proof -
  obtain ok s1 where a: "send_all esd msg s = (ok, s1)" by fastforce
  obtain x s2 where b: "read_int esd s1 = (x, s2)" by fastforce
  note A = send_all_sent [OF a] and B = read_int_frame [OF b]
  have cl: "closed s1 = closed s" "closed s2 = closed s" using A B by (auto simp: quiet_def)
  have tx: "sent esd s s2 c = sent esd s s1 c" for c using B by (intro sent_tx) simp_all
  have "take (length (concat msg)) (concat msg) = concat msg" by simp
  then have m: "\<exists>m. sent esd s s1 (take m (concat msg))" using A by (metis (full_types))
  have e: "r = (if ok then x else None)" "s' = (if ok then s2 else s1)"
    using assms a b by (auto simp: talk_def)
  show "nonblock s' = nonblock s" "closed s' = closed s" using e A B cl by simp_all
  show "\<exists>m. sent esd s s' (take m (concat msg))" using e m tx by simp
  show "r \<noteq> None \<Longrightarrow> sent esd s s' (concat msg)" using e A tx by (cases ok) simp_all
qed

lemma undisturbedI:
  assumes "talk esd msg (s\<lparr>sigpipe := dummy_signal\<rparr>) = (x, s1)"
    and "snd rs = s1\<lparr>sigpipe := sigpipe s\<rparr>" "x \<noteq> None \<or> fst rs = -1"
  shows "undisturbed esd msg s rs"
proof -
  have "sent esd s (snd rs) c = sent esd (s\<lparr>sigpipe := dummy_signal\<rparr>) s1 c" for c
    using assms(2) by (intro sent_tx) simp_all
  with talk_sent [OF assms(1)] assms(2,3) show ?thesis by (auto simp: undisturbed_def)
qed

lemma name_buf_len [simp]: "length (name_buf n s) = ESD_NAME_MAX"
  by (cases n) (simp_all add: name_buf_def)

lemma name_buf_cong: "junk s' = junk s \<Longrightarrow> name_buf n s' = name_buf n s"
  by (cases n) (simp_all add: name_buf_def uninit_def)

lemma name_buf_write: "write_timeout fd b (s\<lparr>sigpipe := h\<rparr>) = (k, s') \<Longrightarrow> name_buf n s' = name_buf n s"
  by (drule write_timeout_sent) (auto simp: quiet_def intro: name_buf_cong)

lemmas talk_simps = talk_def signal_pipe_def Let_def

lemma word_requests_undisturbed:
  "undisturbed esd [put32 ESD_PROTO_LATENCY] s (esd_get_latency esd s)"
  "undisturbed esd [] s (esd_confirm_sample_cache esd s)"
  "undisturbed esd [put32 ESD_PROTO_SAMPLE_GETID, name_buf name s] s (esd_sample_getid esd name s)"
  by (rule undisturbedI [OF surjective_pairing];
      simp add: talk_simps name_buf_write esd_get_latency_def esd_confirm_sample_cache_def esd_sample_getid_def
      split: option.split prod.split)+

lemma cache_request_undisturbed:
  "undisturbed esd [put32 ESD_PROTO_SAMPLE_CACHE, put32 format, put32 rate, put32 sz, name_buf name s] s
     (esd_sample_cache esd format rate sz name s)"
  by (rule undisturbedI [OF surjective_pairing];
      simp add: talk_simps esd_sample_cache_def split: option.split prod.split)

lemma sample_requests_undisturbed:
  "undisturbed esd [put32 ESD_PROTO_SAMPLE_FREE, put32 sample] s (esd_sample_free esd sample s)"
  "undisturbed esd [put32 ESD_PROTO_SAMPLE_PLAY, put32 sample] s (esd_sample_play esd sample s)"
  "undisturbed esd [put32 ESD_PROTO_SAMPLE_LOOP, put32 sample] s (esd_sample_loop esd sample s)"
  "undisturbed esd [put32 ESD_PROTO_SAMPLE_STOP, put32 sample] s (esd_sample_stop esd sample s)"
  "undisturbed esd [put32 ESD_PROTO_SAMPLE_KILL, put32 sample] s (esd_sample_kill esd sample s)"
  by (rule undisturbedI [OF surjective_pairing];
      simp add: talk_simps esd_sample_free_def esd_sample_play_def esd_sample_loop_def esd_sample_stop_def
        esd_sample_kill_def split: option.split prod.split)+

text \<open>The calls that end with the handler and the flags as they were.\<close>

named_theorems restores "calls that leave the handler of SIGPIPE or the flags of the descriptors as they were"

lemma restores_timeouts [restores]:
  "sigpipe (snd (write_timeout fd b s)) = sigpipe s" "nonblock (snd (write_timeout fd b s)) = nonblock s"
  "sigpipe (snd (read_timeout fd n s)) = sigpipe s" "nonblock (snd (read_timeout fd n s)) = nonblock s"
  "sigpipe (snd (read_int fd s)) = sigpipe s" "nonblock (snd (read_int fd s)) = nonblock s"
  using write_timeout_sent [of fd b s "fst (write_timeout fd b s)" "snd (write_timeout fd b s)"]
    read_timeout_frame [of fd n s "fst (fst (read_timeout fd n s))" "snd (fst (read_timeout fd n s))" "snd (read_timeout fd n s)"]
    read_int_frame [of fd s "fst (read_int fd s)" "snd (read_int fd s)"]
  by (auto simp: quiet_def)

lemma restores_calls [restores]:
  "nonblock (snd (malloc k s)) = nonblock s" "nonblock (snd (sys_open s)) = nonblock s"
  "nonblock (sys_close fd s) = nonblock s" "nonblock (snd (signal_pipe h s)) = nonblock s"
  "sigpipe (snd (signal_pipe h s)) = h" "fst (signal_pipe h s) = sigpipe s"
  by (simp_all add: malloc_def sys_open_def sys_close_def signal_pipe_def Let_def split: list.split)

lemma restores_send_key [restores]:
  "sigpipe (snd (send_key h a fd key s)) = h" "nonblock (snd (send_key h a fd key s)) = nonblock s"
  by (simp_all add: send_key_def Let_def case_prod_beta restores split: option.split)

lemma restores_send_auth [restores]:
  "sigpipe (snd (esd_send_auth fd s)) = sigpipe s" "nonblock (snd (esd_send_auth fd s)) = nonblock s"
  by (simp_all add: esd_send_auth_def Let_def case_prod_beta restores split: option.split)

lemma restores_auth_requests [restores]:
  "sigpipe (snd (esd_lock fd s)) = sigpipe s" "nonblock (snd (esd_lock fd s)) = nonblock s"
  "sigpipe (snd (esd_unlock fd s)) = sigpipe s" "nonblock (snd (esd_unlock fd s)) = nonblock s"
  "sigpipe (snd (esd_standby fd s)) = sigpipe s" "nonblock (snd (esd_standby fd s)) = nonblock s"
  "sigpipe (snd (esd_resume fd s)) = sigpipe s" "nonblock (snd (esd_resume fd s)) = nonblock s"
  by (simp_all add: esd_lock_def esd_unlock_def esd_standby_def esd_resume_def Let_def case_prod_beta restores
      split: option.split)

lemma restores_connect [restores]:
  "sigpipe (snd (open_socket t s)) = sigpipe s" "sigpipe (snd (esd_connect_unix s)) = sigpipe s"
  by (simp_all add: esd_connect_unix_def open_socket_def connect_timeout_def sys_socket_def sys_sockopt_def sys_getfl_def
      sys_connect_def sys_poll_def sys_close_def set_nonblock_def Let_def case_prod_beta split: list.split connres.split)

lemma restores_unixD: "esd_connect_unix s = rs \<Longrightarrow> sigpipe (snd rs) = sigpipe s"
  by (auto simp: restores)

lemma restores_tcpip: "esd_connect_tcpip h s = Some rs \<Longrightarrow> sigpipe (snd rs) = sigpipe s"
  by (auto simp: esd_connect_tcpip_def restores split: option.splits if_splits Option.bind_splits)

lemma restores_spawn: "spawn_esd h s = Some rs \<Longrightarrow> sigpipe (snd rs) = sigpipe s"
proof -
  have [simp]: "sigpipe (sys_close fd s) = sigpipe s" "sigpipe (spawn_child fd s) = sigpipe s" for fd and s :: "'a esd_lib_scheme"
    by (simp_all add: sys_close_def spawn_child_def split: option.split)
  show "spawn_esd h s = Some rs \<Longrightarrow> sigpipe (snd rs) = sigpipe s"
    by (auto simp: spawn_esd_def Let_def case_prod_beta restores split: Option.bind_splits if_splits option.splits
        dest!: restores_tcpip restores_unixD)
qed

lemma restores_open_sound: "esd_open_sound h s = Some rs \<Longrightarrow> sigpipe (snd rs) = sigpipe s"
proof -
  have [simp]: "sigpipe (sys_close fd s) = sigpipe s" for fd and s :: "'a esd_lib_scheme"
    by (simp add: sys_close_def)
  show "esd_open_sound h s = Some rs \<Longrightarrow> sigpipe (snd rs) = sigpipe s"
    unfolding esd_open_sound_def Let_def case_prod_beta
    by (auto simp: restores split: Option.bind_splits if_splits dest!: restores_tcpip restores_spawn restores_unixD)
qed

lemma restores_streams:
  "esd_play_stream format rate host name s = Some rs \<Longrightarrow> sigpipe (snd rs) = sigpipe s"
  "esd_monitor_stream format rate host name s = Some rs \<Longrightarrow> sigpipe (snd rs) = sigpipe s"
  "esd_filter_stream format rate host name s = Some rs \<Longrightarrow> sigpipe (snd rs) = sigpipe s"
  "esd_record_stream format rate host name s = Some rs \<Longrightarrow> sigpipe (snd rs) = sigpipe s"
  unfolding esd_play_stream_def esd_monitor_stream_def esd_filter_stream_def esd_record_stream_def Let_def case_prod_beta
  by (auto simp: restores split: Option.bind_splits if_splits dest!: restores_open_sound)

text \<open>
  C11. The requests of the library leave the process as it was. Each of them installs a handler of its own for
  \<open>SIGPIPE\<close>, and on every path on which it returns, after any of its writes or reads has failed as well as at
  its end, the handler of the application is back: the latency, the requests about samples, the authorisation
  and the requests that carry the key, and the four ways to open a stream. All but the streams also
  leave the flags of every descriptor as they were; and those that only send words and read an answer close
  nothing, send a prefix of their message, in order, and the whole message whenever they do not return -1.
\<close>

theorem requests_restore:
  "(((r, s'), msg) \<in>
      {(esd_get_latency esd s, [put32 ESD_PROTO_LATENCY]),
       (esd_sample_cache esd format rate sz name s,
          [put32 ESD_PROTO_SAMPLE_CACHE, put32 format, put32 rate, put32 sz, name_buf name s]),
       (esd_confirm_sample_cache esd s, []),
       (esd_sample_getid esd name s, [put32 ESD_PROTO_SAMPLE_GETID, name_buf name s]),
       (esd_sample_free esd sample s, [put32 ESD_PROTO_SAMPLE_FREE, put32 sample]),
       (esd_sample_play esd sample s, [put32 ESD_PROTO_SAMPLE_PLAY, put32 sample]),
       (esd_sample_loop esd sample s, [put32 ESD_PROTO_SAMPLE_LOOP, put32 sample]),
       (esd_sample_stop esd sample s, [put32 ESD_PROTO_SAMPLE_STOP, put32 sample]),
       (esd_sample_kill esd sample s, [put32 ESD_PROTO_SAMPLE_KILL, put32 sample])} \<longrightarrow>
     sigpipe s' = sigpipe s \<and> nonblock s' = nonblock s \<and> closed s' = closed s
     \<and> (\<exists>m. sent esd s s' (take m (concat msg))) \<and> (r \<noteq> -1 \<longrightarrow> sent esd s s' (concat msg)))
   \<and> ((r, s') \<in> {esd_send_auth esd s, esd_lock esd s, esd_unlock esd s, esd_standby esd s, esd_resume esd s} \<longrightarrow>
     sigpipe s' = sigpipe s \<and> nonblock s' = nonblock s)
   \<and> (Some (r, s') \<in> {esd_play_stream format rate host name s, esd_monitor_stream format rate host name s,
        esd_filter_stream format rate host name s, esd_record_stream format rate host name s} \<longrightarrow>
     sigpipe s' = sigpipe s)"
proof (rule conjI [OF _ conjI]; rule impI)
  assume "((r, s'), msg) \<in>
      {(esd_get_latency esd s, [put32 ESD_PROTO_LATENCY]),
       (esd_sample_cache esd format rate sz name s,
          [put32 ESD_PROTO_SAMPLE_CACHE, put32 format, put32 rate, put32 sz, name_buf name s]),
       (esd_confirm_sample_cache esd s, []),
       (esd_sample_getid esd name s, [put32 ESD_PROTO_SAMPLE_GETID, name_buf name s]),
       (esd_sample_free esd sample s, [put32 ESD_PROTO_SAMPLE_FREE, put32 sample]),
       (esd_sample_play esd sample s, [put32 ESD_PROTO_SAMPLE_PLAY, put32 sample]),
       (esd_sample_loop esd sample s, [put32 ESD_PROTO_SAMPLE_LOOP, put32 sample]),
       (esd_sample_stop esd sample s, [put32 ESD_PROTO_SAMPLE_STOP, put32 sample]),
       (esd_sample_kill esd sample s, [put32 ESD_PROTO_SAMPLE_KILL, put32 sample])}"
  then have "undisturbed esd msg s (r, s')"
    by (elim insertE emptyE Pair_inject;
        simp only: word_requests_undisturbed sample_requests_undisturbed cache_request_undisturbed)
  then show "sigpipe s' = sigpipe s \<and> nonblock s' = nonblock s \<and> closed s' = closed s
     \<and> (\<exists>m. sent esd s s' (take m (concat msg))) \<and> (r \<noteq> -1 \<longrightarrow> sent esd s s' (concat msg))"
    by (simp add: undisturbed_def)
next
  assume "(r, s') \<in> {esd_send_auth esd s, esd_lock esd s, esd_unlock esd s, esd_standby esd s, esd_resume esd s}"
  then have "s' \<in> snd ` {esd_send_auth esd s, esd_lock esd s, esd_unlock esd s, esd_standby esd s, esd_resume esd s}"
    by (metis image_eqI snd_conv)
  then show "sigpipe s' = sigpipe s \<and> nonblock s' = nonblock s" by (auto simp: restores)
next
  assume "Some (r, s') \<in> {esd_play_stream format rate host name s, esd_monitor_stream format rate host name s,
        esd_filter_stream format rate host name s, esd_record_stream format rate host name s}"
  then show "sigpipe s' = sigpipe s" by (auto dest: restores_streams [OF sym])
qed

text \<open>
  A server that hangs up in the middle of a request, a file with the key that is cut short, and a stream that
  is opened.
\<close>

definition lib_hangup :: esd_lib where
  "lib_hangup = lib0\<lparr>wres := (\<lambda>_. [])(4 := [WrShort 4, WrErr EOTHER])\<rparr>"

definition lib_short_key :: esd_lib where
  "lib_short_key = lib0\<lparr>lib_env := \<lparr>getenv = (\<lambda>_. None)(''HOME'' := Some ''/h''), sys_conf = None, home_conf = None\<rparr>,
     opens := [9], rx := (\<lambda>_. [])(9 := [RdData [1, 2]])\<rparr>"

theorem requests_restore_witness:
  "(\<exists>s'. esd_sample_free 4 7 lib_hangup = (-1, s') \<and> tx s' = [(4, put32 ESD_PROTO_SAMPLE_FREE)] \<and> sigpipe s' = SIG_APP)
   \<and> (\<exists>s'. esd_lock 4 lib_short_key = (-1, s') \<and> closed s' = [9] \<and> sigpipe s' = SIG_APP)
   \<and> (\<exists>s'. esd_play_stream 0 44100 None None lib0 = Some (4, s') \<and> sockbufs s' = [(4, 8192)] \<and> sigpipe s' = SIG_APP)"
proof (intro conjI)
  have app: "sigpipe lib_hangup = SIG_APP" "sigpipe lib_short_key = SIG_APP" "sigpipe lib0 = SIG_APP"
    by (simp_all add: lib_hangup_def lib_short_key_def lib0_def)
  note R = requests_restore [of _ _ _ 4 _ 0 44100 0 None 7 None]
  have 1: "fst (esd_sample_free 4 7 lib_hangup) = -1" "tx (snd (esd_sample_free 4 7 lib_hangup)) = [(4, put32 ESD_PROTO_SAMPLE_FREE)]"
    by code_simp+
  then show "\<exists>s'. esd_sample_free 4 7 lib_hangup = (-1, s') \<and> tx s' = [(4, put32 ESD_PROTO_SAMPLE_FREE)] \<and> sigpipe s' = SIG_APP"
    using R [of "fst (esd_sample_free 4 7 lib_hangup)" "snd (esd_sample_free 4 7 lib_hangup)"
      "[put32 ESD_PROTO_SAMPLE_FREE, put32 7]" lib_hangup] app
    by (cases "esd_sample_free 4 7 lib_hangup") simp
  have 2: "fst (esd_lock 4 lib_short_key) = -1" "closed (snd (esd_lock 4 lib_short_key)) = [9]"
    by code_simp+
  then show "\<exists>s'. esd_lock 4 lib_short_key = (-1, s') \<and> closed s' = [9] \<and> sigpipe s' = SIG_APP"
    using R [of "fst (esd_lock 4 lib_short_key)" "snd (esd_lock 4 lib_short_key)" "[]" lib_short_key] app
    by (cases "esd_lock 4 lib_short_key") simp
  have "map_option (\<lambda>(r, s'). (r, sockbufs s')) (esd_play_stream 0 44100 None None lib0) = Some (4, [(4, 8192)])"
    by code_simp
  then obtain s' where "esd_play_stream 0 44100 None None lib0 = Some (4, s')" "sockbufs s' = [(4, 8192)]" by auto
  then show "\<exists>s'. esd_play_stream 0 44100 None None lib0 = Some (4, s') \<and> sockbufs s' = [(4, 8192)] \<and> sigpipe s' = SIG_APP"
    using R [of 4 s' "[]" lib0] app by simp
qed

text \<open>
  Without \<open>HOME\<close> the library hands out a connection that was never authorised: it has sent
  no key, not a byte, and still returns the socket, because \<open>esd_send_auth\<close> reports the missing
  variable as -1 and \<open>esd_open_sound\<close> only takes 0 for a refusal.
\<close>

theorem no_home_no_auth:
  assumes "getenv (lib_env s) ''HOME'' = None" "esd_open_sound h s = Some (fd, s')"
  shows "tx s' = tx s \<and> (fd \<ge> 0 \<longrightarrow> fst (esd_send_auth fd s') = -1)"
proof -
  have auth: "esd_send_auth f t = (-1, t)" if "lib_env t = lib_env s" for f and t :: "'a esd_lib_scheme"
    using that assms(1) by (simp add: esd_send_auth_def signal_pipe_def)
  show ?thesis
    using assms(2) unfolding esd_open_sound_def Let_def case_prod_beta
    by (auto simp: silent auth split: Option.bind_splits if_splits dest!: silent_tcpip silent_spawn silent_unixD)
qed

theorem no_home_no_auth_witness:
  "\<exists>s'. esd_open_sound None lib0 = Some (4, s') \<and> tx s' = [] \<and> fst (esd_send_auth 4 s') = -1"
proof -
  have "map_option fst (esd_open_sound None lib0) = Some 4"
    by (simp add: esd_open_sound_def lib0_def choose_host_def is_host_local_def esd_connect_unix_def open_socket_def
        sys_socket_def sys_sockopt_def connect_timeout_def sys_getfl_def sys_connect_def set_nonblock_def
        esd_send_auth_def signal_pipe_def)
  then obtain s' where s': "esd_open_sound None lib0 = Some (4, s')" by auto
  from no_home_no_auth [OF _ s'] s' show ?thesis by (simp add: lib0_def)
qed

end
