(* ===== verification/Esd_Wire.thy ===== *)
theory Esd_Wire
  imports Esd_Lib_Laws Esd_Proto
begin

text \<open>
  Library and server together: how the server puts a request back together from the pieces the
  network delivers, and that the parameters of a request survive the way from the application
  to the player.
\<close>

subsection \<open>Reassembly of requests\<close>

text \<open>Successive rounds of polling, seen from one client.\<close>

fun polls_of :: "nat \<Rightarrow> addr \<Rightarrow> int \<Rightarrow> 'a esd_server_scheme \<Rightarrow> (int \<times> 'a esd_server_scheme) option" where
  "polls_of 0 a len s = Some (len, s)"
| "polls_of (Suc n) a len s = do { (len, s) \<leftarrow> poll_client a len s; polls_of n a len s }"

lemma set_client_cong:
  assumes "distinct (map cl_addr (esd_clients_list s))" "the_client a s = Some c" "f c = g c"
  shows "set_client a f s = set_client a g s"
proof -
  have "x = c" if "x \<in> set (esd_clients_list s)" "cl_addr x = a" for x
    using node_distinct [OF assms(1) that(1)] assms(2) that(2) by (simp add: the_client_def)
  with assms(3) have "upd_node cl_addr a f (esd_clients_list s) = upd_node cl_addr a g (esd_clients_list s)"
    by (auto simp: upd_node_def)
  then show ?thesis by (simp add: set_client_def)
qed

lemma set_client_twice:
  "(\<And>x. cl_addr (g x) = cl_addr x) \<Longrightarrow> set_client a f (set_client a g s) = set_client a (\<lambda>x. f (g x)) s"
  by (auto simp: set_client_def upd_node_def)

lemma the_client_set:
  "(\<And>x. cl_addr (f x) = cl_addr x) \<Longrightarrow> the_client a s = Some c \<Longrightarrow> the_client a (set_client a f s) = Some (f c)"
  by (simp add: the_client_def set_client_def node_upd_node)

text \<open>The client with \<open>data\<close> received so far, \<open>n\<close> bytes of it valid.\<close>

definition got :: "addr \<Rightarrow> esd_client_state \<Rightarrow> octet list \<Rightarrow> int \<Rightarrow> 'a esd_server_scheme \<Rightarrow> 'a esd_server_scheme" where
  "got a st data n s = set_client a (\<lambda>c. c\<lparr>cl_state := st, proto_data := data, proto_data_length := n\<rparr>) s"

lemma got_client:
  "the_client a s = Some c \<Longrightarrow>
   the_client a (got a st d n s) = Some (c\<lparr>cl_state := st, proto_data := d, proto_data_length := n\<rparr>)"
  unfolding got_def by (rule the_client_set) simp_all

lemma got_got: "got a st d n (got a st' d' n' s) = got a st d n s"
  unfolding got_def by (subst set_client_twice) simp_all

lemma got_keeps [simp]:
  "rx (got a st d n s) = rx s" "map cl_addr (esd_clients_list (got a st d n s)) = map cl_addr (esd_clients_list s)"
  "(got a st d n s)\<lparr>rx := f\<rparr> = got a st d n (s\<lparr>rx := f\<rparr>)"
  by (simp_all add: got_def set_client_def map_upd_node)

lemma got_state: "set_client a (\<lambda>c. c\<lparr>cl_state := st\<rparr>) (got a st' d n s) = got a st d n s"
proof -
  have "(\<lambda>x :: esd_client. x\<lparr>cl_state := st', proto_data := d, proto_data_length := n\<rparr>\<lparr>cl_state := st\<rparr>)
      = (\<lambda>x. x\<lparr>cl_state := st, proto_data := d, proto_data_length := n\<rparr>)"
    by (auto simp: fun_eq_iff intro: esd_client.equality)
  then show ?thesis unfolding got_def by (subst set_client_twice) simp_all
qed

text \<open>One read of request data.\<close>

lemma poll_chunk:
  fixes s :: "'a esd_server_scheme" and h :: "'a handler"
  assumes c: "the_client a s = Some c" and d: "distinct (map cl_addr (esd_clients_list s))"
    and e: "proto_entry (cl_request c) = Some (dl, h)"
    and k: "0 \<le> proto_data_length c" "proto_data_length c + int (length b) \<le> dl"
    and l: "dl \<le> int (length (proto_data c))" "dl < 2147483648"
    and b: "b \<noteq> []" and r: "rx s (cl_fd c) = RdData b # rs"
  defines "k \<equiv> nat (proto_data_length c)"
  defines "s1 \<equiv> got a (cl_state c) (take k (proto_data c) @ b @ drop (k + length b) (proto_data c))
     (int (k + length b)) (s\<lparr>rx := (rx s)(cl_fd c := rs)\<rparr>)"
  shows "poll_needs_reqdata a len s =
    (if int (k + length b) = dl then do {
       (is_ok, s) \<leftarrow> h a (set_client a (\<lambda>c. c\<lparr>cl_state := ESD_NEXT_REQUEST\<rparr>) s1); Some (is_ok, int (length b), s) }
     else Some (1, int (length b), s1))"
proof -
  let ?s0 = "s\<lparr>rx := (rx s)(cl_fd c := rs)\<rparr>"
  have k': "int k = proto_data_length c" using k(1) by (simp add: k_def)
  have n: "length b \<le> nat (dl - proto_data_length c)" using k by linarith
  have rd: "sys_read (cl_fd c) (nat (dl - proto_data_length c)) s = ((int (length b), False, b), ?s0)"
    unfolding sys_read_def r using n by simp
  have bl: "blit (proto_data c) (proto_data_length c) b =
      Some (take k (proto_data c) @ b @ drop (k + length b) (proto_data c))"
    using k l by (simp add: blit_def k_def)
  have c0: "the_client a ?s0 = Some c" and d0: "distinct (map cl_addr (esd_clients_list ?s0))"
    using c d by (simp_all add: the_client_def)
  have st: "set_client a (\<lambda>c. c\<lparr>proto_data := take k (proto_data x) @ b @ drop (k + length b) (proto_data x),
      proto_data_length := i32 (proto_data_length c + int (length b))\<rparr>) ?s0 = s1" if "x = c" for x
    unfolding s1_def got_def that
    by (rule set_client_cong [OF d0 c0]) (use k l k' in \<open>simp add: i32_small\<close>)
  have c1: "the_client a s1 = Some (c\<lparr>cl_state := cl_state c, proto_data := take k (proto_data c) @ b @ drop (k + length b) (proto_data c),
      proto_data_length := int (k + length b)\<rparr>)"
    unfolding s1_def by (rule got_client [OF c0])
  have "length b > 0" using b by simp
  with k have nz: "dl \<noteq> 0" "\<not> proto_data_length c > dl" "length b > 0" by linarith+
  show ?thesis
    unfolding poll_needs_reqdata_def
    using c e rd bl st [OF refl] c1 nz by (simp add: Let_def)
qed

lemma poll_client_reqdata:
  fixes s :: "'a esd_server_scheme"
  assumes "the_client a s = Some c" "cl_state c = ESD_NEEDS_REQDATA" "rx s (cl_fd c) \<noteq> []"
  shows "poll_client a len s = do {
     (is_ok, len, s) \<leftarrow> poll_needs_reqdata a len s;
     _ \<leftarrow> the_client a s;
     Some (len, if is_ok = 0 then erase_client a s else s) }"
  using assms by (simp add: poll_client_def sys_select_rd_def)

text \<open>What the server does with a request that is complete.\<close>

definition serve :: "'a handler \<Rightarrow> addr \<Rightarrow> int \<Rightarrow> 'a esd_server_scheme \<Rightarrow> (int \<times> 'a esd_server_scheme) option" where
  "serve h a len s = do {
     (is_ok, s) \<leftarrow> h a s;
     _ \<leftarrow> the_client a s;
     Some (len, if is_ok = 0 then erase_client a s else s) }"

lemma reassemble:
  fixes s :: "'a esd_server_scheme" and h :: "'a handler"
  assumes "the_client a s = Some c" "distinct (map cl_addr (esd_clients_list s))" "cl_state c = ESD_NEEDS_REQDATA"
    "proto_entry (cl_request c) = Some (dl, h)" "0 \<le> proto_data_length c"
    "proto_data_length c + int (length (concat bss)) = dl" "dl \<le> int (length (proto_data c))" "dl < 2147483648"
    "bss \<noteq> []" "[] \<notin> set bss" "rx s (cl_fd c) = map RdData bss"
  shows "polls_of (length bss) a len s = serve h a (int (length (last bss)))
    (got a ESD_NEXT_REQUEST (take (nat (proto_data_length c)) (proto_data c) @ concat bss @ drop (nat dl) (proto_data c)) dl
      (s\<lparr>rx := (rx s)(cl_fd c := [])\<rparr>))"
  using assms
proof (induction bss arbitrary: s c len)
  case (Cons b bss)
  let ?k = "nat (proto_data_length c)"
  let ?d = "take ?k (proto_data c) @ b @ drop (?k + length b) (proto_data c)"
  let ?s1 = "got a ESD_NEEDS_REQDATA ?d (int (?k + length b)) (s\<lparr>rx := (rx s)(cl_fd c := map RdData bss)\<rparr>)"
  have kb: "proto_data_length c + int (length b) \<le> dl" and b: "b \<noteq> []" and r: "rx s (cl_fd c) = RdData b # map RdData bss"
    using Cons.prems by auto
  have ki: "int ?k = proto_data_length c" using Cons.prems(5) by simp
  note chunk = poll_chunk [OF Cons.prems(1,2,4,5) kb Cons.prems(7,8) b r, unfolded Cons.prems(3)]
  have c1: "the_client a ?s1 = Some (c\<lparr>cl_state := ESD_NEEDS_REQDATA, proto_data := ?d, proto_data_length := int (?k + length b)\<rparr>)"
    by (rule got_client) (use Cons.prems(1) in \<open>simp add: the_client_def\<close>)
  have ld: "length ?d = length (proto_data c)" using kb Cons.prems(5,7) by simp
  have pc: "poll_client a len s = do {
     (is_ok, len, s) \<leftarrow> poll_needs_reqdata a len s;
     _ \<leftarrow> the_client a s;
     Some (len, if is_ok = 0 then erase_client a s else s) }"
    by (rule poll_client_reqdata [OF Cons.prems(1,3)]) (simp add: r)
  show ?case
  proof (cases "bss = []")
    case True
    have dl: "int (?k + length b) = dl" using Cons.prems(6) True ki by simp
    then have nd: "nat dl = ?k + length b" by (metis nat_int)
    define S where "S = got a ESD_NEXT_REQUEST ?d dl (s\<lparr>rx := (rx s)(cl_fd c := [])\<rparr>)"
    have "set_client a (\<lambda>c. c\<lparr>cl_state := ESD_NEXT_REQUEST\<rparr>) ?s1 = S"
      by (simp only: S_def got_state dl True list.map)
    with chunk dl have "poll_needs_reqdata a len s = do { (is_ok, s) \<leftarrow> h a S; Some (is_ok, int (length b), s) }" by simp
    then have "polls_of (length (b # bss)) a len s = serve h a (int (length b)) S"
      unfolding serve_def True by (cases "h a S") (auto simp: pc split: Option.bind_splits)
    moreover have "serve h a (int (length (last (b # bss)))) (got a ESD_NEXT_REQUEST
        (take ?k (proto_data c) @ concat (b # bss) @ drop (nat dl) (proto_data c)) dl (s\<lparr>rx := (rx s)(cl_fd c := [])\<rparr>))
      = serve h a (int (length b)) S"
      unfolding S_def nd True by simp
    ultimately show ?thesis by (simp only:)
  next
    case False
    have "length (concat bss) > 0" using False Cons.prems(10) by (cases bss) auto
    then have "int (?k + length b) \<noteq> dl" using Cons.prems(6) ki by auto
    with chunk have p1: "poll_client a len s = Some (int (length b), ?s1)" using c1 by (simp add: pc)
    let ?c1 = "c\<lparr>cl_state := ESD_NEEDS_REQDATA, proto_data := ?d, proto_data_length := int (?k + length b)\<rparr>"
    have ih: "polls_of (length bss) a (int (length b)) ?s1 = serve h a (int (length (last bss)))
      (got a ESD_NEXT_REQUEST (take (nat (proto_data_length ?c1)) (proto_data ?c1) @ concat bss @ drop (nat dl) (proto_data ?c1)) dl
        (?s1\<lparr>rx := (rx ?s1)(cl_fd ?c1 := [])\<rparr>))"
    proof (rule Cons.IH [OF c1])
      show "proto_data_length ?c1 + int (length (concat bss)) = dl" using Cons.prems(6) ki by simp
      show "dl \<le> int (length (proto_data ?c1))" using Cons.prems(7) ld by simp
    qed (use Cons.prems False in \<open>simp_all\<close>)
    have t: "take (nat (proto_data_length ?c1)) (proto_data ?c1) = take ?k (proto_data c) @ b"
    proof -
      have "?k \<le> length (proto_data c)" using kb Cons.prems(5,7) by linarith
      then show ?thesis by (simp del: of_nat_add)
    qed
    have d: "drop (nat dl) (proto_data ?c1) = drop (nat dl) (proto_data c)"
    proof -
      have "nat dl = ?k + length b + length (concat bss)"
        using Cons.prems(6) ki by (simp only: concat.simps length_append of_nat_add)
      then show ?thesis using kb Cons.prems(5,7) by (simp add: add.commute add.left_commute)
    qed
    have f: "?s1\<lparr>rx := (rx ?s1)(cl_fd ?c1 := [])\<rparr> =
        got a ESD_NEEDS_REQDATA ?d (int (?k + length b)) (s\<lparr>rx := (rx s)(cl_fd c := [])\<rparr>)"
      by simp
    have "polls_of (length (b # bss)) a len s = polls_of (length bss) a (int (length b)) ?s1" by (simp add: p1)
    also note ih [unfolded t d f got_got]
    finally show ?thesis using False by (simp only: concat.simps append_assoc last.simps if_False)
  qed
qed simp

text \<open>The word that names the request.\<close>

lemma poll_request_bytes:
  fixes s :: "'a esd_server_scheme" and h :: "'a handler"
  assumes c: "the_client a s = Some c" "cl_state c = ESD_NEXT_REQUEST" "\<not> swap_byte_order c"
    and r: "0 < r" "r < 24" "proto_entry r = Some (dl, h)" "dl \<noteq> 0"
    and bs: "bs \<noteq> []" "length bs \<le> 4" "get32 (bs @ drop (length bs) (put32 (cl_request c))) 0 = Some r"
    and rx: "rx s (cl_fd c) = RdData bs # rs"
  shows "poll_client a len s = Some (int (length bs),
    set_client a (\<lambda>c. c\<lparr>cl_request := r, cl_state := ESD_NEEDS_REQDATA, proto_data_length := 0\<rparr>)
      (s\<lparr>rx := (rx s)(cl_fd c := rs)\<rparr>))"
proof -
  let ?s0 = "s\<lparr>rx := (rx s)(cl_fd c := rs)\<rparr>"
  let ?s1 = "set_client a (\<lambda>c. c\<lparr>cl_request := r, cl_state := ESD_NEEDS_REQDATA, proto_data_length := 0\<rparr>) ?s0"
  have rd: "sys_read (cl_fd c) 4 s = ((int (length bs), False, bs), ?s0)"
    using bs(2) by (simp add: sys_read_def rx)
  have c0: "the_client a ?s0 = Some c" using c by (simp add: the_client_def)
  have s1: "set_client a (\<lambda>c. c\<lparr>cl_state := ESD_NEEDS_REQDATA, proto_data_length := 0\<rparr>)
      (set_client a (\<lambda>c. c\<lparr>cl_request := r\<rparr>) ?s0) = ?s1"
    by (subst set_client_twice) simp_all
  have c1: "\<exists>x. the_client a ?s1 = Some x" using the_client_set [OF _ c0] by auto
  have "poll_next_request a s = Some (1, int (length bs), ?s1)"
    unfolding poll_next_request_def using c rd bs(1,3) r s1 by (simp add: Let_def)
  with c1 c rx show ?thesis by (auto simp: poll_client_def sys_select_rd_def)
qed

lemma poll_request_word:
  fixes s :: "'a esd_server_scheme" and h :: "'a handler"
  assumes "the_client a s = Some c" "cl_state c = ESD_NEXT_REQUEST" "\<not> swap_byte_order c"
    and r: "0 < r" "r < 24" "proto_entry r = Some (dl, h)" "dl \<noteq> 0" and "rx s (cl_fd c) = RdData (put32 r) # rs"
  shows "poll_client a len s = Some (4, set_client a (\<lambda>c. c\<lparr>cl_request := r, cl_state := ESD_NEEDS_REQDATA, proto_data_length := 0\<rparr>)
    (s\<lparr>rx := (rx s)(cl_fd c := rs)\<rparr>))"
proof -
  have "get32 (put32 r @ drop (length (put32 r)) (put32 (cl_request c))) 0 = Some r"
    using r get32_put32_0 [of r "[]"] by (simp add: i32_small)
  moreover have "put32 r \<noteq> []" by (simp add: put32_def)
  ultimately show ?thesis
    using poll_request_bytes [OF assms(1-7) _ _ _ assms(8), of len] by simp
qed

text \<open>Names: what the server keeps of a name the library sent.\<close>

lemma cstr_no_nul: "0 \<notin> set (cstr n)"
  unfolding cstr_def by (auto dest: set_takeWhileD)

lemma cstr_append_nul: "0 \<notin> set z \<Longrightarrow> cstr (z @ 0 # r) = z"
  unfolding cstr_def by (auto simp: takeWhile_append)

lemma cstr_append: "0 \<notin> set z \<Longrightarrow> cstr (z @ r) = z @ cstr r"
  unfolding cstr_def by (auto simp: takeWhile_append)

lemma copy_name_sent: "cstr (copy_name (name_buf (Some n) t @ r)) = take 127 (cstr n)"
proof -
  let ?z = "cstr n"
  have z: "0 \<notin> set (take k ?z)" for k using cstr_no_nul [of n] by (meson in_set_takeD)
  have nb: "name_buf (Some n) t = take 128 (?z @ replicate 128 0)" by (simp add: name_buf_def)
  show ?thesis
  proof (cases "length ?z < 128")
    case True
    then obtain m where m: "128 - length ?z = Suc m" by (metis Suc_diff_Suc)
    then have "m \<le> 127" by linarith
    then have "name_buf (Some n) t = ?z @ 0 # replicate m 0" using True m by (simp add: nb min_def)
    then have "cstr (name_buf (Some n) t @ r) = ?z" using cstr_append_nul [OF cstr_no_nul] by simp
    then have "copy_name (name_buf (Some n) t @ r) = (?z @ 0 # replicate m 0)[127 := 0]"
      using True m by (simp add: copy_name_def)
    also have "\<dots> = ?z @ 0 # replicate m 0"
    proof (rule nth_equalityI)
      fix i assume "i < length ((?z @ 0 # replicate m 0)[127 := 0])"
      then show "(?z @ 0 # replicate m 0)[127 := 0] ! i = (?z @ 0 # replicate m 0) ! i"
        using True m by (cases "i = 127") (auto simp: nth_append nth_Cons')
    qed simp
    finally show ?thesis using True cstr_append_nul [OF cstr_no_nul, of n "replicate m 0"] by simp
  next
    case False
    then have "name_buf (Some n) t = take 128 ?z" by (simp add: nb)
    then have "take 128 (cstr (name_buf (Some n) t @ r)) = take 128 ?z"
      using cstr_append [OF z, of 128 r] False by simp
    then have "copy_name (name_buf (Some n) t @ r) = (take 128 ?z)[127 := 0]"
      using False by (simp add: copy_name_def)
    also have "\<dots> = take 127 ?z @ [0]"
      using False by (simp add: upd_conv_take_nth_drop min_def)
    finally show ?thesis using cstr_append_nul [OF z, of 127 "[]"] by simp
  qed
qed

text \<open>The parameters of a stream as \<open>new_stream_player\<close> decodes them.\<close>

lemma stream_decoded:
  assumes "the_client a s = Some c" "\<not> swap_byte_order c" "proto_data c = put32 f @ put32 r @ name_buf (Some n) t @ rest"
    and "i32 f = f" "i32 r = r" "new_stream_player a s = Some (Some p, s')"
  shows "pl_format p = f AND NOT ESD_MASK_MODE \<and> pl_rate p = r \<and> cstr (pl_name p) = take 127 (cstr n)
    \<and> pl_source_id p = cl_fd c"
proof -
  have g: "get32 (proto_data c) 0 = Some f" "get32 (proto_data c) 4 = Some r"
    using get32_put32_0 [of f] get32_put32 [of "put32 f" r] assms(3-5) by simp_all
  have d: "drop 8 (proto_data c) = name_buf (Some n) t @ rest" unfolding assms(3) by (simp add: drop_Cons')
  show ?thesis
    using assms(1,2,6) g copy_name_sent [of n t rest] unfolding new_stream_player_def d
    by (auto simp: Let_def maybe_swap_32_def d split: Option.bind_splits prod.splits if_splits option.splits)
qed

text \<open>
  When the stream is mono or stereo with 8 or 16 bits, there is memory, and the length of its buffer fits
  into an \<open>int\<close>, the player is made.
\<close>

lemma mode_masked:
  "(f AND NOT ESD_MASK_MODE) AND ESD_MASK_BITS = f AND ESD_MASK_BITS"
  "(f AND NOT ESD_MASK_MODE) AND ESD_MASK_CHAN = f AND ESD_MASK_CHAN" for f :: int
  by (simp_all add: and.assoc)

lemma player_buffer_fits:
  assumes "0 \<le> esd_buf_size_octets s * rate" "esd_buf_size_octets s * rate < 2147483648" "0 < esd_audio_rate s"
  obtains n where "player_buffer_length format rate s = Some n" "0 \<le> n"
proof -
  let ?x = "esd_buf_size_octets s * rate" and ?r = "esd_audio_rate s"
  have x: "i32 ?x = ?x" using assms(1,2) by (intro i32_id) simp_all
  have d: "0 \<le> ?x sdiv ?r" "?x sdiv ?r \<le> ?x"
    using assms zdiv_mono2 [of ?x 1 ?r] pos_imp_zdiv_nonneg_iff [of ?r ?x] by (simp_all add: signed_divide_int_def sgn_if)
  then have i: "i32 (?x sdiv ?r) = ?x sdiv ?r" using assms(2) by (intro i32_id) simp_all
  have half: "0 \<le> n sdiv 2" if "0 \<le> n" for n :: int using that by (simp add: signed_divide_int_def sgn_if)
  have "0 \<le> n - n smod 4" if "0 \<le> n" for n :: int
    using that zmod_le_nonneg_dividend [of n 4] by (simp add: signed_modulo_int_def signed_divide_int_def sgn_if)
  with d(1) half assms(3) have "\<exists>n. player_buffer_length format rate s = Some n \<and> 0 \<le> n"
    by (auto simp: player_buffer_length_def cdiv_def x i Let_def)
  with that show ?thesis by blast
qed

lemma new_stream_player_made:
  assumes "the_client a s = Some c" "\<not> swap_byte_order c" "proto_data c = put32 f @ put32 r @ rest"
    and "i32 f = f" "i32 r = r" "f AND ESD_MASK_BITS \<in> {ESD_BITS8, ESD_BITS16}" "f AND ESD_MASK_CHAN \<in> {ESD_MONO, ESD_STEREO}"
    and "mallocs s = []" "next_addr s \<noteq> 0"
    and "0 \<le> esd_buf_size_octets s * r" "esd_buf_size_octets s * r < 2147483648" "0 < esd_audio_rate s"
  obtains p s' where "new_stream_player a s = Some (Some p, s')"
    "esd_players_list s' = esd_players_list s" "esd_clients_list s' = esd_clients_list s"
proof -
  have g: "get32 (proto_data c) 0 = Some f" "get32 (proto_data c) 4 = Some r"
    using get32_put32_0 [of f] get32_put32 [of "put32 f" r] assms(3-5) by simp_all
  let ?s = "s\<lparr>next_addr := Suc (next_addr s)\<rparr>"
  obtain n where n: "player_buffer_length (f AND NOT ESD_MASK_MODE) r ?s = Some n" "0 \<le> n"
    by (rule player_buffer_fits [of ?s r]) (use assms(10-12) in simp_all)
  obtain m where m: "get_mix_func (f AND NOT ESD_MASK_MODE) ESD_VOLUME_BASE ESD_VOLUME_BASE = Some m"
    using assms(6,7) unfolding get_mix_func_def mode_masked by auto
  have a1: "malloc 232 s = (next_addr s, ?s)" "malloc n ?s = (next_addr ?s, ?s\<lparr>next_addr := Suc (next_addr ?s)\<rparr>)"
    using assms(8) n(2) by (simp_all add: malloc_def)
  have "\<exists>p s'. new_stream_player a s = Some (Some p, s') \<and> esd_players_list s' = esd_players_list s
      \<and> esd_clients_list s' = esd_clients_list s"
    unfolding new_stream_player_def using assms(1,2,9) g n m a1 by (simp add: Let_def maybe_swap_32_def)
  with that show ?thesis by blast
qed

subsection \<open>Properties\<close>

text \<open>A server with one client that is about to send.\<close>

definition client1 :: "esd_client_state \<Rightarrow> int \<Rightarrow> esd_client" where
  "client1 st r = \<lparr>cl_addr = 1, cl_state = st, cl_request = r, cl_fd = 5, swap_byte_order = False,
     proto_data = replicate 1024 0, proto_data_length = 0\<rparr>"

definition server1 :: "esd_client \<Rightarrow> rdres list \<Rightarrow> esd_server" where
  "server1 c script = \<lparr>rx = (\<lambda>_. [])(5 := script), wres = (\<lambda>_. []), tx = [], sel_err = (\<lambda>_. False),
     wrdy = (\<lambda>_. True), closed = [], mallocs = [], next_addr = 2, junk = (\<lambda>_ _. 0), clock = [], accepts = [],
     esd_audio_format = 0x21, esd_audio_rate = 44100, esd_audio_fd = 3, select_works = True,
     esd_write_size = 8, dev_open = [], dev_ioctl = [], dev_select = [],
     esd_clients_list = [c], esd_players_list = [], esd_recorder_list = [], esd_monitor_list = [],
     esd_filter_list = [], esd_samples_list = [], esd_playing_samples = 0, esd_next_sample_id = 1,
     esd_is_owned = True, esd_is_locked = False, esd_owner_key = replicate 16 7, esd_on_standby = False,
     esd_on_autostandby = False, esd_forced_standby = False, esd_buf_size_octets = 8, esd_buf_size_samples = 4,
     mixed_buffer = [0, 0, 0, 0], output_buffer = replicate 8 0, esd_first_filter_func = None\<rparr>"

text \<open>
  C8. Requests are reassembled: when the data of a request arrives in pieces of any sizes, as
  many rounds of polling as there are pieces call the handler of the request, once, and with
  exactly the bytes sent in the client's buffer.
\<close>

theorem request_reassembled:
  fixes s :: "'a esd_server_scheme" and h :: "'a handler"
  assumes "the_client a s = Some c" "distinct (map cl_addr (esd_clients_list s))" "cl_state c = ESD_NEEDS_REQDATA"
    "proto_entry (cl_request c) = Some (dl, h)" "proto_data_length c = 0"
    "int (length (concat bss)) = dl" "dl \<le> int (length (proto_data c))" "dl < 2147483648"
    "bss \<noteq> []" "[] \<notin> set bss" "rx s (cl_fd c) = map RdData bss"
  shows "polls_of (length bss) a len s = serve h a (int (length (last bss)))
    (got a ESD_NEXT_REQUEST (concat bss @ drop (nat dl) (proto_data c)) dl (s\<lparr>rx := (rx s)(cl_fd c := [])\<rparr>))"
  using reassemble [OF assms(1-4) _ _ assms(7-11), of len] assms(5,6) by simp

theorem request_reassembled_witness:
  "polls_of 2 1 0 (server1 (client1 ESD_NEEDS_REQDATA 10) [RdData [7], RdData [0, 0, 0]])
    = serve esd_proto_sample_stop 1 3
        (got 1 ESD_NEXT_REQUEST ([7, 0, 0, 0] @ drop 4 (replicate 1024 0)) 4 (server1 (client1 ESD_NEEDS_REQDATA 10) []))"
proof -
  let ?s = "server1 (client1 ESD_NEEDS_REQDATA 10) [RdData [7], RdData [0, 0, 0]]"
  have c: "the_client 1 ?s = Some (client1 ESD_NEEDS_REQDATA 10)" by (simp add: the_client_def server1_def client1_def)
  have e: "proto_entry (cl_request (client1 ESD_NEEDS_REQDATA 10)) = Some (4, esd_proto_sample_stop)"
    by (simp add: proto_entry_def client1_def esd_proto_map_def)
  have "polls_of (length [[7 :: octet], [0, 0, 0]]) 1 0 ?s = serve esd_proto_sample_stop 1 (int (length (last [[7 :: octet], [0, 0, 0]])))
    (got 1 ESD_NEXT_REQUEST (concat [[7], [0, 0, 0]] @ drop (nat 4) (proto_data (client1 ESD_NEEDS_REQDATA 10))) 4
      (?s\<lparr>rx := (rx ?s)(cl_fd (client1 ESD_NEEDS_REQDATA 10) := [])\<rparr>))"
    by (rule request_reassembled [OF c _ _ e]) (simp_all add: server1_def client1_def)
  moreover have "?s\<lparr>rx := (rx ?s)(cl_fd (client1 ESD_NEEDS_REQDATA 10) := [])\<rparr> = server1 (client1 ESD_NEEDS_REQDATA 10) []"
    by (simp add: server1_def client1_def)
  ultimately show ?thesis by (simp add: client1_def numeral_2_eq_2)
qed

text \<open>What \<open>esd_play_stream\<close> sends once the connection is open.\<close>

lemma play_stream_sent:
  assumes "esd_open_sound host s = Some (sock, s1)" "0 \<le> sock"
    and "esd_play_stream format rate host name s = Some (sock, s')"
  shows "sent sock s1 s' (put32 ESD_PROTO_STREAM_PLAY @ put32 format @ put32 rate @ name_buf name s1)"
proof -
  let ?msg = "[put32 ESD_PROTO_STREAM_PLAY, put32 format, put32 rate, name_buf name s1]"
  obtain s2 where s2: "send_all sock ?msg (s1\<lparr>sigpipe := dummy_signal\<rparr>) = (True, s2)" "tx s' = tx s2"
    using assms unfolding esd_play_stream_def
    by (auto simp: Let_def signal_pipe_def esd_set_socket_buffers_def split: prod.splits if_splits)
  from send_all_sent [OF s2(1)] have "sent sock (s1\<lparr>sigpipe := dummy_signal\<rparr>) s2 (concat ?msg)" by simp
  then show ?thesis using sent_tx [of s1 "s1\<lparr>sigpipe := dummy_signal\<rparr>" s' s2] s2(2) by simp
qed

text \<open>A request word that arrives whole, and then its data in pieces.\<close>

lemma word_then_pieces:
  fixes s :: "'a esd_server_scheme" and h :: "'a handler"
  assumes server: "the_client a s = Some c" "distinct (map cl_addr (esd_clients_list s))" "cl_state c = ESD_NEXT_REQUEST"
      "\<not> swap_byte_order c" "rx s (cl_fd c) = map RdData (put32 r # bss)"
    and entry: "0 < r" "r < 24" "proto_entry r = Some (dl, h)" "dl \<noteq> 0" "dl < 2147483648" "dl \<le> int (length (proto_data c))"
    and bss: "int (length (concat bss)) = dl" "bss \<noteq> []" "[] \<notin> set bss"
  obtains S where "polls_of (Suc (length bss)) a len s = serve h a (int (length (last bss))) S"
    "the_client a S = Some (c\<lparr>cl_request := r, cl_state := ESD_NEXT_REQUEST,
       proto_data := concat bss @ drop (nat dl) (proto_data c), proto_data_length := dl\<rparr>)"
    "mallocs S = mallocs s" "next_addr S = next_addr s" "esd_buf_size_octets S = esd_buf_size_octets s"
    "esd_audio_rate S = esd_audio_rate s" "esd_players_list S = esd_players_list s"
proof -
  let ?s0 = "s\<lparr>rx := (rx s)(cl_fd c := map RdData bss)\<rparr>"
  let ?f = "\<lambda>c. c\<lparr>cl_request := r, cl_state := ESD_NEEDS_REQDATA, proto_data_length := 0\<rparr>"
  define s1 where "s1 = set_client a ?f ?s0"
  have p1: "poll_client a len s = Some (4, s1)"
    unfolding s1_def by (rule poll_request_word [OF server(1,3,4) entry(1-4)]) (use server(5) in simp)
  have c1: "the_client a s1 = Some (?f c)"
    unfolding s1_def by (rule the_client_set) (use server(1) in \<open>simp_all add: the_client_def\<close>)
  define S where "S = got a ESD_NEXT_REQUEST (concat bss @ drop (nat dl) (proto_data c)) dl
      (s1\<lparr>rx := (rx s1)(cl_fd c := [])\<rparr>)"
  have "polls_of (length bss) a 4 s1 = serve h a (int (length (last bss))) S"
    unfolding S_def
    using reassemble [OF c1 _ _ _ _ _ _ _ bss(2,3), of dl h 4] bss(1) server(2) entry
    by (simp add: s1_def set_client_def map_upd_node)
  moreover have "the_client a S = Some ((?f c)\<lparr>cl_state := ESD_NEXT_REQUEST,
      proto_data := concat bss @ drop (nat dl) (proto_data c), proto_data_length := dl\<rparr>)"
    unfolding S_def by (rule got_client) (use c1 in \<open>simp add: the_client_def\<close>)
  moreover have "mallocs S = mallocs s" "next_addr S = next_addr s" "esd_buf_size_octets S = esd_buf_size_octets s"
    "esd_audio_rate S = esd_audio_rate s" "esd_players_list S = esd_players_list s"
    by (simp_all add: S_def s1_def got_def set_client_def)
  ultimately show ?thesis using p1 by (intro that [of S]) simp_all
qed

text \<open>
  C7. From library to server: what \<open>esd_play_stream\<close> sends on the connection it has opened makes the server play
  the stream that the application asked for. When the word of the request arrives whole and in the server's own byte
  order, and what follows it arrives in pieces of any sizes, then as many rounds of polling as there are pieces leave
  one more player at the head of the list, that belongs to this client and reads from its socket, with the
  format (in stream mode), the rate and the name (up to 127 bytes) of the application, and the client has
  become a stream. The stream is mono or stereo with 8 or 16 bits, the server has memory for the player, and the length
  of its buffer does not overflow.
\<close>

theorem stream_request_roundtrip:
  fixes s :: "'a esd_server_scheme" and cs cs' :: "'b esd_lib_scheme"
  assumes client: "esd_open_sound host cs0 = Some (sock, cs)" "0 \<le> sock"
      "esd_play_stream format rate host (Some n) cs0 = Some (sock, cs')"
    and wire: "concat (put32 ESD_PROTO_STREAM_PLAY # bss) = concat (map snd (drop (length (tx cs)) (tx cs')))"
      "bss \<noteq> []" "[] \<notin> set bss"
    and server: "the_client a s = Some c" "distinct (map cl_addr (esd_clients_list s))" "cl_state c = ESD_NEXT_REQUEST"
      "\<not> swap_byte_order c" "length (proto_data c) = 1024"
      "rx s (cl_fd c) = map RdData (put32 ESD_PROTO_STREAM_PLAY # bss)"
    and ints: "i32 format = format" "i32 rate = rate"
    and playable: "format AND ESD_MASK_BITS \<in> {ESD_BITS8, ESD_BITS16}" "format AND ESD_MASK_CHAN \<in> {ESD_MONO, ESD_STEREO}"
    and memory: "mallocs s = []" "next_addr s \<noteq> 0"
    and buffer: "0 \<le> esd_buf_size_octets s * rate" "esd_buf_size_octets s * rate < 2147483648" "0 < esd_audio_rate s"
  shows "\<exists>p s'. polls_of (Suc (length bss)) a len s = Some (int (length (last bss)), s')
    \<and> esd_players_list s' = p # esd_players_list s
    \<and> pl_format p = format AND NOT ESD_MASK_MODE \<and> pl_rate p = rate \<and> cstr (pl_name p) = take 127 (cstr n)
    \<and> pl_source_id p = cl_fd c \<and> pl_parent p = a
    \<and> map_option cl_state (the_client a s') = Some ESD_STREAMING_DATA"
proof -
  let ?data = "put32 format @ put32 rate @ name_buf (Some n) cs"
  have len: "length ?data = 136" by (simp add: name_buf_def)
  obtain log where log: "tx cs' = tx cs @ map (Pair sock) log" "concat log = put32 ESD_PROTO_STREAM_PLAY @ ?data"
    using play_stream_sent [OF client] by (auto simp: sent_def)
  have "map snd (drop (length (tx cs)) (tx cs')) = log" by (simp add: log(1) o_def)
  with wire(1) log(2) have bss: "concat bss = ?data" by simp
  have entry: "proto_entry 3 = Some (136, esd_proto_stream_play :: 'a handler)"
    by (simp add: proto_entry_def esd_proto_map_def)
  let ?c = "c\<lparr>cl_request := 3, cl_state := ESD_NEXT_REQUEST, proto_data := concat bss @ drop (nat 136) (proto_data c),
    proto_data_length := 136\<rparr>"
  obtain S where polled: "polls_of (Suc (length bss)) a len s = serve esd_proto_stream_play a (int (length (last bss))) S"
    and cS: "the_client a S = Some ?c"
    and same: "mallocs S = mallocs s" "next_addr S = next_addr s" "esd_buf_size_octets S = esd_buf_size_octets s"
      "esd_audio_rate S = esd_audio_rate s" "esd_players_list S = esd_players_list s"
    using word_then_pieces [OF server(1-4,6) _ _ entry _ _ _ _ wire(2,3), of len] server(5) bss len by auto
  have d: "\<not> swap_byte_order ?c" "proto_data ?c = put32 format @ put32 rate @ name_buf (Some n) cs @ drop 136 (proto_data c)"
    using server(4) bss by simp_all
  obtain p S' where made: "new_stream_player a S = Some (Some p, S')" "esd_players_list S' = esd_players_list S"
    "esd_clients_list S' = esd_clients_list S"
    by (rule new_stream_player_made [OF cS d ints playable]) (use memory buffer same in simp_all)
  have st: "the_client a (streaming a (add_player (Some (p\<lparr>pl_parent := a\<rparr>)) S')) = Some (?c\<lparr>cl_state := ESD_STREAMING_DATA\<rparr>)"
    unfolding streaming_def
    by (rule the_client_set) (use cS made(3) in \<open>simp_all add: add_player_def the_client_def\<close>)
  have "polls_of (Suc (length bss)) a len s
      = Some (int (length (last bss)), streaming a (add_player (Some (p\<lparr>pl_parent := a\<rparr>)) S'))"
    using polled made(1) st by (simp add: serve_def esd_proto_stream_play_def)
  moreover have "esd_players_list (streaming a (add_player (Some (p\<lparr>pl_parent := a\<rparr>)) S')) = p\<lparr>pl_parent := a\<rparr> # esd_players_list s"
    using made(2) same(5) by (simp add: streaming_def set_client_def add_player_def)
  ultimately show ?thesis
    using stream_decoded [OF cS d ints made(1)] st
    by (intro exI [of _ "p\<lparr>pl_parent := a\<rparr>"] exI [of _ "streaming a (add_player (Some (p\<lparr>pl_parent := a\<rparr>)) S')"]) simp
qed

theorem stream_request_roundtrip_witness:
  "\<exists>p s'. polls_of 3 1 0 (server1 (client1 ESD_NEXT_REQUEST 0)
      [RdData (put32 ESD_PROTO_STREAM_PLAY), RdData (take 3 (put32 0x1021 @ put32 44100 @ 65 # replicate 127 0)),
       RdData (drop 3 (put32 0x1021 @ put32 44100 @ 65 # replicate 127 0))]) = Some (133, s')
    \<and> esd_players_list s' = [p] \<and> pl_format p = 0x1021 AND NOT ESD_MASK_MODE \<and> pl_rate p = 44100
    \<and> cstr (pl_name p) = [65] \<and> pl_source_id p = 5 \<and> pl_parent p = 1
    \<and> map_option cl_state (the_client 1 s') = Some ESD_STREAMING_DATA"
proof -
  let ?d = "put32 0x1021 @ put32 44100 @ 65 # replicate 127 0"
  let ?bss = "[take 3 ?d, drop 3 ?d]"
  let ?s = "server1 (client1 ESD_NEXT_REQUEST 0) (map RdData (put32 ESD_PROTO_STREAM_PLAY # ?bss))"
  have "map_option (\<lambda>(r, s'). (r, tx s')) (esd_open_sound None lib0) = Some (4, [])" by code_simp
  then obtain cs where conn: "esd_open_sound None lib0 = Some (4, cs)" "tx cs = []" by auto
  have "map_option (\<lambda>(r, s'). (r, concat (map snd (tx s')))) (esd_play_stream 0x1021 44100 None (Some [65]) lib0)
      = Some (4, put32 ESD_PROTO_STREAM_PLAY @ ?d)"
    by code_simp
  then obtain cs' where play: "esd_play_stream 0x1021 44100 None (Some [65]) lib0 = Some (4, cs')"
    "concat (map snd (tx cs')) = put32 ESD_PROTO_STREAM_PLAY @ ?d" by auto
  have "\<exists>p s'. polls_of (Suc (length ?bss)) 1 0 ?s = Some (int (length (last ?bss)), s')
    \<and> esd_players_list s' = p # esd_players_list ?s
    \<and> pl_format p = 0x1021 AND NOT ESD_MASK_MODE \<and> pl_rate p = 44100 \<and> cstr (pl_name p) = take 127 (cstr [65])
    \<and> pl_source_id p = cl_fd (client1 ESD_NEXT_REQUEST 0) \<and> pl_parent p = 1
    \<and> map_option cl_state (the_client 1 s') = Some ESD_STREAMING_DATA"
  proof (rule stream_request_roundtrip [OF conn(1) _ play(1)])
    show "concat (put32 ESD_PROTO_STREAM_PLAY # ?bss) = concat (map snd (drop (length (tx cs)) (tx cs')))"
      using play(2) conn(2) by simp
    show "[] \<notin> set ?bss" by (simp add: put32_def)
  qed (simp_all add: server1_def client1_def the_client_def i32_small)
  moreover have "length ?d = 136" by simp
  ultimately show ?thesis by (simp add: server1_def client1_def numeral_3_eq_3 cstr_def)
qed

end
