(* ===== verification/Esd_Info.thy ===== *)
theory Esd_Info
  imports Esd_Mgr Esd_Wire
begin

text \<open>
  The request for all information from both ends: the bytes that \<open>esd_proto_all_info\<close> (proto.c)
  sends, and what \<open>esd_get_all_info\<close> (esdmgr.c) makes of them.
\<close>

subsection \<open>The records on the wire\<close>

definition player_rec :: "int \<Rightarrow> octet list \<Rightarrow> int \<Rightarrow> octet list \<Rightarrow> octet list \<Rightarrow> int \<Rightarrow> octet list" where
  "player_rec ident nm rate l r fmt = put32 ident @ nm @ put32 rate @ l @ r @ put32 fmt"

definition player_bytes :: "'a esd_server_scheme \<Rightarrow> esd_player \<Rightarrow> octet list" where
  "player_bytes s p = player_rec (pl_source_id p) (the (player_name p s)) (pl_rate p)
     (put32 (pl_left_vol p)) (put32 (pl_right_vol p)) (pl_format p)"

definition sample_bytes :: "esd_sample \<Rightarrow> octet list" where
  "sample_bytes m = player_rec (sm_id m) (sm_name m) (sm_rate m)
     (put32 (sm_left_vol m)) (put32 (sm_right_vol m)) (sm_format m) @ put32 (sm_length m)"

subsection \<open>What the server sends\<close>

definition says :: "int \<Rightarrow> 'a esd_server_scheme \<Rightarrow> octet list list \<Rightarrow> 'a esd_server_scheme" where
  "says fd s bs = s\<lparr>tx := tx s @ map (Pair fd) bs\<rparr>"

lemma says_nil: "says fd s [] = s"
  by (simp add: says_def)

lemma says_says: "says fd (says fd s a) b = says fd s (a @ b)"
  by (simp add: says_def)

lemma says_keeps [simp]:
  "wres (says fd s bs) = wres s" "esd_samples_list (says fd s bs) = esd_samples_list s"
  "esd_players_list (says fd s bs) = esd_players_list s" "junk (says fd s bs) = junk s"
  "player_name p (says fd s bs) = player_name p s" "tx (says fd s bs) = tx s @ map (Pair fd) bs"
  by (simp_all add: says_def player_name_def the_sample_def)

lemma write_seq_says:
  "wres s fd = [] \<Longrightarrow> bs \<noteq> [] \<Longrightarrow> write_seq fd bs s = (int (length (last bs)), says fd s bs)"
proof (induction bs arbitrary: s)
  case (Cons b bs)
  have w: "sys_write fd b s = ((int (length b), False), says fd s [b])"
    using Cons.prems(1) by (simp add: sys_write_full says_def)
  show ?case
    using Cons.IH [of "says fd s [b]"] Cons.prems w by (cases "bs = []") (simp_all add: says_says)
qed simp

lemma info_players_says:
  assumes "wres s (cl_fd c) = []" "\<not> swap_byte_order c" "\<forall>p \<in> set ps. player_name p s \<noteq> None" "length l = 4" "length r = 4"
  shows "\<exists>l' r' bs. info_players c ps l r s = Some (True, l', r', says (cl_fd c) s bs) \<and> length l' = 4 \<and> length r' = 4
    \<and> concat bs = concat (map (player_bytes s) ps) @ player_rec 0 (replicate 128 0) 0 l' r' 0"
  using assms
proof (induction ps arbitrary: l r s)
  case Nil
  show ?case
    by (rule exI [of _ l], rule exI [of _ r], rule exI [of _ "[put32 0, replicate 128 0, put32 0, l, r, put32 0]"])
      (use Nil in \<open>simp add: write_seq_says player_rec_def del: write_seq.simps\<close>)
next
  case (Cons p ps)
  obtain nm where nm: "player_name p s = Some nm" using Cons.prems(3) by auto
  let ?l = "put32 (pl_left_vol p)" and ?r = "put32 (pl_right_vol p)"
  let ?b = "[put32 (pl_source_id p), nm, put32 (pl_rate p), ?l, ?r, put32 (pl_format p)]"
  have sw: "swapped c x = put32 x" for x using Cons.prems(2) by (simp add: swapped_def maybe_swap_32_def)
  have pb: "player_bytes (says fd s bs) = player_bytes s" for fd bs by (auto simp: player_bytes_def fun_eq_iff)
  obtain l' r' bs where ih: "info_players c ps ?l ?r (says (cl_fd c) s ?b) = Some (True, l', r', says (cl_fd c) (says (cl_fd c) s ?b) bs)"
    "length l' = 4" "length r' = 4" "concat bs = concat (map (player_bytes s) ps) @ player_rec 0 (replicate 128 0) 0 l' r' 0"
    using Cons.IH [of "says (cl_fd c) s ?b" ?l ?r] Cons.prems by (auto simp: pb)
  have "info_players c (p # ps) l r s = Some (True, l', r', says (cl_fd c) s (?b @ bs))"
    using nm Cons.prems(1) ih(1) by (simp add: sw write_seq_says says_says del: write_seq.simps)
  moreover have "concat (?b @ bs) = concat (map (player_bytes s) (p # ps)) @ player_rec 0 (replicate 128 0) 0 l' r' 0"
    using ih(4) nm by (simp add: player_bytes_def player_rec_def)
  ultimately show ?case using ih(2,3) by blast
qed

lemma info_samples_says:
  assumes "wres s (cl_fd c) = []" "\<not> swap_byte_order c" "length l = 4" "length r = 4"
  shows "\<exists>l' r' bs. info_samples c ms l r s = (True, says (cl_fd c) s bs) \<and> length l' = 4 \<and> length r' = 4
    \<and> concat bs = concat (map sample_bytes ms) @ player_rec 0 (replicate 128 0) 0 l' r' 0 @ put32 0"
  using assms
proof (induction ms arbitrary: l r s)
  case Nil
  show ?case
    by (rule exI [of _ l], rule exI [of _ r], rule exI [of _ "[put32 0, replicate 128 0, put32 0, l, r, put32 0, put32 0]"])
      (use Nil in \<open>simp add: write_seq_says player_rec_def del: write_seq.simps\<close>)
next
  case (Cons m ms)
  let ?l = "put32 (sm_left_vol m)" and ?r = "put32 (sm_right_vol m)"
  let ?b = "[put32 (sm_id m), sm_name m, put32 (sm_rate m), ?l, ?r, put32 (sm_format m), put32 (sm_length m)]"
  have sw: "swapped c x = put32 x" for x using Cons.prems(2) by (simp add: swapped_def maybe_swap_32_def)
  obtain l' r' bs where ih: "info_samples c ms ?l ?r (says (cl_fd c) s ?b) = (True, says (cl_fd c) (says (cl_fd c) s ?b) bs)"
    "length l' = 4" "length r' = 4" "concat bs = concat (map sample_bytes ms) @ player_rec 0 (replicate 128 0) 0 l' r' 0 @ put32 0"
    using Cons.IH [of "says (cl_fd c) s ?b" ?l ?r] Cons.prems by auto
  have "info_samples c (m # ms) l r s = (True, says (cl_fd c) s (?b @ bs))"
    using Cons.prems(1) ih(1) by (simp add: sw write_seq_says says_says del: write_seq.simps)
  moreover have "concat (?b @ bs) = concat (map sample_bytes (m # ms)) @ player_rec 0 (replicate 128 0) 0 l' r' 0 @ put32 0"
    using ih(4) by (simp add: sample_bytes_def player_rec_def)
  ultimately show ?case using ih(2,3) by blast
qed

subsection \<open>What the library reads\<close>

definition feed :: "int \<Rightarrow> octet list \<Rightarrow> 'a os_scheme \<Rightarrow> 'a os_scheme" where
  "feed fd bs s = s\<lparr>rx := (rx s)(fd := (if bs = [] then [] else [RdData bs]))\<rparr>"

lemma feed_keeps [simp]:
  "mallocs (feed fd bs s) = mallocs s" "next_addr (feed fd bs s) = next_addr s" "junk (feed fd bs s) = junk s"
  "wres (feed fd bs s) = wres s" "feed fd bs (feed fd cs s) = feed fd bs s"
  by (simp_all add: feed_def)

lemma malloc_feed:
  "mallocs s = [] \<Longrightarrow> 0 \<le> n \<Longrightarrow>
     malloc n (feed fd bs s) = (next_addr s, feed fd bs (s\<lparr>next_addr := Suc (next_addr s)\<rparr>))"
  by (cases s) (simp add: malloc_def feed_def)

lemma read_bytes_feed:
  "length bs = length old \<Longrightarrow> bs \<noteq> [] \<Longrightarrow>
     read_bytes fd old (feed fd (bs @ rest) s) = ((int (length bs), bs), feed fd rest s)"
  by (cases rest) (auto simp: read_bytes_def sys_read_def feed_def)

lemma length_junk_word [simp]: "length (junk_word s a i) = 4"
  by (simp add: junk_word_def)

definition word_at :: "octet list \<Rightarrow> int" where
  "word_at bs = (case get32 bs 0 of Some x \<Rightarrow> x | None \<Rightarrow> 0)"

lemma word_at_put32 [simp]: "word_at (put32 x) = i32 x"
  using get32_put32_0 [of x "[]"] by (simp add: word_at_def)

lemma read_word_feed:
  assumes "length old = 4" "length bs = 4"
  shows "read_word fd old (feed fd (bs @ rest) s) = ((4, word_at bs), feed fd rest s)"
proof -
  have "bs \<noteq> []" using assms by auto
  then show ?thesis using read_bytes_feed [of bs old fd rest s] assms by (simp add: read_word_def word_at_def)
qed

lemma read_name_feed:
  assumes "length nm = 128"
  shows "read_bytes fd (map (junk s' a) [20..<148]) (feed fd (nm @ rest) s) = ((128, nm), feed fd rest s)"
proof -
  have "nm \<noteq> []" using assms by auto
  then show ?thesis using read_bytes_feed [of nm "map (junk s' a) [20..<148]" fd rest s] assms
    by (simp del: upt_rec_numeral)
qed

lemmas read_feed = read_word_feed read_name_feed

definition player_info :: "int \<Rightarrow> octet list \<Rightarrow> int \<Rightarrow> octet list \<Rightarrow> octet list \<Rightarrow> int \<Rightarrow> esd_player_info" where
  "player_info ident nm rate l r fmt = \<lparr>pi_source_id = i32 ident, pi_name = nm[127 := 0], pi_rate = i32 rate,
     pi_left_vol_scale = word_at l, pi_right_vol_scale = word_at r, pi_format = i32 fmt\<rparr>"

definition sample_info :: "int \<Rightarrow> octet list \<Rightarrow> int \<Rightarrow> octet list \<Rightarrow> octet list \<Rightarrow> int \<Rightarrow> int \<Rightarrow> esd_sample_info" where
  "sample_info ident nm rate l r fmt len = \<lparr>mi_sample_id = i32 ident, mi_name = nm[127 := 0], mi_rate = i32 rate,
     mi_left_vol_scale = word_at l, mi_right_vol_scale = word_at r, mi_format = i32 fmt, mi_length = i32 len\<rparr>"

lemma read_player_info_feed:
  assumes "length nm = 128" "length l = 4" "length r = 4"
  shows "read_player_info fd a (feed fd (player_rec ident nm rate l r fmt @ rest) s)
    = ((4, player_info ident nm rate l r fmt), feed fd rest s)"
  using assms unfolding read_player_info_def player_rec_def player_info_def
  by (simp add: Let_def read_feed del: upt_rec_numeral)

lemma read_sample_info_feed:
  assumes "length nm = 128" "length l = 4" "length r = 4"
  shows "read_sample_info fd a (feed fd (player_rec ident nm rate l r fmt @ put32 len @ rest) s)
    = ((4, sample_info ident nm rate l r fmt len), feed fd rest s)"
  using assms unfolding read_sample_info_def player_rec_def sample_info_def
  by (simp add: Let_def read_feed del: upt_rec_numeral)

text \<open>What the library makes of a player and of a sample of the server.\<close>

definition info_of_player :: "'a esd_server_scheme \<Rightarrow> esd_player \<Rightarrow> esd_player_info" where
  "info_of_player s p = \<lparr>pi_source_id = i32 (pl_source_id p), pi_name = (the (player_name p s))[127 := 0],
     pi_rate = i32 (pl_rate p), pi_left_vol_scale = i32 (pl_left_vol p), pi_right_vol_scale = i32 (pl_right_vol p),
     pi_format = i32 (pl_format p)\<rparr>"

definition info_of_sample :: "esd_sample \<Rightarrow> esd_sample_info" where
  "info_of_sample m = \<lparr>mi_sample_id = i32 (sm_id m), mi_name = (sm_name m)[127 := 0],
     mi_rate = i32 (sm_rate m), mi_left_vol_scale = i32 (sm_left_vol m), mi_right_vol_scale = i32 (sm_right_vol m),
     mi_format = i32 (sm_format m), mi_length = i32 (sm_length m)\<rparr>"

lemma i32_0 [simp]: "i32 0 = 0"
  by (simp add: i32_small)

lemma get_players_feed:
  assumes "mallocs s = []" "0 < next_addr s" "length l = 4" "length r = 4"
    "list_all (\<lambda>p. 0 < i32 (pl_source_id p) \<and> length (the (player_name p sv)) = 128) ps"
  shows "\<exists>s'. get_players fd acc (feed fd (concat (map (player_bytes sv) ps) @ player_rec 0 (replicate 128 0) 0 l r 0 @ rest) s)
      = (Some (rev (map (info_of_player sv) ps) @ acc), feed fd rest s') \<and> mallocs s' = [] \<and> 0 < next_addr s'"
  using assms
proof (induction ps arbitrary: s acc)
  case Nil
  then show ?case
    by (subst get_players.simps, intro exI [of _ "s\<lparr>next_addr := Suc (next_addr s)\<rparr>"])
      (simp add: malloc_feed read_player_info_feed player_info_def)
next
  case (Cons p ps)
  let ?i = "info_of_player sv p" and ?s = "s\<lparr>next_addr := Suc (next_addr s)\<rparr>"
  let ?rest = "concat (map (player_bytes sv) ps) @ player_rec 0 (replicate 128 0) 0 l r 0 @ rest"
  have "get_players fd acc (feed fd (player_bytes sv p @ ?rest) s) = get_players fd (?i # acc) (feed fd ?rest ?s)"
    using Cons.prems
    by (subst get_players.simps)
      (simp add: malloc_feed player_bytes_def read_player_info_feed player_info_def info_of_player_def)
  moreover have "\<exists>s'. get_players fd (?i # acc) (feed fd ?rest ?s)
      = (Some (rev (map (info_of_player sv) ps) @ ?i # acc), feed fd rest s') \<and> mallocs s' = [] \<and> 0 < next_addr s'"
    by (rule Cons.IH) (use Cons.prems in simp_all)
  ultimately show ?case by simp
qed

lemma get_samples_feed:
  assumes "mallocs s = []" "0 < next_addr s" "length l = 4" "length r = 4"
    "list_all (\<lambda>m. 0 < i32 (sm_id m) \<and> length (sm_name m) = 128) ms"
  shows "\<exists>s'. get_samples fd acc (feed fd (concat (map sample_bytes ms) @ player_rec 0 (replicate 128 0) 0 l r 0 @ put32 0 @ rest) s)
      = (Some (rev (map info_of_sample ms) @ acc), feed fd rest s') \<and> mallocs s' = [] \<and> 0 < next_addr s'"
  using assms
proof (induction ms arbitrary: s acc)
  case Nil
  then show ?case
    by (subst get_samples.simps, intro exI [of _ "s\<lparr>next_addr := Suc (next_addr s)\<rparr>"])
      (simp add: malloc_feed read_sample_info_feed sample_info_def)
next
  case (Cons m ms)
  let ?i = "info_of_sample m" and ?s = "s\<lparr>next_addr := Suc (next_addr s)\<rparr>"
  let ?rest = "concat (map sample_bytes ms) @ player_rec 0 (replicate 128 0) 0 l r 0 @ put32 0 @ rest"
  have "get_samples fd acc (feed fd (sample_bytes m @ ?rest) s) = get_samples fd (?i # acc) (feed fd ?rest ?s)"
    using Cons.prems
    by (subst get_samples.simps)
      (simp add: malloc_feed sample_bytes_def read_sample_info_feed sample_info_def info_of_sample_def)
  moreover have "\<exists>s'. get_samples fd (?i # acc) (feed fd ?rest ?s)
      = (Some (rev (map info_of_sample ms) @ ?i # acc), feed fd rest s') \<and> mallocs s' = [] \<and> 0 < next_addr s'"
    by (rule Cons.IH) (use Cons.prems in simp_all)
  ultimately show ?case by simp
qed

subsection \<open>Both ends\<close>

text \<open>Every player and sample has a positive id and a name field of the full width.\<close>

definition announced :: "'a esd_server_scheme \<Rightarrow> bool" where
  "announced s \<longleftrightarrow>
     list_all (\<lambda>p. 0 < i32 (pl_source_id p) \<and> (case player_name p s of Some nm \<Rightarrow> length nm = 128 | None \<Rightarrow> False))
       (esd_players_list s)
   \<and> list_all (\<lambda>m. 0 < i32 (sm_id m) \<and> length (sm_name m) = 128) (esd_samples_list s)"

text \<open>The bytes the server adds to the log while it answers.\<close>

definition answer :: "addr \<Rightarrow> 'a esd_server_scheme \<Rightarrow> octet list" where
  "answer a s = concat (map snd (drop (length (tx s)) (tx (snd (the (esd_proto_all_info a s))))))"

lemma all_info_says:
  assumes c: "the_client a s = Some c" "\<not> swap_byte_order c" "wres s (cl_fd c) = []" and ok: "announced s"
  shows "\<exists>l r l' r' s'. esd_proto_all_info a s = Some (1, s') \<and> length l = 4 \<and> length r = 4 \<and> length l' = 4 \<and> length r' = 4
    \<and> answer a s = put32 0 @ put32 (esd_audio_rate s) @ put32 (esd_audio_format s)
        @ concat (map (player_bytes s) (esd_players_list s)) @ player_rec 0 (replicate 128 0) 0 l r 0
        @ concat (map sample_bytes (esd_samples_list s)) @ player_rec 0 (replicate 128 0) 0 l' r' 0 @ put32 0"
proof -
  let ?w = "[put32 0, put32 (esd_audio_rate s), put32 (esd_audio_format s)]"
  have sw: "swapped c x = put32 x" for x using c(2) by (simp add: swapped_def maybe_swap_32_def)
  have names: "\<forall>p \<in> set (esd_players_list s). player_name p s \<noteq> None"
    using ok by (auto simp: announced_def list_all_iff split: option.splits)
  have si: "server_info c s = (4, says (cl_fd c) s ?w)"
    using c(3) by (simp add: server_info_def sw write_seq_says del: write_seq.simps)
  obtain l r bs where p: "info_players c (esd_players_list s) (map (junk s 0) [0..<4]) (map (junk s 0) [4..<8]) (says (cl_fd c) s ?w)
      = Some (True, l, r, says (cl_fd c) (says (cl_fd c) s ?w) bs)" "length l = 4" "length r = 4"
    "concat bs = concat (map (player_bytes (says (cl_fd c) s ?w)) (esd_players_list s)) @ player_rec 0 (replicate 128 0) 0 l r 0"
    using info_players_says [of "says (cl_fd c) s ?w" c "esd_players_list s" "map (junk s 0) [0..<4]" "map (junk s 0) [4..<8]"]
      c names by auto
  obtain l' r' bs' where m: "info_samples c (esd_samples_list s) l r (says (cl_fd c) (says (cl_fd c) s ?w) bs)
      = (True, says (cl_fd c) (says (cl_fd c) (says (cl_fd c) s ?w) bs) bs')" "length l' = 4" "length r' = 4"
    "concat bs' = concat (map sample_bytes (esd_samples_list s)) @ player_rec 0 (replicate 128 0) 0 l' r' 0 @ put32 0"
    using info_samples_says [of "says (cl_fd c) (says (cl_fd c) s ?w) bs" c l r "esd_samples_list s"] c p(2,3) by auto
  have h: "esd_proto_all_info a s = Some (1, says (cl_fd c) s (?w @ bs @ bs'))"
    using c(1) si p(1) m(1) by (simp add: esd_proto_all_info_def says_says del: upt_rec_numeral)
  have pb: "player_bytes (says (cl_fd c) s ?w) = player_bytes s" by (auto simp: player_bytes_def fun_eq_iff)
  have "answer a s = concat (?w @ bs @ bs')" by (simp add: answer_def h comp_def)
  then show ?thesis using h p(2-4) m(2-4) pb by (intro exI [of _ l] exI [of _ r] exI [of _ l'] exI [of _ r']) simp
qed

lemma write_word_feed: "wres s fd = [] \<Longrightarrow> write_word fd x (feed fd bs s) = (4, feed fd bs (s\<lparr>tx := tx s @ [(fd, put32 x)]\<rparr>))"
  by (simp add: write_word_def sys_write_def feed_def)

lemma read_server_info_feed:
  "read_server_info fd a (feed fd (put32 v @ put32 rate @ put32 fmt @ rest) s)
     = (Some \<lparr>si_version = i32 v, si_format = i32 fmt, si_rate = i32 rate\<rparr>, feed fd rest s)"
  unfolding read_server_info_def by (simp add: Let_def read_feed)

lemma feed_id: "rx s fd = [RdData bs] \<Longrightarrow> bs \<noteq> [] \<Longrightarrow> s = feed fd bs s"
  by (cases s) (auto simp: feed_def)

text \<open>
  C9. What an application is told is what the server has: when the server answers a request for
  all information and the library reads that answer, the call returns the format and the rate of
  the device, and every player and every sample with its fields, each list in the reverse order
  of the server's.
\<close>

theorem all_info_roundtrip:
  fixes s :: "'a esd_server_scheme" and cs :: "'b os_scheme"
  assumes server: "the_client a s = Some c" "\<not> swap_byte_order c" "wres s (cl_fd c) = []" "announced s"
    and client: "mallocs cs = []" "0 < next_addr cs" "wres cs esd = []" "rx cs esd = [RdData (answer a s)]"
  shows "(\<exists>s'. esd_proto_all_info a s = Some (1, s')) \<and> (\<exists>cs'. esd_get_all_info esd cs = Some (Some
    \<lparr>ai_server = \<lparr>si_version = 0, si_format = i32 (esd_audio_format s), si_rate = i32 (esd_audio_rate s)\<rparr>,
     ai_player_list = rev (map (info_of_player s) (esd_players_list s)),
     ai_sample_list = rev (map info_of_sample (esd_samples_list s))\<rparr>, cs'))"
proof -
  obtain l r l' r' s' where h: "esd_proto_all_info a s = Some (1, s')" and len: "length l = 4" "length r = 4" "length l' = 4" "length r' = 4"
    and ans: "answer a s = put32 0 @ put32 (esd_audio_rate s) @ put32 (esd_audio_format s)
        @ concat (map (player_bytes s) (esd_players_list s)) @ player_rec 0 (replicate 128 0) 0 l r 0
        @ concat (map sample_bytes (esd_samples_list s)) @ player_rec 0 (replicate 128 0) 0 l' r' 0 @ put32 0 @ []"
    (is "_ = _ @ _ @ _ @ ?rest")
    using all_info_says [OF server] by auto
  let ?ms = "concat (map sample_bytes (esd_samples_list s)) @ player_rec 0 (replicate 128 0) 0 l' r' 0 @ put32 0 @ []"
  have "answer a s \<noteq> []" by (simp add: ans put32_def)
  then have cs: "cs = feed esd (answer a s) cs" by (rule feed_id [OF client(4)])
  define c1 where "c1 = cs\<lparr>next_addr := Suc (Suc (next_addr cs)), tx := tx cs @ [(esd, put32 ESD_PROTO_ALL_INFO)] @ [(esd, put32 0)]\<rparr>"
  have c1: "mallocs c1 = []" "0 < next_addr c1" by (simp_all add: c1_def client)
  obtain c2 where p: "get_players esd [] (feed esd ?rest c1) = (Some (rev (map (info_of_player s) (esd_players_list s)) @ []), feed esd ?ms c2)"
    and c2: "mallocs c2 = []" "0 < next_addr c2"
    using get_players_feed [OF c1 len(1,2), of s "esd_players_list s" esd "[]" ?ms] server(4)
    by (auto simp: announced_def list_all_iff split: option.splits)
  obtain c3 where m: "get_samples esd [] (feed esd ?ms c2) = (Some (rev (map info_of_sample (esd_samples_list s)) @ []), feed esd [] c3)"
    using get_samples_feed [OF c2 len(3,4), of "esd_samples_list s" esd "[]" "[]"] server(4) by (auto simp: announced_def)
  have w: "malloc 12 (feed esd bs (cs\<lparr>next_addr := Suc (next_addr cs)\<rparr>)) = (Suc (next_addr cs), feed esd bs (cs\<lparr>next_addr := Suc (Suc (next_addr cs))\<rparr>))"
    for bs using client by (simp add: malloc_feed)
  have "esd_get_all_info esd (feed esd (answer a s) cs) = Some (Some
    \<lparr>ai_server = \<lparr>si_version = 0, si_format = i32 (esd_audio_format s), si_rate = i32 (esd_audio_rate s)\<rparr>,
     ai_player_list = rev (map (info_of_player s) (esd_players_list s)),
     ai_sample_list = rev (map info_of_sample (esd_samples_list s))\<rparr>, feed esd [] c3)"
    using client p m unfolding esd_get_all_info_def ans
    by (simp add: malloc_feed w write_word_feed read_server_info_feed c1_def Let_def)
  then show ?thesis using h cs by metis
qed

definition sample1 :: esd_sample where
  "sample1 = \<lparr>sm_addr = 7, sm_parent = 0, sm_format = 0x11, sm_rate = 8000, sm_left_vol = 256, sm_right_vol = 128, sm_id = 3,
     sm_data = [1, 2, 3], sm_length = 3, sm_cached = 3, sm_ref_count = 0, sm_erase_when_done = False,
     sm_name = replicate 128 65\<rparr>"

definition server2 :: esd_server where
  "server2 = (server1 (client1 ESD_NEXT_REQUEST 0) [])\<lparr>esd_samples_list := [sample1]\<rparr>"

theorem all_info_roundtrip_witness:
  "\<exists>cs'. esd_get_all_info 4 (lib0\<lparr>rx := (\<lambda>_. [])(4 := [RdData (answer 1 server2)])\<rparr>) = Some (Some
    \<lparr>ai_server = \<lparr>si_version = 0, si_format = 0x21, si_rate = 44100\<rparr>, ai_player_list = [],
     ai_sample_list = [\<lparr>mi_sample_id = 3, mi_name = replicate 127 65 @ [0], mi_rate = 8000, mi_left_vol_scale = 256,
       mi_right_vol_scale = 128, mi_format = 0x11, mi_length = 3\<rparr>]\<rparr>, cs')"
proof -
  let ?cs = "lib0\<lparr>rx := (\<lambda>_. [])(4 := [RdData (answer 1 server2)])\<rparr>"
  have c: "the_client 1 server2 = Some (client1 ESD_NEXT_REQUEST 0)"
    by (simp add: the_client_def server2_def server1_def client1_def)
  have "\<exists>cs'. esd_get_all_info 4 ?cs = Some (Some
    \<lparr>ai_server = \<lparr>si_version = 0, si_format = i32 (esd_audio_format server2), si_rate = i32 (esd_audio_rate server2)\<rparr>,
     ai_player_list = rev (map (info_of_player server2) (esd_players_list server2)),
     ai_sample_list = rev (map info_of_sample (esd_samples_list server2))\<rparr>, cs')"
    by (rule conjunct2 [OF all_info_roundtrip [OF c]])
      (simp_all add: server2_def server1_def client1_def lib0_def announced_def sample1_def i32_small)
  moreover have "(replicate 128 65 :: octet list)[127 := 0] = replicate 127 65 @ [0]" by code_simp
  ultimately show ?thesis
    by (simp add: server2_def server1_def sample1_def info_of_sample_def i32_small)
qed

end
