(* ===== verification/Esd_Mix_Round.thy ===== *)
theory Esd_Mix_Round
  imports Esd_Mixer Esd_Mix_Laws
begin

text \<open>
  The mixing round (\<open>mix_players\<close>) as a whole: from the translated length of a player follows that
  its mixing function stays inside its data; the second pass adds up all players; and clipped to
  16 bits the sum is what comes out. The last part is about the first pass and short reads.
\<close>

subsection \<open>One player\<close>

text \<open>What is left of a player after \<open>T\<close> frames of it went into the mix.\<close>

definition used_up :: "int \<Rightarrow> nat \<Rightarrow> esd_player \<Rightarrow> nat" where
  "used_up arate T p = nat (bytes_per_frame (pl_format p) * (int T * pl_rate p div arate))"

definition advance :: "int \<Rightarrow> nat \<Rightarrow> esd_player \<Rightarrow> esd_player" where
  "advance arate T p =
     (let u = used_up arate T p; rest = nat (pl_actual_length p) - u
      in if pl_actual_length p \<le> 0 then p
         else if rest > 0 then p\<lparr>pl_data := take rest (drop u (pl_data p)) @ drop rest (pl_data p), pl_actual_length := int rest\<rparr>
         else p\<lparr>pl_actual_length := 0\<rparr>)"

lemma bytes_per_frame_cases: "bytes_per_frame fmt =
    (if fmt AND ESD_MASK_BITS = ESD_BITS8 then 1 else 2) * (if fmt AND ESD_MASK_CHAN = ESD_MONO then 1 else 2)"
  by (simp add: bytes_per_frame_def signed_divide_int_def)

lemma frame_bytes_format: "get_mix_func fmt l r = Some f \<Longrightarrow> int (frame_bytes f) = bytes_per_frame fmt"
  by (auto simp: get_mix_func_def frame_bytes_def bytes_per_frame_cases mf_defs Let_def split: if_splits)

text \<open>
  A player that has enough data: its fields are sane, nothing overflows in the computation of its
  translated length, and that length is at least \<open>T\<close> frames.
\<close>

definition playable :: "int \<Rightarrow> int \<Rightarrow> nat \<Rightarrow> esd_player \<Rightarrow> bool" where
  "playable arate len T p \<longleftrightarrow>
     0 < pl_rate p \<and> 2 * int T * pl_rate p < 2147483648
     \<and> pl_actual_length p \<le> int (length (pl_data p)) \<and> pl_actual_length p < 2147483648
     \<and> pl_actual_length p div bytes_per_frame (pl_format p) * arate + pl_rate p < 2147483648
     \<and> pl_mix_func p = get_mix_func (pl_format p) (pl_left_vol p) (pl_right_vol p) \<and> pl_mix_func p \<noteq> None
     \<and> pl_left_vol p \<in> {0..256} \<and> pl_right_vol p \<in> {0..256}
     \<and> (case translated_length p arate len of Some t \<Rightarrow> 4 * int T \<le> t | None \<Rightarrow> False)"

lemma i32_le: "0 \<le> x \<Longrightarrow> i32 x \<le> x"
proof (cases "x < 2147483648")
  case False
  then have "(2 :: int) ^ 31 \<le> x" by simp
  from signed_take_bit_int_less_eq [OF this] show ?thesis by (simp add: i32_def)
qed (simp add: i32_small)

lemma bytes_per_frame_pos: "0 < bytes_per_frame fmt"
  by (simp add: bytes_per_frame_cases)

lemma translated_bound:
  assumes "0 \<le> pl_actual_length p" "pl_actual_length p < 2147483648" "0 < pl_rate p" "0 \<le> arate"
    "pl_actual_length p div bytes_per_frame (pl_format p) * arate + pl_rate p < 2147483648"
    "translated_length p arate len = Some t"
  shows "t \<le> 4 * ((pl_actual_length p div bytes_per_frame (pl_format p) * arate + pl_rate p - 1) div pl_rate p)"
proof -
  let ?F = "pl_actual_length p div bytes_per_frame (pl_format p)"
  have F: "cdiv (pl_actual_length p) (bytes_per_frame (pl_format p)) = Some ?F"
    using assms(1,2) bytes_per_frame_pos by (intro cdiv_pos) auto
  have n: "0 \<le> ?F" using assms(1) bytes_per_frame_pos by (simp add: pos_imp_zdiv_nonneg_iff)
  then have m: "0 \<le> ?F * arate" using assms(4) by simp
  have i: "i32 (i32 (i32 (?F * arate) + pl_rate p) - 1) = ?F * arate + pl_rate p - 1"
    using m assms(3,5) by (simp add: i32_small)
  have d: "cdiv (?F * arate + pl_rate p - 1) (pl_rate p) = Some ((?F * arate + pl_rate p - 1) div pl_rate p)"
    using m assms(3,5) by (intro cdiv_pos) auto
  have "0 \<le> 4 * ((?F * arate + pl_rate p - 1) div pl_rate p)" using m assms(3) by (simp add: pos_imp_zdiv_nonneg_iff)
  from i32_le [OF this] show ?thesis
    using assms(6) F i d by (auto simp: translated_length_def Let_def mult.commute split: if_splits)
qed

lemma frames_before:
  assumes "0 < r" "0 < a" "j < T" "int T \<le> (F * a + r - 1) div r"
  shows "int j * r div a < F"
proof -
  have "int T * r \<le> (F * a + r - 1) div r * r" using assms by (intro mult_right_mono) auto
  also have "\<dots> \<le> F * a + r - 1" using assms(1) by (metis div_mult_mod_eq le_add_same_cancel1 pos_mod_sign)
  finally have "(int j + 1) * r \<le> F * a + r - 1"
    using assms(1,3) mult_right_mono [of "int j + 1" "int T" r] by linarith
  then have "int j * r < F * a" by (simp add: algebra_simps)
  show ?thesis
  proof (rule ccontr)
    assume "\<not> int j * r div a < F"
    then have "F * a \<le> int j * r div a * a" using assms(2) by (intro mult_right_mono) auto
    also have "\<dots> \<le> int j * r" using assms(2) by (metis div_mult_mod_eq le_add_same_cancel1 pos_mod_sign)
    finally show False using \<open>int j * r < F * a\<close> by simp
  qed
qed

lemma playable_mixable:
  assumes "playable arate len T p" "0 < pl_actual_length p" "0 < arate" "arate < 2147483648"
    "4 * int T < 2147483648" "2 * T \<le> length mb"
  obtains f where "pl_mix_func p = Some f" "mixable f p arate T mb"
proof -
  let ?B = "bytes_per_frame (pl_format p)" and ?F = "pl_actual_length p div bytes_per_frame (pl_format p)"
  obtain f t where f: "pl_mix_func p = Some f" "get_mix_func (pl_format p) (pl_left_vol p) (pl_right_vol p) = Some f"
    and t: "translated_length p arate len = Some t" "4 * int T \<le> t"
    using assms(1) by (auto simp: playable_def split: option.splits) (metis option.exhaust)
  have T: "int T \<le> (?F * arate + pl_rate p - 1) div pl_rate p"
    using translated_bound [OF _ _ _ _ _ t(1)] t(2) assms by (auto simp: playable_def)
  have "frame_bytes f * (src_pos p arate j + 1) \<le> length (pl_data p)" if "j < T" for j
  proof -
    have "int (src_pos p arate j) + 1 \<le> ?F"
      using frames_before [OF _ assms(3) that T] assms(1,3) by (auto simp: playable_def src_pos_def pos_imp_zdiv_nonneg_iff)
    then have "?B * (int (src_pos p arate j) + 1) \<le> ?B * ?F" using bytes_per_frame_pos [of "pl_format p"] by (intro mult_left_mono) auto
    also have "\<dots> \<le> pl_actual_length p"
      using bytes_per_frame_pos [of "pl_format p"] by (metis div_mult_mod_eq le_add_same_cancel1 mult.commute pos_mod_sign)
    also have "\<dots> \<le> int (length (pl_data p))" using assms(1) by (simp add: playable_def)
    also have "?B * (int (src_pos p arate j) + 1) = int (frame_bytes f * (src_pos p arate j + 1))"
      by (simp add: frame_bytes_format [OF f(2)] algebra_simps)
    finally show ?thesis by (simp only: of_nat_le_iff)
  qed
  with assms have "mixable f p arate T mb" by (simp add: mixable_def playable_def)
  with f(1) show thesis by (rule that)
qed

lemma used_length_eq:
  assumes "0 < pl_rate p" "pl_rate p < 2147483648" "2 * int T * pl_rate p < 2147483648" "1 < arate" "arate < 2147483648"
    "4 * int T < 2147483648"
  shows "used_length p (4 * int T) arate = Some (int (used_up arate T p))"
proof -
  let ?x = "int T * pl_rate p" and ?q = "int T * pl_rate p div arate"
  have x: "0 \<le> ?x" "?x < 1073741824" using assms by (simp_all add: mult.commute)
  have q: "0 \<le> ?q" using assms x by (simp add: pos_imp_zdiv_nonneg_iff)
  have "?q * arate \<le> ?x" using assms(4) by (metis div_mult_mod_eq le_add_same_cancel1 pos_mod_sign zero_less_one order.strict_trans)
  moreover have "?q * 2 \<le> ?q * arate" using q assms(4) by (intro mult_left_mono) auto
  ultimately have q2: "?q < 536870912" using x by linarith
  have u: "u64 (u64 (4 * int T) div 4 * u64 (pl_rate p)) div u64 arate = ?q" "u64 arate \<noteq> 0"
    using assms x by (simp_all add: u64_id)
  have i: "i32 ?q = ?q" "i32 (?q * 2) = ?q * 2" "i32 (4 * ?q) = 4 * ?q" using q q2 by (simp_all add: i32_small)
  show ?thesis
    using u q unfolding used_length_def by (simp add: Let_def i used_up_def bytes_per_frame_cases)
qed

lemma consume_eq:
  assumes "0 < pl_actual_length p" "pl_actual_length p \<le> int (length (pl_data p))" "pl_actual_length p < 2147483648"
    "int (used_up arate T p) < 2147483648"
  shows "consume p (int (used_up arate T p)) = Some (advance arate T p)"
proof -
  define u where "u = used_up arate T p"
  define n where "n = nat (pl_actual_length p)"
  have n: "pl_actual_length p = int n" "0 < n" "n \<le> length (pl_data p)" using assms by (simp_all add: n_def)
  have i: "i32 (int n - int u) = int n - int u" 
  proof (rule i32_small)
    show "- 2147483648 \<le> int n - int u" using assms(4) by (simp add: u_def)
    show "int n - int u < 2147483648" using assms(3) n(1) by linarith
  qed
  show ?thesis
  proof (cases "u < n")
    case True
    then have d: "i32 (int n - int u) = int (n - u)" using i by simp
    have l: "length (take (n - u) (drop u (pl_data p))) = n - u" using n(3) True by simp
    have "blit (pl_data p) 0 (take (n - u) (drop u (pl_data p))) = Some (take (n - u) (drop u (pl_data p)) @ drop (n - u) (pl_data p))"
      using blit_zero [of "take (n - u) (drop u (pl_data p))" "pl_data p"] n(3) unfolding l by simp
    then show ?thesis unfolding consume_def advance_def u_def [symmetric] n(1) d
      using True n(2,3) by (simp add: Let_def del: of_nat_diff)
  next
    case False
    show ?thesis unfolding consume_def advance_def u_def [symmetric] n(1) i using False n by (simp add: Let_def)
  qed
qed

subsection \<open>All players\<close>

definition sounding :: "esd_player list \<Rightarrow> esd_player list" where
  "sounding ps = filter (\<lambda>p. pl_actual_length p > 0) ps"

definition mix_of :: "int \<Rightarrow> nat \<Rightarrow> esd_player list \<Rightarrow> int list \<Rightarrow> int list" where
  "mix_of arate T ps mb = fold (\<lambda>p. mixed_in (the (pl_mix_func p)) p arate T) (sounding ps) mb"

lemma length_mixed_in [simp]: "length (mixed_in f p arate T mb) = length mb"
  by (simp add: mixed_in_def add_frames_def)

lemma advance_addr [simp]: "pl_addr (advance arate T p) = pl_addr p"
  by (simp add: advance_def Let_def)

lemma used_up_bound:
  assumes "playable arate len T p" "0 < pl_actual_length p" "1 < arate" "arate < 2147483648" "4 * int T < 2147483648"
  shows "used_length p (4 * int T) arate = Some (int (used_up arate T p))" "int (used_up arate T p) < 2147483648"
proof -
  have "0 \<le> pl_actual_length p div bytes_per_frame (pl_format p) * arate"
    using assms bytes_per_frame_pos by (simp add: pos_imp_zdiv_nonneg_iff)
  then have r: "0 < pl_rate p" "pl_rate p < 2147483648" "2 * int T * pl_rate p < 2147483648" using assms(1) by (simp_all add: playable_def)
  show *: "used_length p (4 * int T) arate = Some (int (used_up arate T p))"
    by (rule used_length_eq [OF r assms(3-5)])
  then obtain x where "i32 x = int (used_up arate T p)"
    by (auto simp: used_length_def Let_def split: if_splits)
  then show "int (used_up arate T p) < 2147483648" using i32_range(2) by metis
qed

lemma mix_add_pass_sums:
  assumes rates: "1 < esd_audio_rate s" "esd_audio_rate s < 2147483648" "4 * int T < 2147483648" "2 * T \<le> length (mixed_buffer s)"
    and ps: "esd_players_list s = done @ ps" "distinct (map pl_addr (done @ ps))"
    and ok: "list_all (\<lambda>p. 0 < pl_actual_length p \<longrightarrow> playable (esd_audio_rate s) len T p) ps"
  shows "mix_add_pass (map pl_addr ps) (4 * int T) mx s = Some (if sounding ps = [] then mx else max mx (4 * int T),
    s\<lparr>esd_players_list := done @ map (advance (esd_audio_rate s) T) ps,
      mixed_buffer := mix_of (esd_audio_rate s) T ps (mixed_buffer s)\<rparr>)"
  using assms
proof (induction ps arbitrary: "done" mx s)
  case Nil
  then show ?case by (simp add: sounding_def mix_of_def)
next
  case (Cons p ps)
  have nd: "node pl_addr (pl_addr p) (esd_players_list s) = Some p"
    using Cons.prems(5,6) node_distinct [of pl_addr "done @ p # ps" p] by simp
  show ?case
  proof (cases "0 < pl_actual_length p")
    case False
    then have "advance (esd_audio_rate s) T p = p" by (simp add: advance_def Let_def)
    then show ?thesis using Cons.IH [of s "done @ [p]" mx] Cons.prems False nd
      by (simp add: sounding_def mix_of_def)
  next
    case True
    note pl = Cons.prems(7) [simplified, THEN conjunct1, rule_format, OF True]
    obtain f where f: "pl_mix_func p = Some f" "mixable f p (esd_audio_rate s) T (mixed_buffer s)"
      using playable_mixable [OF pl True _ Cons.prems(2,3,4)] Cons.prems(1) by auto
    note u = used_up_bound [OF pl True Cons.prems(1-3)]
    have c: "consume p (int (used_up (esd_audio_rate s) T p)) = Some (advance (esd_audio_rate s) T p)"
      using pl True u(2) by (intro consume_eq) (simp_all add: playable_def)
    let ?q = "advance (esd_audio_rate s) T p"
    define s1 where "s1 = (set_player (pl_addr p) (\<lambda>_. ?q) s)\<lparr>mixed_buffer := mixed_in f p (esd_audio_rate s) T (mixed_buffer s)\<rparr>"
    have "upd_node pl_addr (pl_addr p) (\<lambda>_. ?q) (done @ p # ps) = done @ ?q # ps"
      using Cons.prems(6) by (auto simp: upd_node_def image_iff intro!: map_idI)
    then have l1: "esd_players_list s1 = (done @ [?q]) @ ps" using Cons.prems(5) by (simp add: s1_def set_player_def)
    have "mix_add_pass (map pl_addr (p # ps)) (4 * int T) mx s
        = mix_add_pass (map pl_addr ps) (4 * int T) (max mx (4 * int T)) s1"
      using nd True f(1) call_mix_func_adds [OF f(2)] u(1) c by (simp add: s1_def max_def)
    also have "\<dots> = Some (if sounding ps = [] then max mx (4 * int T) else max (max mx (4 * int T)) (4 * int T),
        s1\<lparr>esd_players_list := (done @ [?q]) @ map (advance (esd_audio_rate s1) T) ps,
           mixed_buffer := mix_of (esd_audio_rate s1) T ps (mixed_buffer s1)\<rparr>)"
      by (rule Cons.IH) (use Cons.prems l1 in \<open>simp_all add: s1_def set_player_def\<close>)
    finally show ?thesis
      using True f(1) by (simp add: s1_def set_player_def sounding_def mix_of_def)
  qed
qed

subsection \<open>The sum\<close>

text \<open>What a player contributes to cell \<open>i\<close> of the mix.\<close>

definition voice :: "int \<Rightarrow> esd_player \<Rightarrow> nat \<Rightarrow> int" where
  "voice arate p i = (let f = the (pl_mix_func p) in
     chan (scale_frame f (pl_left_vol p) (pl_right_vol p) (src_frame f (pl_data p) (src_pos p arate (i div 2)))) i)"

lemma mixed_in_cell:
  "i < 2 * T \<Longrightarrow> i < length mb \<Longrightarrow> mixed_in (the (pl_mix_func p)) p arate T mb ! i = i32 (mb ! i + voice arate p i)"
  by (simp add: mixed_in_def add_frames_def voice_def Let_def)

lemma src_frame_range:
  "- 32768 \<le> fst (src_frame f bs k)" "fst (src_frame f bs k) < 32768"
  "- 32768 \<le> snd (src_frame f bs k)" "snd (src_frame f bs k) < 32768"
  using smp_range by (simp_all add: src_frame_def)

lemma voice_range:
  assumes "pl_left_vol p \<in> {0..256}" "pl_right_vol p \<in> {0..256}"
  shows "- 32768 \<le> voice arate p i \<and> voice arate p i \<le> 32767"
proof -
  let ?f = "the (pl_mix_func p)"
  define l r where "l = pl_left_vol p" and "r = pl_right_vol p"
  define x y where "x = fst (src_frame ?f (pl_data p) (src_pos p arate (i div 2)))"
    and "y = snd (src_frame ?f (pl_data p) (src_pos p arate (i div 2)))"
  have v: "0 \<le> l" "l \<le> 256" "0 \<le> r" "r \<le> 256" using assms by (simp_all add: l_def r_def)
  have xy: "- 32768 \<le> x" "x < 32768" "- 32768 \<le> y" "y < 32768" using src_frame_range by (simp_all add: x_def y_def)
  note b = scale_bound [OF xy(1,2) v(1,2)] scale_bound [OF xy(3,4) v(3,4)]
  have d: "- 32768 \<le> (x * l sdiv 256) * r sdiv 256 \<and> (x * l sdiv 256) * r sdiv 256 < 32768"
    using scale_bound [of "x * l sdiv 256" r] b(1) v by simp
  have "voice arate p i = chan (if mf_sv ?f then (x, y) else if ?f = mix_mono_8u then
      ((x * l sdiv 256) * r sdiv 256, (x * l sdiv 256) * r sdiv 256) else (x * l sdiv 256, y * r sdiv 256)) i"
    by (simp add: voice_def scale_frame_def Let_def x_def y_def l_def r_def)
  then show ?thesis using xy b d by (auto simp: chan_def)
qed

lemma cell_bound: "\<bar>a + v\<bar> \<le> 32768 * (k + 1)" if "\<bar>a\<bar> \<le> 32768 * k" "- 32768 \<le> v" "v \<le> 32767" for a v k :: int
  using that by (simp add: abs_le_iff algebra_simps)

lemma cell_fits: "\<bar>a\<bar> \<le> 32768 * k \<Longrightarrow> k \<le> 65535 \<Longrightarrow> i32 a = a" for a k :: int
  by (rule i32_small) (auto simp: abs_le_iff)

lemma mixed_cells:
  assumes "list_all (\<lambda>p. pl_left_vol p \<in> {0..256} \<and> pl_right_vol p \<in> {0..256}) ps"
    and "\<bar>mb ! i\<bar> \<le> 32768 * int k" "k + length ps \<le> 65535" "i < 2 * T" "2 * T \<le> length mb"
  shows "fold (\<lambda>p. mixed_in (the (pl_mix_func p)) p arate T) ps mb ! i = mb ! i + sum_list (map (\<lambda>p. voice arate p i) ps)"
  using assms
proof (induction ps arbitrary: mb k)
  case (Cons p ps)
  let ?mb = "mixed_in (the (pl_mix_func p)) p arate T mb"
  have v: "- 32768 \<le> voice arate p i \<and> voice arate p i \<le> 32767" using voice_range Cons.prems(1) by simp
  have k: "int k + 1 \<le> 65535" using Cons.prems(3) by simp
  have b: "\<bar>mb ! i + voice arate p i\<bar> \<le> 32768 * (int k + 1)"
    using cell_bound [OF Cons.prems(2) conjunct1 [OF v] conjunct2 [OF v]] .
  have "?mb ! i = i32 (mb ! i + voice arate p i)" by (rule mixed_in_cell) (use Cons.prems(4,5) in simp_all)
  also have "\<dots> = mb ! i + voice arate p i" by (rule cell_fits [OF b k])
  finally have c: "?mb ! i = mb ! i + voice arate p i" .
  have "fold (\<lambda>p. mixed_in (the (pl_mix_func p)) p arate T) ps ?mb ! i = ?mb ! i + sum_list (map (\<lambda>p. voice arate p i) ps)"
    by (rule Cons.IH [of _ "Suc k"]) (use Cons.prems b c in \<open>simp_all add: add.commute\<close>)
  then show ?case using c by simp
qed simp

text \<open>
  C3. The mix is the sum: when the first pass of a round has found \<open>T\<close> frames in every player that
  has data, what comes out on a 16 bit device is, in each of the \<open>2 * T\<close> shorts, the sum of the
  players' resampled and volume-scaled sounds, saturated at the limits of 16 bits. No buffer is
  overrun and no sum wraps around, and every player has moved on by the frames it gave.
\<close>

theorem mix_players_sums:
  assumes read: "mix_read_pass (map pl_addr (esd_players_list s)) len 0
      (s\<lparr>mixed_buffer := replicate (nat (esd_buf_size_samples s)) 0 @ drop (nat (esd_buf_size_samples s)) (mixed_buffer s)\<rparr>)
      = Some (4 * int T, s1)"
    and bufs: "mixed_buffer s1 = replicate (nat (esd_buf_size_samples s)) 0 @ drop (nat (esd_buf_size_samples s)) (mixed_buffer s)"
      "esd_buf_size_samples s \<le> int (length (mixed_buffer s))" "2 * int T \<le> esd_buf_size_samples s" "4 * T \<le> length obuf"
    and dev: "esd_audio_format s1 AND ESD_MASK_BITS = ESD_BITS16" "1 < esd_audio_rate s1" "esd_audio_rate s1 < 2147483648"
      "0 < T" "4 * int T < 2147483648"
    and ps: "distinct (map pl_addr (esd_players_list s1))"
      "list_all (\<lambda>p. 0 < pl_actual_length p \<longrightarrow> playable (esd_audio_rate s1) len T p) (esd_players_list s1)"
      "sounding (esd_players_list s1) \<noteq> []" "length (sounding (esd_players_list s1)) < 65536"
  shows "\<exists>out s'. mix_players obuf len s = Some (4 * int T, out, s') \<and> length out = length obuf
    \<and> (\<forall>i < 2 * T. ss_at out (int i) = Some (max (-32768) (min 32767
          (sum_list (map (\<lambda>p. voice (esd_audio_rate s1) p i) (sounding (esd_players_list s1)))))))
    \<and> esd_players_list s' = map (advance (esd_audio_rate s1) T) (esd_players_list s1)"
proof -
  define mb where "mb = mixed_buffer s1"
  define ps' where "ps' = esd_players_list s1"
  define s2 where "s2 = s1\<lparr>esd_players_list := map (advance (esd_audio_rate s1) T) ps', mixed_buffer := mix_of (esd_audio_rate s1) T ps' mb\<rparr>"
  have mb: "2 * T \<le> length mb" "\<forall>i < 2 * T. mb ! i = 0" using bufs by (auto simp: mb_def nth_append)
  have add: "mix_add_pass (map pl_addr ps') (4 * int T) 0 s1 = Some (4 * int T, s2)"
    using mix_add_pass_sums [OF dev(2,3,5), of "[]" ps' len 0] mb(1) ps by (simp add: mb_def ps'_def s2_def)
  have vols: "list_all (\<lambda>p. pl_left_vol p \<in> {0..256} \<and> pl_right_vol p \<in> {0..256}) (sounding ps')"
    using ps(2) by (auto simp: list_all_iff sounding_def playable_def ps'_def)
  have cell: "mix_of (esd_audio_rate s1) T ps' mb ! i = sum_list (map (\<lambda>p. voice (esd_audio_rate s1) p i) (sounding ps'))"
    if "i < 2 * T" for i
    using mixed_cells [OF vols, of mb i 0 T "esd_audio_rate s1"] that mb ps(4) by (simp add: mix_of_def ps'_def)
  have len: "length (mix_of ar T qs mb) = length mb" for ar qs
  proof -
    have "length (fold (\<lambda>p. mixed_in (the (pl_mix_func p)) p ar T) ys b) = length b" for ys b
      by (induction ys arbitrary: b) auto
    then show ?thesis by (simp add: mix_of_def)
  qed
  obtain out where out: "clip_mix_to_output_16s obuf (4 * int T) (mix_of (esd_audio_rate s1) T ps' mb) = Some out"
      "length out = length obuf"
      "\<forall>i < 2 * T. ss_at out (int i) = Some (max (-32768) (min 32767 (mix_of (esd_audio_rate s1) T ps' mb ! i)))"
    using clip_16s_ref [of T "mix_of (esd_audio_rate s1) T ps' mb" obuf] dev(5) mb(1) bufs(4) len by auto
  have "mix_players obuf len s = Some (4 * int T, out, s2)"
    using read bufs(2) dev(1,4) add out(1) by (simp add: mix_players_def Let_def ps'_def s2_def)
  then show ?thesis using out(2,3) cell by (auto simp: s2_def ps'_def)
qed

definition full_player :: "addr \<Rightarrow> octet list \<Rightarrow> esd_player" where
  "full_player a bs = (player0 0x21 256 256 bs)\<lparr>pl_addr := a, pl_rate := 44100, pl_mix_func := Some mix_stereo_16s_sv\<rparr>"

definition mixer0 :: esd_server where
  "mixer0 = \<lparr>rx = (\<lambda>_. []), wres = (\<lambda>_. []), tx = [], sel_err = (\<lambda>_. False),
     wrdy = (\<lambda>_. True), closed = [], mallocs = [], next_addr = 5, junk = (\<lambda>_ _. 0), clock = [], accepts = [],
     esd_audio_format = 0x21, esd_audio_rate = 44100, esd_audio_fd = 3, select_works = True,
     esd_write_size = 8, dev_open = [], dev_ioctl = [], dev_select = [], esd_clients_list = [],
     esd_players_list = [full_player 1 [0, 127, 0, 1, 2, 0, 0, 0], full_player 2 [0, 127, 0, 1, 3, 0, 0, 128]],
     esd_recorder_list = [], esd_monitor_list = [],
     esd_filter_list = [], esd_samples_list = [], esd_playing_samples = 0, esd_next_sample_id = 1,
     esd_is_owned = True, esd_is_locked = False, esd_owner_key = replicate 16 7, esd_on_standby = False,
     esd_on_autostandby = False, esd_forced_standby = False, esd_buf_size_octets = 8, esd_buf_size_samples = 4,
     mixed_buffer = [9, 9, 9, 9], output_buffer = replicate 8 0, esd_first_filter_func = None\<rparr>"

lemma full_player_fields:
  "pl_addr (full_player a bs) = a" "pl_format (full_player a bs) = 0x21" "pl_rate (full_player a bs) = 44100"
  "pl_left_vol (full_player a bs) = 256" "pl_right_vol (full_player a bs) = 256" "pl_data (full_player a bs) = bs"
  "pl_actual_length (full_player a bs) = int (length bs)" "pl_buffer_length (full_player a bs) = 8"
  "pl_mix_func (full_player a bs) = Some mix_stereo_16s_sv" "pl_source_id (full_player a bs) = 5"
  by (simp_all add: full_player_def player0_def)

lemma full_player_translated: "length bs = 8 \<Longrightarrow> translated_length (full_player a bs) 44100 8 = Some 8"
  by (simp add: translated_length_def full_player_fields cdiv_def bytes_per_frame_cases signed_divide_int_def i32_small)

theorem mix_players_sums_witness:
  "\<exists>out s'. mix_players (replicate 8 0) 8 mixer0 = Some (8, out, s') \<and> length out = 8
    \<and> ss_at out 0 = Some 32767 \<and> ss_at out 1 = Some 512 \<and> ss_at out 2 = Some 5 \<and> ss_at out 3 = Some (-32768)"
proof -
  let ?s1 = "mixer0\<lparr>mixed_buffer := [0, 0, 0, 0]\<rparr>"
  let ?ps = "[full_player 1 [0, 127, 0, 1, 2, 0, 0, 0], full_player 2 [0, 127, 0, 1, 3, 0, 0, 128]]"
  have r: "read_player (full_player a bs) s = Some (0, full_player a bs, s)" if "length bs = 8" for a bs and s :: esd_server
    using that by (simp add: read_player_def read_stream_player_def full_player_fields)
  have z: "replicate (nat (esd_buf_size_samples mixer0)) 0 @ drop (nat (esd_buf_size_samples mixer0)) (mixed_buffer mixer0) = [0, 0, 0, 0 :: int]"
    by (simp add: mixer0_def numeral_eq_Suc)
  have read: "mix_read_pass (map pl_addr (esd_players_list mixer0)) 8 0
      (mixer0\<lparr>mixed_buffer := replicate (nat (esd_buf_size_samples mixer0)) 0 @ drop (nat (esd_buf_size_samples mixer0)) (mixed_buffer mixer0)\<rparr>)
      = Some (4 * int 2, ?s1)"
    unfolding z by (simp add: mixer0_def full_player_fields r full_player_translated set_player_def)
  have pl: "playable 44100 8 2 (full_player a bs)" if "length bs = 8" for a bs
    using that full_player_translated [OF that]
    by (simp add: playable_def full_player_fields bytes_per_frame_cases get_mix_func_def)
  have m: "esd_audio_rate ?s1 = 44100" "esd_players_list ?s1 = ?ps" by (simp_all add: mixer0_def)
  have so: "sounding ?ps = ?ps" by (simp add: sounding_def full_player_fields)
  have "\<exists>out s'. mix_players (replicate 8 0) 8 mixer0 = Some (4 * int 2, out, s') \<and> length out = length (replicate 8 0 :: octet list)
    \<and> (\<forall>i < 2 * 2. ss_at out (int i) = Some (max (-32768) (min 32767
          (sum_list (map (\<lambda>p. voice (esd_audio_rate ?s1) p i) (sounding (esd_players_list ?s1)))))))
    \<and> esd_players_list s' = map (advance (esd_audio_rate ?s1) 2) (esd_players_list ?s1)"
    by (rule mix_players_sums [OF read], unfold z) (simp_all add: mixer0_def sounding_def pl full_player_fields)
  then obtain out s' where o: "mix_players (replicate 8 0) 8 mixer0 = Some (8, out, s')" "length out = 8"
      "\<forall>i < 4. ss_at out (int i) = Some (max (-32768) (min 32767 (sum_list (map (\<lambda>p. voice 44100 p i) ?ps))))"
    unfolding m so by auto
  have v: "voice 44100 (full_player a bs) i = smp mix_stereo_16s_sv bs i" if "i = 0 \<or> i = 1 \<or> i = 2 \<or> i = 3" for a bs i
    using that by (auto simp: voice_def full_player_fields scale_frame_def mf_defs src_frame_def src_pos_def chan_def)
  have s: "ss_at out (int 0) = Some 32767" "ss_at out (int 1) = Some 512" "ss_at out (int 2) = Some 5" "ss_at out (int 3) = Some (-32768)"
    using o(3) [rule_format, of 0] o(3) [rule_format, of 1] o(3) [rule_format, of 2] o(3) [rule_format, of 3]
    by (simp_all add: v smp_def mf_defs le16_def i16_def)
  then show ?thesis using o(1,2) by auto
qed

subsection \<open>Short reads\<close>

text \<open>
  C23. A short read is lost, and with it the minimum of the round: when a stream has fewer bytes
  ready than its empty buffer holds, they are taken from the socket but not counted, and the
  first pass goes on as if no player before this one had been seen.
\<close>

theorem short_read_forgets:
  assumes p: "node pl_addr a (esd_players_list s) = Some p" "pl_format p AND ESD_MASK_MODE = ESD_STREAM"
      "pl_actual_length p = 0" "length (pl_data p) = nat (pl_buffer_length p)" "0 < pl_rate p" "pl_rate p < 2147483648"
    and read: "rx s (pl_source_id p) = RdData bs # r" "bs \<noteq> []" "int (length bs) < pl_buffer_length p"
    and len: "0 \<le> len" "0 \<le> mn"
  shows "\<exists>q. pl_actual_length q = 0 \<and> mix_read_pass (a # as) len mn s
    = mix_read_pass as len 0 (set_player a (\<lambda>_. q) (s\<lparr>rx := (rx s)(pl_source_id p := r)\<rparr>))"
proof -
  let ?q = "p\<lparr>pl_data := bs @ drop (length bs) (pl_data p)\<rparr>" and ?s = "s\<lparr>rx := (rx s)(pl_source_id p := r)\<rparr>"
  have "sys_read (pl_source_id p) (nat (pl_buffer_length p - pl_actual_length p)) s = ((int (length bs), False, bs), ?s)"
  proof -
    have "length bs < nat (pl_buffer_length p - pl_actual_length p)" using p(3) read(3) by linarith
    then show ?thesis using read(1) by (simp add: sys_read_def)
  qed
  moreover have "blit (pl_data p) 0 bs = Some (pl_data ?q)" using p(4) read(3) by (simp add: blit_zero)
  ultimately have rp: "read_player p s = Some (int (length bs), ?q, ?s)"
    using p(2,3) read by (simp add: read_player_def read_stream_player_def sys_select_rd_def Let_def)
  have "cdiv (pl_rate p - 1) (pl_rate p) = Some 0"
  proof -
    have "(pl_rate p - 1) div pl_rate p = 0" by (rule div_pos_pos_trivial) (use p(5) in simp_all)
    moreover have "cdiv (pl_rate p - 1) (pl_rate p) = Some ((pl_rate p - 1) div pl_rate p)"
      by (rule cdiv_pos) (use p(5,6) in simp_all)
    ultimately show ?thesis by (simp only:)
  qed
  moreover have "cdiv 0 (bytes_per_frame (pl_format p)) = Some 0"
    using bytes_per_frame_pos [of "pl_format p"] cdiv_pos [of 0] by simp
  ultimately have tl: "translated_length ?q arate len = Some 0" for arate
    using p(3,5,6) len by (simp add: translated_length_def i32_small)
  have "mix_read_pass (a # as) len mn s = mix_read_pass as len 0 (set_player a (\<lambda>_. ?q) ?s)"
    using p(1,3) rp tl len(2) read(2) by simp
  then show ?thesis using p(3) by (intro exI [of _ ?q]) simp
qed

theorem short_read_forgets_witness:
  "\<exists>q. pl_actual_length q = 0 \<and> mix_read_pass [1, 2] 8 4
      (mixer0\<lparr>rx := (\<lambda>_. [])(5 := [RdData [1, 2]]), esd_players_list := [(full_player 1 (replicate 8 0))\<lparr>pl_actual_length := 0\<rparr>]\<rparr>)
    = mix_read_pass [2] 8 0 (set_player 1 (\<lambda>_. q) ((mixer0\<lparr>rx := (\<lambda>_. [])(5 := [RdData [1, 2]]),
        esd_players_list := [(full_player 1 (replicate 8 0))\<lparr>pl_actual_length := 0\<rparr>]\<rparr>)\<lparr>rx := (\<lambda>_. [])(5 := [])\<rparr>))"
proof -
  let ?p = "(full_player 1 (replicate 8 0))\<lparr>pl_actual_length := 0\<rparr>"
  let ?s = "mixer0\<lparr>rx := (\<lambda>_. [])(5 := [RdData [1, 2]]), esd_players_list := [?p]\<rparr>"
  have n: "node pl_addr 1 (esd_players_list ?s) = Some ?p" by (simp add: full_player_fields)
  have "\<exists>q. pl_actual_length q = 0 \<and> mix_read_pass (1 # [2]) 8 4 ?s
    = mix_read_pass [2] 8 0 (set_player 1 (\<lambda>_. q) (?s\<lparr>rx := (rx ?s)(pl_source_id ?p := [])\<rparr>))"
    by (rule short_read_forgets [OF n, of "[1, 2]" "[]"]) (simp_all add: full_player_fields)
  then show ?thesis by (simp add: full_player_fields)
qed

end
