(* ===== verification/Esd_Mix_Fast.thy ===== *)
theory Esd_Mix_Fast
  imports Esd_Mix_Laws
begin

text \<open>
  The mixers without volume scaling (\<open>..._sv\<close> in \<open>mix.c\<close>) are the shortcuts \<open>get_mix_func\<close> takes when both
  volumes are the neutral one. They compute what the general mixers compute.
\<close>

lemma i16_idem: "i16 (i16 x) = i16 x"
  by (simp add: i16_def)

lemma vol_neutral:
  assumes "- 32768 \<le> x" "x < 32768"
  shows "vol x 256 = x"
proof -
  have "i32 (x * 256) = x * 256" using assms by (intro i32_small) linarith+
  then show ?thesis by (simp add: vol_def signed_divide_int_def abs_mult sgn_mult mult_sgn_abs)
qed

lemma i16_vol_neutral: "i16 (vol (i16 x) 256) = i16 x"
  using vol_neutral [OF i16_range] by (simp add: i16_idem)

lemma ss_at_neutral:
  assumes "ss_at b i = Some x"
  shows "vol x 256 = x" and "i16 x = x"
  using ss_at_range [OF assms] vol_neutral i16_small by blast+

lemma loop1_pairs:
  assumes "even (lim - wr)" "wr \<le> lim"
  shows "loop1 put f wr lim b = loop2 put (\<lambda>w. do { x \<leftarrow> f w; y \<leftarrow> f (w + 1); Some (x, y) }) wr lim b"
  using assms
proof (induction "lim - wr" arbitrary: wr b rule: less_induct)
  case less
  show ?case
  proof (cases "wr < lim")
    case False
    then show ?thesis by (simp add: loop1.simps [of put f wr] loop2.simps [of put _ wr])
  next
    case True
    with less.prems have wr2: "wr + 2 \<le> lim" "even (lim - (wr + 2))" by presburger+
    then have IH: "loop1 put f (wr + 2) lim c = loop2 put (\<lambda>w. do { x \<leftarrow> f w; y \<leftarrow> f (w + 1); Some (x, y) }) (wr + 2) lim c"
      for c using less.hyps True by simp
    have one: "loop1 put f w lim c = do { x \<leftarrow> f w; c \<leftarrow> put c w x; loop1 put f (w + 1) lim c }" if "w < lim" for w c
      using that by (subst loop1.simps) simp
    have "loop1 put f wr lim b = do { x \<leftarrow> f wr; b \<leftarrow> put b wr x; y \<leftarrow> f (wr + 1); b \<leftarrow> put b (wr + 1) y; loop1 put f (wr + 2) lim b }"
      using True wr2(1) by (simp add: one [of wr] one [of "Suc wr"])
    also have "\<dots> = loop2 put (\<lambda>w. do { x \<leftarrow> f w; y \<leftarrow> f (w + 1); Some (x, y) }) wr lim b"
      using True by (subst loop2.simps) (use IH in \<open>auto split: Option.bind_split\<close>)
    finally show ?thesis .
  qed
qed


text \<open>The general mixer of the same format.\<close>

definition general :: "mix_func \<Rightarrow> mix_func" where
  "general f = (case f of mix_mono_8u_sv \<Rightarrow> mix_mono_8u | mix_stereo_8u_sv \<Rightarrow> mix_stereo_8u
     | mix_mono_16s_sv \<Rightarrow> mix_mono_16s | mix_stereo_16s_sv \<Rightarrow> mix_stereo_16s | _ \<Rightarrow> f)"

lemma loop2_cong: "(\<And>w. f w = g w) \<Longrightarrow> loop2 put f wr lim b = loop2 put g wr lim b"
  by (metis ext)

lemma fast_mono:
  assumes "pl_left_vol p = 256" "pl_right_vol p = 256"
  shows "mix_mono_8u_to_stereo_32s p len arate mb = mix_mono_8u_to_stereo_32s_sv p len arate mb"
    and "mix_mono_16s_to_stereo_32s p len arate mb = mix_mono_16s_to_stereo_32s_sv p len arate mb"
  unfolding mix_mono_8u_to_stereo_32s_def mix_mono_8u_to_stereo_32s_sv_def mix_mono_16s_to_stereo_32s_def
    mix_mono_16s_to_stereo_32s_sv_def
  using assms
  by (intro arg_cong [of _ _ mix_result] loop2_cong;
      auto simp: from_8u_def i16_vol_neutral ss_at_neutral Let_def split: Option.bind_split)+

lemma mix_lim_even:
  assumes "0 \<le> len" "len mod 4 = 0" "len < 2147483648"
  shows "even (mix_lim len)"
proof -
  have "u64 len = len" using assms by (simp add: u64_def take_bit_int_eq_self)
  moreover have "even (len div 2)" using assms(2) by presburger
  ultimately show ?thesis using assms(1) by (simp add: mix_lim_def even_nat_iff)
qed

lemma fast_stereo:
  assumes "pl_left_vol p = 256" "pl_right_vol p = 256" "even (mix_lim len)"
  shows "mix_stereo_8u_to_stereo_32s p len arate mb = mix_stereo_8u_to_stereo_32s_sv p len arate mb"
    and "mix_stereo_16s_to_stereo_32s p len arate mb = mix_stereo_16s_to_stereo_32s_sv p len arate mb"
  unfolding mix_stereo_8u_to_stereo_32s_def mix_stereo_8u_to_stereo_32s_sv_def mix_stereo_16s_to_stereo_32s_def
    mix_stereo_16s_to_stereo_32s_sv_def
  using assms
  by (cases "pl_rate p = arate"; simp add: loop1_pairs; intro arg_cong [of _ _ mix_result] loop2_cong;
      auto simp: from_8u_def i16_vol_neutral ss_at_neutral Let_def add.commute split: Option.bind_split)+

text \<open>
  C16. The fast mixers, which skip the scaling, are equivalent to the general ones when both volumes are the
  neutral one: for every whole number of frames they give the same mix, and they fault on the same input.
\<close>

theorem fast_mixers_agree:
  assumes "pl_left_vol p = 256" "pl_right_vol p = 256" "0 \<le> len" "len mod 4 = 0" "len < 2147483648"
    and "get_mix_func (pl_format p) (pl_left_vol p) (pl_right_vol p) = Some f"
  shows "mf_sv f \<and> \<not> mf_sv (general f) \<and> call_mix_func f p len arate mb = call_mix_func (general f) p len arate mb"
proof -
  have "f \<in> {mix_mono_8u_sv, mix_stereo_8u_sv, mix_mono_16s_sv, mix_stereo_16s_sv}"
    using assms(1,2,6) by (auto simp: get_mix_func_def Let_def split: if_splits)
  then show ?thesis
    using fast_mono [OF assms(1,2)] fast_stereo [OF assms(1,2) mix_lim_even [OF assms(3-5)]]
    by (auto simp: general_def mf_sv_def call_mix_func_def)
qed

theorem fast_mixers_agree_witness:
  "call_mix_func mix_stereo_16s_sv (player0 0x21 256 256 [1, 0, 2, 0]) 4 44100 [5, 6]
     = call_mix_func mix_stereo_16s (player0 0x21 256 256 [1, 0, 2, 0]) 4 44100 [5, 6]"
  using fast_mixers_agree [of "player0 0x21 256 256 [1, 0, 2, 0]" 4 mix_stereo_16s_sv 44100 "[5, 6]"]
  by (simp add: player0_def get_mix_func_def general_def)

end
