(* ===== verification/Esd_Auth.thy ===== *)
theory Esd_Auth
  imports Esd_Ownership_Loop Esd_Wire
begin

text \<open>
  Authorisation (\<open>esd_validate_source\<close> and the requests that go through it in \<open>proto.c\<close>): every
  operation but those requests leaves the owner, the key and the lock alone; what the requests may
  do to them; and what follows for polling, for whole runs and for a client that connects.
\<close>

subsection \<open>Who leaves the authorisation state alone\<close>

definition auth :: "'a esd_server_scheme \<Rightarrow> bool \<times> bool \<times> octet list" where
  "auth s = (esd_is_owned s, esd_is_locked s, esd_owner_key s)"

named_theorems asimps "operations that leave the authorisation state alone"

lemma auth_upd [asimps]:
  "auth (s\<lparr>rx := a\<rparr>) = auth s" "auth (s\<lparr>wres := b\<rparr>) = auth s" "auth (s\<lparr>tx := c\<rparr>) = auth s"
  "auth (s\<lparr>closed := d\<rparr>) = auth s" "auth (s\<lparr>mallocs := e\<rparr>) = auth s" "auth (s\<lparr>clock := f\<rparr>) = auth s"
  "auth (s\<lparr>accepts := g\<rparr>) = auth s" "auth (s\<lparr>sel_err := h\<rparr>) = auth s" "auth (s\<lparr>wrdy := i\<rparr>) = auth s"
  "auth (s\<lparr>junk := j\<rparr>) = auth s" "auth (s\<lparr>next_addr := n\<rparr>) = auth s"
  "auth (s\<lparr>esd_audio_format := k\<rparr>) = auth s" "auth (s\<lparr>esd_audio_rate := k\<rparr>) = auth s"
  "auth (s\<lparr>esd_audio_fd := k\<rparr>) = auth s" "auth (s\<lparr>select_works := l\<rparr>) = auth s"
  "auth (s\<lparr>esd_write_size := k\<rparr>) = auth s" "auth (s\<lparr>dev_open := o1\<rparr>) = auth s"
  "auth (s\<lparr>dev_ioctl := o2\<rparr>) = auth s" "auth (s\<lparr>dev_select := o3\<rparr>) = auth s"
  by (simp_all add: auth_def)

lemma auth_upd_server [asimps]:
  "auth (s\<lparr>esd_clients_list := a\<rparr>) = auth s" "auth (s\<lparr>esd_players_list := b\<rparr>) = auth s"
  "auth (s\<lparr>esd_recorder_list := b\<rparr>) = auth s" "auth (s\<lparr>esd_monitor_list := b\<rparr>) = auth s"
  "auth (s\<lparr>esd_filter_list := b\<rparr>) = auth s" "auth (s\<lparr>esd_samples_list := c\<rparr>) = auth s"
  "auth (s\<lparr>esd_playing_samples := d\<rparr>) = auth s" "auth (s\<lparr>esd_next_sample_id := d\<rparr>) = auth s"
  "auth (s\<lparr>esd_on_standby := e\<rparr>) = auth s" "auth (s\<lparr>esd_on_autostandby := e\<rparr>) = auth s"
  "auth (s\<lparr>esd_forced_standby := e\<rparr>) = auth s" "auth (s\<lparr>esd_buf_size_octets := d\<rparr>) = auth s"
  "auth (s\<lparr>esd_buf_size_samples := d\<rparr>) = auth s" "auth (s\<lparr>mixed_buffer := f\<rparr>) = auth s"
  "auth (s\<lparr>output_buffer := g\<rparr>) = auth s" "auth (s\<lparr>esd_first_filter_func := h\<rparr>) = auth s"
  by (simp_all add: auth_def)

lemma auth_upd_daemon [asimps]:
  fixes s :: esd_daemon
  shows "auth (s\<lparr>esd_last_activity := a\<rparr>) = auth s" "auth (s\<lparr>esd_pending_driver_reconnect := b\<rparr>) = auth s"
    "auth (s\<lparr>comm_first := b\<rparr>) = auth s" "auth (s\<lparr>is_paused_here := b\<rparr>) = auth s"
  by (simp_all add: auth_def)

lemma auth_sys [asimps]:
  fixes s :: "'a esd_server_scheme"
  shows "auth (snd (sys_read fd n s)) = auth s" "auth (snd (sys_write fd bs s)) = auth s" "auth (sys_close fd s) = auth s"
    "auth (snd (sys_time s)) = auth s" "auth (snd (malloc k s)) = auth s" "auth (snd (sys_ioctl v s)) = auth s"
    "auth (snd (sys_open_dev s)) = auth s" "auth (snd (sys_select_dev s)) = auth s"
  by (auto simp: sys_read_def sys_write_def sys_close_def sys_time_def malloc_def sys_ioctl_def sys_open_dev_def
      sys_select_dev_def asimps split: list.splits rdres.splits wrres.splits)

interpretation dauth: audio_frame "auth :: 'a esd_server_scheme \<Rightarrow> bool \<times> bool \<times> octet list"
  by unfold_locales (simp_all add: auth_def)

lemmas auth_device [asimps] = dauth.obs_device

lemmas auth_audio_write = dauth.obs_audio_write

lemma auth_lists [asimps]:
  "auth (erase_client a s) = auth s" "auth (set_client a f s) = auth s" "auth (set_sample b g s) = auth s"
  "auth (erase_sample i fl s) = auth s" "auth (add_player p s) = auth s" "auth (add_recorder p s) = auth s"
  "auth (add_sample m s) = auth s" "auth (set_player a h s) = auth s" "auth (set_filter a h s) = auth s"
  "auth (streaming a s) = auth s" "auth (snd (refresh_mix_funcs s)) = auth s" "auth (snd (stop_sample i s)) = auth s"
  by (simp_all add: erase_client_def set_client_def set_sample_def erase_sample_def add_player_def add_recorder_def
      add_sample_def set_player_def set_filter_def streaming_def refresh_mix_funcs_def stop_sample_def case_prod_beta
      asimps Let_def split: option.splits)

lemma auth_free_player: "free_player p s = Some s' \<Longrightarrow> auth s' = auth s"
  by (auto simp: free_player_def Let_def asimps split: if_splits Option.bind_splits)

lemma auth_erase:
  "erase_player a s = Some s' \<Longrightarrow> auth s' = auth s" "erase_recorder a s = Some s' \<Longrightarrow> auth s' = auth s"
  "erase_monitor a s = Some s' \<Longrightarrow> auth s' = auth s" "erase_filter a s = Some s' \<Longrightarrow> auth s' = auth s"
  by (auto simp: erase_player_def erase_recorder_def erase_monitor_def erase_filter_def asimps
      split: option.splits dest!: auth_free_player)

lemma auth_frames:
  "\<exists>f. s' = s\<lparr>rx := f\<rparr> \<Longrightarrow> auth s' = auth s" "\<exists>t w. s' = s\<lparr>tx := t, wres := w\<rparr> \<Longrightarrow> auth s' = auth s"
  by (auto simp: asimps)

lemma auth_read_player: "read_player p s = Some (r, q, s') \<Longrightarrow> auth s' = auth s"
  using auth_frames(1) read_player_frame by metis

lemma auth_write_player: "write_player p b l r fm s = Some (k, q, s') \<Longrightarrow> auth s' = auth s"
  using auth_frames(2) write_player_frame by metis

lemma auth_filter_send: "filter_send fd buf g sz s = Some (d, s') \<Longrightarrow> auth s' = auth s"
  using auth_frames(2) filter_send_frame by metis

lemma auth_mix_read_pass: "mix_read_pass as len mn s = Some (mn', s') \<Longrightarrow> auth s' = auth s"
  by (induction as arbitrary: mn s)
    (fastforce simp: Let_def asimps split: if_splits Option.bind_splits dest: auth_read_player auth_erase(1))+

lemma auth_mix_add_pass: "mix_add_pass as mn mx s = Some (mx', s') \<Longrightarrow> auth s' = auth s"
  by (induction as arbitrary: mx s) (fastforce simp: asimps split: if_splits Option.bind_splits)+

lemma auth_mix_players: "mix_players output len s = Some (r, out, s') \<Longrightarrow> auth s' = auth s"
  by (auto simp: mix_players_def Let_def asimps split: if_splits Option.bind_splits
      dest!: auth_mix_read_pass auth_mix_add_pass)

lemma auth_monitor_write_loop: "monitor_write_loop as output len s = Some s' \<Longrightarrow> auth s' = auth s"
  by (induction as arbitrary: len s)
    (fastforce simp: Let_def case_prod_beta asimps split: if_splits Option.bind_splits dest: auth_erase(3))+

lemma auth_recorder_write_loop: "recorder_write_loop as b len w s = Some (w', s') \<Longrightarrow> auth s' = auth s"
  by (induction as arbitrary: w s)
    (fastforce simp: Let_def asimps split: if_splits Option.bind_splits dest: auth_erase(2) auth_write_player)+

lemma auth_recorder_write: "recorder_write b len s = Some (w, s') \<Longrightarrow> auth s' = auth s"
  by (auto simp: recorder_write_def Let_def asimps split: if_splits Option.bind_splits dest!: auth_recorder_write_loop)

lemma auth_filter_exchange: "filter_exchange a d s = Some (dead, q, s') \<Longrightarrow> auth s' = auth s"
  by (auto simp: filter_exchange_def Let_def asimps split: if_splits Option.bind_splits
      dest!: auth_filter_send auth_read_player)

lemma auth_filter_pass: "filter_pass nxt p b sz fm r s = Some (d, b', s') \<Longrightarrow> auth s' = auth s"
  by (auto simp: filter_pass_def asimps split: Option.bind_splits option.splits)

lemma auth_filter_chain: "filter_chain as b sz fm r d s = Some (d', b', s') \<Longrightarrow> auth s' = auth s"
  by (induction as arbitrary: b d s)
    (fastforce simp: filter_step_def split: if_splits Option.bind_splits
      dest: auth_filter_exchange auth_filter_pass auth_erase(4))+

lemma auth_filter_write: "filter_write b sz fm r s = Some (d, b', s') \<Longrightarrow> auth s' = auth s"
  by (auto simp: filter_write_def Let_def asimps split: list.splits Option.bind_splits dest!: auth_filter_chain)

lemma auth_get_new_clients [asimps]: "auth (snd (get_new_clients s)) = auth s"
proof (induction "accepts s" arbitrary: s)
  case Nil
  then show ?case by (subst get_new_clients.simps) simp
next
  case (Cons x xs)
  obtain fd ok where x: "x = (fd, ok)" by (cases x)
  obtain a s1 where m: "malloc 1120 (s\<lparr>accepts := xs\<rparr>) = (a, s1)" by (metis surj_pair)
  have s1: "accepts s1 = xs" "auth s1 = auth s"
    using malloc_accepts [OF m] auth_sys(5) [of 1120 "s\<lparr>accepts := xs\<rparr>"] by (simp_all add: m asimps)
  have "auth (snd (get_new_clients (add_new_client c s1))) = auth s" for c
    using Cons(1) [of "add_new_client c s1"] s1 by (simp add: add_new_client_def asimps)
  then show ?case
    using Cons(2) x m s1 by (subst get_new_clients.simps) (auto simp: Let_def add_new_client_def asimps split: list.splits)
qed

subsection \<open>Requests\<close>

text \<open>
  What a step may do to the authorisation state: the owner and the key stay once they are there,
  and when the lock changes the client is still connected and has the key in its buffer.
\<close>

definition holds_key :: "addr \<Rightarrow> octet list \<Rightarrow> 'a esd_server_scheme \<Rightarrow> bool" where
  "holds_key client key s \<longleftrightarrow>
     (case the_client client s of None \<Rightarrow> False | Some c \<Rightarrow> take ESD_KEY_LEN (proto_data c) = key)"

definition auth_step :: "addr \<Rightarrow> 'a esd_server_scheme \<Rightarrow> int \<Rightarrow> 'a esd_server_scheme \<Rightarrow> bool" where
  "auth_step client s r s' \<longleftrightarrow>
     (esd_is_owned s \<longrightarrow> esd_is_owned s' \<and> esd_owner_key s' = esd_owner_key s
       \<and> (esd_is_locked s' \<noteq> esd_is_locked s \<longrightarrow> r \<noteq> 0 \<and> holds_key client (esd_owner_key s) s'))"

definition lawful :: "'a handler \<Rightarrow> bool" where
  "lawful h \<longleftrightarrow> (\<forall>client s r s'. h client s = Some (r, s') \<longrightarrow> auth_step client s r s')"

lemma auth_stepI: "auth s' = auth s \<Longrightarrow> auth_step client s r s'"
  by (simp add: auth_def auth_step_def)

lemma lawfulI: "(\<And>client s r s'. h client s = Some (r, s') \<Longrightarrow> auth s' = auth s) \<Longrightarrow> lawful h"
  by (auto simp: lawful_def intro: auth_stepI)

lemma auth_replies [asimps]:
  "auth (snd (reply_int c x s)) = auth s" "auth (snd (write_seq fd bs s)) = auth s" "auth (snd (server_info c s)) = auth s"
  "auth (snd (esd_server_standby s)) = auth s" "auth (snd (esd_server_resume s)) = auth s"
  "auth (snd (reopen_for_record s)) = auth s" "auth (snd (esd_check_endian a e s)) = auth s"
proof -
  show w: "auth (snd (write_seq fd bs s)) = auth s" for fd bs and s :: "'a esd_server_scheme"
    by (induction bs arbitrary: s) (simp_all add: case_prod_beta asimps)
  show "auth (snd (server_info c s)) = auth s" by (simp add: server_info_def w del: write_seq.simps)
qed (simp_all add: reply_int_def esd_server_standby_def esd_server_resume_def reopen_for_record_def
    esd_check_endian_def Let_def case_prod_beta asimps)

lemma auth_new_player: "new_stream_player client s = Some (p, s') \<Longrightarrow> auth s' = auth s"
  by (auto simp: new_stream_player_def Let_def case_prod_beta asimps split: if_splits Option.bind_splits option.splits)

lemma auth_play_sample: "play_sample i l s = Some (r, s') \<Longrightarrow> auth s' = auth s"
  by (auto simp: play_sample_def new_sample_player_def Let_def case_prod_beta asimps
      split: if_splits Option.bind_splits option.splits)

lemma auth_read_sample_loop:
  "read_sample_loop fd sw bufsz len n buf s = Some (r, n', buf', s') \<Longrightarrow> auth s' = auth s"
proof (induction fd sw bufsz len n buf s rule: read_sample_loop.induct)
  case (1 fd sw bufsz len n buf s)
  obtain k t bs s1 where rd: "sys_read fd (nat (min bufsz (len - n))) s = ((k, t, bs), s1)" by (metis surj_pair)
  have s1: "auth s1 = auth s" using auth_sys(1) [of fd "nat (min bufsz (len - n))" s] by (simp add: rd)
  note IH = 1(1) [OF _ rd [symmetric] refl refl]
  show ?case using 1(2) rd s1 IH
    by (subst (asm) read_sample_loop.simps) (fastforce split: if_splits Option.bind_splits)
qed

lemma auth_read_sample: "read_sample a s = Some (r, s') \<Longrightarrow> auth s' = auth s"
  by (auto simp: read_sample_def asimps split: Option.bind_splits dest!: auth_read_sample_loop)

lemma auth_sample_cache: "esd_proto_sample_cache client s = Some (r, s') \<Longrightarrow> auth s' = auth s"
  by (auto simp: esd_proto_sample_cache_def cache_sample_def new_sample_def Let_def case_prod_beta asimps
      split: if_splits Option.bind_splits option.splits dest!: auth_read_sample)

lemma validate_step:
  assumes "esd_validate_source c k own s = (r, s')"
  shows "esd_is_owned s \<Longrightarrow> auth s' = auth s"
    and "esd_is_owned s \<Longrightarrow> own \<Longrightarrow> r \<noteq> 0 \<Longrightarrow> take ESD_KEY_LEN k = esd_owner_key s"
  using assms by (auto simp: esd_validate_source_def asimps split: if_splits)

lemma lists_of_reply [simp]: "esd_clients_list (snd (reply_int c x s)) = esd_clients_list s"
  by (auto simp: reply_int_def sys_write_def split: list.splits wrres.splits)

lemma validate_clients: "esd_validate_source c k own s = (r, s') \<Longrightarrow> esd_clients_list s' = esd_clients_list s"
  by (auto simp: esd_validate_source_def split: if_splits)

lemma auth_fields:
  "esd_is_owned s = fst (auth s)" "esd_is_locked s = fst (snd (auth s))" "esd_owner_key s = snd (snd (auth s))"
  by (simp_all add: auth_def)

lemma lawful_lock: "lawful (esd_proto_lock :: 'a handler)" "lawful (esd_proto_unlock :: 'a handler)"
proof -
  have "auth_step client s r s'"
    if "esd_proto_lock client s = Some (r, s') \<or> esd_proto_unlock client s = Some (r, s')" for client s r and s' :: "'a esd_server_scheme"
  proof -
    from that obtain c where c: "the_client client s = Some c"
      by (auto simp: esd_proto_lock_def esd_proto_unlock_def split: Option.bind_splits)
    obtain ok s1 where v: "esd_validate_source c (proto_data c) True s = (ok, s1)" by (metis surj_pair)
    from that c v obtain x b where s': "r = ok" "s' = snd (reply_int c x (if ok \<noteq> 0 then s1\<lparr>esd_is_locked := b\<rparr> else s1))"
      by (cases "ok = 0") (auto simp: esd_proto_lock_def esd_proto_unlock_def Let_def case_prod_beta)
    have "esd_clients_list s' = esd_clients_list s" using s'(2) validate_clients [OF v] by simp
    moreover have "auth s' = auth (if ok \<noteq> 0 then s1\<lparr>esd_is_locked := b\<rparr> else s1)" using s'(2) by (simp add: asimps)
    ultimately show ?thesis using validate_step [OF v] s'(1) c
      by (auto simp: auth_step_def holds_key_def the_client_def auth_def split: if_splits)
  qed
  then show "lawful (esd_proto_lock :: 'a handler)" "lawful (esd_proto_unlock :: 'a handler)" by (auto simp: lawful_def)
qed

lemma lawful_validated:
  assumes "\<And>client s r s'. h client s = Some (r, s') \<Longrightarrow> \<exists>c k own. auth s' = auth (snd (esd_validate_source c k own s))"
  shows "lawful h"
  unfolding lawful_def
proof (intro allI impI)
  fix client s r s' assume "h client s = Some (r, s')"
  then obtain c k own where a: "auth s' = auth (snd (esd_validate_source c k own s))" using assms by blast
  obtain ok s1 where v: "esd_validate_source c k own s = (ok, s1)" by (metis surj_pair)
  show "auth_step client s r s'"
    using validate_step(1) [OF v] a v by (cases "esd_is_owned s") (auto simp: auth_step_def auth_def)
qed

lemma lawful_owner: "lawful esd_proto_connect" "lawful esd_proto_standby" "lawful esd_proto_resume"
proof -
  show "lawful esd_proto_connect"
    by (rule lawful_validated)
      (auto simp: esd_proto_connect_def Let_def case_prod_beta asimps split: if_splits Option.bind_splits dest!: arg_cong [of _ _ snd], blast+)
  show "lawful esd_proto_standby"
    by (rule lawful_validated)
      (auto simp: esd_proto_standby_def Let_def case_prod_beta asimps split: Option.bind_splits)
  show "lawful esd_proto_resume"
    by (rule lawful_validated)
      (auto simp: esd_proto_resume_def Let_def case_prod_beta asimps split: Option.bind_splits)
qed

lemma lawful_streams:
  "lawful esd_proto_stream_play" "lawful esd_proto_stream_monitor" "lawful esd_proto_stream_filter"
  by (rule lawfulI; auto simp: esd_proto_stream_play_def esd_proto_stream_monitor_def esd_proto_stream_filter_def
      Let_def asimps split: Option.bind_splits option.splits dest!: auth_new_player)+

lemma lawful_recorder: "lawful esd_proto_stream_recorder"
  by (rule lawfulI) (auto simp: esd_proto_stream_recorder_def Let_def case_prod_beta asimps
      split: if_splits Option.bind_splits option.splits dest!: auth_new_player auth_free_player)

lemma lawful_samples:
  "lawful esd_proto_sample_cache" "lawful esd_proto_sample_free" "lawful esd_proto_sample_play" "lawful esd_proto_sample_loop"
  "lawful esd_proto_sample_stop" "lawful esd_proto_sample_getid"
  by (rule lawfulI; auto simp: esd_proto_sample_free_def esd_proto_sample_play_def
      esd_proto_sample_loop_def esd_proto_sample_stop_def esd_proto_sample_getid_def sample_request_def Let_def case_prod_beta asimps
      split: Option.bind_splits dest!: auth_play_sample auth_sample_cache)+

lemma auth_info_players: "info_players c ps l r s = Some (ok, l', r', s') \<Longrightarrow> auth s' = auth s"
  by (induction ps arbitrary: l r s)
    (auto simp: Let_def case_prod_beta asimps split: if_splits Option.bind_splits simp del: write_seq.simps)

lemma auth_info_samples [asimps]: "auth (snd (info_samples c ms l r s)) = auth s"
  by (induction ms arbitrary: l r s) (auto simp: Let_def case_prod_beta asimps simp del: write_seq.simps)

lemma lawful_infos:
  "lawful esd_proto_server_info" "lawful esd_proto_all_info" "lawful esd_proto_standby_mode" "lawful esd_proto_get_latency"
  "lawful esd_proto_unimplemented"
  by (rule lawfulI; auto simp: esd_proto_server_info_def esd_proto_all_info_def esd_proto_standby_mode_def
      esd_proto_get_latency_def esd_proto_unimplemented_def Let_def case_prod_beta asimps
      split: if_splits Option.bind_splits dest!: auth_info_players)+

lemma lawful_pans: "lawful esd_proto_stream_pan" "lawful esd_proto_sample_pan"
  by (rule lawfulI; auto simp: esd_proto_stream_pan_def esd_proto_sample_pan_def pan_request_def Let_def case_prod_beta asimps
      split: Option.bind_splits)+

lemmas lawful_handlers = lawful_lock lawful_owner lawful_streams lawful_recorder lawful_samples lawful_infos lawful_pans

lemma lawful_entry:
  fixes h :: "'a handler"
  assumes "proto_entry r = Some (dl, h)"
  shows "lawful h"
proof -
  have all: "\<forall>e \<in> set (esd_proto_map :: (int \<times> 'a handler) list). lawful (snd e)"
    by (simp add: esd_proto_map_def lawful_handlers)
  have "length (esd_proto_map :: (int \<times> 'a handler) list) = 24" by (simp add: esd_proto_map_def)
  with assms have "(dl, h) \<in> set esd_proto_map"
    by (auto simp: proto_entry_def set_conv_nth split: if_splits intro!: exI [of _ "nat r"])
  with all show ?thesis by fastforce
qed

subsection \<open>Polling\<close>

lemma lawfulD: "lawful h \<Longrightarrow> h a s = Some (r, s') \<Longrightarrow> auth_step a s r s'"
  by (simp add: lawful_def)

lemma handler_step:
  "proto_entry q = Some (dl, h) \<Longrightarrow> h a s1 = Some (r, s') \<Longrightarrow> auth s1 = auth s \<Longrightarrow> auth_step a s r s'"
  using lawfulD [OF lawful_entry, of q dl h a s1 r s'] by (auto simp: auth_step_def auth_def)

lemma poll_needs_reqdata_auth:
  assumes "poll_needs_reqdata a len s = Some (r, len', s')"
  shows "auth_step a s r s'"
  using assms unfolding poll_needs_reqdata_def
  by (auto simp: Let_def case_prod_beta split: if_splits Option.bind_splits)
    (auto simp: asimps intro: auth_stepI elim: handler_step)

lemma poll_next_request_auth:
  assumes "poll_next_request a s = Some (r, len', s')"
  shows "auth_step a s r s'"
  using assms unfolding poll_next_request_def
  by (auto simp: Let_def case_prod_beta split: if_splits Option.bind_splits)
    (auto simp: asimps intro: auth_stepI elim: handler_step)

lemma poll_client_auth:
  assumes "poll_client a len s = Some (len', s')"
  shows "\<exists>r. auth_step a s r s'"
proof -
  have same: ?thesis if "s' = s" using that by (auto intro: auth_stepI)
  have erased: "auth_step a s r (if r = 0 then erase_client a t else t)" if "auth_step a s r t" for r t
  proof (cases "r = 0")
    case True
    with that have "esd_is_owned s \<longrightarrow> auth t = auth s" by (auto simp: auth_step_def auth_def)
    then have "esd_is_owned s \<longrightarrow> auth (erase_client a t) = auth s" by (simp add: asimps)
    with True show ?thesis by (auto simp: auth_step_def auth_def)
  qed (use that in simp)
  from assms same consider "s' = s" | r t where "auth_step a s r t" "s' = (if r = 0 then erase_client a t else t)"
    unfolding poll_client_def
    by (auto split: if_splits Option.bind_splits esd_client_state.splits simp del: if_split)
      (metis poll_needs_reqdata_auth poll_next_request_auth auth_sample_cache auth_stepI)+
  then show ?thesis using same erased by cases blast+
qed

subsection \<open>Runs\<close>

text \<open>The owner and the key stay once they are there.\<close>

definition owner_kept :: "'a esd_server_scheme \<Rightarrow> 'a esd_server_scheme \<Rightarrow> bool" where
  "owner_kept s s' \<longleftrightarrow> (esd_is_owned s \<longrightarrow> esd_is_owned s' \<and> esd_owner_key s' = esd_owner_key s)"

lemma owner_kept_auth: "auth s' = auth s \<Longrightarrow> owner_kept s s'"
  by (simp add: owner_kept_def auth_def)

lemma owner_kept_trans: "owner_kept s t \<Longrightarrow> owner_kept t u \<Longrightarrow> owner_kept s u"
  by (auto simp: owner_kept_def)

lemma poll_loop_owner: "poll_loop as len s = Some s' \<Longrightarrow> owner_kept s s'"
proof (induction as arbitrary: len s)
  case (Cons a as)
  then obtain len1 s1 where p: "poll_client a len s = Some (len1, s1)" "poll_loop as len1 s1 = Some s'"
    by (auto split: Option.bind_splits)
  from poll_client_auth [OF p(1)] have "owner_kept s s1" by (auto simp: auth_step_def owner_kept_def)
  then show ?case using Cons.IH [OF p(2)] by (rule owner_kept_trans)
qed (simp add: owner_kept_auth)

lemma auth_comm_output: "comm_output len buf s = Some s' \<Longrightarrow> auth s' = auth s"
  by (auto simp: comm_output_def monitor_write_def Let_def case_prod_beta asimps split: if_splits Option.bind_splits
      dest!: auth_audio_write auth_monitor_write_loop)

lemma comm_round_owner:
  assumes "comm_round s = Some s'"
  shows "owner_kept s s'"
proof -
  from assms obtain s1 where p: "poll_client_requests s = Some s1" and rest: "auth s' = auth s1"
    unfolding comm_round_def
    by (auto simp: Let_def case_prod_beta asimps split: if_splits Option.bind_splits
        dest!: auth_comm_output auth_filter_write auth_mix_players)
  show ?thesis
    using owner_kept_trans [OF poll_loop_owner owner_kept_auth [OF rest]] p by (auto simp: poll_client_requests_def)
qed

lemma auth_comm_record: "comm_record s = Some s' \<Longrightarrow> auth s' = auth s"
  by (auto simp: comm_record_def Let_def case_prod_beta asimps split: if_splits Option.bind_splits
      dest!: auth_recorder_write)

lemma comm_active_owner:
  assumes "comm_active ready listening s = Some s'"
  shows "owner_kept s s'"
proof -
  let ?s1 = "if listening then snd (get_new_clients (s\<lparr>is_paused_here := False\<rparr>)) else s\<lparr>is_paused_here := False\<rparr>"
  from assms obtain s2 where s2: "(if ready \<or> esd_playing_samples ?s1 \<noteq> 0 then comm_round ?s1 else Some ?s1) = Some s2"
      "comm_record s2 = Some s'"
    by (auto simp: comm_active_def Let_def split: Option.bind_splits)
  have "owner_kept s ?s1" by (rule owner_kept_auth) (simp add: asimps)
  moreover have "owner_kept ?s1 s2" using s2(1) by (auto split: if_splits intro: comm_round_owner owner_kept_auth)
  moreover have "owner_kept s2 s'" by (rule owner_kept_auth [OF auth_comm_record [OF s2(2)]])
  ultimately show ?thesis by (blast intro: owner_kept_trans)
qed

lemma auth_comm_parts [asimps]:
  "auth (comm_reconnect s) = auth s" "auth (comm_pause s) = auth s" "auth (comm_autostandby s) = auth s"
  by (simp_all add: comm_reconnect_def comm_pause_def comm_autostandby_def Let_def case_prod_beta asimps)

lemma auth_comm_timeout: "comm_timeout s = Some (t, s') \<Longrightarrow> auth s' = auth s"
  by (auto simp: comm_timeout_def Let_def case_prod_beta asimps split: if_splits)

lemma turn_owner:
  assumes "esd_comm_turn sel s = Some (Running s')"
  shows "owner_kept s s'"
proof -
  from assms obtain t s1 where s1: "comm_timeout (comm_reconnect s) = Some (t, s1)"
    by (auto simp: esd_comm_turn_def Let_def clean_exit_def split: if_splits Option.bind_splits)
  have a1: "auth s1 = auth s" using auth_comm_timeout [OF s1] by (simp add: asimps)
  let ?s2 = "comm_autostandby (comm_pause s1)"
  have a2: "auth ?s2 = auth s" using a1 by (simp add: asimps)
  note k = owner_kept_auth [OF a1] owner_kept_auth [OF a2]
  from assms s1 have "s' = s1 \<or> s' = ?s2 \<or> (\<exists>b. comm_active True b s1 = Some s') \<or> comm_active False False ?s2 = Some s'"
    by (auto simp: esd_comm_turn_def Let_def clean_exit_def split: sel_result.splits if_splits)
  then show ?thesis using k by (blast intro: owner_kept_trans comm_active_owner)
qed

lemma step_owner: "comm_step s s' \<Longrightarrow> owner_kept s s'"
  by (induction rule: comm_step.induct)
    (auto intro: turn_owner owner_kept_auth simp: reconnect_driver_def asimps)

text \<open>
  C5. The lock is the owner's: when polling a client changes whether an owned daemon is locked, that
  client is connected and the first sixteen bytes of its request are the owner's key. The owner
  and the key are as before.
\<close>

theorem lock_needs_key:
  assumes "poll_client a len s = Some (len', s')" "esd_is_owned s"
  shows "esd_is_owned s' \<and> esd_owner_key s' = esd_owner_key s
    \<and> (esd_is_locked s' \<noteq> esd_is_locked s \<longrightarrow>
        (\<exists>c. the_client a s' = Some c \<and> take ESD_KEY_LEN (proto_data c) = esd_owner_key s))"
proof -
  obtain r where "auth_step a s r s'" using poll_client_auth [OF assms(1)] by blast
  with assms(2) show ?thesis by (auto simp: auth_step_def holds_key_def split: option.splits)
qed

lemma one_piece:
  fixes s :: "'a esd_server_scheme" and h :: "'a handler"
  assumes "the_client a s = Some c" "distinct (map cl_addr (esd_clients_list s))" "cl_state c = ESD_NEEDS_REQDATA"
    "proto_entry (cl_request c) = Some (int (length bs), h)" "proto_data_length c = 0"
    "length bs \<le> length (proto_data c)" "length bs < 2147483648" "bs \<noteq> []" "rx s (cl_fd c) = [RdData bs]"
  shows "poll_client a len s = serve h a (int (length bs))
    (got a ESD_NEXT_REQUEST (bs @ drop (length bs) (proto_data c)) (int (length bs)) (s\<lparr>rx := (rx s)(cl_fd c := [])\<rparr>))"
proof -
  have "polls_of (length [bs]) a len s = poll_client a len s"
    by (cases "poll_client a len s") auto
  then show ?thesis
    using reassemble [OF assms(1-4), of "[bs]" len] assms(5-) by simp
qed

theorem lock_needs_key_witness:
  "\<exists>s' c. poll_client 1 0 (server1 (client1 ESD_NEEDS_REQDATA 1) [RdData (replicate 16 7 @ put32 0)]) = Some (20, s')
    \<and> esd_is_locked s' \<and> the_client 1 s' = Some c \<and> take 16 (proto_data c) = replicate 16 7"
proof -
  let ?bs = "replicate 16 7 @ put32 0" and ?c = "client1 ESD_NEEDS_REQDATA 1"
  let ?s = "server1 ?c [RdData ?bs]"
  have c: "the_client 1 ?s = Some ?c" by (simp add: the_client_def server1_def client1_def)
  have e: "proto_entry (cl_request ?c) = Some (int (length ?bs), esd_proto_lock)"
    by (simp add: proto_entry_def client1_def esd_proto_map_def)
  have p: "poll_client 1 0 ?s = serve esd_proto_lock 1 (int (length ?bs)) (got 1 ESD_NEXT_REQUEST
      (?bs @ drop (length ?bs) (proto_data ?c)) (int (length ?bs)) (?s\<lparr>rx := (rx ?s)(cl_fd ?c := [])\<rparr>))"
    by (rule one_piece [OF c _ _ e]) (simp_all add: server1_def client1_def)
  obtain s' where s': "poll_client 1 0 ?s = Some (20, s')" "esd_is_locked s'"
    unfolding p by (simp add: server1_def client1_def serve_def esd_proto_lock_def got_def set_client_def the_client_def
        esd_validate_source_def reply_int_def sys_write_def Let_def)
  have "esd_is_owned ?s" "\<not> esd_is_locked ?s" "esd_owner_key ?s = replicate 16 7" by (simp_all add: server1_def)
  with lock_needs_key [OF s'(1)] s' show ?thesis by auto
qed

lemma validate_result:
  assumes "wres s (cl_fd c) = []"
    and "adm = (\<not> esd_is_owned s \<or> \<not> esd_is_locked s \<and> \<not> own \<or> esd_owner_key s = take ESD_KEY_LEN k)"
    and "t = (if esd_is_owned s then s
      else s\<lparr>esd_is_locked := True, esd_owner_key := take ESD_KEY_LEN k, esd_is_owned := True\<rparr>)"
  shows "esd_validate_source c k own s
    = (if adm then 1 else 0, t\<lparr>tx := tx s @ [(cl_fd c, put32 (if adm then 1 else 0))]\<rparr>)"
  using assms by (auto simp: esd_validate_source_def reply_int_def sys_write_def)

lemma erase_client_results:
  assumes "the_client a s = Some c" "distinct (map cl_addr (esd_clients_list s))"
  shows "the_client a (erase_client a s) = None" "closed (erase_client a s) = closed s @ [cl_fd c]"
    "tx (erase_client a s) = tx s"
  using assms set_unlink [OF assms(2)]
  by (auto simp: the_client_def node_None_iff erase_client_def sys_close_def)

text \<open>
  C4. Who gets in: however the twenty bytes of a connection request are cut up, the answer is a
  single word, 1 when the daemon was not owned, is not locked or the key is the owner's, and else
  0. The client stays connected exactly when the answer is 1 and its byte order is known; its
  descriptor is closed otherwise. Only a daemon that nobody owned changes its owner, key or lock.
\<close>

theorem connect_decides:
  fixes s :: "'a esd_server_scheme"
  assumes client: "the_client a s = Some c" "distinct (map cl_addr (esd_clients_list s))" "cl_state c = ESD_NEEDS_REQDATA"
      "cl_request c = ESD_PROTO_CONNECT" "proto_data_length c = 0" "length (proto_data c) = 1024" "wres s (cl_fd c) = []"
    and pieces: "length (concat bss) = 20" "[] \<notin> set bss" "rx s (cl_fd c) = map RdData bss"
    and endian: "get32 (concat bss) 16 = Some e"
  defines "key \<equiv> take ESD_KEY_LEN (concat bss)"
  defines "admitted \<equiv> \<not> esd_is_owned s \<or> \<not> esd_is_locked s \<or> esd_owner_key s = key"
  shows "\<exists>s'. polls_of (length bss) a len s = Some (int (length (last bss)), s')
    \<and> tx s' = tx s @ [(cl_fd c, put32 (if admitted then 1 else 0))]
    \<and> ((\<exists>c'. the_client a s' = Some c') \<longleftrightarrow> admitted \<and> u32 e \<in> {ESD_ENDIAN_KEY, ESD_SWAP_ENDIAN_KEY})
    \<and> closed s' = closed s @ (if the_client a s' = None then [cl_fd c] else [])
    \<and> (esd_is_owned s', esd_is_locked s', esd_owner_key s')
        = (if esd_is_owned s then (True, esd_is_locked s, esd_owner_key s) else (True, True, key))"
proof -
  have ne: "bss \<noteq> []" using pieces(1) by auto
  have entry: "proto_entry (cl_request c) = Some (20, esd_proto_connect :: 'a handler)"
    using client(4) by (simp add: proto_entry_def esd_proto_map_def)
  let ?data = "concat bss @ drop 20 (proto_data c)"
  let ?c = "c\<lparr>cl_state := ESD_NEXT_REQUEST, proto_data := ?data, proto_data_length := 20\<rparr>"
  define S where "S = got a ESD_NEXT_REQUEST ?data 20 (s\<lparr>rx := (rx s)(cl_fd c := [])\<rparr>)"
  have p: "polls_of (length bss) a len s = serve esd_proto_connect a (int (length (last bss))) S"
    unfolding S_def using reassemble [OF client(1-3) entry _ _ _ _ ne pieces(2,3), of len] client(5,6) pieces(1) by simp
  have c: "the_client a S = Some ?c"
    unfolding S_def by (rule got_client) (use client(1) in \<open>simp add: the_client_def\<close>)
  have S: "wres S (cl_fd c) = []" "tx S = tx s" "closed S = closed s" "esd_is_owned S = esd_is_owned s"
    "esd_is_locked S = esd_is_locked s" "esd_owner_key S = esd_owner_key s"
    using client(7) by (simp_all add: S_def got_def set_client_def)
  have d: "distinct (map cl_addr (esd_clients_list S))" using client(2) by (simp add: S_def got_def set_client_def map_upd_node)
  have k: "take 16 ?data = key" using pieces(1) by (simp add: key_def)
  have e: "get32 ?data 16 = Some e" using endian pieces(1) by (simp add: get32_def nth_append)
  define t where "t = snd (esd_validate_source ?c ?data False S)"
  have v: "esd_validate_source ?c ?data False S = (if admitted then 1 else 0, t)"
    and t: "tx t = tx s @ [(cl_fd c, put32 (if admitted then 1 else 0))]" "closed t = closed s"
      "esd_clients_list t = esd_clients_list S"
      "auth t = (if esd_is_owned s then (True, esd_is_locked s, esd_owner_key s) else (True, True, key))"
    using validate_result [of S ?c admitted False ?data, OF _ _ refl] S k by (simp_all add: t_def admitted_def auth_def)
  have ct: "the_client a t = Some ?c" "distinct (map cl_addr (esd_clients_list t))"
    using c d t(3) by (simp_all add: the_client_def)
  note er = erase_client_results [OF ct]
  have h: "esd_proto_connect a S = Some (if admitted then esd_check_endian a e t else (0, t))"
    using c e v by (simp add: esd_proto_connect_def Let_def)
  show ?thesis
  proof (cases "admitted \<and> u32 e \<in> {ESD_ENDIAN_KEY, ESD_SWAP_ENDIAN_KEY}")
    case True
    then obtain b where b: "esd_check_endian a e t = (1, set_client a (\<lambda>c. c\<lparr>swap_byte_order := b\<rparr>) t)"
      by (cases "u32 e = ESD_ENDIAN_KEY") (auto simp: esd_check_endian_def)
    define u where "u = set_client a (\<lambda>c. c\<lparr>swap_byte_order := b\<rparr>) t"
    have u: "the_client a u = Some (?c\<lparr>swap_byte_order := b\<rparr>)"
      unfolding u_def by (rule the_client_set [OF _ ct(1)]) simp
    have "tx u = tx t" "closed u = closed t" "auth u = auth t" by (simp_all add: u_def set_client_def asimps)
    moreover have "polls_of (length bss) a len s = Some (int (length (last bss)), u)"
      using p h b u True by (simp add: serve_def u_def)
    ultimately show ?thesis using True t u by (intro exI [of _ u]) (simp add: auth_def)
  next
    case False
    then have "esd_proto_connect a S = Some (0, t)" using h by (auto simp: esd_check_endian_def)
    then have "polls_of (length bss) a len s = Some (int (length (last bss)), erase_client a t)"
      using p ct by (simp add: serve_def)
    moreover have "auth (erase_client a t) = auth t" by (simp add: asimps)
    ultimately show ?thesis using False t er by (intro exI [of _ "erase_client a t"]) (auto simp: auth_def)
  qed
qed

theorem connect_decides_witness:
  "\<exists>s'. polls_of 2 1 0 ((server1 (client1 ESD_NEEDS_REQDATA 0) [RdData [9, 9], RdData (replicate 14 9 @ put32 0)])
      \<lparr>esd_is_locked := True\<rparr>) = Some (18, s')
    \<and> tx s' = [(5, put32 0)] \<and> the_client 1 s' = None \<and> closed s' = [5] \<and> esd_owner_key s' = replicate 16 7"
proof -
  let ?bss = "[[9, 9], replicate 14 9 @ put32 0] :: octet list list" and ?c = "client1 ESD_NEEDS_REQDATA 0"
  let ?s = "(server1 ?c (map RdData ?bss))\<lparr>esd_is_locked := True\<rparr>"
  have c: "the_client 1 ?s = Some ?c" by (simp add: the_client_def server1_def client1_def)
  have e: "get32 (concat ?bss) 16 = Some 0"
    using get32_put32 [of "replicate 16 9" 0 "[]"] by (simp add: i32_small numeral_eq_Suc)
  have k: "take 16 (concat ?bss) = replicate 16 9" by (simp add: numeral_eq_Suc)
  have "(replicate 16 7 :: octet list) \<noteq> replicate 16 9" by (simp add: numeral_eq_Suc)
  then show ?thesis
    using connect_decides [OF c _ _ _ _ _ _ _ _ _ e, of 0] k
    by (auto simp: server1_def client1_def numeral_2_eq_2)
qed

end
