(* ===== verification/Esd_Proto_Laws.thy ===== *)
theory Esd_Proto_Laws
  imports Esd_Auth
begin

text \<open>
  What single requests do in cases the protocol (\<open>proto.c\<close>, \<open>samples.c\<close>) handles badly: standby without
  the key, uploads while another client uploads, samples that do not exist, requests that are not
  implemented, and request words that arrive in pieces.
\<close>

subsection \<open>Standby without the key\<close>

text \<open>
  A request for standby without the owner's key is refused, and yet noted: the answer is 0 twice
  and the connection is lost, but unless the daemon is on automatic standby it now counts as being
  on standby by force, and stays there until somebody with the key resumes it.
\<close>

theorem refused_standby_forces:
  assumes "the_client a s = Some c" "esd_is_owned s" "take ESD_KEY_LEN (proto_data c) \<noteq> esd_owner_key s"
    "\<not> esd_on_autostandby s" "wres s (cl_fd c) = []"
  shows "esd_proto_standby a s = Some (0, s\<lparr>esd_forced_standby := True,
    tx := tx s @ [(cl_fd c, put32 0), (cl_fd c, put32 (maybe_swap_32 (swap_byte_order c) 0))]\<rparr>)"
  using assms
  by (auto simp: esd_proto_standby_def esd_validate_source_def reply_int_def sys_write_def Let_def)

theorem refused_standby_forces_witness:
  "\<exists>s'. esd_proto_standby 1 (server1 (client1 ESD_NEXT_REQUEST 12) []) = Some (0, s') \<and> esd_forced_standby s'"
proof -
  let ?c = "client1 ESD_NEXT_REQUEST 12"
  have c: "the_client 1 (server1 ?c []) = Some ?c" by (simp add: the_client_def server1_def client1_def)
  have "take 16 (proto_data ?c) \<noteq> replicate 16 7" by (simp add: client1_def take_replicate replicate_eq_replicate)
  then have "esd_proto_standby 1 (server1 ?c []) = Some (0, (server1 ?c [])\<lparr>esd_forced_standby := True,
    tx := tx (server1 ?c []) @ [(cl_fd ?c, put32 0), (cl_fd ?c, put32 (maybe_swap_32 (swap_byte_order ?c) 0))]\<rparr>)"
    by (intro refused_standby_forces [OF c]) (simp_all add: server1_def)
  then show ?thesis by simp
qed

subsection \<open>Uploading samples\<close>

lemma find_caching_stuck: "find_caching_loop client (m # ms) = Some r \<Longrightarrow> sm_parent m = client"
proof -
  have "sample = m # ms \<longrightarrow> sm_parent m = client" if "find_caching_loop client sample = Some r" for sample
  proof (rule find_caching_loop.raw_induct [OF _ that, where P = "\<lambda>client sample r. sample = m # ms \<longrightarrow> sm_parent m = client"], goal_cases)
    case (1 f client sample r)
    then show ?case by (auto split: list.splits if_splits)
  qed
  then show "find_caching_loop client (m # ms) = Some r \<Longrightarrow> sm_parent m = client" by blast
qed

text \<open>
  C22. Looking for the sample a client is uploading returns only when there are no samples or the
  first one in the list is that client's: the loop never looks further.
\<close>

theorem find_caching_sample_returns:
  "find_caching_sample client s =
     (case esd_samples_list s of [] \<Rightarrow> Some None
      | m # ms \<Rightarrow> if sm_parent m = client then Some (Some m) else None)"
proof (cases "esd_samples_list s")
  case Nil
  then show ?thesis unfolding find_caching_sample_def by (subst find_caching_loop.simps) simp
next
  case (Cons m ms)
  have "find_caching_loop client (m # ms) = None" if "sm_parent m \<noteq> client"
    using find_caching_stuck [of client m ms] that by (cases "find_caching_loop client (m # ms)") auto
  moreover have "find_caching_loop client (m # ms) = Some (Some m)" if "sm_parent m = client"
    using that by (subst find_caching_loop.simps) simp
  ultimately show ?thesis using Cons by (simp add: find_caching_sample_def)
qed

subsection \<open>Requests that cannot succeed\<close>

text \<open>
  Playing a sample that does not exist looks like success: the handler returns 1, the reply is
  the id the client sent, and the state of the server is otherwise unchanged.
\<close>

theorem unknown_sample_echoed:
  assumes "the_client a s = Some c" "get32 (proto_data c) 0 = Some ident" "wres s (cl_fd c) = []"
    "list_all (\<lambda>m. sm_id m \<noteq> maybe_swap_32 (swap_byte_order c) ident) (esd_samples_list s)"
  shows "esd_proto_sample_play a s = Some (1, s\<lparr>tx := tx s @ [(cl_fd c, put32 ident)]\<rparr>)"
proof -
  have "find (\<lambda>m. sm_id m = maybe_swap_32 (swap_byte_order c) ident) (esd_samples_list s) = None"
    using assms(4) by (auto simp: find_None_iff list_all_iff)
  with assms show ?thesis
    by (simp add: esd_proto_sample_play_def sample_request_def play_sample_def new_sample_player_def reply_int_def
        sys_write_def Let_def)
qed

theorem unknown_sample_echoed_witness:
  "\<exists>s'. esd_proto_sample_play 1 (server1 (client1 ESD_NEXT_REQUEST 8) []) = Some (1, s') \<and> tx s' = [(5, put32 0)]"
proof -
  let ?c = "client1 ESD_NEXT_REQUEST 8"
  have c: "the_client 1 (server1 ?c []) = Some ?c" by (simp add: the_client_def server1_def client1_def)
  have g: "get32 (proto_data ?c) 0 = Some 0" by (simp add: get32_def client1_def le32_def i32_small)
  have "esd_proto_sample_play 1 (server1 ?c []) = Some (1, (server1 ?c [])\<lparr>tx := tx (server1 ?c []) @ [(cl_fd ?c, put32 0)]\<rparr>)"
    by (rule unknown_sample_echoed [OF c g]) (simp_all add: server1_def)
  then show ?thesis by (simp add: server1_def client1_def)
qed

text \<open>
  A client that asks for a sample to be killed, or for a request that is not implemented, is cut
  off when its next bytes arrive: such requests have a data length of -1, which even no data
  at all exceeds.
\<close>

theorem unimplemented_disconnects:
  fixes s :: "'a esd_server_scheme"
  assumes "the_client a s = Some c" "distinct (map cl_addr (esd_clients_list s))" "cl_state c = ESD_NEEDS_REQDATA"
    "cl_request c \<in> {ESD_PROTO_SAMPLE_KILL, ESD_PROTO_SUBSCRIBE, ESD_PROTO_UNSUBSCRIBE}" "0 \<le> proto_data_length c" "rx s (cl_fd c) \<noteq> []"
  shows "\<exists>s'. poll_client a len s = Some (len, s') \<and> the_client a s' = None \<and> closed s' = closed s @ [cl_fd c]
    \<and> rx s' = rx s \<and> tx s' = tx s"
proof -
  have e: "proto_entry (cl_request c) = Some (-1, esd_proto_unimplemented :: 'a handler)"
    using assms(4) by (auto simp: proto_entry_def esd_proto_map_def)
  have "sys_select_rd (cl_fd c) s \<noteq> 0" using assms(6) by (simp add: sys_select_rd_def)
  then have "poll_client a len s = Some (len, erase_client a s)"
    using assms(1,3,5) e by (simp add: poll_client_def poll_needs_reqdata_def)
  moreover have "rx (erase_client a s) = rx s"
    by (auto simp: erase_client_def sys_close_def split: option.splits)
  ultimately show ?thesis using erase_client_results [OF assms(1,2)] by simp
qed

theorem unimplemented_disconnects_witness:
  "\<exists>s'. poll_client 1 7 (server1 (client1 ESD_NEEDS_REQDATA 11) [RdData [1]]) = Some (7, s') \<and> the_client 1 s' = None
    \<and> closed s' = [5]"
proof -
  let ?c = "client1 ESD_NEEDS_REQDATA 11" and ?s = "server1 (client1 ESD_NEEDS_REQDATA 11) [RdData [1]]"
  have c: "the_client 1 ?s = Some ?c" by (simp add: the_client_def server1_def client1_def)
  have "\<exists>s'. poll_client 1 7 ?s = Some (7, s') \<and> the_client 1 s' = None \<and> closed s' = closed ?s @ [cl_fd ?c]
    \<and> rx s' = rx ?s \<and> tx s' = tx ?s"
    by (rule unimplemented_disconnects [OF c]) (simp_all add: server1_def client1_def)
  then show ?thesis by (auto simp: server1_def client1_def)
qed

subsection \<open>Request words in pieces\<close>

lemma put32_byte: "0 \<le> x \<Longrightarrow> x < 256 \<Longrightarrow> put32 x = [word_of_int x, 0, 0, 0]"
  by (simp add: put32_def)

text \<open>
  A request word that arrives in pieces shifts the conversation: the first piece alone is taken
  as the request, completed by the bytes of the previous one, and the rest of the word stays
  in front of what is read as the data of the request.
\<close>

theorem split_request_shifts:
  fixes s :: "'a esd_server_scheme"
  assumes c: "the_client a s = Some c" "cl_state c = ESD_NEXT_REQUEST" "\<not> swap_byte_order c" "0 \<le> cl_request c" "cl_request c < 24"
    and r: "0 < r" "r < 24" "r \<noteq> ESD_PROTO_LATENCY" and k: "0 < k" "k < 4"
    and rx: "rx s (cl_fd c) = [RdData (take k (put32 r)), RdData (drop k (put32 r) @ bs)]"
  shows "\<exists>s' c'. poll_client a len s = Some (int k, s') \<and> the_client a s' = Some c' \<and> cl_request c' = r
    \<and> cl_state c' = ESD_NEEDS_REQDATA \<and> proto_data_length c' = 0 \<and> rx s' (cl_fd c) = [RdData (drop k (put32 r) @ bs)]"
proof -
  let ?bs = "take k (put32 r)"
  have len: "length ?bs = k" using k by simp
  have "?bs @ drop k (put32 (cl_request c)) = put32 r"
    using r c(4,5) k by (cases k; cases "k - 1"; cases "k - 2") (auto simp: put32_byte numeral_eq_Suc)
  then have g: "get32 (?bs @ drop (length ?bs) (put32 (cl_request c))) 0 = Some r"
    using get32_put32_0 [of r "[]"] r len by (simp add: i32_small)
  obtain dl and h :: "'a handler" where e: "proto_entry r = Some (dl, h)" "dl \<noteq> 0"
  proof -
    let ?m = "esd_proto_map :: (int \<times> 'a handler) list"
    have m: "list_all (\<lambda>e. fst e \<noteq> 0) (take 23 ?m)" "length ?m = 24" by (simp_all add: esd_proto_map_def)
    have i: "nat r < 23" using r by linarith
    then have "take 23 ?m ! nat r \<in> set (take 23 ?m)" using m(2) by (intro nth_mem) simp
    then have "fst (?m ! nat r) \<noteq> 0" using m(1) i by (simp add: list_all_iff)
    then show thesis using that [of "fst (?m ! nat r)" "snd (?m ! nat r)"] r by (simp add: proto_entry_def)
  qed
  have ne: "?bs \<noteq> []" using k by (auto simp: put32_def)
  let ?f = "\<lambda>c. c\<lparr>cl_request := r, cl_state := ESD_NEEDS_REQDATA, proto_data_length := 0\<rparr>"
  let ?s0 = "s\<lparr>rx := (rx s)(cl_fd c := [RdData (drop k (put32 r) @ bs)])\<rparr>"
  have "poll_client a len s = Some (int (length ?bs), set_client a ?f ?s0)"
    by (rule poll_request_bytes [OF c(1-3) r(1,2) e ne _ g rx]) (use len k in simp)
  moreover have "the_client a (set_client a ?f ?s0) = Some (?f c)"
    by (rule the_client_set) (use c(1) in \<open>simp_all add: the_client_def\<close>)
  ultimately show ?thesis using len by (simp add: set_client_def)
qed

theorem split_request_shifts_witness:
  "\<exists>s'. poll_client 1 0 (server1 (client1 ESD_NEXT_REQUEST 0) [RdData [3, 0], RdData [0, 0, 9]]) = Some (2, s')
    \<and> rx s' 5 = [RdData [0, 0, 9]]"
proof -
  let ?c = "client1 ESD_NEXT_REQUEST 0"
  let ?s = "server1 ?c [RdData (take 2 (put32 3)), RdData (drop 2 (put32 3) @ [9])]"
  have c: "the_client 1 ?s = Some ?c" by (simp add: the_client_def server1_def client1_def)
  have "\<exists>s' c'. poll_client 1 0 ?s = Some (int 2, s') \<and> the_client 1 s' = Some c' \<and> cl_request c' = 3
    \<and> cl_state c' = ESD_NEEDS_REQDATA \<and> proto_data_length c' = 0 \<and> rx s' (cl_fd ?c) = [RdData (drop 2 (put32 3) @ [9])]"
    by (rule split_request_shifts [OF c]) (simp_all add: server1_def client1_def)
  moreover have "put32 3 = [3, 0, 0, 0]" by (simp add: put32_byte)
  ultimately show ?thesis by (auto simp: client1_def numeral_2_eq_2)
qed

end
