(* ===== verification/Esd_Idle.thy ===== *)
theory Esd_Idle
  imports Esd_Ownership_Loop
begin

text \<open>
  What becomes of a daemon nobody uses (the end of \<open>esd_comm_loop\<close> in \<open>clients.c\<close>), and what a new player
  looks like (\<open>players.c\<close>).
\<close>

subsection \<open>An idle daemon\<close>

text \<open>Nothing plays, records or is connected, and the daemon is meant to release its device and to end.\<close>

definition unused :: "esd_daemon \<Rightarrow> bool" where
  "unused s \<longleftrightarrow> esd_clients_list s = [] \<and> esd_recorder_list s = [] \<and> esd_playing_samples s = 0 \<and> \<not> comm_first s
     \<and> esd_terminate s \<and> 0 \<le> esd_autostandby_secs s \<and> \<not> esd_pending_driver_reconnect s \<and> esd_audio_rate s \<noteq> 0
     \<and> \<not> esd_on_standby s \<and> \<not> esd_on_autostandby s"

lemma sys_time_Cons: "clock s = t # r \<Longrightarrow> sys_time s = (t, s\<lparr>clock := r\<rparr>)"
  by (simp add: sys_time_def)

lemma audio_pause_same: "\<exists>d. esd_audio_pause s = s\<lparr>dev_ioctl := d\<rparr>"
  using sys_ioctl_frame [of 0 s] by (metis esd_audio_pause_def prod.collapse snd_conv)

lemma idle_pauses:
  assumes "unused s" "\<not> is_paused_here s" "clock s = t1 # t2 # r" "t2 \<le> t1 + esd_autostandby_secs s"
  shows "\<exists>d. esd_comm_turn SelTimeout s
     = Some (Running (s\<lparr>dev_ioctl := d, clock := r, esd_last_activity := t1, is_paused_here := True\<rparr>))"
proof -
  obtain d where d: "esd_audio_pause s = s\<lparr>dev_ioctl := d\<rparr>" using audio_pause_same by blast
  obtain to where "comm_timeout s = Some (to, s)"
    using assms(1,2) by (auto simp: comm_timeout_def unused_def Let_def)
  moreover have "comm_pause s = s\<lparr>dev_ioctl := d, clock := t2 # r, esd_last_activity := t1, is_paused_here := True\<rparr>"
    using assms by (simp add: comm_pause_def unused_def esd_audio_flush_def d sys_time_Cons)
  moreover have "comm_reconnect s = s" using assms(1) by (simp add: comm_reconnect_def unused_def)
  ultimately show ?thesis
    using assms by (intro exI [of _ d]) (simp add: esd_comm_turn_def unused_def comm_autostandby_def sys_time_Cons)
qed

lemma idle_stands_by:
  assumes "unused s" "is_paused_here s" "clock s = t3 # t4 # r" "t4 > esd_last_activity s + esd_autostandby_secs s"
  shows "esd_comm_turn SelTimeout s
     = Some (Running ((esd_audio_close (s\<lparr>clock := r, esd_on_standby := True\<rparr>))\<lparr>esd_on_autostandby := True\<rparr>))"
proof -
  obtain to where "comm_timeout s = Some (to, s\<lparr>clock := t4 # r\<rparr>)"
    using assms(1-3) by (auto simp: comm_timeout_def unused_def Let_def sys_time_Cons)
  moreover have "comm_reconnect s = s" using assms(1) by (simp add: comm_reconnect_def unused_def)
  ultimately show ?thesis
    using assms by (simp add: esd_comm_turn_def unused_def comm_pause_def comm_autostandby_def sys_time_Cons
        esd_server_standby_def esd_audio_close_def sys_close_def Let_def)
qed

lemma idle_exits:
  assumes "esd_clients_list s = []" "\<not> comm_first s" "esd_terminate s" "esd_on_autostandby s" "\<not> esd_pending_driver_reconnect s"
  shows "esd_comm_turn sel s = Some (clean_exit s)"
  using assms by (simp add: esd_comm_turn_def comm_reconnect_def)

lemma clean_exit_closes:
  assumes "clean_exit s = Exited n s'"
  shows "n = 0" "esd_audio_fd s' = -1" "listen_socket s \<in> set (closed s')" "\<not> esd_use_tcpip s \<Longrightarrow> sock_unlinked s'"
proof -
  have f: "esd_audio_fd (fold (\<lambda>c. sys_close (cl_fd c)) cs t) = esd_audio_fd t"
    "set (closed t) \<subseteq> set (closed (fold (\<lambda>c. sys_close (cl_fd c)) cs t))"
    "esd_use_tcpip (fold (\<lambda>c. sys_close (cl_fd c)) cs t) = esd_use_tcpip t" for cs and t :: esd_daemon
    by (induction cs arbitrary: t) (auto simp: sys_close_def subset_eq)
  let ?t = "sys_close (listen_socket s) (esd_audio_close s)"
  have l: "listen_socket (esd_audio_close s) = listen_socket s" "esd_use_tcpip (esd_audio_close s) = esd_use_tcpip s"
    by (simp_all add: esd_audio_close_def sys_close_def Let_def)
  have t: "listen_socket s \<in> set (closed ?t)" "esd_audio_fd ?t = -1" "esd_use_tcpip ?t = esd_use_tcpip s"
    by (simp_all add: sys_close_def esd_audio_close_def Let_def)
  define u where "u = fold (\<lambda>c. sys_close (cl_fd c)) (esd_clients_list ?t) ?t"
  have "esd_audio_fd u = -1" "listen_socket s \<in> set (closed u)" "esd_use_tcpip u = esd_use_tcpip s"
    using t f(2) [of ?t "esd_clients_list ?t"] unfolding u_def f(1,3) by auto
  moreover have "n = 0" "s' = (if esd_use_tcpip u then u else u\<lparr>sock_unlinked := True\<rparr>)"
    using assms unfolding clean_exit_def Let_def l u_def by simp_all
  ultimately show "n = 0" "esd_audio_fd s' = -1" "listen_socket s \<in> set (closed s')"
    "\<not> esd_use_tcpip s \<Longrightarrow> sock_unlinked s'" by simp_all
qed

text \<open>
  C15. A daemon that is not used any more goes away: with \<open>-terminate\<close> and an auto-standby time, once
  nothing plays, records or is connected, two turns in which \<open>select\<close> times out, the second after the
  auto-standby time, bring it to standby with the device closed, and the turn after that
  exits, whatever \<open>select\<close> would say, with the listening socket closed and the unix socket removed.
\<close>

theorem idle_daemon_exits:
  assumes "unused s" and "\<not> is_paused_here s" and "clock s = t1 # t2 # t3 # t4 # r"
    and "t2 \<le> t1 + esd_autostandby_secs s" and "t4 > t1 + esd_autostandby_secs s"
  shows "\<exists>s1 s2 s3. esd_comm_turn SelTimeout s = Some (Running s1) \<and> esd_comm_turn SelTimeout s1 = Some (Running s2)
    \<and> esd_on_standby s2 \<and> esd_audio_fd s2 = -1 \<and> esd_comm_turn sel s2 = Some (Exited 0 s3)
    \<and> listen_socket s \<in> set (closed s3) \<and> (esd_use_tcpip s \<or> sock_unlinked s3)"
proof -
  obtain d where t1: "esd_comm_turn SelTimeout s = Some (Running (s\<lparr>dev_ioctl := d, clock := t3 # t4 # r,
      esd_last_activity := t1, is_paused_here := True\<rparr>))" (is "_ = Some (Running ?s1)")
    using idle_pauses [OF assms(1-4)] by blast
  have "unused ?s1" using assms(1) by (simp add: unused_def)
  then have t2: "esd_comm_turn SelTimeout ?s1 = Some (Running
      ((esd_audio_close (?s1\<lparr>clock := r, esd_on_standby := True\<rparr>))\<lparr>esd_on_autostandby := True\<rparr>))"
    (is "_ = Some (Running ?s2)")
    using assms(5) by (intro idle_stands_by) simp_all
  have s2: "esd_clients_list ?s2 = []" "\<not> comm_first ?s2" "esd_terminate ?s2" "esd_on_autostandby ?s2"
    "\<not> esd_pending_driver_reconnect ?s2" "esd_on_standby ?s2" "esd_audio_fd ?s2 = -1"
    "listen_socket ?s2 = listen_socket s" "esd_use_tcpip ?s2 = esd_use_tcpip s"
    using assms(1) by (simp_all add: unused_def esd_audio_close_def sys_close_def Let_def)
  obtain n s3 where c: "clean_exit ?s2 = Exited n s3" by (simp add: clean_exit_def Let_def)
  have "esd_comm_turn sel ?s2 = Some (Exited 0 s3)" "listen_socket s \<in> set (closed s3)" "esd_use_tcpip s \<or> sock_unlinked s3"
    using idle_exits [OF s2(1-5), of sel] clean_exit_closes [OF c] c s2(8,9) by auto
  with t1 t2 s2(6,7) show ?thesis by blast
qed

theorem idle_daemon_exits_witness:
  "\<exists>s1 s2 s3. esd_comm_turn SelTimeout (daemon0\<lparr>esd_clients_list := [], esd_players_list := [], esd_samples_list := [],
       esd_playing_samples := 0, esd_terminate := True, esd_autostandby_secs := 2, clock := [10, 11, 12, 13]\<rparr>) = Some (Running s1)
     \<and> esd_comm_turn SelTimeout s1 = Some (Running s2) \<and> esd_comm_turn SelEagain s2 = Some (Exited 0 s3)
     \<and> 4 \<in> set (closed s3) \<and> sock_unlinked s3"
proof -
  let ?s = "daemon0\<lparr>esd_clients_list := [], esd_players_list := [], esd_samples_list := [],
       esd_playing_samples := 0, esd_terminate := True, esd_autostandby_secs := 2, clock := [10, 11, 12, 13]\<rparr>"
  have "unused ?s" by (simp add: unused_def daemon0_def)
  moreover have "listen_socket ?s = 4" "\<not> esd_use_tcpip ?s" "\<not> is_paused_here ?s" by (simp_all add: daemon0_def)
  ultimately show ?thesis using idle_daemon_exits [of ?s 10 11 12 13 "[]" SelEagain] by auto
qed

subsection \<open>New players\<close>

text \<open>
  The type of a player: its buffer has the length it claims, a whole number of 16 bit stereo
  frames, it holds nothing yet, and its mixing function is the one for its format and volumes.
\<close>

definition typed_player :: "esd_player \<Rightarrow> bool" where
  "typed_player p \<longleftrightarrow> 0 \<le> pl_buffer_length p \<and> pl_buffer_length p mod 4 = 0
     \<and> length (pl_data p) = nat (pl_buffer_length p) \<and> pl_actual_length p = 0
     \<and> pl_mix_func p \<noteq> None \<and> pl_mix_func p = get_mix_func (pl_format p) (pl_left_vol p) (pl_right_vol p)
     \<and> pl_translate p = None"

lemma malloc_nonneg: "malloc n s = (a, s') \<Longrightarrow> a \<noteq> 0 \<Longrightarrow> 0 \<le> n"
  by (auto simp: malloc_def split: if_splits)

lemma frames_smod: "(n - n smod 4) mod 4 = 0" for n :: int
proof (cases "0 \<le> n")
  case True
  then show ?thesis by (cases "n = 0") (simp_all add: signed_modulo_int_def)
next
  case False
  then have "n - n smod 4 = n + (- n) mod 4" by (simp add: signed_modulo_int_def)
  then show ?thesis by presburger
qed

lemma buffer_length_frames: "player_buffer_length format rate s = Some n \<Longrightarrow> n mod 4 = 0"
  by (auto simp: player_buffer_length_def Let_def frames_smod split: Option.bind_splits)

lemma uninit_length [simp]: "length (uninit s a n) = n"
  by (simp add: uninit_def)

lemma malloc_playing: "malloc n s = (a, s') \<Longrightarrow> esd_playing_samples s' = esd_playing_samples s" for s :: "'a esd_server_scheme"
  by (auto simp: malloc_def split: if_splits list.splits)

lemma sample_player_bits:
  "sample_player_format f loop AND ESD_MASK_BITS = f AND ESD_MASK_BITS"
  "sample_player_format f loop AND ESD_MASK_CHAN = f AND ESD_MASK_CHAN"
  "sample_player_format f True AND ESD_MASK_FUNC = ESD_LOOP"
  by (simp_all add: sample_player_format_def Let_def bit.conj_disj_distrib2 and.assoc)

text \<open>
  C17. Every player the daemon makes is well formed and in the mode it is made for. A player for a stream is in
  stream mode, reads from the socket of its client and has neutral volumes. A player for a sample is in sample mode,
  looping if it was asked to, has the sample with the given identity as its parent and source, with the width, channels,
  rate and volumes of the sample, and is counted.
\<close>

theorem new_players_typed:
  "(new_stream_player client s = Some (Some p, s') \<longrightarrow>
     typed_player p \<and> pl_format p AND ESD_MASK_MODE = ESD_STREAM
     \<and> map_option cl_fd (the_client client s) = Some (pl_source_id p)
     \<and> pl_left_vol p = ESD_VOLUME_BASE \<and> pl_right_vol p = ESD_VOLUME_BASE)
   \<and> (new_sample_player ident loop s = Some (Some p, s') \<longrightarrow>
     typed_player p \<and> pl_format p AND ESD_MASK_MODE = ESD_SAMPLE
     \<and> (loop \<longrightarrow> pl_format p AND ESD_MASK_FUNC = ESD_LOOP)
     \<and> (\<exists>m. m \<in> set (esd_samples_list s) \<and> sm_id m = ident \<and> pl_parent p = sm_addr m \<and> pl_source_id p = ident
         \<and> pl_format p AND ESD_MASK_BITS = sm_format m AND ESD_MASK_BITS
         \<and> pl_format p AND ESD_MASK_CHAN = sm_format m AND ESD_MASK_CHAN
         \<and> pl_rate p = sm_rate m \<and> pl_left_vol p = sm_left_vol m \<and> pl_right_vol p = sm_right_vol m)
     \<and> esd_playing_samples s' = i32 (esd_playing_samples s + 1))"
proof (intro conjI impI)
  assume h: "new_stream_player client s = Some (Some p, s')"
  then show "typed_player p" "pl_format p AND ESD_MASK_MODE = ESD_STREAM"
      "map_option cl_fd (the_client client s) = Some (pl_source_id p)"
      "pl_left_vol p = ESD_VOLUME_BASE" "pl_right_vol p = ESD_VOLUME_BASE"
    by (auto simp: new_stream_player_def Let_def typed_player_def buffer_length_frames stream_mode
        split: Option.bind_splits prod.splits if_splits option.splits dest: malloc_nonneg)
next
  assume "new_sample_player ident loop s = Some (Some p, s')"
  then obtain m where f: "find (\<lambda>m. sm_id m = ident) (esd_samples_list s) = Some m"
    and h: "new_sample_player ident loop s = Some (Some p, s')"
    by (auto simp: new_sample_player_def split: option.splits)
  have m: "m \<in> set (esd_samples_list s)" "sm_id m = ident" using f by (auto simp: find_Some_iff)
  have ok: "typed_player p" "esd_playing_samples s' = i32 (esd_playing_samples s + 1)"
    using h f by (auto simp: new_sample_player_def Let_def typed_player_def buffer_length_frames set_sample_def malloc_playing
        split: Option.bind_splits prod.splits if_splits option.splits dest: malloc_nonneg)
  have q: "pl_parent p = sm_addr m" "pl_source_id p = sm_id m" "pl_format p = sample_player_format (sm_format m) loop"
      "pl_rate p = sm_rate m" "pl_left_vol p = sm_left_vol m" "pl_right_vol p = sm_right_vol m"
    using h f by (auto simp: new_sample_player_def Let_def split: Option.bind_splits prod.splits if_splits option.splits)
  show "typed_player p" "esd_playing_samples s' = i32 (esd_playing_samples s + 1)" by (fact ok)+
  show "pl_format p AND ESD_MASK_MODE = ESD_SAMPLE" using q(3) by (simp add: sample_mode)
  show "pl_format p AND ESD_MASK_FUNC = ESD_LOOP" if loop using q(3) that by (simp add: sample_player_bits)
  show "\<exists>m. m \<in> set (esd_samples_list s) \<and> sm_id m = ident \<and> pl_parent p = sm_addr m \<and> pl_source_id p = ident
         \<and> pl_format p AND ESD_MASK_BITS = sm_format m AND ESD_MASK_BITS
         \<and> pl_format p AND ESD_MASK_CHAN = sm_format m AND ESD_MASK_CHAN
         \<and> pl_rate p = sm_rate m \<and> pl_left_vol p = sm_left_vol m \<and> pl_right_vol p = sm_right_vol m"
    using m q by (intro exI [of _ m]) (simp add: sample_player_bits)
qed

theorem new_players_typed_witness:
  "(\<exists>p s'. new_sample_player 1 True daemon0 = Some (Some p, s') \<and> typed_player p
      \<and> pl_format p AND ESD_MASK_MODE = ESD_SAMPLE \<and> pl_format p AND ESD_MASK_FUNC = ESD_LOOP \<and> pl_source_id p = 1)
   \<and> (\<exists>p s'. new_stream_player 1 (daemon0\<lparr>esd_clients_list := [(hd (esd_clients_list daemon0))\<lparr>proto_data := put32 33 @ put32 44100 @ replicate 128 0\<rparr>]\<rparr>)
        = Some (Some p, s') \<and> typed_player p \<and> pl_format p AND ESD_MASK_MODE = ESD_STREAM \<and> pl_source_id p = 5)"
proof (rule conjI)
  have "\<exists>p s'. new_sample_player 1 True daemon0 = Some (Some p, s')"
    by (simp add: new_sample_player_def daemon0_def malloc_def player_buffer_length_def cdiv_def i32_small get_mix_func_def
        sample_player_format_def)
  then show "\<exists>p s'. new_sample_player 1 True daemon0 = Some (Some p, s') \<and> typed_player p
      \<and> pl_format p AND ESD_MASK_MODE = ESD_SAMPLE \<and> pl_format p AND ESD_MASK_FUNC = ESD_LOOP \<and> pl_source_id p = 1"
    using new_players_typed [where ident = 1 and loop = True and s = daemon0] by blast
  let ?s = "daemon0\<lparr>esd_clients_list := [(hd (esd_clients_list daemon0))\<lparr>proto_data := put32 33 @ put32 44100 @ replicate 128 0\<rparr>]\<rparr>"
  have "map_option (\<lambda>(p, s'). p \<noteq> None) (new_stream_player 1 ?s) = Some True" by code_simp
  then obtain p s' where "new_stream_player 1 ?s = Some (Some p, s')" by auto
  moreover have "map_option cl_fd (the_client 1 ?s) = Some 5" by (simp add: daemon0_def the_client_def)
  ultimately show "\<exists>p s'. new_stream_player 1 ?s = Some (Some p, s') \<and> typed_player p
      \<and> pl_format p AND ESD_MASK_MODE = ESD_STREAM \<and> pl_source_id p = 5"
    using new_players_typed [where client = 1 and s = ?s] by (metis option.inject)
qed

end
