(* ===== verification/Esd_Signals.thy ===== *)
theory Esd_Signals
  imports Esd_Auth
begin

text \<open>
  The handler of \<open>SIGHUP\<close> (\<open>reset_daemon\<close> in \<open>esd.c\<close>), which is meant to put the daemon back into its
  initial state. It calls \<open>esd_sample_kill\<close> of the client library inside the daemon, so the state of the
  library is passed along; the new key is the parameter \<open>key\<close>, sixteen values of \<open>rand\<close>. The handler breaks the
  invariant that the steps of the main loop keep, so it is not among them; \<open>signal_run\<close> has the runs in which it
  acts as well.
\<close>

function erase_all_clients :: "'a esd_server_scheme \<Rightarrow> 'a esd_server_scheme" where
  "erase_all_clients s =
    (case esd_clients_list s of [] \<Rightarrow> s | c # _ \<Rightarrow> erase_all_clients (erase_client (cl_addr c) s))"
  by pat_completeness auto
termination
  by (relation "measure (\<lambda>s. length (esd_clients_list s))") (simp_all add: erase_client_def sys_close_def)

function kill_all_samples ::
  "'b esd_lib_scheme \<Rightarrow> 'a esd_server_scheme \<Rightarrow> 'b esd_lib_scheme \<times> 'a esd_server_scheme" where
  "kill_all_samples l s =
    (case esd_samples_list s of
       [] \<Rightarrow> (l, s)
     | m # _ \<Rightarrow> kill_all_samples (snd (esd_sample_kill (sm_id m) 1 l)) (erase_sample (sm_id m) True s))"
  by pat_completeness auto
termination
  by (relation "measure (\<lambda>(l, s). length (esd_samples_list s))") (simp_all add: erase_sample_def)

declare erase_all_clients.simps [simp del] kill_all_samples.simps [simp del]

definition reset_daemon ::
  "octet list \<Rightarrow> 'b esd_lib_scheme \<Rightarrow> 'a esd_server_scheme \<Rightarrow> 'b esd_lib_scheme \<times> 'a esd_server_scheme" where
  "reset_daemon key l s =
    (let s = s\<lparr>esd_is_owned := False, esd_is_locked := True, esd_owner_key := key\<rparr>;
         s = erase_all_clients s;
         (l, s) = kill_all_samples l s
     in (l, s\<lparr>esd_next_sample_id := 1\<rparr>))"

text \<open>
  Runs of the daemon with \<open>SIGHUP\<close>: the steps of the main loop (turns, \<open>SIGUSR1\<close>, the world), and the handler
  between two of them. The keys the handler made up are kept in order.
\<close>

inductive signal_run :: "esd_daemon \<Rightarrow> octet list list \<Rightarrow> esd_daemon \<Rightarrow> bool" for s0 where
  start: "signal_run s0 [] s0"
| step: "signal_run s0 hups s \<Longrightarrow> comm_step s s' \<Longrightarrow> signal_run s0 hups s'"
| sighup: "signal_run s0 hups s \<Longrightarrow> signal_run s0 (hups @ [key]) (snd (reset_daemon key (l :: esd_lib) s))"

subsection \<open>Laws\<close>

lemma erase_all_clients_eq:
  "erase_all_clients s = s\<lparr>esd_clients_list := [], closed := closed s @ map cl_fd (esd_clients_list s)\<rparr>"
proof (induction s rule: erase_all_clients.induct)
  case (1 s)
  show ?case
  proof (cases "esd_clients_list s")
    case Nil
    then show ?thesis by (simp add: erase_all_clients.simps [of s])
  next
    case (Cons c cs)
    then show ?thesis using 1 [OF Cons] by (simp add: erase_all_clients.simps [of s] erase_client_def sys_close_def)
  qed
qed

lemma kill_all_samples_eq: "snd (kill_all_samples l s) = s\<lparr>esd_samples_list := []\<rparr>"
proof (induction l s rule: kill_all_samples.induct)
  case (1 l s)
  show ?case
  proof (cases "esd_samples_list s")
    case Nil
    then show ?thesis by (simp add: kill_all_samples.simps [of l s])
  next
    case (Cons m ms)
    then show ?thesis using 1 [OF Cons] by (simp add: kill_all_samples.simps [of l s] erase_sample_def)
  qed
qed

lemma reset_daemon_eq:
  "snd (reset_daemon key l s) = s\<lparr>esd_is_owned := False, esd_is_locked := True, esd_owner_key := key,
     esd_clients_list := [], closed := closed s @ map cl_fd (esd_clients_list s), esd_samples_list := [],
     esd_next_sample_id := 1\<rparr>"
  by (simp add: reset_daemon_def Let_def case_prod_beta erase_all_clients_eq kill_all_samples_eq)

subsection \<open>Properties\<close>

text \<open>
  C21. \<open>SIGHUP\<close> disconnects every client, frees every sample and clears the ownership, but leaves the
  players, recorders, monitors and filters where they are: after the handler each of them points to a
  client or a sample that has been freed.
\<close>

theorem reset_daemon_dangles:
  assumes "p \<in> set (esd_players_list s @ esd_recorder_list s @ esd_monitor_list s @ esd_filter_list s)"
    and "s' = snd (reset_daemon key l s)"
  shows "esd_clients_list s' = [] \<and> esd_samples_list s' = [] \<and> \<not> esd_is_owned s' \<and> esd_is_locked s'
    \<and> p \<in> set (esd_players_list s' @ esd_recorder_list s' @ esd_monitor_list s' @ esd_filter_list s')
    \<and> the_client (pl_parent p) s' = None \<and> the_sample (pl_parent p) s' = None"
  using assms by (simp add: reset_daemon_eq the_client_def the_sample_def)

theorem reset_daemon_dangles_witness:
  "the_client 1 (snd (reset_daemon (replicate 16 3) lib0 daemon0)) = None \<and> \<not> srv_inv (snd (reset_daemon (replicate 16 3) lib0 daemon0))"
proof -
  let ?p = "(player0 0x1021 256 256 [])\<lparr>pl_addr := 2, pl_parent := 1\<rparr>"
  let ?s = "snd (reset_daemon (replicate 16 3) lib0 daemon0)"
  have p: "?p \<in> set (esd_players_list daemon0)" by (simp add: daemon0_def)
  then have c: "the_client 1 ?s = None" using reset_daemon_dangles [of ?p daemon0 ?s "replicate 16 3" lib0] by simp
  moreover have "?p \<in> set (esd_players_list ?s)" using p by (simp add: reset_daemon_eq)
  ultimately have "\<not> srv_inv ?s" using inv_stream_parent [of ?s ?p] by (auto simp: player0_def)
  with c show ?thesis by simp
qed

text \<open>
  C6. Only \<open>SIGHUP\<close> ends an ownership. In a run in which the signal does not come, whatever the turns, the other
  signals and the world do, the daemon stays owned and the owner's key stays the same. In a run in which it
  comes, owner and key are the same up to its first arrival; with it the daemon has no owner, is locked, and its
  key is the one the handler made up.
\<close>

theorem owner_lost_by_sighup_only:
  assumes "signal_run s0 hups s" "esd_is_owned s0"
  shows "(hups = [] \<longrightarrow> esd_is_owned s \<and> esd_owner_key s = esd_owner_key s0)
    \<and> (hups \<noteq> [] \<longrightarrow> (\<exists>s1 l s2. signal_run s0 [] s1 \<and> esd_is_owned s1 \<and> esd_owner_key s1 = esd_owner_key s0
        \<and> s2 = snd (reset_daemon (hd hups) (l :: esd_lib) s1)
        \<and> \<not> esd_is_owned s2 \<and> esd_is_locked s2 \<and> esd_owner_key s2 = hd hups \<and> signal_run s2 (tl hups) s))"
  using assms
proof (induction rule: signal_run.induct)
  case (step hups s s')
  have "signal_run s2 ks s'" if "signal_run s2 ks s" for s2 ks using signal_run.step [OF that step.hyps(2)] .
  with step.IH [OF step.prems] step_owner [OF step.hyps(2)] show ?case
    unfolding owner_kept_def by (cases "hups = []") (simp, blast)
next
  case (sighup hups s key l)
  show ?case
  proof (cases "hups = []")
    case True
    with sighup show ?thesis
      by (auto simp: reset_daemon_eq intro!: exI [of _ s] exI [of _ l] signal_run.start)
  next
    case False
    with sighup.IH [OF sighup.prems] show ?thesis by (auto intro: signal_run.sighup)
  qed
qed simp

theorem owner_lost_by_sighup_only_witness:
  "esd_is_owned (reconnect_driver daemon0) \<and> esd_owner_key (reconnect_driver daemon0) = replicate 16 7
   \<and> (\<exists>s1 l s2. signal_run daemon0 [] s1 \<and> esd_is_owned s1 \<and> esd_owner_key s1 = replicate 16 7
        \<and> s2 = snd (reset_daemon (replicate 16 3) (l :: esd_lib) s1)
        \<and> \<not> esd_is_owned s2 \<and> esd_is_locked s2 \<and> esd_owner_key s2 = replicate 16 3
        \<and> signal_run s2 [] (snd (reset_daemon (replicate 16 3) lib0 (reconnect_driver daemon0))))"
proof -
  have own: "esd_is_owned daemon0" "esd_owner_key daemon0 = replicate 16 7" by (simp_all add: daemon0_def)
  have run: "signal_run daemon0 [] (reconnect_driver daemon0)"
    by (rule signal_run.step [OF signal_run.start comm_step.sigusr1])
  from signal_run.sighup [OF this, of "replicate 16 3" lib0]
  have hup: "signal_run daemon0 [replicate 16 3] (snd (reset_daemon (replicate 16 3) lib0 (reconnect_driver daemon0)))" by simp
  show ?thesis
    using owner_lost_by_sighup_only [OF run own(1)] owner_lost_by_sighup_only [OF hup own(1)] own(2) by simp
qed

end
