(* ===== verification/Esd_Options.thy ===== *)
theory Esd_Options
  imports Esd_Config
begin

text \<open>
  What the daemon is told at start-up: the names of its socket (\<open>util.c\<close>) and its options, from the
  configuration and the command line (\<open>main\<close> in \<open>esd.c\<close>). Messages are not modelled, nor are the
  options \<open>-vt\<close>, \<open>-vc\<close> and \<open>-vm\<close> of debugging builds.
\<close>

subsection \<open>Names of the socket\<close>

text \<open>\<open>strrchr\<close>: the string from the last occurrence on.\<close>

fun strrchr :: "string \<Rightarrow> char \<Rightarrow> string option" where
  "strrchr [] c = None"
| "strrchr (x # xs) c = (case strrchr xs c of Some r \<Rightarrow> Some r | None \<Rightarrow> if x = c then Some (x # xs) else None)"

text \<open>The digits of a number that is not negative, as \<open>sprintf\<close> writes them.\<close>

function decimal :: "nat \<Rightarrow> string" where
  "decimal n = (if n < 10 then [char_of (48 + n)] else decimal (n div 10) @ [char_of (48 + n mod 10)])"
  by pat_completeness auto
termination by (relation "measure id") auto

declare decimal.simps [simp del]

text \<open>
  \<open>audiodev = newdev++\<close> assigns the pointer before it is increased, so the slash stays.
\<close>

definition esd_get_socket_dirname :: "string option \<Rightarrow> nat \<Rightarrow> string" where
  "esd_get_socket_dirname audiodev uid =
    (let dev = (case audiodev of None \<Rightarrow> '''' | Some d \<Rightarrow> (case strrchr d CHR ''/'' of Some r \<Rightarrow> r | None \<Rightarrow> d))
     in ''/tmp/.esd'' @ dev @ ''-'' @ decimal uid)"

definition esd_get_socket_name :: "string option \<Rightarrow> nat \<Rightarrow> string" where
  "esd_get_socket_name audiodev uid = esd_get_socket_dirname audiodev uid @ ''/socket''"

subsection \<open>Options\<close>

abbreviation (input) MAX_OPTS :: nat where "MAX_OPTS \<equiv> 128"

record esd_opts =
  opt_device :: "string option"
  opt_port :: int
  opt_hostname :: "string option"
  opt_format :: int
  opt_rate :: int
  opt_autostandby_secs :: int
  opt_beeps :: bool
  opt_use_tcpip :: bool
  opt_public :: bool
  opt_is_owned :: bool
  opt_is_locked :: bool
  opt_terminate :: bool
  opt_spawnpid :: int
  opt_spawnfd :: int
  opt_trustval :: int

definition opts0 :: esd_opts where
  "opts0 = \<lparr>opt_device = None, opt_port = 16001, opt_hostname = None, opt_format = 0x21, opt_rate = 44100,
     opt_autostandby_secs = -1, opt_beeps = True, opt_use_tcpip = False, opt_public = False, opt_is_owned = False,
     opt_is_locked = True, opt_terminate = False, opt_spawnpid = 0, opt_spawnfd = -1, opt_trustval = -1\<rparr>"

text \<open>Options that stand alone, and options that take the next word (if there is one).\<close>

definition flag_option :: "string \<Rightarrow> (esd_opts \<Rightarrow> esd_opts) option" where
  "flag_option a =
    (if a = ''-b'' then Some (\<lambda>opt. opt\<lparr>opt_format := (opt_format opt AND NOT 0xF) OR 0\<rparr>)
     else if a = ''-nobeeps'' then Some (\<lambda>opt. opt\<lparr>opt_beeps := False\<rparr>)
     else if a = ''-beeps'' then Some (\<lambda>opt. opt\<lparr>opt_beeps := True\<rparr>)
     else if a = ''-unix'' then Some (\<lambda>opt. opt\<lparr>opt_use_tcpip := False\<rparr>)
     else if a = ''-tcp'' then Some (\<lambda>opt. opt\<lparr>opt_use_tcpip := True\<rparr>)
     else if a = ''-public'' then Some (\<lambda>opt. opt\<lparr>opt_public := True\<rparr>)
     else if a = ''-promiscuous'' then Some (\<lambda>opt. opt\<lparr>opt_is_owned := True, opt_is_locked := False\<rparr>)
     else if a = ''-terminate'' then Some (\<lambda>opt. opt\<lparr>opt_terminate := True\<rparr>)
     else if a = ''-noterminate'' then Some (\<lambda>opt. opt\<lparr>opt_terminate := False\<rparr>)
     else if a = ''-trust'' then Some (\<lambda>opt. opt\<lparr>opt_trustval := 0\<rparr>)
     else None)"

definition value_option :: "string \<Rightarrow> (string \<Rightarrow> esd_opts \<Rightarrow> esd_opts) option" where
  "value_option a =
    (if a = ''-d'' then Some (\<lambda>v opt. opt\<lparr>opt_device := Some v\<rparr>)
     else if a = ''-port'' then Some (\<lambda>v opt. opt\<lparr>opt_port := (if atoi v = 0 then 16001 else atoi v)\<rparr>)
     else if a = ''-bind'' then Some (\<lambda>v opt. opt\<lparr>opt_hostname := Some v\<rparr>)
     else if a = ''-r'' then Some (\<lambda>v opt. opt\<lparr>opt_rate := (if atoi v = 0 then 44100 else atoi v)\<rparr>)
     else if a = ''-as'' then Some (\<lambda>v opt. let (n, rest) = strtol v 10 in
       opt\<lparr>opt_autostandby_secs := (if i32 n = 0 \<and> rest = [] then 5 else i32 n)\<rparr>)
     else if a = ''-spawnpid'' then Some (\<lambda>v opt. opt\<lparr>opt_spawnpid := atoi v\<rparr>)
     else if a = ''-spawnfd'' then Some (\<lambda>v opt. let (n, rest) = strtol v 0 in
       if rest = v then opt else opt\<lparr>opt_spawnfd := i32 n\<rparr>)
     else None)"

definition info_option :: "string \<Rightarrow> bool" where
  "info_option a \<longleftrightarrow> a \<in> {''-v'', ''--version'', ''-h'', ''--help''}"

text \<open>\<open>None\<close> is \<open>exit (0)\<close> after the version or the help; unknown options are only reported.\<close>

fun parse_opts :: "string list \<Rightarrow> esd_opts \<Rightarrow> esd_opts option" where
  "parse_opts [] opt = Some opt"
| "parse_opts (a # as) opt =
    (case value_option a of
       Some f \<Rightarrow> (case as of [] \<Rightarrow> Some opt | v # as \<Rightarrow> parse_opts as (f v opt))
     | None \<Rightarrow>
    (case flag_option a of
       Some f \<Rightarrow> parse_opts as (f opt)
     | None \<Rightarrow> if info_option a then None else parse_opts as opt))"

text \<open>The words of the configured options, at most \<open>n\<close>, and then the arguments as far as there is room.\<close>

fun option_words :: "nat \<Rightarrow> string \<Rightarrow> string list" where
  "option_words 0 s = []"
| "option_words (Suc n) s =
    (case strtok s '' '' of (None, _) \<Rightarrow> [] | (Some t, rest) \<Rightarrow> t # option_words n rest)"

definition is_spawning :: "esd_conf \<Rightarrow> string list \<Rightarrow> bool" where
  "is_spawning c args \<longleftrightarrow> \<not> esd_no_spawn c \<and> ''-spawnfd'' \<in> set (butlast args)"

definition conf_words :: "esd_conf \<Rightarrow> string list \<Rightarrow> string list" where
  "conf_words c args = option_words MAX_OPTS (take LINEBUF_SIZE
     (if is_spawning c args then esd_spawn_options c else esd_default_options c))"

definition merge_opts :: "esd_conf \<Rightarrow> string list \<Rightarrow> string list" where
  "merge_opts c args = conf_words c args @ take (MAX_OPTS - length (conf_words c args)) args"

subsection \<open>Laws\<close>

text \<open>Words in which every option that takes a value has one.\<close>

fun complete :: "string list \<Rightarrow> bool" where
  "complete [] \<longleftrightarrow> True"
| "complete (a # as) \<longleftrightarrow>
    (case value_option a of Some _ \<Rightarrow> (case as of [] \<Rightarrow> False | v # as \<Rightarrow> complete as) | None \<Rightarrow> complete as)"

lemma parse_opts_append:
  "complete xs \<Longrightarrow> parse_opts (xs @ ys) opt = Option.bind (parse_opts xs opt) (parse_opts ys)"
proof (induction xs arbitrary: opt rule: complete.induct)
  case (2 a as)
  show ?case
  proof (cases "value_option a")
    case None
    then show ?thesis using 2 by (simp split: option.splits)
  next
    case (Some f)
    then show ?thesis using 2 by (cases as) simp_all
  qed
qed simp

lemma option_words_length: "length (option_words n s) \<le> n"
  by (induction n arbitrary: s) (auto split: option.splits prod.splits)

lemma merge_opts_length: "length (merge_opts c args) \<le> MAX_OPTS"
proof -
  have "length (conf_words c args) \<le> MAX_OPTS" by (simp add: conf_words_def option_words_length)
  then show ?thesis by (simp add: merge_opts_def)
qed

lemma strrchr_none: "strrchr s c = None \<longleftrightarrow> c \<notin> set s"
  by (induction s) (auto split: option.splits)

lemma strrchr_some: "strrchr s c = Some r \<Longrightarrow> \<exists>p. s = p @ r \<and> r \<noteq> [] \<and> hd r = c \<and> c \<notin> set (tl r)"
proof (induction s)
  case (Cons x xs)
  show ?case
  proof (cases "strrchr xs c")
    case None
    then have "c \<notin> set xs" by (simp add: strrchr_none)
    then show ?thesis using Cons.prems None by (auto split: if_splits)
  next
    case (Some r')
    then show ?thesis using Cons by (auto intro: exI [of _ "x # _"])
  qed
qed simp

lemma value_option_as:
  "value_option ''-as'' = Some (\<lambda>v opt. let (n, rest) = strtol v 10 in
     opt\<lparr>opt_autostandby_secs := (if i32 n = 0 \<and> rest = [] then 5 else i32 n)\<rparr>)"
  by (simp add: value_option_def)

lemma strtol_no_digit:
  assumes "list_all (\<lambda>c. digit_val 10 c = None) v"
  shows "strtol v 10 = (0, v)"
proof -
  have no: "\<not> has_digit 10 t" if "set t \<subseteq> set v" for t
    using that assms by (cases t) (auto simp: has_digit_def list_all_iff)
  have "set (dropWhile isspace v) \<subseteq> set v" by (auto dest: set_dropWhileD)
  moreover have tl: "set (tl xs) \<subseteq> set xs" for xs :: string by (cases xs) auto
  ultimately have "\<not> has_digit 10 (dropWhile isspace v)" "\<not> has_digit 10 (tl (dropWhile isspace v))"
    using no order_trans [OF tl] by blast+
  then show ?thesis by (simp add: strtol_def Let_def)
qed
subsection \<open>Properties\<close>

text \<open>
  The options of the configuration come first and those of the command line last, so the command
  line decides: if the configured words are complete and there is room, \<open>main\<close> reads the command line on
  top of them, and a value option that ends the command line has its value, whatever was configured.
\<close>

theorem command_line_decides:
  assumes "complete (conf_words c (xs @ [a, v]))" and "complete xs" and "value_option a = Some f"
    and "length (conf_words c (xs @ [a, v])) + length xs + 2 \<le> MAX_OPTS"
    and "parse_opts (conf_words c (xs @ [a, v])) opt = Some opt1" and "parse_opts xs opt1 = Some opt2"
  shows "parse_opts (merge_opts c (xs @ [a, v])) opt = Some (f v opt2)"
  using assms by (simp add: merge_opts_def parse_opts_append)

theorem command_line_decides_witness:
  "parse_opts (merge_opts (conf0\<lparr>esd_default_options := ''-port 5 -tcp''\<rparr>) (''-public'' # ''-port'' # [''80''])) opts0
     = Some (opts0\<lparr>opt_use_tcpip := True, opt_public := True, opt_port := 80\<rparr>)"
proof -
  let ?c = "conf0\<lparr>esd_default_options := ''-port 5 -tcp''\<rparr>"
  have w: "conf_words ?c ([''-public''] @ [''-port'', ''80'']) = [''-port'', ''5'', ''-tcp'']" by code_simp
  have a: "atoi ''5'' = 5" "atoi ''80'' = 80" by code_simp+
  have p: "value_option ''-port'' = Some (\<lambda>v opt. opt\<lparr>opt_port := (if atoi v = 0 then 16001 else atoi v)\<rparr>)"
    by (simp add: value_option_def)
  have o: "value_option ''-tcp'' = None" "value_option ''-public'' = None"
    "flag_option ''-tcp'' = Some (\<lambda>opt. opt\<lparr>opt_use_tcpip := True\<rparr>)"
    "flag_option ''-public'' = Some (\<lambda>opt. opt\<lparr>opt_public := True\<rparr>)"
    by (simp_all add: value_option_def flag_option_def)
  show ?thesis
    using command_line_decides [OF _ _ p, of ?c "[''-public'']" "''80''" opts0] w a by (simp add: p o opts0_def)
qed

text \<open>
  A configured option without its value takes the first word of the command line as the value,
  although the command line is meant to come after the configuration.
\<close>

theorem dangling_option_swallows:
  assumes "conf_words c (w # args) = ws @ [a]" and "complete ws" and "value_option a = Some f"
    and "length ws + length args + 2 \<le> MAX_OPTS" and "parse_opts ws opt = Some opt1"
  shows "parse_opts (merge_opts c (w # args)) opt = parse_opts args (f w opt1)"
  using assms by (simp add: merge_opts_def parse_opts_append)

theorem dangling_option_swallows_witness:
  "parse_opts (merge_opts (conf0\<lparr>esd_default_options := ''-d''\<rparr>) [''-public'']) opts0
     = Some (opts0\<lparr>opt_device := Some ''-public''\<rparr>)"
proof -
  have w: "conf_words (conf0\<lparr>esd_default_options := ''-d''\<rparr>) [''-public''] = [] @ [''-d'']" by code_simp
  have d: "value_option ''-d'' = Some (\<lambda>v opt. opt\<lparr>opt_device := Some v\<rparr>)" by (simp add: value_option_def)
  show ?thesis using dangling_option_swallows [OF w _ d] by simp
qed

text \<open>
  The check of the argument of \<open>-as\<close> is inverted: a readable zero is replaced by the
  default of five seconds, and a word without a digit, which could not be read, gives zero.
\<close>

theorem autostandby_check_inverted:
  assumes "v \<noteq> []" and "list_all (\<lambda>c. digit_val 10 c = None) v"
  shows "parse_opts [''-as'', ''0''] opt = Some (opt\<lparr>opt_autostandby_secs := 5\<rparr>)
    \<and> parse_opts [''-as'', v] opt = Some (opt\<lparr>opt_autostandby_secs := 0\<rparr>)"
proof -
  have "strtol ''0'' 10 = (0, [])" by code_simp
  then show ?thesis
    using assms by (simp add: value_option_as strtol_no_digit i32_def)
qed

theorem autostandby_check_inverted_witness:
  "parse_opts [''-as'', ''never''] opts0 = Some (opts0\<lparr>opt_autostandby_secs := 0\<rparr>)"
  using autostandby_check_inverted [of "''never''" opts0] by (simp add: digit_val_def)

text \<open>
  The directory of the unix socket: without \<open>AUDIODEV\<close> it is \<open>/tmp/.esd-<uid>\<close>. With a device in a
  directory the part from its last slash on goes into the name, the slash included, so the socket
  directory is one inside \<open>/tmp/.esd\<close>, which nobody creates.
\<close>

theorem socket_dir_keeps_slash:
  assumes "CHR ''/'' \<notin> set dev"
  shows "esd_get_socket_dirname None uid = ''/tmp/.esd-'' @ decimal uid
    \<and> esd_get_socket_dirname (Some (dir @ ''/'' @ dev)) uid = ''/tmp/.esd/'' @ dev @ ''-'' @ decimal uid"
proof -
  have "strrchr (dir @ ''/'' @ dev) CHR ''/'' = Some (''/'' @ dev)"
    using assms by (induction dir) (simp_all add: strrchr_none [THEN iffD2])
  then show ?thesis by (simp add: esd_get_socket_dirname_def)
qed

theorem socket_dir_keeps_slash_witness:
  "esd_get_socket_name (Some ''/dev/dsp1'') 500 = ''/tmp/.esd/dsp1-500/socket''"
proof -
  have "decimal 500 = ''500''" by code_simp
  then show ?thesis
    using socket_dir_keeps_slash [of "''dsp1''" 500 "''/dev''"] by (simp add: esd_get_socket_name_def)
qed

end
