(* ===== verification/Esd_Startup.thy ===== *)
theory Esd_Startup
  imports Esd_Options Esd_Server
begin

text \<open>
  The start of the daemon (\<open>main\<close> and the functions before it in \<open>esd.c\<close>): the directory of the
  socket, the listening socket, the device, the start-up tones and the report to the process that
  spawned it. The build is one without \<open>ENABLE_IPV6\<close>. The results of the system calls made on the way
  are parameters.
\<close>

subsection \<open>Descriptors\<close>

text \<open>
  During start-up it matters which descriptor is which: \<open>main\<close> closes all of them and goes on using
  the number it was given on the command line. A table says what each number stands for; a new
  descriptor is the lowest free one.
\<close>

datatype fobj = FOther | FPipe | FNull | FDir | FProbe | FListen | FDevice

type_synonym fdtab = "nat \<Rightarrow> fobj option"

definition new_fd :: "nat \<Rightarrow> fobj \<Rightarrow> fdtab \<Rightarrow> int \<times> fdtab" where
  "new_fd max_fds x t =
    (case find (\<lambda>i. t i = None) [0..<max_fds] of None \<Rightarrow> (-1, t) | Some i \<Rightarrow> (int i, t(i \<mapsto> x)))"

definition close_fd :: "int \<Rightarrow> fdtab \<Rightarrow> fdtab" where
  "close_fd fd t = (if fd < 0 then t else t(nat fd := None))"

fun close_all :: "nat \<Rightarrow> fdtab \<Rightarrow> fdtab" where
  "close_all 0 t = t"
| "close_all (Suc n) t = (close_all n t)(n := None)"

subsection \<open>The directory of the socket\<close>

record dirstat =
  st_isdir :: bool
  st_uid :: nat
  st_mode :: nat    \<comment> \<open>the permission bits\<close>
  st_dev :: nat
  st_ino :: nat

datatype mkdir_result = MkOk | MkExists | MkFail

record dir_env =
  mk :: mkdir_result
  chmod_ok :: bool
  lstat_res :: "dirstat option"
  getuid :: nat
  open_ok :: bool
  fstat_res :: "dirstat option"
  fchown_ok :: bool
  fchmod_ok :: bool

text \<open>Mode \<open>01777\<close>, and whether a mode has bits outside it or lets others write without the sticky bit.\<close>

definition bad_mode :: "nat \<Rightarrow> bool" where
  "bad_mode m \<longleftrightarrow> m AND 0xC00 \<noteq> 0 \<or> (m AND 2 \<noteq> 0 \<and> m AND 0x200 = 0)"

text \<open>Two statuses of the same directory.\<close>

definition same_dir :: "dirstat \<Rightarrow> dirstat \<Rightarrow> bool" where
  "same_dir st fstat \<longleftrightarrow> st_isdir fstat \<and> st_dev st = st_dev fstat \<and> st_ino st = st_ino fstat"

text \<open>
  An existing directory: whether its owner and its mode were put right, or nothing if it was exchanged
  meanwhile; then the descriptor stays open.
\<close>

definition fix_socketdir :: "nat \<Rightarrow> bool \<Rightarrow> bool \<Rightarrow> dirstat \<Rightarrow> dir_env \<Rightarrow> fdtab \<Rightarrow> (bool \<times> bool) option \<times> fdtab" where
  "fix_socketdir max_fds update_owner update_mode st e t =
    (if \<not> (update_mode \<or> update_owner) then (Some (False, False), t)
     else let (fd, t) = (if open_ok e then new_fd max_fds FDir t else (-1, t))
     in if fd = -1 then (Some (False, False), t)
        else case fstat_res e of
          None \<Rightarrow> (None, t)
        | Some fstat \<Rightarrow>
            if \<not> same_dir st fstat then (None, t)
            else (Some (update_owner \<and> fchown_ok e, update_mode \<and> fchmod_ok e), close_fd fd t))"

definition safe_mksocketdir :: "nat \<Rightarrow> int \<Rightarrow> dir_env \<Rightarrow> fdtab \<Rightarrow> int \<times> fdtab" where
  "safe_mksocketdir max_fds trustval e t =
    (case mk e of
       MkOk \<Rightarrow> (if chmod_ok e then 0 else -1, t)
     | MkFail \<Rightarrow> (-1, t)
     | MkExists \<Rightarrow>
    (case lstat_res e of
       None \<Rightarrow> (-1, t)
     | Some st \<Rightarrow>
       if \<not> st_isdir st then (-1, t)
       else
         let update_owner = (st_uid st \<noteq> 0 \<and> st_uid st \<noteq> getuid e);
             update_mode = bad_mode (st_mode st);
             (fixed, t) = fix_socketdir max_fds update_owner update_mode st e t
         in case fixed of
              None \<Rightarrow> (trustval, t)
            | Some (updated_owner, updated_mode) \<Rightarrow>
                if update_owner \<and> \<not> updated_owner then (trustval, t)
                else if update_mode \<and> \<not> updated_mode then (trustval, t)
                else (0, t)))"

subsection \<open>The listening socket\<close>

text \<open>
  Whether each of the calls works, and the address a host name resolves to. The addresses a socket
  is bound to: a port of all interfaces, of the loopback interface or of one address, or a path.
\<close>

datatype baddr = AnyAddr int | Loopback int | HostAddr string int | UnixAddr string

record listen_env =
  le_dir :: dir_env
  audiodev :: "string option"          \<comment> \<open>\<open>AUDIODEV\<close>\<close>
  gethostbyname2 :: "string \<Rightarrow> string option"
  probe_socket :: bool
  probe_options :: bool
  probe_connect :: bool
  socket_ok :: bool
  nonblock_ok :: bool
  linger_ok :: bool
  bind_ok :: bool
  listen_ok :: bool

text \<open>Listening, returning -1, or \<open>exit (1)\<close>, the last with whether the socket and its directory were removed.\<close>

datatype listen_result = Listening int baddr | NoSocket | ListenExit bool

text \<open>\<open>esd_connect_unix\<close> of \<open>esd.c\<close>: a refused connection leaves its descriptor open.\<close>

definition probe_unix :: "nat \<Rightarrow> listen_env \<Rightarrow> fdtab \<Rightarrow> int \<times> fdtab" where
  "probe_unix max_fds e t =
    (if \<not> probe_socket e then (-1, t)
     else let (fd, t) = new_fd max_fds FProbe t
     in if fd < 0 then (-1, t)
        else if \<not> probe_options e then (-1, close_fd fd t)
        else if \<not> probe_connect e then (-1, t)
        else (fd, t))"

text \<open>The address for TCP: the host given, or all interfaces, or the loopback one; \<open>htons\<close> keeps 16 bits.\<close>

definition tcp_address :: "esd_opts \<Rightarrow> listen_env \<Rightarrow> baddr option" where
  "tcp_address opt e =
    (case opt_hostname opt of
       Some h \<Rightarrow> (case gethostbyname2 e h of
                    None \<Rightarrow> None | Some ip \<Rightarrow> Some (HostAddr ip (take_bit 16 (opt_port opt))))
     | None \<Rightarrow> Some (if opt_public opt then AnyAddr (take_bit 16 (opt_port opt))
                      else Loopback (take_bit 16 (opt_port opt))))"

text \<open>
  The path is copied with \<open>strncpy\<close> into the 108 bytes of \<open>sun_path\<close>: a longer one is cut off, and has no NUL then.
\<close>

definition unix_address :: "listen_env \<Rightarrow> baddr" where
  "unix_address e = UnixAddr (take 108 (esd_get_socket_name (audiodev e) (getuid (le_dir e))))"

definition listen_on :: "nat \<Rightarrow> bool \<Rightarrow> baddr \<Rightarrow> listen_env \<Rightarrow> fdtab \<Rightarrow> listen_result \<times> fdtab" where
  "listen_on max_fds tcpip a e t =
    (let (fd, t) = (if socket_ok e then new_fd max_fds FListen t else (-1, t))
     in if fd < 0 \<or> \<not> nonblock_ok e \<or> \<not> linger_ok e then (NoSocket, t)
        else if \<not> bind_ok e \<or> \<not> listen_ok e then (ListenExit (\<not> tcpip), t)
        else (Listening fd a, t))"

definition open_listen_socket :: "nat \<Rightarrow> esd_opts \<Rightarrow> listen_env \<Rightarrow> fdtab \<Rightarrow> listen_result \<times> fdtab" where
  "open_listen_socket max_fds opt e t =
    (if opt_use_tcpip opt then
       (case tcp_address opt e of None \<Rightarrow> (NoSocket, t) | Some a \<Rightarrow> listen_on max_fds True a e t)
     else let (bad, t) = safe_mksocketdir max_fds (opt_trustval opt) (le_dir e) t
     in if bad \<noteq> 0 then (ListenExit False, t)
     else let (fd, t) = probe_unix max_fds e t
     in if fd \<ge> 0 then (ListenExit False, t) else listen_on max_fds False (unix_address e) e t)"

subsection \<open>Start-up tones\<close>

text \<open>
  The sine waves are computed in floating point: the value of \<open>base + mag * sin (k * kf)\<close> as it is converted to
  an integer, where \<open>kf\<close> depends on the frequency and the rate, is the parameter \<open>wave base mag freq speed k\<close>.
  Formats have 8 or 16 bits, so the branch of \<open>set_audio_buffer\<close> that exits is not reached.
\<close>

type_synonym waves = "int \<Rightarrow> int \<Rightarrow> int \<Rightarrow> int \<Rightarrow> int \<Rightarrow> int"

definition set_audio_buffer ::
  "waves \<Rightarrow> octet list \<Rightarrow> int \<Rightarrow> int \<Rightarrow> int \<Rightarrow> int \<Rightarrow> int \<Rightarrow> int \<Rightarrow> int \<Rightarrow> octet list option" where
  "set_audio_buffer wave buf format magl magr freq speed len offset =
    map_option snd
      (if format AND ESD_MASK_BITS = ESD_BITS8 then
         loop2 uc_put (\<lambda>i. Some (wave 127 magl freq speed (int i + offset), wave 127 magr freq speed (int i + offset)))
           0 (nat len) buf
       else
         loop2 ss_put (\<lambda>i. Some (wave 0 magl freq speed (int i + offset), wave 0 magr freq speed (int i + offset)))
           0 (nat len) buf)"

text \<open>The frequencies of the notes, and the notes with their numbers and repetitions.\<close>

function tone_freqs :: "int \<Rightarrow> int \<Rightarrow> int list" where
  "tone_freqs freq rate = (if 0 < freq \<and> freq < rate sdiv 2 then freq # tone_freqs (freq * 2) rate else [])"
  by pat_completeness auto
termination
  by (relation "measure (\<lambda>(freq, rate). nat (rate sdiv 2 - freq))") auto

declare tone_freqs.simps [simp del]

definition tones :: "int \<Rightarrow> int \<Rightarrow> (nat \<times> int \<times> int) list" where
  "tones rate n = concat (map (\<lambda>(i, freq). map (\<lambda>j. (i, freq, j)) [0..n - 1]) (enumerate 0 (tone_freqs 55 rate)))"

fun play_tones :: "waves \<Rightarrow> (nat \<times> int \<times> int) list \<Rightarrow> esd_daemon \<Rightarrow> esd_daemon option" where
  "play_tones wave [] s = Some s"
| "play_tones wave ((i, freq, j) # ts) s = do {
     let mag = (if esd_audio_format s AND ESD_MASK_BITS = ESD_BITS16 then 30000 else 100);
     b \<leftarrow> set_audio_buffer wave (output_buffer s) (esd_audio_format s) (if odd i then mag else 0)
            (if odd i then 0 else mag) freq (esd_audio_rate s) (esd_buf_size_samples s) (j * esd_buf_size_samples s);
     (_, s) \<leftarrow> esd_audio_write b (esd_buf_size_octets s) (s\<lparr>output_buffer := b\<rparr>);
     play_tones wave ts s }"

definition startup_tones :: "waves \<Rightarrow> esd_daemon \<Rightarrow> esd_daemon option" where
  "startup_tones wave s = do {
     n \<leftarrow> (if tone_freqs 55 (esd_audio_rate s) = [] then Some 0
          else cdiv (esd_audio_rate s sdiv 4) (esd_buf_size_samples s));
     s \<leftarrow> play_tones wave (tones (esd_audio_rate s) n) s;
     Some (esd_audio_pause s) }"

subsection \<open>The main program\<close>

text \<open>
  The report to the process that spawned the daemon: a signal to the process it was given, and one
  byte on the descriptor it was given. The report holds the signals sent and what was written to what.
\<close>

datatype signal = SIGALRM | SIGUSR1

datatype notice = Killed int signal | Wrote fobj octet

definition write_fd :: "int \<Rightarrow> octet \<Rightarrow> fdtab \<Rightarrow> notice list" where
  "write_fd fd c t = (case t (nat fd) of None \<Rightarrow> [] | Some x \<Rightarrow> [Wrote x c])"

definition notify :: "esd_opts \<Rightarrow> signal \<Rightarrow> octet \<Rightarrow> fdtab \<Rightarrow> notice list" where
  "notify opt sig c t =
    (if opt_spawnpid opt \<noteq> 0 then [Killed (opt_spawnpid opt) sig] else [])
    @ (if opt_spawnfd opt \<ge> 0 then write_fd (opt_spawnfd opt) c t else [])"

text \<open>\<open>exit\<close> with a code, whether the socket files were removed, and the report; or the daemon enters its loop.\<close>

datatype start_result =
  StartExit (exit_code: int) (exit_unlinked: bool) (notices: "notice list")
| Started (started: esd_daemon) (start_fds: fdtab) (notices: "notice list")

text \<open>The initial values of the globals and of the variables of the main loop.\<close>

definition static_init :: "esd_daemon \<Rightarrow> esd_daemon" where
  "static_init s = s\<lparr>esd_audio_format := 0x21, esd_audio_rate := 44100, esd_audio_fd := -1, select_works := False,
     esd_write_size := 4096, esd_clients_list := [], esd_players_list := [], esd_recorder_list := [],
     esd_monitor_list := [], esd_filter_list := [], esd_samples_list := [], esd_playing_samples := 0,
     esd_next_sample_id := 1, esd_owner_key := replicate 16 0,
     esd_on_standby := False, esd_on_autostandby := False, esd_forced_standby := False, esd_buf_size_octets := 0,
     esd_buf_size_samples := 0, mixed_buffer := [], output_buffer := [], esd_first_filter_func := None,
     esd_last_activity := 0, esd_pending_driver_reconnect := False, sock_unlinked := False,
     comm_first := True, is_paused_here := False\<rparr>"

text \<open>The globals as the options leave them.\<close>

definition set_globals :: "esd_opts \<Rightarrow> int \<Rightarrow> esd_daemon \<Rightarrow> esd_daemon" where
  "set_globals opt fd s = s\<lparr>esd_is_owned := opt_is_owned opt, esd_is_locked := opt_is_locked opt,
     listen_socket := fd, esd_autostandby_secs := opt_autostandby_secs opt, esd_terminate := opt_terminate opt,
     esd_use_tcpip := opt_use_tcpip opt\<rparr>"

definition start_device ::
  "waves \<Rightarrow> nat \<Rightarrow> esd_opts \<Rightarrow> fdtab \<Rightarrow> esd_daemon \<Rightarrow> start_result option" where
  "start_device wave max_fds opt t s = do {
     let (code, s) = open_device (opt_format opt) (opt_rate opt) s;
     let t = (if code = 0 then snd (new_fd max_fds FDevice t) else t);
     if code \<noteq> 0 then Some (StartExit code (\<not> opt_use_tcpip opt) (notify opt SIGALRM 0 t))
     else do {
       s \<leftarrow> setup_buffers s;
       s \<leftarrow> (if opt_spawnfd opt \<ge> 0 \<and> opt_beeps opt then startup_tones wave s else Some s);
       Some (Started s (if opt_spawnfd opt \<ge> 0 then close_fd (opt_spawnfd opt) t else t) (notify opt SIGUSR1 1 t)) } }"

definition esd_main ::
  "waves \<Rightarrow> conf_env \<Rightarrow> string list \<Rightarrow> nat \<Rightarrow> listen_env \<Rightarrow> fdtab \<Rightarrow> esd_daemon \<Rightarrow> start_result option" where
  "esd_main wave cenv args max_fds e t s = do {
     conf \<leftarrow> esd_config_read cenv conf0;
     case parse_opts (merge_opts conf args) opts0 of
       None \<Rightarrow> Some (StartExit 0 False [])
     | Some opt \<Rightarrow> do {
         let t = close_all max_fds t;
         let (_, t) = new_fd max_fds FNull t;
         let (_, t) = new_fd max_fds FNull t;
         let (_, t) = new_fd max_fds FNull t;
         let (r, t) = open_listen_socket max_fds opt e t;
         case r of
           NoSocket \<Rightarrow> Some (StartExit 1 (\<not> opt_use_tcpip opt) [])
         | ListenExit removed \<Rightarrow> Some (StartExit 1 removed [])
         | Listening fd _ \<Rightarrow> start_device wave max_fds opt t (set_globals opt fd (static_init s)) } }"

end
