(* ===== verification/Esd_Startup_Laws.thy ===== *)
theory Esd_Startup_Laws
  imports Esd_Startup Esd_Auth
begin

text \<open>
  What the start-up of the daemon guarantees and what it does not: the state it hands to the main loop, the
  socket and its directory, and the fate of the report to the spawning process.
\<close>

subsection \<open>What start-up leaves alone\<close>

lemma boot_view:
  fixes s s' :: esd_daemon
  assumes "view s' = view s" and "boot s"
  shows "boot s'"
proof -
  have "boot x \<longleftrightarrow> vC (view x) = [] \<and> vP (view x) = [] \<and> vR (view x) = [] \<and> vM (view x) = [] \<and> vF (view x) = []
      \<and> vS (view x) = [] \<and> vN (view x) = 0 \<and> 0 < vK (view x)" for x :: esd_daemon
    by (simp add: boot_def view_def)
  then show ?thesis using assms by metis
qed

text \<open>
  An observation that does not look at the device, its format and the output buffer survives
  opening the device and the tones.
\<close>

locale start_frame = audio_frame obs for obs :: "esd_daemon \<Rightarrow> 'b" +
  assumes obs_format: "obs (s\<lparr>esd_audio_format := a\<rparr>) = obs s" "obs (s\<lparr>esd_audio_rate := b\<rparr>) = obs s"
      "obs (s\<lparr>output_buffer := c\<rparr>) = obs s"
begin

lemma obs_try_formats: "obs (snd (try_formats fs s)) = obs s"
  by (induction fs arbitrary: s) (auto simp: Let_def case_prod_beta obs_device obs_format)

lemma obs_open_device: "obs (snd (open_device f r s)) = obs s"
  by (simp add: open_device_def Let_def case_prod_beta obs_device obs_format obs_try_formats)

lemma obs_play_tones: "play_tones wave ts s = Some s' \<Longrightarrow> obs s' = obs s"
proof (induction ts arbitrary: s)
  case (Cons t ts)
  then obtain b r s1 where w: "esd_audio_write b (esd_buf_size_octets s) (s\<lparr>output_buffer := b\<rparr>) = Some (r, s1)"
    and p: "play_tones wave ts s1 = Some s'"
    by (cases t) (auto simp: Let_def split: Option.bind_splits)
  show ?case using Cons.IH [OF p] obs_audio_write [OF w] by (simp add: obs_format)
qed simp

lemma obs_startup_tones: "startup_tones wave s = Some s' \<Longrightarrow> obs s' = obs s"
  by (auto simp: startup_tones_def obs_device split: Option.bind_splits if_splits dest!: obs_play_tones)

end

interpretation sview: start_frame "view :: esd_daemon \<Rightarrow> view"
  by unfold_locales (simp_all add: view_def)

interpretation sauth: start_frame "auth :: esd_daemon \<Rightarrow> bool \<times> bool \<times> octet list"
  by unfold_locales (simp_all add: auth_def)

interpretation slisten: start_frame listen_socket
  by unfold_locales simp_all

lemma setup_buffers_frame:
  assumes "setup_buffers s = Some s'"
  shows "boot s \<Longrightarrow> boot s'" and "auth s' = auth s" and "listen_socket s' = listen_socket s" and "length (output_buffer s') = nat (esd_buf_size_octets s')"
  using assms by (auto simp: setup_buffers_def malloc_def boot_def auth_def Let_def
      split: if_splits prod.splits list.splits)

lemma start_device_boot:
  assumes "start_device wave max_fds opt t s = Some (Started d fds ns)"
  shows "boot s \<Longrightarrow> boot d" and "auth d = auth s" and "listen_socket d = listen_socket s"
proof -
  obtain code s1 where s1: "open_device (opt_format opt) (opt_rate opt) s = (code, s1)" by fastforce
  with assms obtain s2 where s2: "setup_buffers s1 = Some s2"
      and d: "(if opt_spawnfd opt \<ge> 0 \<and> opt_beeps opt then startup_tones wave s2 else Some s2) = Some d"
    by (auto simp: start_device_def Let_def split: if_splits Option.bind_splits)
  have v1: "view s1 = view s" "auth s1 = auth s" "listen_socket s1 = listen_socket s"
    using sview.obs_open_device [of "opt_format opt" "opt_rate opt" s] s1
      sauth.obs_open_device [of "opt_format opt" "opt_rate opt" s]
      slisten.obs_open_device [of "opt_format opt" "opt_rate opt" s] by simp_all
  have v2: "view d = view s2" "auth d = auth s2" "listen_socket d = listen_socket s2"
    using d sview.obs_startup_tones sauth.obs_startup_tones slisten.obs_startup_tones by (auto split: if_splits)
  show "boot d" if "boot s"
    using boot_view [OF v2(1) setup_buffers_frame(1) [OF s2 boot_view [OF v1(1) that]]] .
  show "auth d = auth s" "listen_socket d = listen_socket s"
    using v1(2,3) v2(2,3) setup_buffers_frame(2,3) [OF s2] by simp_all
qed

lemma start_device_report:
  assumes "start_device wave max_fds opt t s = Some (Started d fds ns)" and "opt_spawnfd opt \<ge> 0"
  shows "\<exists>t1. t1 = snd (new_fd max_fds FDevice t) \<and> ns = notify opt SIGUSR1 1 t1 \<and> fds = close_fd (opt_spawnfd opt) t1"
  using assms by (auto simp: start_device_def Let_def case_prod_beta split: if_splits Option.bind_splits)

lemma esd_main_started:
  assumes "esd_main wave cenv args max_fds e t s = Some (Started d fds ns)"
  obtains conf opt fd a t1 t2 where "esd_config_read cenv conf0 = Some conf"
    "parse_opts (merge_opts conf args) opts0 = Some opt"
    "t1 = snd (new_fd max_fds FNull (snd (new_fd max_fds FNull (snd (new_fd max_fds FNull (close_all max_fds t))))))"
    "open_listen_socket max_fds opt e t1 = (Listening fd a, t2)"
    "start_device wave max_fds opt t2 (set_globals opt fd (static_init s)) = Some (Started d fds ns)"
  using assms
  by (auto simp: esd_main_def Let_def case_prod_beta split: Option.bind_splits option.splits listen_result.splits
      intro: that [OF _ _ _ prod_eqI])

text \<open>A part of the options that none of the words sets.\<close>

lemma parse_opts_keeps:
  assumes "parse_opts ws opt = Some opt'"
    and "\<And>a f v opt. a \<in> set ws \<Longrightarrow> value_option a = Some f \<Longrightarrow> h (f v opt) = h opt"
    and "\<And>a f opt. a \<in> set ws \<Longrightarrow> flag_option a = Some f \<Longrightarrow> h (f opt) = h opt"
  shows "h opt' = h opt"
  using assms
proof (induction ws opt rule: parse_opts.induct)
  case (2 a as opt)
  consider (v) f where "value_option a = Some f" | (f) f where "value_option a = None" "flag_option a = Some f"
    | (n) "value_option a = None" "flag_option a = None" by fastforce
  then show ?case
  proof cases
    case v
    show ?thesis
    proof (cases as)
      case Nil
      then show ?thesis using 2(4) v by simp
    next
      case (Cons x xs)
      have "parse_opts xs (f x opt) = Some opt'" using 2(4) v Cons by simp
      then have "h opt' = h (f x opt)" using Cons by (intro 2(3) [OF v Cons]) (auto intro: 2(5,6))
      then show ?thesis using 2(5) [of a f x opt] v by simp
    qed
  next
    case f
    have "parse_opts as (f opt) = Some opt'" using 2(4) f by simp
    then have "h opt' = h (f opt)" by (intro 2(2) [OF f]) (auto intro: 2(5,6))
    then show ?thesis using 2(6) [of a f opt] f by simp
  next
    case n
    have "\<not> info_option a" "parse_opts as opt = Some opt'" using 2(4) n by (simp_all split: if_splits)
    then show ?thesis by (intro 2(1) [OF n]) (auto intro: 2(5,6))
  qed
qed simp

lemma promiscuous_flag:
  assumes "parse_opts ws opt = Some opt'" and "''-promiscuous'' \<notin> set ws"
  shows "(opt_is_owned opt', opt_is_locked opt') = (opt_is_owned opt, opt_is_locked opt)"
proof (rule parse_opts_keeps [OF assms(1), where h = "\<lambda>opt. (opt_is_owned opt, opt_is_locked opt)"])
  show "(opt_is_owned (f v opt), opt_is_locked (f v opt)) = (opt_is_owned opt, opt_is_locked opt)"
    if "value_option a = Some f" for a f v opt
    using that unfolding value_option_def by (auto simp: Let_def split: if_splits prod.splits)
  show "(opt_is_owned (f opt), opt_is_locked (f opt)) = (opt_is_owned opt, opt_is_locked opt)"
    if "a \<in> set ws" "flag_option a = Some f" for a f opt
  proof -
    have "a \<noteq> ''-promiscuous''" using that(1) assms(2) by blast
    then show ?thesis using that(2) unfolding flag_option_def by (auto split: if_splits)
  qed
qed

subsection \<open>Laws of the descriptor table\<close>

lemma close_all_apply: "close_all n t i = (if i < n then None else t i)"
  by (induction n) (auto simp: less_Suc_eq)

lemma find_upt_least:
  assumes "P i" "\<forall>j < i. \<not> P j" "i < n"
  shows "find P [0..<n] = Some i"
  using assms by (auto simp: find_Some_iff)

lemma new_fd_least:
  assumes "t i = None" "\<forall>j < i. t j \<noteq> None" "i < max_fds"
  shows "new_fd max_fds x t = (int i, t(i \<mapsto> x))"
  by (simp add: new_fd_def find_upt_least [of "\<lambda>i. t i = None" i max_fds] assms)

lemma new_fd_cases:
  obtains "new_fd max_fds x t = (-1, t)"
  | i where "i < max_fds" "t i = None" "new_fd max_fds x t = (int i, t(i \<mapsto> x))"
proof (cases "find (\<lambda>i. t i = None) [0..<max_fds]")
  case None
  then show ?thesis using that(1) by (simp add: new_fd_def)
next
  case (Some i)
  then have "i < max_fds" "t i = None" by (auto simp: find_Some_iff)
  then show ?thesis using that(2) Some by (simp add: new_fd_def)
qed

text \<open>Nothing in the table is the pipe.\<close>

definition no_pipe :: "fdtab \<Rightarrow> bool" where
  "no_pipe t \<longleftrightarrow> (\<forall>i. t i \<noteq> Some FPipe)"

lemma no_pipe_new: "x \<noteq> FPipe \<Longrightarrow> no_pipe t \<Longrightarrow> no_pipe (snd (new_fd max_fds x t))"
  by (rule new_fd_cases [of max_fds x t]) (simp_all add: no_pipe_def)

lemma no_pipe_close: "no_pipe t \<Longrightarrow> no_pipe (close_fd fd t)"
  by (simp add: close_fd_def no_pipe_def)

lemmas no_pipes = no_pipe_new no_pipe_close

lemma no_pipe_fix: "no_pipe t \<Longrightarrow> no_pipe (snd (fix_socketdir max_fds uo um st e t))"
  by (auto simp: fix_socketdir_def Let_def case_prod_beta no_pipes split: option.splits)

lemma no_pipe_listen:
  assumes "no_pipe t"
  shows "no_pipe (snd (safe_mksocketdir max_fds tv de t))" and "no_pipe (snd (probe_unix max_fds e t))"
    and "no_pipe (snd (listen_on max_fds tcpip a e t))"
  using assms
  by (auto simp: safe_mksocketdir_def probe_unix_def listen_on_def Let_def case_prod_beta no_pipes no_pipe_fix
      split: option.splits mkdir_result.splits)

lemma no_pipe_open_listen_socket: "no_pipe t \<Longrightarrow> no_pipe (snd (open_listen_socket max_fds opt e t))"
  by (cases "tcp_address opt e") (simp_all add: open_listen_socket_def Let_def case_prod_beta no_pipe_listen)

lemma notify_no_pipe:
  assumes "no_pipe t"
  shows "Wrote FPipe c \<notin> set (notify opt sig x t)"
proof -
  have "write_fd fd x t = [] \<or> (\<exists>y. y \<noteq> FPipe \<and> write_fd fd x t = [Wrote y x])" for fd
    using assms by (cases "t (nat fd)") (auto simp: write_fd_def no_pipe_def)
  from this [of "opt_spawnfd opt"] show ?thesis by (auto simp: notify_def)
qed

lemma start_device_no_pipe:
  assumes "start_device wave max_fds opt t s = Some r" "no_pipe t"
  shows "Wrote FPipe c \<notin> set (notices r)"
  using assms
  by (auto simp: start_device_def Let_def case_prod_beta notify_no_pipe no_pipes
      split: Option.bind_splits if_splits)

lemma null_fds:
  assumes "2 < max_fds"
  shows "snd (new_fd max_fds FNull (snd (new_fd max_fds FNull (snd (new_fd max_fds FNull (close_all max_fds t))))))
    = (close_all max_fds t)(0 \<mapsto> FNull, 1 \<mapsto> FNull, 2 \<mapsto> FNull)"
proof -
  let ?t = "close_all max_fds t"
  have "new_fd max_fds FNull ?t = (int 0, ?t(0 \<mapsto> FNull))"
    using assms by (intro new_fd_least) (simp_all add: close_all_apply)
  moreover have "new_fd max_fds FNull (?t(0 \<mapsto> FNull)) = (int 1, ?t(0 \<mapsto> FNull, 1 \<mapsto> FNull))"
    using assms by (intro new_fd_least) (simp_all add: close_all_apply)
  moreover have "new_fd max_fds FNull (?t(0 \<mapsto> FNull, 1 \<mapsto> FNull)) = (int 2, ?t(0 \<mapsto> FNull, 1 \<mapsto> FNull, 2 \<mapsto> FNull))"
    using assms by (intro new_fd_least) (auto simp: close_all_apply less_Suc_eq numeral_2_eq_2)
  ultimately show ?thesis by simp
qed

lemma no_pipe_null:
  assumes "\<forall>i \<ge> max_fds. t i = None"
  shows "no_pipe (snd (new_fd max_fds FNull (snd (new_fd max_fds FNull (snd (new_fd max_fds FNull (close_all max_fds t)))))))"
proof -
  have "no_pipe (close_all max_fds t)" using assms by (auto simp: no_pipe_def close_all_apply)
  then show ?thesis by (simp add: no_pipes)
qed

subsection \<open>A start\<close>

text \<open>
  A process with the descriptor 4 as the end of a pipe starts the daemon with \<open>-spawnfd 4\<close>; nothing is
  configured, the socket directory is new and the device opens with 16 bits, stereo, at 44100 Hz.
\<close>

definition env0 :: listen_env where
  "env0 = \<lparr>le_dir = \<lparr>mk = MkOk, chmod_ok = True, lstat_res = None, getuid = 500, open_ok = True, fstat_res = None,
       fchown_ok = True, fchmod_ok = True\<rparr>, audiodev = None, gethostbyname2 = (\<lambda>_. None), probe_socket = True,
     probe_options = True, probe_connect = False, socket_ok = True, nonblock_ok = True, linger_ok = True,
     bind_ok = True, listen_ok = True\<rparr>"

definition fds0 :: fdtab where
  "fds0 = (\<lambda>_. None)(0 \<mapsto> FOther, 1 \<mapsto> FOther, 2 \<mapsto> FOther, 4 \<mapsto> FPipe)"

definition cenv0 :: conf_env where
  "cenv0 = \<lparr>getenv = (\<lambda>_. None), sys_conf = None, home_conf = None\<rparr>"

definition dev0 :: esd_daemon where
  "dev0 = daemon0\<lparr>dev_open := [5], dev_ioctl := [(0, 0), (0, 16), (0, 16), (0, 1), (0, 44100), (0, 4096)], dev_select := [1]\<rparr>"

lemma conf0_read: "esd_config_read cenv0 conf0 = Some (conf0\<lparr>read_esd_config := True\<rparr>)"
  by code_simp

lemma opts0_spawned:
  "parse_opts (merge_opts (conf0\<lparr>read_esd_config := True\<rparr>) [''-spawnfd'', ''4'']) opts0
     = Some (opts0\<lparr>opt_terminate := True, opt_beeps := False, opt_autostandby_secs := 2, opt_spawnfd := 4\<rparr>)"
  by code_simp

lemma dev0_opens:
  "\<exists>s. open_device 33 44100 (set_globals opt fd (static_init dev0)) = (0, s) \<and> esd_write_size s = 4096 \<and> mallocs s = []
     \<and> 0 < next_addr s"
  by (simp add: open_device_def esd_audio_open_def oss_format_def oss_channels_def oss_speed_def oss_blksize_def
      sys_open_dev_def sys_ioctl_def sys_select_dev_def set_globals_def static_init_def dev0_def daemon0_def)

lemma setup_buffers_returns:
  assumes "mallocs s = []" "0 < next_addr s" "0 < esd_write_size s"
  shows "\<exists>s'. setup_buffers s = Some s'"
  using assms by (simp add: setup_buffers_def Let_def case_prod_beta esound_getblksize_def malloc_def)

lemma listen0:
  assumes "\<not> opt_use_tcpip opt"
  shows "\<exists>a t2. open_listen_socket 6 opt env0 (snd (new_fd 6 FNull (snd (new_fd 6 FNull (snd (new_fd 6 FNull (close_all 6 t)))))))
    = (Listening 4 a, t2)"
proof -
  let ?t = "(close_all 6 t)(0 \<mapsto> FNull, 1 \<mapsto> FNull, 2 \<mapsto> FNull)"
  have "new_fd 6 FProbe ?t = (int 3, ?t(3 \<mapsto> FProbe))"
    by (intro new_fd_least) (auto simp: close_all_apply less_Suc_eq numeral_eq_Suc)
  moreover have "new_fd 6 FListen (?t(3 \<mapsto> FProbe)) = (int 4, ?t(3 \<mapsto> FProbe, 4 \<mapsto> FListen))"
    by (intro new_fd_least) (auto simp: close_all_apply less_Suc_eq numeral_eq_Suc)
  ultimately show ?thesis
    using assms null_fds [of 6 t] by (simp add: open_listen_socket_def safe_mksocketdir_def probe_unix_def listen_on_def env0_def)
qed

lemma opts0_sel:
  "opt_format opts0 = 33" "opt_rate opts0 = 44100" "\<not> opt_use_tcpip opts0" "opt_spawnpid opts0 = 0"
  by (simp_all add: opts0_def)

lemma main0_starts:
  "\<exists>d fds ns. esd_main wave cenv0 [''-spawnfd'', ''4''] 6 env0 fds0 dev0 = Some (Started d fds ns)"
proof -
  let ?opt = "opts0\<lparr>opt_terminate := True, opt_beeps := False, opt_autostandby_secs := 2, opt_spawnfd := 4\<rparr>"
  obtain a t2 where "open_listen_socket 6 ?opt env0 (snd (new_fd 6 FNull (snd (new_fd 6 FNull
      (snd (new_fd 6 FNull (close_all 6 fds0))))))) = (Listening 4 a, t2)"
    using listen0 [of ?opt fds0] by (auto simp: opts0_sel)
  moreover obtain s1 s2 where "open_device 33 44100 (set_globals ?opt 4 (static_init dev0)) = (0, s1)"
    "setup_buffers s1 = Some s2"
    using dev0_opens [of ?opt 4] setup_buffers_returns by force
  ultimately show ?thesis
    by (simp add: esd_main_def conf0_read opts0_spawned case_prod_beta start_device_def Let_def opts0_sel)
qed

subsection \<open>Properties\<close>

text \<open>
  C14. If \<open>main\<close> reaches its loop, it has set up a daemon the ownership invariant is about, whatever the options: the
  invariant holds in every state that the steps of the loop lead to, for as long as no \<open>SIGHUP\<close> comes.
  And if \<open>-promiscuous\<close> is not among the options of the configuration and the command line, the daemon enters
  the loop locked and without an owner.
\<close>

theorem main_boots:
  assumes "esd_main wave cenv args max_fds e t s = Some (Started d fds ns)" and "0 < next_addr s"
  shows "(comm_run d d' \<longrightarrow> srv_inv d')
    \<and> (\<exists>conf. esd_config_read cenv conf0 = Some conf
        \<and> (''-promiscuous'' \<notin> set (merge_opts conf args) \<longrightarrow> \<not> esd_is_owned d \<and> esd_is_locked d))"
proof -
  obtain conf opt fd t2 where c: "esd_config_read cenv conf0 = Some conf" "parse_opts (merge_opts conf args) opts0 = Some opt"
    and st: "start_device wave max_fds opt t2 (set_globals opt fd (static_init s)) = Some (Started d fds ns)"
    by (rule esd_main_started [OF assms(1)]) auto
  have "boot (set_globals opt fd (static_init s))"
    using assms(2) by (simp add: boot_def set_globals_def static_init_def)
  note d = start_device_boot(1) [OF st this] start_device_boot(2) [OF st]
  have "\<not> esd_is_owned d \<and> esd_is_locked d" if "''-promiscuous'' \<notin> set (merge_opts conf args)"
    using promiscuous_flag [OF c(2) that] d(2) by (simp add: auth_def set_globals_def opts0_def)
  then show ?thesis using run_inv [OF _ boot_inv [OF d(1)]] c(1) by blast
qed

theorem main_boots_witness:
  "\<exists>d fds ns. esd_main (\<lambda>_ _ _ _ _. 0) cenv0 [''-spawnfd'', ''4''] 6 env0 fds0 dev0 = Some (Started d fds ns)
     \<and> srv_inv d \<and> \<not> esd_is_owned d \<and> esd_is_locked d"
proof -
  obtain d fds ns where m: "esd_main (\<lambda>_ _ _ _ _. 0) cenv0 [''-spawnfd'', ''4''] 6 env0 fds0 dev0 = Some (Started d fds ns)"
    using main0_starts by blast
  have "''-promiscuous'' \<notin> set (merge_opts (conf0\<lparr>read_esd_config := True\<rparr>) [''-spawnfd'', ''4''])" by code_simp
  with main_boots [OF m, of d] comm_run.none [of d] conf0_read m show ?thesis by (auto simp: dev0_def daemon0_def)
qed

text \<open>
  C20. The process that spawned the daemon gets no word from it: \<open>main\<close> closes every descriptor, the
  pipe it was given with \<open>-spawnfd\<close> too, before it reports on it, so whatever the options, the outcome
  and the numbers, no byte is ever written to the pipe.
\<close>

theorem spawn_report_lost:
  assumes "esd_main wave cenv args max_fds e t s = Some r" and "\<forall>i \<ge> max_fds. t i = None"
  shows "Wrote FPipe c \<notin> set (notices r)"
proof -
  let ?t1 = "snd (new_fd max_fds FNull (snd (new_fd max_fds FNull (snd (new_fd max_fds FNull (close_all max_fds t))))))"
  from assms(1) obtain conf where conf: "esd_config_read cenv conf0 = Some conf"
    by (auto simp: esd_main_def split: Option.bind_splits)
  show ?thesis
  proof (cases "parse_opts (merge_opts conf args) opts0")
    case None
    then show ?thesis using assms(1) conf by (auto simp: esd_main_def)
  next
    case (Some opt)
    obtain lr t2 where l: "open_listen_socket max_fds opt e ?t1 = (lr, t2)" by fastforce
    have np: "no_pipe t2" using no_pipe_open_listen_socket [OF no_pipe_null [OF assms(2)], where max_fds = max_fds and opt = opt and e = e] l by simp
    show ?thesis
    proof (cases lr)
      case (Listening fd a)
      then have "start_device wave max_fds opt t2 (set_globals opt fd (static_init s)) = Some r"
        using assms(1) conf Some l by (simp add: esd_main_def case_prod_beta)
      then show ?thesis using np by (rule start_device_no_pipe)
    qed (use assms(1) conf Some l in \<open>auto simp: esd_main_def case_prod_beta\<close>)
  qed
qed

theorem spawn_report_lost_witness:
  "fds0 4 = Some FPipe
   \<and> Wrote FPipe 1 \<notin> set (notices (the (esd_main (\<lambda>_ _ _ _ _. 0) cenv0 [''-spawnfd'', ''4''] 6 env0 fds0 dev0)))"
proof -
  obtain r where "esd_main (\<lambda>_ _ _ _ _. 0) cenv0 [''-spawnfd'', ''4''] 6 env0 fds0 dev0 = Some r"
    using main0_starts by blast
  with spawn_report_lost [of "\<lambda>_ _ _ _ _. 0" cenv0 _ 6 env0 fds0 dev0 r 1] show ?thesis by (simp add: fds0_def)
qed

text \<open>
  Instead, the number may have been handed out again: if the daemon uses its unix socket, the
  directory is new and nobody answers there, the probe for a running daemon stays open as descriptor 3, so the
  listening socket becomes descriptor 4. A daemon told to report on descriptor 4 writes the byte to
  its own listening socket and closes it before it enters its loop.
\<close>

theorem spawned_daemon_deaf:
  assumes "esd_main wave cenv args max_fds e t s = Some (Started d fds ns)"
    and "esd_config_read cenv conf0 = Some conf" and "parse_opts (merge_opts conf args) opts0 = Some opt"
    and "\<not> opt_use_tcpip opt" and "opt_spawnfd opt = 4" and "mk (le_dir e) = MkOk" and "5 < max_fds"
    and "probe_socket e" and "probe_options e" and "\<not> probe_connect e"
  shows "Wrote FListen 1 \<in> set ns \<and> listen_socket d = 4 \<and> fds 4 = None"
proof -
  let ?t0 = "(close_all max_fds t)(0 \<mapsto> FNull, 1 \<mapsto> FNull, 2 \<mapsto> FNull)"
  obtain fd a t2 where ls: "open_listen_socket max_fds opt e ?t0 = (Listening fd a, t2)"
    and sd: "start_device wave max_fds opt t2 (set_globals opt fd (static_init s)) = Some (Started d fds ns)"
    by (rule esd_main_started [OF assms(1)]) (use assms(2,3,7) null_fds [of max_fds t] in auto)
  let ?t1 = "?t0(3 \<mapsto> FProbe)"
  have "new_fd max_fds FProbe ?t0 = (int 3, ?t1)"
    using assms(7) by (intro new_fd_least) (auto simp: close_all_apply less_Suc_eq numeral_3_eq_3)
  then have p: "probe_unix max_fds e ?t0 = (-1, ?t1)" using assms(8-10) by (simp add: probe_unix_def)
  have l4: "new_fd max_fds FListen ?t1 = (int 4, ?t1(4 \<mapsto> FListen))"
    using assms(7) by (intro new_fd_least) (auto simp: close_all_apply less_Suc_eq numeral_eq_Suc)
  have fd: "fd = 4" "t2 = ?t1(4 \<mapsto> FListen)"
    using ls assms(4,6) p l4
    by (auto simp: open_listen_socket_def safe_mksocketdir_def listen_on_def split: if_splits)
  obtain t3 where t3: "t3 = snd (new_fd max_fds FDevice t2)" "ns = notify opt SIGUSR1 1 t3" "fds = close_fd 4 t3"
    using start_device_report [OF sd] assms(5) by auto
  have "t3 4 = Some FListen" unfolding t3(1) fd(2) by (rule new_fd_cases [of max_fds FDevice "?t1(4 \<mapsto> FListen)"]) auto
  then have "Wrote FListen 1 \<in> set ns" "fds 4 = None"
    using assms(5) t3(2,3) by (simp_all add: notify_def write_fd_def close_fd_def)
  moreover have "listen_socket d = 4"
    using start_device_boot(3) [OF sd] fd(1) by (simp add: set_globals_def)
  ultimately show ?thesis by simp
qed

theorem spawned_daemon_deaf_witness:
  "\<exists>d fds ns. esd_main (\<lambda>_ _ _ _ _. 0) cenv0 [''-spawnfd'', ''4''] 6 env0 fds0 dev0 = Some (Started d fds ns)
     \<and> Wrote FListen 1 \<in> set ns \<and> listen_socket d = 4 \<and> fds 4 = None"
proof -
  obtain d fds ns where m: "esd_main (\<lambda>_ _ _ _ _. 0) cenv0 [''-spawnfd'', ''4''] 6 env0 fds0 dev0 = Some (Started d fds ns)"
    using main0_starts by blast
  with spawned_daemon_deaf [OF m conf0_read opts0_spawned] show ?thesis by (simp add: opts0_sel env0_def)
qed

text \<open>The bits of a mode that the check accepts: neither set-user-id nor set-group-id, and not writable by others without the sticky bit.\<close>

lemma accepted_mode:
  assumes "\<not> bad_mode m"
  shows "\<not> bit m 11" "\<not> bit m 10" "bit m 1 \<Longrightarrow> bit m 9"
proof -
  have "bit (m AND 0xC00) i \<longleftrightarrow> bit m i" if "i = 10 \<or> i = 11" for i using that by (auto simp: bit_and_iff bit_0)
  then show "\<not> bit m 11" "\<not> bit m 10" using assms by (auto simp: bad_mode_def)
  have "bit (m AND 2) 1 \<longleftrightarrow> bit m 1" by (simp add: bit_and_iff bit_0)
  moreover have "bit m 9 \<or> m AND 0x200 = 0" using and_exp_eq_0_iff_not_bit [of m 9] by auto
  ultimately show "bit m 1 \<Longrightarrow> bit m 9" using assms by (auto simp: bad_mode_def)
qed

text \<open>
  C18. The check of the socket directory is sound: when it succeeds and \<open>-trust\<close> was not given, the directory is
  new with its mode set, or it is an existing directory, no link, whose owner (as found, or as changed
  on the same directory through an open descriptor) is root or the user, and whose mode (as found, or likewise
  changed) has neither the set-user-id bit nor the set-group-id bit, and has the sticky bit if others may write.
\<close>

theorem socketdir_safe:
  assumes "safe_mksocketdir max_fds trustval e t = (0, t')" and "trustval \<noteq> 0"
  shows "(mk e = MkOk \<and> chmod_ok e)
    \<or> (\<exists>st uid mode. mk e = MkExists \<and> lstat_res e = Some st \<and> st_isdir st
        \<and> (uid = st_uid st \<or> uid = getuid e \<and> fchown_ok e \<and> (\<exists>f. fstat_res e = Some f \<and> same_dir st f))
        \<and> (mode = st_mode st \<or> mode = 0x3FF \<and> fchmod_ok e \<and> (\<exists>f. fstat_res e = Some f \<and> same_dir st f))
        \<and> uid \<in> {0, getuid e} \<and> \<not> bit mode 11 \<and> \<not> bit mode 10 \<and> (bit mode 1 \<longrightarrow> bit mode 9))"
proof (cases "mk e")
  case MkOk
  then show ?thesis using assms(1) by (simp add: safe_mksocketdir_def split: if_splits)
next
  case MkFail
  then show ?thesis using assms(1) by (simp add: safe_mksocketdir_def)
next
  case MkExists
  with assms(1) obtain st where st: "lstat_res e = Some st" "st_isdir st"
    by (auto simp: safe_mksocketdir_def split: option.splits if_splits)
  define uo where "uo \<longleftrightarrow> st_uid st \<noteq> 0 \<and> st_uid st \<noteq> getuid e"
  define um where "um \<longleftrightarrow> bad_mode (st_mode st)"
  obtain fx t1 where fx: "fix_socketdir max_fds uo um st e t = (fx, t1)" by fastforce
  have eq: "(case fx of None \<Rightarrow> (trustval, t1) | Some (po, pm) \<Rightarrow>
      if uo \<and> \<not> po then (trustval, t1) else if um \<and> \<not> pm then (trustval, t1) else (0, t1)) = (0, t')"
    using assms(1) by (simp only: safe_mksocketdir_def MkExists st mkdir_result.case option.case simp_thms if_False Let_def
        uo_def [symmetric] um_def [symmetric] fx prod.case)
  have "\<exists>p. fx = Some p \<and> (uo \<longrightarrow> fst p) \<and> (um \<longrightarrow> snd p)"
    using eq assms(2) by (simp split: option.splits prod.splits if_splits)
  then obtain po pm where f: "fx = Some (po, pm)" "uo \<longrightarrow> po" "um \<longrightarrow> pm" by auto
  have good: "\<not> bad_mode (if um then 0x3FF else st_mode st)" by (simp add: bad_mode_def um_def)
  have "po \<longrightarrow> fchown_ok e \<and> (\<exists>f. fstat_res e = Some f \<and> same_dir st f)"
    "pm \<longrightarrow> fchmod_ok e \<and> (\<exists>f. fstat_res e = Some f \<and> same_dir st f)"
    using f(1) fx by (auto simp: fix_socketdir_def Let_def case_prod_beta split: if_splits option.splits)
  then show ?thesis
    using MkExists st f(2,3) accepted_mode [OF good]
    by (intro disjI2 exI [of _ st] exI [of _ "if uo then getuid e else st_uid st"] exI [of _ "if um then 0x3FF else st_mode st"])
      (auto simp: uo_def um_def)
qed

text \<open>A directory of somebody else that anyone may write to, repaired when that is possible and refused when not; and a new one.\<close>

definition dir1 :: dirstat where
  "dir1 = \<lparr>st_isdir = True, st_uid = 7, st_mode = 0x1FF, st_dev = 1, st_ino = 2\<rparr>"

theorem socketdir_safe_witness:
  "fst (safe_mksocketdir 8 (-1) ((le_dir env0)\<lparr>mk := MkExists, lstat_res := Some dir1, fstat_res := Some dir1\<rparr>) (\<lambda>_. None)) = 0
   \<and> (\<exists>st uid mode. st = dir1 \<and> (mode = st_mode st \<or> mode = 0x3FF) \<and> uid \<in> {0, 500}
      \<and> \<not> bit mode 11 \<and> \<not> bit mode 10 \<and> (\<not> bit mode 1 \<or> bit mode 9))
   \<and> safe_mksocketdir 8 (-1) ((le_dir env0)\<lparr>mk := MkExists, lstat_res := Some dir1\<rparr>) (\<lambda>_. None) = (-1, (\<lambda>_. None)(0 \<mapsto> FDir))
   \<and> mk (le_dir env0) = MkOk \<and> chmod_ok (le_dir env0)"
proof -
  let ?e = "(le_dir env0)\<lparr>mk := MkExists, lstat_res := Some dir1, fstat_res := Some dir1\<rparr>"
  have n: "new_fd 8 FDir (\<lambda>_. None) = (0, (\<lambda>_. None)(0 \<mapsto> FDir))" using new_fd_least [of "\<lambda>_. None" 0 8 FDir] by simp
  then have z: "safe_mksocketdir 8 (-1) ?e (\<lambda>_. None) = (0, close_fd 0 ((\<lambda>_. None)(0 \<mapsto> FDir)))"
    by (simp add: safe_mksocketdir_def fix_socketdir_def env0_def dir1_def same_dir_def)
  from socketdir_safe [OF z] have 1: "\<exists>st uid mode. st = dir1 \<and> (mode = st_mode st \<or> mode = 0x3FF) \<and> uid \<in> {0, 500}
      \<and> \<not> bit mode 11 \<and> \<not> bit mode 10 \<and> (\<not> bit mode 1 \<or> bit mode 9)"
    by (auto simp: env0_def)
  have "safe_mksocketdir 8 (-1) (le_dir env0) (\<lambda>_. None) = (0, (\<lambda>_. None))" by (simp add: safe_mksocketdir_def env0_def)
  from socketdir_safe [OF this] have "mk (le_dir env0) = MkOk \<and> chmod_ok (le_dir env0)" by (simp add: env0_def)
  with 1 n z show ?thesis by (simp add: safe_mksocketdir_def fix_socketdir_def env0_def dir1_def)
qed

lemma public_flag:
  assumes "parse_opts ws opt = Some opt'" and "''-public'' \<notin> set ws" and "''-bind'' \<notin> set ws"
  shows "(opt_public opt', opt_hostname opt') = (opt_public opt, opt_hostname opt)"
proof (rule parse_opts_keeps [OF assms(1), where h = "\<lambda>opt. (opt_public opt, opt_hostname opt)"])
  show "(opt_public (f v opt), opt_hostname (f v opt)) = (opt_public opt, opt_hostname opt)"
    if "a \<in> set ws" "value_option a = Some f" for a f v opt
  proof -
    have "a \<noteq> ''-bind''" using that(1) assms(3) by blast
    then show ?thesis using that(2) unfolding value_option_def by (auto simp: Let_def split: if_splits prod.splits)
  qed
  show "(opt_public (f opt), opt_hostname (f opt)) = (opt_public opt, opt_hostname opt)"
    if "a \<in> set ws" "flag_option a = Some f" for a f opt
  proof -
    have "a \<noteq> ''-public''" using that(1) assms(2) by blast
    then show ?thesis using that(2) unfolding flag_option_def by (auto split: if_splits)
  qed
qed

text \<open>
  C19. The daemon is reachable from this machine only unless told otherwise: without \<open>-public\<close> and
  \<open>-bind\<close> among its options, the socket it listens on is bound to the loopback interface or is
  the unix socket of the user, its path cut off where the address has no more room.
\<close>

theorem listens_locally:
  assumes "parse_opts ws opts0 = Some opt" and "''-public'' \<notin> set ws" and "''-bind'' \<notin> set ws"
    and "open_listen_socket max_fds opt e t = (Listening fd a, t')"
  shows "(\<exists>port. 0 \<le> port \<and> port < 65536 \<and> a = Loopback port)
    \<or> a = UnixAddr (take 108 (esd_get_socket_name (audiodev e) (getuid (le_dir e))))"
proof -
  have "\<not> opt_public opt" "opt_hostname opt = None"
    using public_flag [OF assms(1-3)] by (simp_all add: opts0_def)
  then have ta: "tcp_address opt e = Some (Loopback (take_bit 16 (opt_port opt)))" by (simp add: tcp_address_def)
  have "listen_on max_fds b a' e t1 = (Listening fd a, t') \<Longrightarrow> a = a'" for b a' t1
    by (auto simp: listen_on_def Let_def case_prod_beta split: if_splits)
  then have "a = Loopback (take_bit 16 (opt_port opt)) \<or> a = unix_address e"
    using assms(4) ta by (auto simp: open_listen_socket_def Let_def case_prod_beta split: if_splits)
  then show ?thesis using take_bit_int_less_exp [of 16 "opt_port opt"] by (auto simp: unix_address_def)
qed

theorem listens_locally_witness:
  "\<exists>a t. open_listen_socket 8 opts0 env0 (\<lambda>_. None) = (Listening 1 a, t) \<and> a = UnixAddr ''/tmp/.esd-500/socket''"
proof -
  have "new_fd 8 FProbe (\<lambda>_. None) = (0, (\<lambda>_. None)(0 \<mapsto> FProbe))" using new_fd_least [of "\<lambda>_. None" 0 8 FProbe] by simp
  moreover have "new_fd 8 FListen ((\<lambda>_. None)(0 \<mapsto> FProbe)) = (1, (\<lambda>_. None)(0 \<mapsto> FProbe, 1 \<mapsto> FListen))"
    using new_fd_least [of "(\<lambda>_. None)(0 \<mapsto> FProbe)" 1 8 FListen] by simp
  ultimately have o: "open_listen_socket 8 opts0 env0 (\<lambda>_. None)
      = (Listening 1 (unix_address env0), (\<lambda>_. None)(0 \<mapsto> FProbe, 1 \<mapsto> FListen))"
    by (simp add: open_listen_socket_def safe_mksocketdir_def probe_unix_def listen_on_def opts0_sel env0_def)
  have n: "esd_get_socket_name (audiodev env0) (getuid (le_dir env0)) = ''/tmp/.esd-500/socket''" by code_simp
  have "unix_address env0 \<noteq> Loopback p" for p by (simp add: unix_address_def)
  then show ?thesis using listens_locally [of "[]" opts0 8 env0 "\<lambda>_. None" 1, OF _ _ _ o] o n by simp
qed

end
