(* ===== verification/Esd_Genrand.thy ===== *)
theory Esd_Genrand
  imports Esd_Prelude
begin

text \<open>
  The random keys (\<open>genrand.c\<close>): from \<open>/dev/random\<close>, or else from how far a counter gets before a
  timer fires. What the device gives, the counts and the uninitialised words are parameters. The quotient
  of the differences is computed in \<open>double\<close>; for counts below \<open>2^45\<close> truncating it is the integer quotient. Converting
  a value above 255 to \<open>unsigned char\<close> is undefined: \<open>None\<close>.
\<close>

text \<open>\<open>/dev/random\<close>: what \<open>read\<close> returns, if it could be opened. The buffer is written even by a short read.\<close>

definition genrand_dev :: "octet list option \<Rightarrow> octet list \<Rightarrow> bool \<times> octet list" where
  "genrand_dev dev buffer =
    (case dev of
       None \<Rightarrow> (False, buffer)
     | Some bs \<Rightarrow> let bs = take (length buffer) bs in (length bs = length buffer, bs @ drop (length bs) buffer))"

definition hashlong :: "octet list \<Rightarrow> octet" where
  "hashlong val = fold (XOR) val 0"

text \<open>The extreme counts, as the loop finds them.\<close>

abbreviation (input) LONG_MAX :: int where "LONG_MAX \<equiv> 9223372036854775807"

fun count_range :: "int list \<Rightarrow> int \<Rightarrow> int \<Rightarrow> int \<times> int" where
  "count_range [] mn mx = (mn, mx)"
| "count_range (c # cs) mn mx = count_range cs (min c mn) (max c mx)"

definition to_uchar :: "int \<Rightarrow> octet option" where
  "to_uchar x = (if x \<le> 255 then Some (word_of_int x) else None)"

fun fold_counts :: "int \<Rightarrow> int \<Rightarrow> int list \<Rightarrow> octet list list \<Rightarrow> octet list \<Rightarrow> octet list option" where
  "fold_counts mn diff (c # cs) (u # us) (b # bs) = do {
     x \<leftarrow> to_uchar ((c - mn) * 256 div diff);
     bs \<leftarrow> fold_counts mn diff cs us bs;
     Some ((b XOR (x XOR hashlong u)) # bs) }"
| "fold_counts mn diff cs us bs = Some bs"

definition genrand_unix :: "int list \<Rightarrow> octet list list \<Rightarrow> octet list \<Rightarrow> (bool \<times> octet list) option" where
  "genrand_unix counts uninit buffer =
    (let (mn, mx) = count_range counts LONG_MAX 0
     in if mx - mn = 0 then Some (False, buffer)
        else map_option (Pair True) (fold_counts mn (mx - mn) counts uninit buffer))"

text \<open>\<open>Inr\<close> is a key, \<open>Inl\<close> is \<open>abort ()\<close>.\<close>

definition esound_genrand ::
  "octet list option \<Rightarrow> int list \<Rightarrow> octet list list \<Rightarrow> octet list \<Rightarrow> (unit + octet list) option" where
  "esound_genrand dev counts uninit buffer =
    (let (ok, buffer) = genrand_dev dev buffer
     in if ok then Some (Inr buffer)
        else do {
          (ok, buffer) \<leftarrow> genrand_unix counts uninit buffer;
          Some (if ok then Inr buffer else Inl ()) })"

lemma count_range_bounds: "cs \<noteq> [] \<Longrightarrow> count_range cs mn mx = (min mn (Min (set cs)), max mx (Max (set cs)))"
proof (induction cs arbitrary: mn mx)
  case (Cons c cs)
  show ?case by (cases "cs = []") (simp_all add: Cons.IH min.commute min.left_commute max.commute max.left_commute)
qed simp

lemma count_range_Min_Max:
  assumes "cs \<noteq> []" and "\<forall>c \<in> set cs. 0 \<le> c \<and> c \<le> LONG_MAX"
  shows "count_range cs LONG_MAX 0 = (Min (set cs), Max (set cs))"
proof -
  have "Min (set cs) \<in> set cs" "Max (set cs) \<in> set cs" using assms(1) by simp_all
  then show ?thesis using assms by (simp add: count_range_bounds)
qed

lemma fold_counts_faults:
  assumes "c \<in> set cs" "(c - mn) * 256 div diff > 255" "length us = length cs" "length bs = length cs"
  shows "fold_counts mn diff cs us bs = None"
  using assms
proof (induction mn diff cs us bs rule: fold_counts.induct)
  case (1 mn diff c' cs u us b bs)
  then show ?case by (auto simp: to_uchar_def split: Option.bind_splits)
qed auto

text \<open>
  A key comes from \<open>/dev/random\<close> or not at all. If the device gives enough bytes, they are the key. If
  not, the fall-back either gives up and the program aborts, when all counts are equal, or it converts
  the largest quotient, which is always 256, to an \<open>unsigned char\<close>, which is undefined.
\<close>

theorem genrand_device_or_fault:
  assumes "buffer \<noteq> []" and "length counts = length buffer" and "length uninit = length buffer"
    and "\<forall>c \<in> set counts. 0 \<le> c \<and> c < 2 ^ 45"
  shows "esound_genrand dev counts uninit buffer =
    (if \<exists>bs. dev = Some bs \<and> length buffer \<le> length bs then Some (Inr (take (length buffer) (the dev)))
     else if Min (set counts) = Max (set counts) then Some (Inl ()) else None)"
proof -
  have ne: "counts \<noteq> []" using assms(1,2) by auto
  have r: "count_range counts LONG_MAX 0 = (Min (set counts), Max (set counts))"
    using assms(4) by (intro count_range_Min_Max [OF ne]) force
  have u: "genrand_unix counts uninit b =
      (if Min (set counts) = Max (set counts) then Some (False, b) else None)" if "length b = length buffer" for b
  proof (cases "Min (set counts) = Max (set counts)")
    case True
    then show ?thesis by (simp add: genrand_unix_def r)
  next
    case False
    have "fold_counts (Min (set counts)) (Max (set counts) - Min (set counts)) counts uninit b = None"
    proof (rule fold_counts_faults [of "Max (set counts)"])
      show "(Max (set counts) - Min (set counts)) * 256 div (Max (set counts) - Min (set counts)) > 255"
        using False by (subst nonzero_mult_div_cancel_left) simp_all
    qed (use that assms(2,3) ne in simp_all)
    then show ?thesis using False by (simp add: genrand_unix_def r)
  qed
  show ?thesis
    by (cases dev) (auto simp: esound_genrand_def genrand_dev_def Let_def u min_def)
qed

theorem genrand_device_or_fault_witness:
  "esound_genrand None [5, 9] [[], []] [0, 0] = None \<and> esound_genrand (Some [1, 2, 3]) [5, 9] [[], []] [0, 0] = Some (Inr [1, 2])"
  using genrand_device_or_fault [of "[0, 0]" "[5, 9]" "[[], []]" None]
    genrand_device_or_fault [of "[0, 0]" "[5, 9]" "[[], []]" "Some [1, 2, 3]"] by simp

end
