(* ===== verification/Esd_Dsp.thy ===== *)
theory Esd_Dsp
  imports Esd_Mgr Esd_Lib
begin

text \<open>
  The library that is preloaded into programs for \<open>/dev/dsp\<close> (\<open>esddsp.c\<close>): it takes the place of \<open>open\<close>, \<open>fopen\<close>,
  \<open>ioctl\<close>, \<open>close\<close>, \<open>mmap\<close> and \<open>munmap\<close> and sends the sound to the daemon. The functions it replaces are the system calls
  of the model. \<open>None\<close> stands for a process that exits, goes on forever or uses an invalid pointer. The branches
  for \<open>MULTIPLE_X11AMP\<close>, which no build defines, and for symbols the C library does not have are left out.
\<close>

unbundle bit_operations_syntax

subsection \<open>State\<close>

record count_info =
  ci_bytes :: int
  ci_blocks :: int
  ci_ptr :: int

text \<open>
  The static variables, those of \<open>dspctl\<close> (\<open>fmt\<close>, \<open>speed\<close>) and of \<open>mixctl\<close> (\<open>esd\<close>, \<open>player\<close>, \<open>left\<close>, \<open>right\<close>) included, and
  the results of \<open>gettimeofday\<close>. \<open>ident\<close> holds the 128 bytes that are sent as the name; the emulated mapping
  is its address and its bytes, which the program may change at any time.
\<close>

record esd_dsp = esd_lib +
  sndfd :: int
  mixfd :: int
  dsp_settings :: int
  dsp_done :: bool
  ident :: "octet list option"
  mixer :: "string option"
  use_mixer :: bool
  mmapemu :: bool
  mmapemu_ocount :: count_info
  mmapemu_obuffer :: "(addr \<times> octet list) option"
  mmapemu_osize :: int
  mmapemu_bytes_per_sec :: int
  mmapemu_last_flush :: "int \<times> int"
  dsp_fmt :: int
  dsp_speed :: int
  mix_esd :: int
  mix_player :: int
  mix_left :: int
  mix_right :: int
  timeofday :: "(int \<times> int) list"

abbreviation (input) MMAPEMU_FRAGSTOTAL :: int where "MMAPEMU_FRAGSTOTAL \<equiv> 16"
abbreviation (input) MMAPEMU_FRAGSIZE :: int where "MMAPEMU_FRAGSIZE \<equiv> 4096"

definition gettimeofday :: "'a esd_dsp_scheme \<Rightarrow> (int \<times> int) \<times> 'a esd_dsp_scheme" where
  "gettimeofday s = (case timeofday s of [] \<Rightarrow> ((0, 0), s) | t # ts \<Rightarrow> (t, s\<lparr>timeofday := ts\<rparr>))"

subsection \<open>Volumes\<close>

definition ESD_VOL_TO_OSS :: "int \<Rightarrow> int \<Rightarrow> int" where
  "ESD_VOL_TO_OSS left right = i16 (push_bit 8 (50 * right sdiv 256) OR (50 * left sdiv 256))"

definition OSS_VOL_TO_ESD_LEFT :: "int \<Rightarrow> int" where
  "OSS_VOL_TO_ESD_LEFT v = 256 * (v AND 0xFF) sdiv 50"

definition OSS_VOL_TO_ESD_RIGHT :: "int \<Rightarrow> int" where
  "OSS_VOL_TO_ESD_RIGHT v = 256 * (drop_bit 8 v AND 0xFF) sdiv 50"

definition get_volume :: "'a esd_dsp_scheme \<Rightarrow> (int \<times> int) \<times> 'a esd_dsp_scheme" where
  "get_volume s =
    (let ((n, _, bs), s) = sys_read (mixfd s) 4 s
     in case (if n \<noteq> 4 then None else get32 bs 0) of
          None \<Rightarrow> ((256, 256), s)
        | Some v \<Rightarrow> ((OSS_VOL_TO_ESD_LEFT v, OSS_VOL_TO_ESD_RIGHT v), s))"

definition set_volume :: "int \<Rightarrow> int \<Rightarrow> 'a esd_dsp_scheme \<Rightarrow> 'a esd_dsp_scheme" where
  "set_volume left right s = snd (sys_write (mixfd s) (put32 (ESD_VOL_TO_OSS left right)) s)"

subsection \<open>Initialisation\<close>

definition dsp_init :: "'a esd_dsp_scheme \<Rightarrow> 'a esd_dsp_scheme option" where
  "dsp_init s =
    (if ident s \<noteq> None then Some s
     else
       let str = (case getenv (lib_env s) ''ESDDSP_NAME'' of Some n \<Rightarrow> n | None \<Rightarrow> ''esddsp'');
           s = s\<lparr>ident := Some (take ESD_NAME_MAX (octets_of_string str @ replicate ESD_NAME_MAX 0)),
                 mmapemu := (getenv (lib_env s) ''ESDDSP_MMAP'' = Some ''1'')\<rparr>
       in if getenv (lib_env s) ''ESDDSP_MIXER'' = None then Some s
          else case getenv (lib_env s) ''HOME'' of
                 None \<Rightarrow> None
               | Some home \<Rightarrow> Some (s\<lparr>use_mixer := True,
                   mixer := Some (home @ ''/.esddsp_'' @ take ESD_NAME_MAX str)\<rparr>))"

definition mix_init :: "int \<Rightarrow> int \<Rightarrow> 'a esd_dsp_scheme \<Rightarrow> (int \<times> int \<times> 'a esd_dsp_scheme) option" where
  "mix_init esd player s = do {
     (esd, s) \<leftarrow> (if esd < 0 then esd_open_sound None s else Some (esd, s));
     if esd < 0 \<or> player \<ge> 0 then Some (esd, player, s)
     else do {
       (all_info, s) \<leftarrow> esd_get_all_info esd s;
       name \<leftarrow> ident s;
       Some (case all_info of
               None \<Rightarrow> (esd, player, s)
             | Some info \<Rightarrow>
                 (case find (\<lambda>p. cstr (pi_name p) = cstr name) (ai_player_list info) of
                    None \<Rightarrow> (esd, player, s) | Some p \<Rightarrow> (esd, pi_source_id p, s))) } }"

text \<open>\<open>while (player < 0) mix_init (&esd, &player)\<close>, which has no end while the player is not there.\<close>

partial_function (option) mix_init_loop ::
  "int \<Rightarrow> int \<Rightarrow> 'a esd_dsp_scheme \<Rightarrow> (int \<times> int \<times> 'a esd_dsp_scheme) option" where
  "mix_init_loop esd player s =
    (if player < 0 then do { (esd, player, s) \<leftarrow> mix_init esd player s; mix_init_loop esd player s }
     else Some (esd, player, s))"

subsection \<open>Emulated mapping\<close>

text \<open>One fragment goes out; \<open>write\<close> of a buffer that is not there fails, and its result is not looked at.\<close>

definition flush_fragment :: "'a esd_dsp_scheme \<Rightarrow> 'a esd_dsp_scheme option" where
  "flush_fragment s = do {
     let c = mmapemu_ocount s;
     s \<leftarrow> (case mmapemu_obuffer s of
            None \<Rightarrow> Some s
          | Some (_, b) \<Rightarrow>
              if 0 \<le> ci_ptr c \<and> ci_ptr c + MMAPEMU_FRAGSIZE \<le> int (length b)
              then Some (snd (sys_write (sndfd s) (take (nat MMAPEMU_FRAGSIZE) (drop (nat (ci_ptr c)) b)) s))
              else None);
     if mmapemu_osize s = 0 then None
     else Some (s\<lparr>mmapemu_ocount := \<lparr>ci_bytes = i32 (ci_bytes c + MMAPEMU_FRAGSIZE), ci_blocks = i32 (ci_blocks c + 1),
            ci_ptr = i32 (ci_ptr c + MMAPEMU_FRAGSIZE) smod mmapemu_osize s\<rparr>\<rparr>) }"

fun flush_fragments :: "nat \<Rightarrow> 'a esd_dsp_scheme \<Rightarrow> 'a esd_dsp_scheme option" where
  "flush_fragments 0 s = Some s"
| "flush_fragments (Suc n) s = do { s \<leftarrow> flush_fragment s; flush_fragments n s }"

definition mmapemu_flush :: "'a esd_dsp_scheme \<Rightarrow> 'a esd_dsp_scheme option" where
  "mmapemu_flush s =
    (let (current, s) = gettimeofday s;
         usec = 1000000 * (fst current - fst (mmapemu_last_flush s)) + (snd current - snd (mmapemu_last_flush s));
         frags = i32 ((mmapemu_bytes_per_sec s * usec) sdiv 1000000 sdiv MMAPEMU_FRAGSIZE);
         frags = (if frags > MMAPEMU_FRAGSTOTAL then MMAPEMU_FRAGSTOTAL else frags);
         s = (if frags > 0 then s\<lparr>mmapemu_last_flush := current\<rparr> else s)
     in flush_fragments (nat frags) s)"

subsection \<open>Opening\<close>

text \<open>
  \<open>open\<close> and \<open>open64\<close>; the real function is \<open>sys_open\<close>. Modes and flags only matter to it and are left out.
\<close>

definition open_wrapper :: "string \<Rightarrow> 'a esd_dsp_scheme \<Rightarrow> (int \<times> 'a esd_dsp_scheme) option" where
  "open_wrapper pathname s = do {
     s \<leftarrow> dsp_init s;
     if pathname = ''/dev/dsp'' then do {
       let (ret, s) = (if getenv (lib_env s) ''ESPEAKER'' = None \<and> \<not> mmapemu s then sys_open s else (-1, s));
       if ret \<ge> 0 then Some (ret, s)
       else do {
         (fd, s) \<leftarrow> esd_open_sound None (s\<lparr>dsp_settings := 0, dsp_done := False\<rparr>);
         Some (fd, s\<lparr>sndfd := fd\<rparr>) } }
     else if use_mixer s \<and> pathname = ''/dev/mixer'' then
       let (fd, s) = sys_open s in Some (fd, s\<lparr>mixfd := fd\<rparr>)
     else Some (sys_open s) }"

text \<open>
  \<open>fopen\<close> and \<open>fopen64\<close>: a stream is its descriptor, no stream is negative. \<open>fdopen\<close> of a negative
  descriptor gives no stream.
\<close>

definition fopen_wrapper :: "string \<Rightarrow> 'a esd_dsp_scheme \<Rightarrow> (int \<times> 'a esd_dsp_scheme) option" where
  "fopen_wrapper pathname s = do {
     s \<leftarrow> dsp_init s;
     if pathname = ''/dev/dsp'' then do {
       let (ret, s) = (if getenv (lib_env s) ''ESPEAKER'' = None \<and> \<not> mmapemu s then sys_open s else (-1, s));
       if ret \<ge> 0 then Some (ret, s)
       else do {
         (fd, s) \<leftarrow> esd_open_sound None (s\<lparr>dsp_settings := 0, dsp_done := False\<rparr>);
         Some (fd, s\<lparr>sndfd := fd\<rparr>) } }
     else if use_mixer s \<and> pathname = ''/dev/mixer'' then
       let (ret, s) = sys_open s in Some (ret, if ret \<ge> 0 then s\<lparr>mixfd := ret\<rparr> else s)
     else Some (sys_open s) }"

definition dsp_close :: "int \<Rightarrow> 'a esd_dsp_scheme \<Rightarrow> 'a esd_dsp_scheme" where
  "dsp_close fd s =
    sys_close fd (if fd = sndfd s then s\<lparr>sndfd := -1\<rparr> else if fd = mixfd s then s\<lparr>mixfd := -1\<rparr> else s)"

subsection \<open>Control of the device\<close>

datatype dsp_request = SNDCTL_DSP_RESET | SNDCTL_DSP_POST | SNDCTL_DSP_SETFMT | SNDCTL_DSP_SPEED | SNDCTL_DSP_STEREO
  | SNDCTL_DSP_GETBLKSIZE | SNDCTL_DSP_GETFMTS | SNDCTL_DSP_GETCAPS | SNDCTL_DSP_GETOSPACE | SNDCTL_DSP_GETISPACE
  | SNDCTL_DSP_GETOPTR | SNDCTL_OTHER

text \<open>What the argument points to: an \<open>int\<close>, the buffer space (fragments, their total, their size, bytes), or counters.\<close>

datatype dsp_arg = ArgInt int | ArgSpace int int int int | ArgCount count_info

text \<open>The \<open>switch\<close> of \<open>dspctl\<close>. The capabilities are \<open>DSP_CAP_MMAP | DSP_CAP_TRIGGER | DSP_CAP_REALTIME\<close>.\<close>

definition dsp_switch :: "dsp_request \<Rightarrow> int \<Rightarrow> 'a esd_dsp_scheme \<Rightarrow> (dsp_arg \<times> 'a esd_dsp_scheme) option" where
  "dsp_switch req arg s =
    (case req of
       SNDCTL_DSP_SETFMT \<Rightarrow> Some (ArgInt arg, s\<lparr>dsp_fmt := dsp_fmt s OR (if arg AND 0x30 \<noteq> 0 then ESD_BITS16 else ESD_BITS8),
           dsp_settings := dsp_settings s OR 1\<rparr>)
     | SNDCTL_DSP_SPEED \<Rightarrow> Some (ArgInt arg, s\<lparr>dsp_speed := arg, dsp_settings := dsp_settings s OR 2\<rparr>)
     | SNDCTL_DSP_STEREO \<Rightarrow>
         Some (ArgInt arg, s\<lparr>dsp_fmt := (dsp_fmt s AND NOT ESD_MONO) OR (if arg \<noteq> 0 then ESD_STEREO else ESD_MONO)\<rparr>)
     | SNDCTL_DSP_GETBLKSIZE \<Rightarrow> Some (ArgInt 4096, s)
     | SNDCTL_DSP_GETFMTS \<Rightarrow> Some (ArgInt 0x38, s)
     | SNDCTL_DSP_GETCAPS \<Rightarrow> Some (ArgInt (if mmapemu s then 0x3200 else 0), s)
     | SNDCTL_DSP_GETOSPACE \<Rightarrow> Some (ArgSpace 1 (if mmapemu s then MMAPEMU_FRAGSTOTAL else 1) 4096 4096, s)
     | SNDCTL_DSP_GETISPACE \<Rightarrow> Some (ArgSpace 1 (if mmapemu s then MMAPEMU_FRAGSTOTAL else 1) 4096 4096, s)
     | SNDCTL_DSP_GETOPTR \<Rightarrow>
         if mmapemu s then do {
           s \<leftarrow> mmapemu_flush s;
           Some (ArgCount (mmapemu_ocount s), s\<lparr>mmapemu_ocount := (mmapemu_ocount s)\<lparr>ci_blocks := 0\<rparr>\<rparr>) }
         else Some (ArgInt arg, s)
     | _ \<Rightarrow> Some (ArgInt arg, s))"

text \<open>Writes of whole fields, up to the first that is not taken in full.\<close>

fun write_fields :: "int \<Rightarrow> octet list list \<Rightarrow> 'a os_scheme \<Rightarrow> bool \<times> 'a os_scheme" where
  "write_fields fd [] s = (True, s)"
| "write_fields fd (b # bs) s =
    (let ((n, _), s) = sys_write fd b s in if n \<noteq> int (length b) then (False, s) else write_fields fd bs s)"

text \<open>Once format and speed are known the stream is requested, and the volume set from the mixer's file.\<close>

definition dsp_mixer :: "'a esd_dsp_scheme \<Rightarrow> 'a esd_dsp_scheme option" where
  "dsp_mixer s =
    (if use_mixer s then do {
       (esd, player, s) \<leftarrow> mix_init_loop (-1) (-1) s;
       let ((left, right), s) = get_volume s;
       let (_, s) = esd_set_stream_pan esd player left right s;
       Some (dsp_close esd s) }
     else Some s)"

definition dsp_start :: "'a esd_dsp_scheme \<Rightarrow> (int \<times> 'a esd_dsp_scheme) option" where
  "dsp_start s = do {
     name \<leftarrow> ident s;
     let s = s\<lparr>dsp_done := True\<rparr>;
     let (ok, s) = write_fields (sndfd s) [put32 ESD_PROTO_STREAM_PLAY, put32 (dsp_fmt s), put32 (dsp_speed s), name] s;
     if \<not> ok then Some (-1, s)
     else do {
       let s = (if mmapemu s then
                  let (t, s) = gettimeofday s
                  in s\<lparr>mmapemu_ocount := \<lparr>ci_bytes = 0, ci_blocks = 0, ci_ptr = 0\<rparr>,
                       mmapemu_bytes_per_sec := i32 (i32 (dsp_speed s * (if dsp_fmt s AND ESD_BITS16 \<noteq> 0 then 2 else 1))
                         * (if dsp_fmt s AND ESD_STEREO \<noteq> 0 then 2 else 1)),
                       mmapemu_last_flush := t\<rparr>
                else s);
       s \<leftarrow> dsp_mixer (s\<lparr>dsp_fmt := ESD_STREAM OR ESD_PLAY OR ESD_MONO, dsp_speed := 0\<rparr>);
       Some (0, s) } }"

definition dspctl :: "dsp_request \<Rightarrow> int \<Rightarrow> 'a esd_dsp_scheme \<Rightarrow> ((int \<times> dsp_arg) \<times> 'a esd_dsp_scheme) option" where
  "dspctl req arg s = do {
     (out, s) \<leftarrow> dsp_switch req arg s;
     (r, s) \<leftarrow> (if dsp_settings s = 3 \<and> \<not> dsp_done s then dsp_start s else Some (0, s));
     Some ((r, out), s) }"

subsection \<open>Control of the mixer\<close>

datatype mix_request = SOUND_MIXER_READ_DEVMASK | SOUND_MIXER_READ_PCM | SOUND_MIXER_WRITE_PCM | SOUND_MIXER_OTHER

text \<open>The volume of the last player with that source, if there is one.\<close>

definition volume_of :: "int \<Rightarrow> esd_player_info list \<Rightarrow> int option" where
  "volume_of player ps =
    (case filter (\<lambda>p. pi_source_id p = player) ps of
       [] \<Rightarrow> None | qs \<Rightarrow> Some (ESD_VOL_TO_OSS (pi_left_vol_scale (last qs)) (pi_right_vol_scale (last qs))))"

definition mixctl :: "mix_request \<Rightarrow> int \<Rightarrow> 'a esd_dsp_scheme \<Rightarrow> ((int \<times> int) \<times> 'a esd_dsp_scheme) option" where
  "mixctl req arg s =
    (case req of
       SOUND_MIXER_READ_DEVMASK \<Rightarrow> Some ((0, 5113), s)
     | SOUND_MIXER_READ_PCM \<Rightarrow> do {
         (esd, player, s) \<leftarrow> mix_init (mix_esd s) (mix_player s) s;
         let s = s\<lparr>mix_esd := esd, mix_player := player\<rparr>;
         if player > 0 then do {
           (all_info, s) \<leftarrow> esd_get_all_info esd s;
           let s = dsp_close esd s;
           Some (case all_info of
                   None \<Rightarrow> ((-1, arg), s)
                 | Some info \<Rightarrow> ((0, case volume_of player (ai_player_list info) of None \<Rightarrow> arg | Some v \<Rightarrow> v), s)) }
         else do {
           let ((left, right), s) = get_volume s;
           let s = s\<lparr>mix_left := left, mix_right := right\<rparr>;
           Some ((0, ESD_VOL_TO_OSS left right), dsp_close esd s) } }
     | SOUND_MIXER_WRITE_PCM \<Rightarrow> do {
         (esd, player, s) \<leftarrow> mix_init (mix_esd s) (mix_player s) s;
         let left = OSS_VOL_TO_ESD_LEFT arg;
         let right = OSS_VOL_TO_ESD_RIGHT arg;
         let s = set_volume left right (s\<lparr>mix_esd := esd, mix_player := player, mix_left := left, mix_right := right\<rparr>);
         let s = (if player > 0 then snd (esd_set_stream_pan esd player left right s) else s);
         Some ((0, arg), dsp_close esd s) }
     | SOUND_MIXER_OTHER \<Rightarrow> Some ((0, arg), s))"

subsection \<open>The replaced system calls\<close>

text \<open>
  A request is decoded by the device the descriptor belongs to: a number means different requests to
  \<open>dspctl\<close> and \<open>mixctl\<close>, so \<open>d\<close> and \<open>m\<close> are the two readings of it. Other descriptors go to the real \<open>ioctl\<close>.
\<close>

definition dsp_ioctl ::
  "int \<Rightarrow> dsp_request \<Rightarrow> mix_request \<Rightarrow> int \<Rightarrow> 'a esd_dsp_scheme \<Rightarrow> ((int \<times> dsp_arg) \<times> 'a esd_dsp_scheme) option" where
  "dsp_ioctl fd d m arg s =
    (if fd = sndfd s then dspctl d arg s
     else if fd = mixfd s then
       (if use_mixer s then map_option (\<lambda>((r, v), s). ((r, ArgInt v), s)) (mixctl m arg s) else Some ((0, ArgInt arg), s))
     else let ((r, v), s) = sys_ioctl arg s in Some ((r, ArgInt v), s))"

text \<open>
  \<open>mmap\<close> and \<open>mmap64\<close>: the address of the emulated mapping, 0 when \<open>malloc\<close> fails, \<open>None\<close> for \<open>(void * ) -1\<close>; a
  mapping of another descriptor is left to the real function, whose result is the parameter \<open>real\<close>.
\<close>

definition dsp_mmap :: "addr option \<Rightarrow> int \<Rightarrow> int \<Rightarrow> 'a esd_dsp_scheme \<Rightarrow> addr option \<times> 'a esd_dsp_scheme" where
  "dsp_mmap real len fd s =
    (if fd \<noteq> sndfd s \<or> sndfd s = -1 then (real, s)
     else if mmapemu s then
       let (a, s) = malloc len s
       in (Some a, s\<lparr>mmapemu_osize := i32 len,
             mmapemu_obuffer := (if a = 0 then None else Some (a, uninit s a (nat len))),
             mmapemu_ocount := \<lparr>ci_bytes = 0, ci_blocks = 0, ci_ptr = 0\<rparr>\<rparr>)
     else (None, s))"

definition dsp_munmap :: "int \<Rightarrow> addr \<Rightarrow> 'a esd_dsp_scheme \<Rightarrow> int \<times> 'a esd_dsp_scheme" where
  "dsp_munmap real start s =
    (case mmapemu_obuffer s of
       None \<Rightarrow> (real, s)
     | Some (a, _) \<Rightarrow> if start \<noteq> a then (real, s) else (0, s\<lparr>mmapemu_obuffer := None\<rparr>))"

end
