(* ===== verification/Esd_Dsp_Laws.thy ===== *)
theory Esd_Dsp_Laws
  imports Esd_Dsp Esd_Lib_Laws
begin

text \<open>What the preloaded library makes of the calls of a program for \<open>/dev/dsp\<close>.\<close>

subsection \<open>Requesting the stream\<close>

text \<open>A device that was just opened through the daemon, without mixer and mapping.\<close>

definition fresh_dsp :: "octet list \<Rightarrow> 'a esd_dsp_scheme \<Rightarrow> bool" where
  "fresh_dsp name s \<longleftrightarrow> ident s = Some name \<and> dsp_settings s = 0 \<and> \<not> dsp_done s \<and> dsp_fmt s = 0x1010
     \<and> \<not> use_mixer s \<and> \<not> mmapemu s \<and> wres s (sndfd s) = []"

definition stream_format :: "bool \<Rightarrow> bool \<Rightarrow> int" where
  "stream_format stereo bits16 = ESD_PLAY + (if stereo then ESD_STEREO else ESD_MONO) + (if bits16 then ESD_BITS16 else ESD_BITS8)"

lemma write_fields_sends:
  "wres s fd = [] \<Longrightarrow> write_fields fd bs s = (True, s\<lparr>tx := tx s @ map (Pair fd) bs\<rparr>)"
  by (induction bs arbitrary: s) (simp_all add: sys_write_def)

lemma dsp_start_sends:
  assumes "ident s = Some name" "\<not> use_mixer s" "\<not> mmapemu s" "wres s (sndfd s) = []"
  shows "dsp_start s = Some (0, s\<lparr>tx := tx s @ map (Pair (sndfd s)) [put32 3, put32 (dsp_fmt s), put32 (dsp_speed s), name],
     dsp_done := True, dsp_fmt := 0x1010, dsp_speed := 0\<rparr>)"
  using assms by (simp add: dsp_start_def Let_def write_fields_sends dsp_mixer_def del: write_fields.simps)

text \<open>Successive calls of \<open>ioctl\<close> on the device.\<close>

fun dsp_calls :: "(dsp_request \<times> int) list \<Rightarrow> 'a esd_dsp_scheme \<Rightarrow> 'a esd_dsp_scheme option" where
  "dsp_calls [] s = Some s"
| "dsp_calls ((req, arg) # cs) s = do { (_, s) \<leftarrow> dspctl req arg s; dsp_calls cs s }"

lemma dsp_calls_append: "dsp_calls (cs @ ds) s = Option.bind (dsp_calls cs s) (dsp_calls ds)"
  by (induction cs s rule: dsp_calls.induct) (auto split: Option.bind_splits prod.splits)

lemma dsp_calls_done: "dsp_done s \<Longrightarrow> \<not> mmapemu s \<Longrightarrow> map_option tx (dsp_calls cs s) = Some (tx s)"
proof (induction cs s rule: dsp_calls.induct)
  case (2 req arg cs s)
  then obtain a s1 where "dspctl req arg s = Some (a, s1)" "dsp_done s1" "\<not> mmapemu s1" "tx s1 = tx s"
    by (cases req) (auto simp: dspctl_def dsp_switch_def)
  with 2(1) [of "(a, s1)" a s1] show ?case by simp
qed simp

definition requested :: "octet list \<Rightarrow> int \<Rightarrow> int \<Rightarrow> 'a esd_dsp_scheme \<Rightarrow> 'a esd_dsp_scheme \<Rightarrow> bool" where
  "requested name f sp s s' \<longleftrightarrow> tx s' = tx s @ map (Pair (sndfd s)) [put32 ESD_PROTO_STREAM_PLAY, put32 f, put32 sp, name]
     \<and> dsp_done s' \<and> \<not> mmapemu s'"

lemma dsp_calls_channels_before:
  assumes "fresh_dsp name s"
    and "cs \<in> {[(SNDCTL_DSP_STEREO, st), (SNDCTL_DSP_SETFMT, fm), (SNDCTL_DSP_SPEED, sp)],
      [(SNDCTL_DSP_STEREO, st), (SNDCTL_DSP_SPEED, sp), (SNDCTL_DSP_SETFMT, fm)],
      [(SNDCTL_DSP_SETFMT, fm), (SNDCTL_DSP_STEREO, st), (SNDCTL_DSP_SPEED, sp)],
      [(SNDCTL_DSP_SPEED, sp), (SNDCTL_DSP_STEREO, st), (SNDCTL_DSP_SETFMT, fm)]}"
  shows "\<exists>s'. dsp_calls cs s = Some s' \<and> requested name (stream_format (st \<noteq> 0) (fm AND 0x30 \<noteq> 0)) sp s s'"
  using assms unfolding fresh_dsp_def
  by (auto simp: dspctl_def dsp_switch_def dsp_start_sends stream_format_def requested_def)

lemma dsp_calls_channels_last:
  assumes "fresh_dsp name s"
    and "cs \<in> {[(SNDCTL_DSP_SETFMT, fm), (SNDCTL_DSP_SPEED, sp), (SNDCTL_DSP_STEREO, st)],
      [(SNDCTL_DSP_SPEED, sp), (SNDCTL_DSP_SETFMT, fm), (SNDCTL_DSP_STEREO, st)]}"
  shows "\<exists>s'. dsp_calls cs s = Some s' \<and> requested name (stream_format False (fm AND 0x30 \<noteq> 0)) sp s s'"
  using assms unfolding fresh_dsp_def
  by (auto simp: dspctl_def dsp_switch_def dsp_start_sends stream_format_def requested_def)

lemma requested_once:
  assumes "dsp_calls cs s = Some s'" "requested name f sp s s'"
  shows "map_option tx (dsp_calls (cs @ rest) s)
    = Some (tx s @ map (Pair (sndfd s)) [put32 ESD_PROTO_STREAM_PLAY, put32 f, put32 sp, name])"
  using assms dsp_calls_done [of s' rest] by (simp add: dsp_calls_append requested_def)

text \<open>
  C28. A program that has opened \<open>/dev/dsp\<close>, without emulation of the mixer and of mappings and on a connection that takes
  what is written, and sets its number of channels, format and speed, once each, makes the library send
  one request to play a stream, as soon as both format and speed are known, with that format and speed and
  the configured name; no later call sends another. In the four orders in which the channels are not set last,
  the request has the number of channels that was set; in the two in which they are, it has gone out before, and asks
  for a mono stream whatever is set.
\<close>

theorem dsp_requests_stream:
  assumes "fresh_dsp name s"
  shows "(cs \<in> {[(SNDCTL_DSP_STEREO, st), (SNDCTL_DSP_SETFMT, fm), (SNDCTL_DSP_SPEED, sp)],
      [(SNDCTL_DSP_STEREO, st), (SNDCTL_DSP_SPEED, sp), (SNDCTL_DSP_SETFMT, fm)],
      [(SNDCTL_DSP_SETFMT, fm), (SNDCTL_DSP_STEREO, st), (SNDCTL_DSP_SPEED, sp)],
      [(SNDCTL_DSP_SPEED, sp), (SNDCTL_DSP_STEREO, st), (SNDCTL_DSP_SETFMT, fm)]} \<longrightarrow>
      map_option tx (dsp_calls (cs @ rest) s) = Some (tx s @ map (Pair (sndfd s))
        [put32 ESD_PROTO_STREAM_PLAY, put32 (stream_format (st \<noteq> 0) (fm AND 0x30 \<noteq> 0)), put32 sp, name]))
    \<and> (cs \<in> {[(SNDCTL_DSP_SETFMT, fm), (SNDCTL_DSP_SPEED, sp), (SNDCTL_DSP_STEREO, st)],
      [(SNDCTL_DSP_SPEED, sp), (SNDCTL_DSP_SETFMT, fm), (SNDCTL_DSP_STEREO, st)]} \<longrightarrow>
      map_option tx (dsp_calls (cs @ rest) s) = Some (tx s @ map (Pair (sndfd s))
        [put32 ESD_PROTO_STREAM_PLAY, put32 (stream_format False (fm AND 0x30 \<noteq> 0)), put32 sp, name]))"
  using dsp_calls_channels_before [OF assms, of cs st fm sp] dsp_calls_channels_last [OF assms, of cs fm sp st]
    requested_once [of cs s] by blast

text \<open>A process that opened the device through the daemon and got descriptor 5.\<close>

definition dsp0 :: esd_dsp where
  "dsp0 = esd_lib.extend lib0 (esd_dsp.fields 5 (-1) 0 False (Some (replicate 128 0)) None False False
     \<lparr>ci_bytes = 0, ci_blocks = 0, ci_ptr = 0\<rparr> None 0 0 (0, 0) 0x1010 0 (-1) (-1) 0 0 [])"

lemma dsp0_sel:
  "ident dsp0 = Some (replicate 128 0)" "dsp_settings dsp0 = 0" "\<not> dsp_done dsp0" "dsp_fmt dsp0 = 0x1010"
  "\<not> use_mixer dsp0" "\<not> mmapemu dsp0" "sndfd dsp0 = 5" "mixfd dsp0 = -1" "wres dsp0 5 = []" "tx dsp0 = []" "timeofday dsp0 = []"
  "mix_esd dsp0 = -1" "mix_player dsp0 = -1"
  by (simp_all add: dsp0_def esd_lib.extend_def esd_dsp.fields_def lib0_def)

theorem dsp_requests_stream_witness:
  "map_option tx (dsp_calls [(SNDCTL_DSP_SETFMT, 16), (SNDCTL_DSP_STEREO, 1), (SNDCTL_DSP_SPEED, 44100), (SNDCTL_DSP_SPEED, 8000)] dsp0)
     = Some [(5, put32 3), (5, put32 0x1021), (5, put32 44100), (5, replicate 128 0)]
   \<and> map_option tx (dsp_calls [(SNDCTL_DSP_SETFMT, 16), (SNDCTL_DSP_SPEED, 44100), (SNDCTL_DSP_STEREO, 1)] dsp0)
     = Some [(5, put32 3), (5, put32 0x1011), (5, put32 44100), (5, replicate 128 0)]"
proof -
  have "fresh_dsp (replicate 128 0) dsp0" by (simp add: fresh_dsp_def dsp0_sel)
  note R = dsp_requests_stream [OF this, of _ 1 16 44100]
  show ?thesis
    using R [of "[(SNDCTL_DSP_SETFMT, 16), (SNDCTL_DSP_STEREO, 1), (SNDCTL_DSP_SPEED, 44100)]" "[(SNDCTL_DSP_SPEED, 8000)]"]
      R [of "[(SNDCTL_DSP_SETFMT, 16), (SNDCTL_DSP_SPEED, 44100), (SNDCTL_DSP_STEREO, 1)]" "[]"]
    by (simp add: stream_format_def dsp0_sel del: dsp_calls.simps)
qed

subsection \<open>The emulated mapping\<close>

definition mapping_ok :: "'a esd_dsp_scheme \<Rightarrow> bool" where
  "mapping_ok s \<longleftrightarrow> (\<exists>a b. mmapemu_obuffer s = Some (a, b) \<and> int (length b) = mmapemu_osize s)
     \<and> 0 < mmapemu_osize s \<and> mmapemu_osize s < 2147483648 \<and> mmapemu_osize s mod 4096 = 0
     \<and> 0 \<le> ci_ptr (mmapemu_ocount s) \<and> ci_ptr (mmapemu_ocount s) < mmapemu_osize s
     \<and> ci_ptr (mmapemu_ocount s) mod 4096 = 0"

lemma frag_fits:
  fixes p n :: int
  assumes "0 \<le> p" "p < n" "p mod 4096 = 0" "n mod 4096 = 0"
  shows "p + 4096 \<le> n"
proof -
  have "4096 dvd n - p" using assms(3,4) by (simp add: dvd_diff mod_eq_0_iff_dvd)
  then have "4096 \<le> n - p" using assms(2) by (intro zdvd_imp_le) simp_all
  then show ?thesis by simp
qed

lemma next_frag:
  fixes p n :: int
  assumes "0 \<le> p" "p < n" "p mod 4096 = 0" "n mod 4096 = 0" "n < 2147483648"
  shows "i32 (p + 4096) smod n = (if p + 4096 = n then 0 else p + 4096)"
proof -
  have "p + 4096 \<le> n" using frag_fits assms(1-4) .
  then have "i32 (p + 4096) = p + 4096" using assms(1,5) by (intro i32_small) simp_all
  then show ?thesis using \<open>p + 4096 \<le> n\<close> assms(1) by (simp add: signed_modulo_int_def)
qed

lemma sys_write_dsp:
  "\<exists>t w. snd (sys_write fd b s) = s\<lparr>tx := t, wres := w\<rparr> \<and> length t \<le> Suc (length (tx s))"
  for s :: "'a esd_dsp_scheme"
proof (cases "wres s fd")
  case Nil
  then have "snd (sys_write fd b s) = s\<lparr>tx := tx s @ [(fd, b)], wres := wres s\<rparr>" by (simp add: sys_write_def)
  then show ?thesis by (intro exI conjI) (assumption, simp)
next
  case (Cons x r)
  show ?thesis
  proof (cases x)
    case (WrShort k)
    then show ?thesis using Cons by (auto simp: sys_write_def)
  next
    case (WrErr e)
    then have "snd (sys_write fd b s) = s\<lparr>tx := tx s, wres := (wres s)(fd := r)\<rparr>" using Cons by (simp add: sys_write_def)
    then show ?thesis by (intro exI conjI) (assumption, simp)
  qed
qed

lemma flush_fragment_ok:
  assumes "mapping_ok s"
  shows "\<exists>s'. flush_fragment s = Some s' \<and> mapping_ok s' \<and> length (tx s') \<le> Suc (length (tx s))"
proof -
  let ?c = "mmapemu_ocount s"
  obtain a b where b: "mmapemu_obuffer s = Some (a, b)" "int (length b) = mmapemu_osize s"
    using assms by (auto simp: mapping_ok_def)
  have p: "0 \<le> ci_ptr ?c" "ci_ptr ?c < mmapemu_osize s" "ci_ptr ?c mod 4096 = 0" "mmapemu_osize s mod 4096 = 0"
    "mmapemu_osize s < 2147483648" "0 < mmapemu_osize s" using assms by (auto simp: mapping_ok_def)
  obtain t w where t: "snd (sys_write (sndfd s) (take 4096 (drop (nat (ci_ptr ?c)) b)) s) = s\<lparr>tx := t, wres := w\<rparr>"
    "length t \<le> Suc (length (tx s))" using sys_write_dsp by blast
  let ?s = "s\<lparr>tx := t, wres := w, mmapemu_ocount := \<lparr>ci_bytes = i32 (ci_bytes ?c + 4096), ci_blocks = i32 (ci_blocks ?c + 1),
      ci_ptr = (if ci_ptr ?c + 4096 = mmapemu_osize s then 0 else ci_ptr ?c + 4096)\<rparr>\<rparr>"
  have "flush_fragment s = Some ?s"
    using b p t(1) frag_fits [OF p(1-4)] next_frag [OF p(1-5)] by (simp add: flush_fragment_def Let_def)
  moreover have "mapping_ok ?s"
    using b p frag_fits [OF p(1-4)] by (auto simp: mapping_ok_def mod_add_eq)
  ultimately show ?thesis using t(2) by simp
qed

lemma flush_fragments_ok:
  "mapping_ok s \<Longrightarrow> \<exists>s'. flush_fragments n s = Some s' \<and> mapping_ok s' \<and> length (tx s') \<le> n + length (tx s)"
proof (induction n arbitrary: s)
  case (Suc n)
  obtain s1 where "flush_fragment s = Some s1" "mapping_ok s1" "length (tx s1) \<le> Suc (length (tx s))"
    using flush_fragment_ok [OF Suc.prems] by blast
  then show ?case using Suc.IH [of s1] by force
qed simp

text \<open>
  C29. The emulation of a mapping whose size is a whole number of fragments never reads outside
  of it: when the program asks for the position, at most 16 fragments of 4096 bytes inside the mapping go out, and
  the position stays inside it, whatever time has passed.
\<close>

theorem mapping_in_bounds:
  assumes "mapping_ok s" and "mmapemu s"
  shows "\<exists>out s'. dsp_switch SNDCTL_DSP_GETOPTR arg s = Some (out, s') \<and> mapping_ok s' \<and> length (tx s') \<le> 16 + length (tx s)"
proof -
  obtain n s1 where f: "mmapemu_flush s = flush_fragments n s1" "n \<le> 16" "mapping_ok s1" "tx s1 = tx s"
  proof -
    have g: "mapping_ok (snd (gettimeofday s))" "tx (snd (gettimeofday s)) = tx s"
      using assms(1) by (auto simp: gettimeofday_def mapping_ok_def split: list.splits)
    have l: "mapping_ok (t\<lparr>mmapemu_last_flush := x\<rparr>) = mapping_ok t" for t :: "'a esd_dsp_scheme" and x
      by (simp add: mapping_ok_def)
    show ?thesis
      by (rule that, subst mmapemu_flush_def, unfold Let_def case_prod_beta, rule refl) (use g l in auto)
  qed
  obtain s2 where "flush_fragments n s1 = Some s2" "mapping_ok s2" "length (tx s2) \<le> n + length (tx s1)"
    using flush_fragments_ok [OF f(3)] by blast
  moreover have "mapping_ok (s2\<lparr>mmapemu_ocount := (mmapemu_ocount s2)\<lparr>ci_blocks := 0\<rparr>\<rparr>) = mapping_ok s2"
    by (simp add: mapping_ok_def)
  ultimately show ?thesis using assms(2) f by (simp add: dsp_switch_def)
qed

theorem mapping_in_bounds_witness:
  "\<exists>out s'. dsp_switch SNDCTL_DSP_GETOPTR 0 (dsp0\<lparr>mmapemu := True, mmapemu_osize := 8192, mmapemu_obuffer := Some (1, replicate 8192 0),
     mmapemu_bytes_per_sec := 176400, timeofday := [(1, 0)]\<rparr>) = Some (out, s') \<and> mapping_ok s' \<and> length (tx s') \<le> 16"
proof -
  let ?s = "dsp0\<lparr>mmapemu := True, mmapemu_osize := 8192, mmapemu_obuffer := Some (1, replicate 8192 0),
     mmapemu_bytes_per_sec := 176400, timeofday := [(1, 0)]\<rparr>"
  have "mmapemu_ocount dsp0 = \<lparr>ci_bytes = 0, ci_blocks = 0, ci_ptr = 0\<rparr>"
    by (simp add: dsp0_def esd_lib.extend_def esd_dsp.fields_def)
  then have "mapping_ok ?s" by (simp add: mapping_ok_def del: replicate.simps)
  from mapping_in_bounds [OF this, of 0] show ?thesis by (simp add: dsp0_sel)
qed

subsection \<open>Volumes\<close>

lemma oss_volume_back:
  fixes v :: int
  assumes "0 \<le> v" "v \<le> 100"
  shows "50 * (256 * v div 50) div 256 = (if v mod 25 = 0 then v else v - 1)"
proof -
  have "list_all (\<lambda>v. 50 * (256 * v div 50) div 256 = (if v mod 25 = 0 then v else v - 1)) [0..100 :: int]" by code_simp
  then show ?thesis using assms by (simp add: list_all_iff del: upto_rec_numeral)
qed

lemma pack_volume:
  assumes "0 \<le> l" "l \<le> 127" "0 \<le> r" "r \<le> 127"
  shows "push_bit 8 r OR l = l + 256 * r" "i16 (l + 256 * r) = l + 256 * r"
    "(l + 256 * r) AND 0xFF = l" "drop_bit 8 (l + 256 * r) AND 0xFF = r"
proof -
  have m: "x AND 0xFF = x mod 256" for x :: int
    using take_bit_eq_mask [of 8 x] by (simp add: take_bit_eq_mod mask_eq_exp_minus_1)
  have t: "take_bit 8 l = l" using assms by (intro take_bit_int_eq_self) simp_all
  show "push_bit 8 r OR l = l + 256 * r"
    using concat_bit_eq [of 8 l r] concat_bit_def [of 8 l r] by (simp add: t push_bit_eq_mult ac_simps)
  show "i16 (l + 256 * r) = l + 256 * r" using assms by (intro i16_small) simp_all
  show "(l + 256 * r) AND 0xFF = l" "drop_bit 8 (l + 256 * r) AND 0xFF = r"
    using assms by (simp_all add: m drop_bit_eq_div)
qed

text \<open>
  A volume written to the emulated mixer is not the volume read back: each channel comes back
  one lower, unless it is a multiple of 25, because both conversions between the scales of OSS and
  of the daemon round down. It stays between 0 and 100.
\<close>

theorem mixer_volume_sinks:
  assumes "0 \<le> l" "l \<le> 100" "0 \<le> r" "r \<le> 100"
  shows "ESD_VOL_TO_OSS (OSS_VOL_TO_ESD_LEFT (l + 256 * r)) (OSS_VOL_TO_ESD_RIGHT (l + 256 * r))
    = (if l mod 25 = 0 then l else l - 1) + 256 * (if r mod 25 = 0 then r else r - 1)"
proof -
  have d: "x sdiv 50 = x div 50" "x sdiv 256 = x div 256" if "0 \<le> x" for x :: int
    using that by (cases "x = 0"; simp add: signed_divide_int_def)+
  let ?b = "\<lambda>v :: int. if v mod 25 = 0 then v else v - 1"
  have b: "0 \<le> ?b v \<and> ?b v \<le> 127" if "0 \<le> v" "v \<le> 100" for v
    using that by (cases "v = 0") auto
  have "50 * (256 * v sdiv 50) sdiv 256 = ?b v" if "0 \<le> v" "v \<le> 100" for v
    using that oss_volume_back [OF that] by (simp add: d)
  then show ?thesis
    using assms b [of l] b [of r] pack_volume [of l r] pack_volume [of "?b l" "?b r"]
    by (simp add: ESD_VOL_TO_OSS_def OSS_VOL_TO_ESD_LEFT_def OSS_VOL_TO_ESD_RIGHT_def)
qed

theorem mixer_volume_sinks_witness: "ESD_VOL_TO_OSS (OSS_VOL_TO_ESD_LEFT 80) (OSS_VOL_TO_ESD_RIGHT 80) = 79"
  using mixer_volume_sinks [of 80 0] by simp

subsection \<open>The mixer's connection\<close>

text \<open>Calls that only use descriptors leave the variables of the library alone.\<close>

lemma mix_esd_more: "os.more s = os.more t \<Longrightarrow> mix_esd s = mix_esd t \<and> mix_player s = mix_player t"
  for s t :: "'a esd_dsp_scheme"
  by (cases s; cases t) simp

lemma more_sys:
  "os.more (snd (sys_write fd b s)) = os.more s" "os.more (snd (sys_read fd n s)) = os.more s" "os.more (sys_close fd s) = os.more s"
  by (auto simp: sys_write_def sys_read_def sys_close_def split: list.splits wrres.splits rdres.splits)

lemma more_set_pan: "os.more (snd (esd_set_stream_pan esd player l r s)) = os.more s"
proof -
  have w: "os.more (snd (write_words fd ws s)) = os.more s" for fd ws and s :: "'b os_scheme"
    by (induction ws arbitrary: s) (auto simp: write_word_def Let_def case_prod_beta more_sys)
  show ?thesis
    by (simp add: esd_set_stream_pan_def set_pan_def read_word_def read_bytes_def Let_def case_prod_beta w more_sys del: write_words.simps)
qed

lemma mixer_write_leaves:
  assumes "mixctl SOUND_MIXER_WRITE_PCM arg s = Some (r, s')" "mix_init (mix_esd s) (mix_player s) s = Some (esd, player, s1)"
  shows "mix_esd s' = esd" "mix_player s' = player" "esd \<in> set (closed s')"
proof -
  let ?l = "OSS_VOL_TO_ESD_LEFT arg" and ?r = "OSS_VOL_TO_ESD_RIGHT arg"
  define s2 where "s2 = set_volume ?l ?r (s1\<lparr>mix_esd := esd, mix_player := player, mix_left := ?l, mix_right := ?r\<rparr>)"
  define s3 where "s3 = (if player > 0 then snd (esd_set_stream_pan esd player ?l ?r s2) else s2)"
  have s': "s' = dsp_close esd s3" using assms by (auto simp: mixctl_def Let_def s2_def s3_def)
  have "mix_esd s2 = esd \<and> mix_player s2 = player"
    by (simp add: s2_def set_volume_def mix_esd_more [OF more_sys(1)])
  moreover have "mix_esd s3 = mix_esd s2 \<and> mix_player s3 = mix_player s2"
    by (simp add: s3_def mix_esd_more [OF more_set_pan])
  ultimately show "mix_esd s' = esd" "mix_player s' = player" by (simp_all add: s' dsp_close_def sys_close_def)
  show "esd \<in> set (closed s')" by (simp add: s' dsp_close_def sys_close_def)
qed

text \<open>
  The emulated mixer opens one connection for all its requests but closes it after the first: when
  setting the volume has used a connection, the descriptor is closed, is still the one the next
  request will use, and no other is opened for it.
\<close>

theorem mixer_reuses_closed:
  assumes "mixctl SOUND_MIXER_WRITE_PCM arg s = Some (r, s')" and "0 \<le> mix_esd s'" and "0 \<le> mix_player s'"
  shows "mix_esd s' \<in> set (closed s') \<and> mix_init (mix_esd s') (mix_player s') s' = Some (mix_esd s', mix_player s', s')"
proof -
  obtain esd player s1 where m: "mix_init (mix_esd s) (mix_player s) s = Some (esd, player, s1)"
    using assms(1) by (auto simp: mixctl_def split: Option.bind_splits)
  show ?thesis using assms(2,3) mixer_write_leaves [OF assms(1) m] by (simp add: mix_init_def)
qed

theorem mixer_reuses_closed_witness:
  "\<exists>s'. mixctl SOUND_MIXER_WRITE_PCM 80 (dsp0\<lparr>mix_esd := 4, mix_player := 7\<rparr>) = Some ((0, 80), s')
     \<and> 4 \<in> set (closed s') \<and> mix_init 4 7 s' = Some (4, 7, s')"
proof -
  let ?s = "dsp0\<lparr>mix_esd := 4, mix_player := 7\<rparr>"
  have i: "mix_init (mix_esd ?s) (mix_player ?s) ?s = Some (4, 7, ?s)" by (simp add: mix_init_def)
  then obtain s' where m: "mixctl SOUND_MIXER_WRITE_PCM 80 ?s = Some ((0, 80), s')"
    by (simp add: mixctl_def Let_def)
  note e = mixer_write_leaves [OF m i]
  show ?thesis using mixer_reuses_closed [OF m] m e by auto
qed

end
