(* ===== verification/Esd_Getopt.thy ===== *)
theory Esd_Getopt
  imports Esd_Prelude
begin

text \<open>
  The parser for command line options that comes with the package (\<open>getopt.c\<close>, \<open>getopt1.c\<close>), as it is built outside of the
  GNU C library. It moves the words of \<open>argv\<close> around while it scans them, so that the words that are no options come last.
  A string that a pointer points into is the rest of the string from there. \<open>None\<close> stands for a use of \<open>argv\<close> beyond its
  end, or of the missing table of long options. Messages are left out.
\<close>

subsection \<open>State\<close>

record long_option =
  lo_name :: string
  lo_has_arg :: int
  lo_flag :: "addr option"
  lo_val :: int

datatype ordering_mode = REQUIRE_ORDER | PERMUTE | RETURN_IN_ORDER

text \<open>The variables of \<open>getopt.c\<close>, \<open>*longind\<close>, and the assignments through \<open>flag\<close>. The length of \<open>argv\<close> is \<open>argc\<close>.\<close>

record getopt =
  argv :: "string list"
  optarg :: "string option"
  optind :: nat
  getopt_initialized :: bool
  nextchar :: "string option"
  optopt :: int
  ordering :: ordering_mode
  posixly_correct :: "string option"
  first_nonopt :: nat
  last_nonopt :: nat
  longind :: nat
  flag_sets :: "(addr \<times> int) list"

fun my_index :: "string \<Rightarrow> char \<Rightarrow> string option" where
  "my_index [] chr = None"
| "my_index (c # str) chr = (if c = chr then Some (c # str) else my_index str chr)"

text \<open>
  A character as \<open>getopt\<close> returns it. Plain \<open>char\<close> is taken as unsigned; where it is signed, characters from 128 on are negative
  (and the last one is the value -1 that ends the options). The option letters of the programs are ASCII, for which there is no difference.
\<close>

definition code_of :: "char \<Rightarrow> int" where
  "code_of c = of_char c"

subsection \<open>Moving words\<close>

fun swap_range :: "nat \<Rightarrow> nat \<Rightarrow> nat \<Rightarrow> 'a list \<Rightarrow> 'a list" where
  "swap_range 0 i j av = av"
| "swap_range (Suc n) i j av = swap_range n (Suc i) (Suc j) (av[i := av ! j, j := av ! i])"

function exchange_loop :: "nat \<Rightarrow> nat \<Rightarrow> nat \<Rightarrow> 'a list \<Rightarrow> 'a list" where
  "exchange_loop bottom middle tip av =
    (if tip > middle \<and> middle > bottom then
       if tip - middle > middle - bottom then
         exchange_loop bottom middle (tip - (middle - bottom)) (swap_range (middle - bottom) bottom (tip - (middle - bottom)) av)
       else
         exchange_loop (bottom + (tip - middle)) middle tip (swap_range (tip - middle) bottom middle av)
     else av)"
  by pat_completeness auto
termination
  by (relation "measure (\<lambda>(bottom, middle, tip, av). tip - bottom)") auto

declare exchange_loop.simps [simp del]

definition exchange :: "getopt \<Rightarrow> getopt" where
  "exchange g = g\<lparr>argv := exchange_loop (first_nonopt g) (last_nonopt g) (optind g) (argv g),
     first_nonopt := first_nonopt g + (optind g - last_nonopt g), last_nonopt := optind g\<rparr>"

subsection \<open>Finding the next option\<close>

definition getopt_initialize :: "string option \<Rightarrow> string \<Rightarrow> getopt \<Rightarrow> string \<times> getopt" where
  "getopt_initialize env optstring g =
    (let g = g\<lparr>first_nonopt := optind g, last_nonopt := optind g, nextchar := None, posixly_correct := env\<rparr>
     in if take 1 optstring = ''-'' then (tl optstring, g\<lparr>ordering := RETURN_IN_ORDER\<rparr>)
        else if take 1 optstring = ''+'' then (tl optstring, g\<lparr>ordering := REQUIRE_ORDER\<rparr>)
        else (optstring, g\<lparr>ordering := (if env \<noteq> None then REQUIRE_ORDER else PERMUTE)\<rparr>))"

text \<open>\<open>argv[optind][0] != '-' || argv[optind][1] == '\0'\<close>\<close>

fun nonoption_p :: "string \<Rightarrow> bool" where
  "nonoption_p (c # _ # _) = (c \<noteq> CHR ''-'')"
| "nonoption_p _ = True"

function skip_nonopts :: "string list \<Rightarrow> nat \<Rightarrow> nat" where
  "skip_nonopts av i = (if i < length av \<and> nonoption_p (av ! i) then skip_nonopts av (Suc i) else i)"
  by pat_completeness auto
termination
  by (relation "measure (\<lambda>(av, i). length av - i)") auto

declare skip_nonopts.simps [simp del]

text \<open>The steps of the advance to the next word: permuting, the word \<open>--\<close>, and what is found.\<close>

definition getopt_permute :: "getopt \<Rightarrow> getopt" where
  "getopt_permute g =
    (let g = (if last_nonopt g > optind g then g\<lparr>last_nonopt := optind g\<rparr> else g);
         g = (if first_nonopt g > optind g then g\<lparr>first_nonopt := optind g\<rparr> else g)
     in if ordering g = PERMUTE then
          let g = (if first_nonopt g \<noteq> last_nonopt g \<and> last_nonopt g \<noteq> optind g then exchange g
                   else if last_nonopt g \<noteq> optind g then g\<lparr>first_nonopt := optind g\<rparr> else g);
              g = g\<lparr>optind := skip_nonopts (argv g) (optind g)\<rparr>
          in g\<lparr>last_nonopt := optind g\<rparr>
        else g)"

definition getopt_dashes :: "getopt \<Rightarrow> getopt" where
  "getopt_dashes g =
    (if optind g \<noteq> length (argv g) \<and> argv g ! optind g = ''--'' then
       let g = g\<lparr>optind := Suc (optind g)\<rparr>;
           g = (if first_nonopt g \<noteq> last_nonopt g \<and> last_nonopt g \<noteq> optind g then exchange g
                else if first_nonopt g = last_nonopt g then g\<lparr>first_nonopt := optind g\<rparr> else g)
       in g\<lparr>last_nonopt := length (argv g), optind := length (argv g)\<rparr>
     else g)"

text \<open>\<open>Inl\<close> is a value that is returned, \<open>Inr\<close> the state with \<open>nextchar\<close> at an option.\<close>

definition getopt_advance :: "bool \<Rightarrow> getopt \<Rightarrow> int \<times> getopt + getopt" where
  "getopt_advance has_long g =
    (let g = getopt_dashes (getopt_permute g)
     in if optind g = length (argv g) then
          Inl (-1, if first_nonopt g \<noteq> last_nonopt g then g\<lparr>optind := first_nonopt g\<rparr> else g)
        else
          let word = argv g ! optind g
          in if nonoption_p word then
               if ordering g = REQUIRE_ORDER then Inl (-1, g)
               else Inl (1, g\<lparr>optarg := Some word, optind := Suc (optind g)\<rparr>)
             else Inr (g\<lparr>nextchar := Some (drop (1 + (if has_long \<and> word ! 1 = CHR ''-'' then 1 else 0)) word)\<rparr>))"

subsection \<open>Long options\<close>

text \<open>
  The search for a name or the start of one: the option found with its index, and whether the start of a name
  is ambiguous.
\<close>

fun find_long ::
  "string \<Rightarrow> long_option list \<Rightarrow> nat \<Rightarrow> (long_option \<times> nat) option \<Rightarrow> bool \<Rightarrow> (long_option \<times> nat) option \<times> bool" where
  "find_long name [] k found ambig = (found, ambig)"
| "find_long name (p # ps) k found ambig =
    (if take (length name) (lo_name p) = name then
       if length name = length (lo_name p) then (Some (p, k), False)
       else if found = None then find_long name ps (Suc k) (Some (p, k)) ambig
       else find_long name ps (Suc k) found True
     else find_long name ps (Suc k) found ambig)"

definition colon_or_question :: "string \<Rightarrow> int" where
  "colon_or_question optstring = (if take 1 optstring = '':'' then 58 else 63)"

text \<open>
  An option has been found by its name and \<open>optind\<close> is behind it; \<open>val\<close> is the rest of the word from the \<open>=\<close> on. After \<open>-W\<close> the
  variable \<open>optopt\<close> is not set.
\<close>

definition take_long :: "bool \<Rightarrow> string \<Rightarrow> long_option \<Rightarrow> nat \<Rightarrow> string \<Rightarrow> getopt \<Rightarrow> int \<times> getopt" where
  "take_long w optstring p k val g =
    (let fail = (\<lambda>c g. (c, if w then g\<lparr>nextchar := Some []\<rparr> else g\<lparr>nextchar := Some [], optopt := lo_val p\<rparr>));
         ok = (\<lambda>g. let g = g\<lparr>nextchar := Some [], longind := k\<rparr>
                    in case lo_flag p of
                         Some a \<Rightarrow> (0, g\<lparr>flag_sets := flag_sets g @ [(a, lo_val p)]\<rparr>)
                       | None \<Rightarrow> (lo_val p, g))
     in if val \<noteq> [] then
          if lo_has_arg p \<noteq> 0 then ok (g\<lparr>optarg := Some (tl val)\<rparr>) else fail 63 g
        else if lo_has_arg p = 1 then
          if optind g < length (argv g) then ok (g\<lparr>optarg := Some (argv g ! optind g), optind := Suc (optind g)\<rparr>)
          else fail (colon_or_question optstring) g
        else ok g)"

text \<open>\<open>Inr\<close>: the word is to be read as short options after all.\<close>

definition getopt_long_word :: "bool \<Rightarrow> string \<Rightarrow> long_option list \<Rightarrow> string \<Rightarrow> string \<Rightarrow> getopt \<Rightarrow> int \<times> getopt + getopt" where
  "getopt_long_word long_only optstring longopts word nxt g =
    (let name = takeWhile (\<lambda>c. c \<noteq> CHR ''='') nxt;
         val = dropWhile (\<lambda>c. c \<noteq> CHR ''='') nxt;
         (found, ambig) = find_long name longopts 0 None False
     in if ambig then Inl (63, g\<lparr>nextchar := Some [], optind := Suc (optind g), optopt := 0\<rparr>)
        else case found of
          Some (p, k) \<Rightarrow> Inl (take_long False optstring p k val (g\<lparr>optind := Suc (optind g)\<rparr>))
        | None \<Rightarrow>
            if \<not> long_only \<or> word ! 1 = CHR ''-'' \<or> my_index optstring (hd nxt) = None
            then Inl (63, g\<lparr>nextchar := Some [], optind := Suc (optind g), optopt := 0\<rparr>)
            else Inr g)"

subsection \<open>Short options\<close>

text \<open>\<open>-W name\<close> is another way to give a long option, when \<open>optstring\<close> has \<open>W;\<close>.\<close>

definition getopt_w :: "string \<Rightarrow> long_option list option \<Rightarrow> string \<Rightarrow> getopt \<Rightarrow> (int \<times> getopt) option" where
  "getopt_w optstring longopts cs g =
    (if cs = [] \<and> optind g = length (argv g) then Some (colon_or_question optstring, g\<lparr>optopt := 87\<rparr>)
     else do {
       let arg = (if cs \<noteq> [] then cs else argv g ! optind g);
       let g = g\<lparr>optarg := Some arg, optind := Suc (optind g), nextchar := Some arg\<rparr>;
       los \<leftarrow> longopts;
       let name = takeWhile (\<lambda>c. c \<noteq> CHR ''='') arg;
       let val = dropWhile (\<lambda>c. c \<noteq> CHR ''='') arg;
       let (found, ambig) = find_long name los 0 None False;
       if ambig then Some (63, g\<lparr>nextchar := Some [], optind := Suc (optind g)\<rparr>)
       else case found of
         Some (p, k) \<Rightarrow> Some (take_long True optstring p k val g)
       | None \<Rightarrow> Some (87, g\<lparr>nextchar := None\<rparr>) })"

definition getopt_short :: "string \<Rightarrow> long_option list option \<Rightarrow> getopt \<Rightarrow> (int \<times> getopt) option" where
  "getopt_short optstring longopts g =
    (case nextchar g of
       Some (c # cs) \<Rightarrow>
         let g = g\<lparr>nextchar := Some cs\<rparr>;
             g = (if cs = [] then g\<lparr>optind := Suc (optind g)\<rparr> else g)
         in (case my_index optstring c of
               None \<Rightarrow> Some (63, g\<lparr>optopt := code_of c\<rparr>)
             | Some temp \<Rightarrow>
                 if c = CHR '':'' then Some (63, g\<lparr>optopt := code_of c\<rparr>)
                 else if take 2 temp = ''W;'' then getopt_w optstring longopts cs g
                 else if take 2 (tl temp) = ''::'' then
                   Some (code_of c, if cs \<noteq> [] then g\<lparr>optarg := Some cs, optind := Suc (optind g), nextchar := None\<rparr>
                                    else g\<lparr>optarg := None, nextchar := None\<rparr>)
                 else if take 1 (tl temp) = '':'' then
                   Some (if cs \<noteq> [] then (code_of c, g\<lparr>optarg := Some cs, optind := Suc (optind g), nextchar := None\<rparr>)
                         else if optind g = length (argv g) then
                           (colon_or_question optstring, g\<lparr>optopt := code_of c, nextchar := None\<rparr>)
                         else (code_of c, g\<lparr>optarg := Some (argv g ! optind g), optind := Suc (optind g), nextchar := None\<rparr>))
                 else Some (code_of c, g))
     | _ \<Rightarrow> None)"

subsection \<open>One call\<close>

text \<open>The parameter \<open>env\<close> is what \<open>getenv ("POSIXLY_CORRECT")\<close> gives.\<close>

definition getopt_internal ::
  "string option \<Rightarrow> string \<Rightarrow> long_option list option \<Rightarrow> bool \<Rightarrow> getopt \<Rightarrow> (int \<times> getopt) option" where
  "getopt_internal env optstring longopts long_only g =
    (let g = g\<lparr>optarg := None\<rparr>;
         (optstring, g) =
           (if optind g = 0 \<or> \<not> getopt_initialized g then
              let g = (if optind g = 0 then g\<lparr>optind := 1\<rparr> else g);
                  (optstring, g) = getopt_initialize env optstring g
              in (optstring, g\<lparr>getopt_initialized := True\<rparr>)
            else (optstring, g))
     in if optind g > length (argv g) then None
        else case (if nextchar g = None \<or> nextchar g = Some [] then getopt_advance (longopts \<noteq> None) g else Inr g) of
          Inl r \<Rightarrow> Some r
        | Inr g \<Rightarrow>
            if optind g \<ge> length (argv g) then None
            else
              let word = argv g ! optind g;
                  nxt = the (nextchar g)
              in case longopts of
                   None \<Rightarrow> getopt_short optstring longopts g
                 | Some los \<Rightarrow>
                     if word ! 1 = CHR ''-'' \<or> long_only \<and> (length word > 2 \<or> my_index optstring (word ! 1) = None) then
                       (case getopt_long_word long_only optstring los word nxt g of
                          Inl r \<Rightarrow> Some r
                        | Inr g \<Rightarrow> getopt_short optstring longopts g)
                     else getopt_short optstring longopts g)"

definition getopt_f :: "string option \<Rightarrow> string \<Rightarrow> getopt \<Rightarrow> (int \<times> getopt) option" where
  "getopt_f env optstring g = getopt_internal env optstring None False g"

definition getopt_long :: "string option \<Rightarrow> string \<Rightarrow> long_option list \<Rightarrow> getopt \<Rightarrow> (int \<times> getopt) option" where
  "getopt_long env optstring longopts g = getopt_internal env optstring (Some longopts) False g"

definition getopt_long_only :: "string option \<Rightarrow> string \<Rightarrow> long_option list \<Rightarrow> getopt \<Rightarrow> (int \<times> getopt) option" where
  "getopt_long_only env optstring longopts g = getopt_internal env optstring (Some longopts) True g"

text \<open>The state before the first call.\<close>

definition getopt_start :: "string list \<Rightarrow> getopt" where
  "getopt_start av = \<lparr>argv = av, optarg = None, optind = 1, getopt_initialized = False, nextchar = None, optopt = 63,
     ordering = REQUIRE_ORDER, posixly_correct = None, first_nonopt = 0, last_nonopt = 0, longind = 0, flag_sets = []\<rparr>"

end
