(* ===== verification/Esd_Tools.thy ===== *)
theory Esd_Tools
  imports Esd_Mgr Esd_Lib Esd_Getopt
begin

text \<open>
  The command line tools (\<open>esdcat.c\<close>, \<open>esdrec.c\<close>, \<open>esdmon.c\<close>, \<open>esdfilt.c\<close>, \<open>esdloop.c\<close>, \<open>esdsample.c\<close>, \<open>esdctl.c\<close>,
  \<open>esdplay.c\<close>) and the helpers for sound files (\<open>esdfile.c\<close>). \<open>None\<close> stands for a loop that does not end and for
  the use of an invalid pointer. Messages are left out. The audiofile library
  is not part of the program: what it returns is a parameter.
\<close>

unbundle bit_operations_syntax

subsection \<open>Files\<close>

text \<open>
  What \<open>fopen\<close> will find, the rest of the file that is read, what was written to the output file and whether
  \<open>fwrite\<close> takes anything, the size \<open>stat\<close> reports, and what is typed (with whether \<open>SIGINT\<close> has come before it).
\<close>

record esd_tool = esd_lib +
  fopens :: "octet list option list"
  source :: "octet list"
  target :: "octet list"
  fwrites :: "bool list"
  st_size :: int
  typed :: "(bool \<times> char) list"

definition fopen :: "'a esd_tool_scheme \<Rightarrow> octet list option \<times> 'a esd_tool_scheme" where
  "fopen s = (case fopens s of [] \<Rightarrow> (None, s) | f # r \<Rightarrow> (f, s\<lparr>fopens := r\<rparr>))"

definition fread :: "'a esd_tool_scheme \<Rightarrow> octet list \<times> 'a esd_tool_scheme" where
  "fread s = (take (nat ESD_BUF_SIZE) (source s), s\<lparr>source := drop (nat ESD_BUF_SIZE) (source s)\<rparr>)"

definition fwrite :: "octet list \<Rightarrow> 'a esd_tool_scheme \<Rightarrow> bool \<times> 'a esd_tool_scheme" where
  "fwrite bs s =
    (case fwrites s of
       [] \<Rightarrow> (True, s\<lparr>target := target s @ bs\<rparr>)
     | ok # r \<Rightarrow> (ok, s\<lparr>fwrites := r, target := (if ok then target s @ bs else target s)\<rparr>))"

subsection \<open>Options\<close>

record tool_opts =
  t_bits :: int
  t_channels :: int
  t_rate :: int
  t_host :: "string option"
  t_name :: "string option"
  t_file :: bool           \<comment> \<open>a file has been opened\<close>
  t_half :: bool
  t_twice :: bool
  t_cache_mode :: int

definition tool_opts0 :: tool_opts where
  "tool_opts0 = \<lparr>t_bits = ESD_BITS16, t_channels = ESD_STEREO, t_rate = 44100, t_host = None, t_name = None,
     t_file = False, t_half = False, t_twice = False, t_cache_mode = 0\<rparr>"

text \<open>
  The tools read \<open>-h\<close>, \<open>-s\<close>, \<open>-b\<close>, \<open>-m\<close> and \<open>-r\<close> alike and differ in the other words: such a word ends the
  program, is taken together with \<open>k\<close> words after it, or ends the options. The word after the last one is
  the null pointer, which is no host and which \<open>atoi\<close> does not survive.
\<close>

datatype word_step = WExit int | WTake nat tool_opts | WBreak

definition opt_word :: "string list \<Rightarrow> string option" where
  "opt_word as = (case as of [] \<Rightarrow> None | a # _ \<Rightarrow> Some a)"

function tool_args ::
  "(string \<Rightarrow> string list \<Rightarrow> tool_opts \<Rightarrow> 's \<Rightarrow> word_step \<times> 's) \<Rightarrow> string list \<Rightarrow> tool_opts \<Rightarrow> 's
     \<Rightarrow> ((int + tool_opts \<times> string list) \<times> 's) option" where
  "tool_args other [] opt s = Some (Inr (opt, []), s)"
| "tool_args other (a # as) opt s =
    (if a = ''-h'' then Some (Inl 0, s)
     else if a = ''-s'' then tool_args other (drop 1 as) (opt\<lparr>t_host := opt_word as\<rparr>) s
     else if a = ''-b'' then tool_args other as (opt\<lparr>t_bits := ESD_BITS8\<rparr>) s
     else if a = ''-m'' then tool_args other as (opt\<lparr>t_channels := ESD_MONO\<rparr>) s
     else if a = ''-r'' then
       (case as of [] \<Rightarrow> None | r # as \<Rightarrow> tool_args other as (opt\<lparr>t_rate := atoi r\<rparr>) s)
     else case other a as opt s of
            (WExit code, s) \<Rightarrow> Some (Inl code, s)
          | (WTake k opt, s) \<Rightarrow> tool_args other (drop k as) opt s
          | (WBreak, s) \<Rightarrow> Some (Inr (opt, a # as), s))"
  by pat_completeness auto
termination
  by (relation "measure (\<lambda>(other, as, opt, s). length as)") auto

definition tool_format :: "int \<Rightarrow> tool_opts \<Rightarrow> int" where
  "tool_format func opt = t_bits opt OR t_channels opt OR ESD_STREAM OR func"

subsection \<open>Sending a file\<close>

text \<open>The loop that copies the source to the socket; a short \<open>write\<close> is not completed.\<close>

function send_source :: "int \<Rightarrow> 'a esd_tool_scheme \<Rightarrow> bool \<times> 'a esd_tool_scheme" where
  "send_source sock s =
    (if source s = [] then (True, s)
     else
       let (buf, s) = fread s;
           w = sys_write sock buf s
       in if fst (fst w) \<le> 0 then (False, snd w) else send_source sock (snd w))"
  by pat_completeness auto
termination
  by (relation "measure (\<lambda>(sock, s). length (source s))")
    (auto simp: fread_def sys_write_def split: list.splits wrres.splits)

declare send_source.simps [simp del]

definition esdcat_word :: "string \<Rightarrow> string list \<Rightarrow> tool_opts \<Rightarrow> 'a esd_tool_scheme \<Rightarrow> word_step \<times> 'a esd_tool_scheme" where
  "esdcat_word a as opt s =
    (if a = ''-n'' then (WTake 1 (opt\<lparr>t_name := opt_word as\<rparr>), s)
     else if t_file opt then (WTake 0 opt, s)
     else
       let (f, s) = fopen s
       in case f of
            None \<Rightarrow> (WExit 1, s)
          | Some bs \<Rightarrow> (WTake 0 (opt\<lparr>t_name := Some a, t_file := True\<rparr>), s\<lparr>source := bs\<rparr>))"

text \<open>At the start \<open>source\<close> is the standard input.\<close>

definition esdcat :: "string list \<Rightarrow> 'a esd_tool_scheme \<Rightarrow> (int \<times> 'a esd_tool_scheme) option" where
  "esdcat args s = do {
     (r, s) \<leftarrow> tool_args esdcat_word args tool_opts0 s;
     case r of
       Inl code \<Rightarrow> Some (code, s)
     | Inr (opt, _) \<Rightarrow> do {
         (sock, s) \<leftarrow> esd_play_stream_fallback (tool_format ESD_PLAY opt) (t_rate opt) (t_host opt)
                        (map_option octets_of_string (t_name opt)) s;
         if sock \<le> 0 then Some (1, s)
         else let (ok, s) = send_source sock s in Some (if ok then (0, sys_close sock s) else (1, s)) } }"

subsection \<open>Recording and monitoring\<close>

text \<open>The loops differ in what they make of the end of the stream.\<close>

partial_function (option) rec_loop :: "int \<Rightarrow> 'a esd_tool_scheme \<Rightarrow> (int \<times> 'a esd_tool_scheme) option" where
  "rec_loop sock s =
    (let ((n, _, bs), s) = sys_read sock (nat ESD_BUF_SIZE) s
     in if n > 0 then
          (let (ok, s) = fwrite bs s in if \<not> ok then Some (1, s) else rec_loop sock s)
        else Some (0, sys_close sock s))"

partial_function (option) mon_loop :: "int \<Rightarrow> 'a esd_tool_scheme \<Rightarrow> (int \<times> 'a esd_tool_scheme) option" where
  "mon_loop sock s =
    (let ((n, _, bs), s) = sys_read sock (nat ESD_BUF_SIZE) s
     in if n \<ge> 0 then
          (if n > 0 then
             (let (ok, s) = fwrite bs s in if \<not> ok then Some (1, s) else mon_loop sock s)
           else mon_loop sock s)
        else Some (0, sys_close sock s))"

text \<open>\<open>esdrec\<close> forgets the name of a file it could not open, \<open>esdmon\<close> uses its own name for the stream.\<close>

definition esdrec_word :: "string \<Rightarrow> string list \<Rightarrow> tool_opts \<Rightarrow> 'a esd_tool_scheme \<Rightarrow> word_step \<times> 'a esd_tool_scheme" where
  "esdrec_word a as opt s =
    (if t_file opt then (WTake 0 opt, s)
     else let (f, s) = fopen s
          in (WTake 0 (if f = None then opt\<lparr>t_name := None\<rparr> else opt\<lparr>t_name := Some a, t_file := True\<rparr>), s))"

definition esdrec :: "string list \<Rightarrow> 'a esd_tool_scheme \<Rightarrow> (int \<times> 'a esd_tool_scheme) option" where
  "esdrec args s = do {
     (r, s) \<leftarrow> tool_args esdrec_word args tool_opts0 s;
     case r of
       Inl code \<Rightarrow> Some (code, s)
     | Inr (opt, _) \<Rightarrow> do {
         (sock, s) \<leftarrow> esd_record_stream_fallback (tool_format ESD_RECORD opt) (t_rate opt) (t_host opt)
                        (map_option octets_of_string (t_name opt)) s;
         if sock \<le> 0 then Some (1, s) else rec_loop sock s } }"

definition esdmon_word :: "string \<Rightarrow> string list \<Rightarrow> tool_opts \<Rightarrow> 'a esd_tool_scheme \<Rightarrow> word_step \<times> 'a esd_tool_scheme" where
  "esdmon_word a as opt s =
    (if t_file opt then (WTake 0 opt, s)
     else let (f, s) = fopen s in (WTake 0 (opt\<lparr>t_file := (f \<noteq> None)\<rparr>), s))"

definition esdmon :: "string \<Rightarrow> string list \<Rightarrow> 'a esd_tool_scheme \<Rightarrow> (int \<times> 'a esd_tool_scheme) option" where
  "esdmon argv0 args s = do {
     (r, s) \<leftarrow> tool_args esdmon_word args tool_opts0 s;
     case r of
       Inl code \<Rightarrow> Some (code, s)
     | Inr (opt, _) \<Rightarrow> do {
         (sock, s) \<leftarrow> esd_monitor_stream (tool_format ESD_PLAY opt) (t_rate opt) (t_host opt)
                        (Some (octets_of_string argv0)) s;
         if sock \<le> 0 then Some (1, s) else mon_loop sock s } }"

subsection \<open>Filtering\<close>

text \<open>
  The loops over the signed shorts of the buffer, as long as the address is below its filled part; the
  buffer has 4096 bytes, so an odd rest takes one stale byte along.
\<close>

definition halve :: "int \<Rightarrow> int" where
  "halve x = i16 (x sdiv 2)"

definition twice :: "int \<Rightarrow> int" where
  "twice x = (let samp = x * 2 in i16 (if samp > 32767 then 32767 else samp))"

fun map_shorts :: "(int \<Rightarrow> int) \<Rightarrow> nat list \<Rightarrow> octet list \<Rightarrow> octet list option" where
  "map_shorts f [] buf = Some buf"
| "map_shorts f (k # ks) buf = do { x \<leftarrow> ss_at buf (int k); buf \<leftarrow> ss_put buf k (f x); map_shorts f ks buf }"

definition filter_buf :: "tool_opts \<Rightarrow> nat \<Rightarrow> octet list \<Rightarrow> octet list option" where
  "filter_buf opt n buf = do {
     buf \<leftarrow> (if t_half opt then map_shorts halve [0..<(n + 1) div 2] buf else Some buf);
     if t_twice opt then map_shorts twice [0..<(n + 1) div 2] buf else Some buf }"

partial_function (option) filt_loop ::
  "tool_opts \<Rightarrow> int \<Rightarrow> octet list \<Rightarrow> 'a esd_tool_scheme \<Rightarrow> (int \<times> 'a esd_tool_scheme) option" where
  "filt_loop opt sock buf s = (let ((n, _, bs), s) = sys_read sock (nat ESD_BUF_SIZE) s in
     if n > 0 then do {
       buf \<leftarrow> filter_buf opt (nat n) (bs @ drop (length bs) buf);
       (let (ok, s) = (if t_file opt then fwrite (take (nat n) buf) s else (True, s))
        in if \<not> ok then Some (1, s)
           else filt_loop opt sock buf (snd (sys_write sock (take (nat n) buf) s))) }
     else Some (0, sys_close sock s))"

definition esdfilt_word :: "string \<Rightarrow> string list \<Rightarrow> tool_opts \<Rightarrow> 'a esd_tool_scheme \<Rightarrow> word_step \<times> 'a esd_tool_scheme" where
  "esdfilt_word a as opt s =
    (if t_file opt then (WTake 0 opt, s)
     else if a = ''-half'' then (WTake 0 (opt\<lparr>t_half := True\<rparr>), s)
     else if a = ''-double'' then (WTake 0 (opt\<lparr>t_twice := True\<rparr>), s)
     else let (f, s) = fopen s in (WTake 0 (opt\<lparr>t_file := (f \<noteq> None)\<rparr>), s))"

definition esdfilt :: "string \<Rightarrow> string list \<Rightarrow> 'a esd_tool_scheme \<Rightarrow> (int \<times> 'a esd_tool_scheme) option" where
  "esdfilt argv0 args s = do {
     (r, s) \<leftarrow> tool_args esdfilt_word args tool_opts0 s;
     case r of
       Inl code \<Rightarrow> Some (code, s)
     | Inr (opt, _) \<Rightarrow> do {
         (sock, s) \<leftarrow> esd_filter_stream (tool_format ESD_PLAY opt) (t_rate opt) (t_host opt)
                        (Some (octets_of_string argv0)) s;
         if sock \<le> 0 then Some (1, s) else filt_loop opt sock (uninit s 0 (nat ESD_BUF_SIZE)) s } }"

subsection \<open>Looping a sample\<close>

definition esdloop_word :: "string \<Rightarrow> string list \<Rightarrow> tool_opts \<Rightarrow> 'a esd_tool_scheme \<Rightarrow> word_step \<times> 'a esd_tool_scheme" where
  "esdloop_word a as opt s =
    (let (f, s) = fopen s
     in (WTake 0 (opt\<lparr>t_name := Some a, t_file := (f \<noteq> None)\<rparr>), case f of None \<Rightarrow> s | Some bs \<Rightarrow> s\<lparr>source := bs\<rparr>))"

text \<open>\<open>getchar\<close> waits for a line; what is typed does not matter.\<close>

definition esdloop :: "string list \<Rightarrow> 'a esd_tool_scheme \<Rightarrow> (int \<times> 'a esd_tool_scheme) option" where
  "esdloop args s = do {
     (r, s) \<leftarrow> tool_args esdloop_word args tool_opts0 s;
     case r of
       Inl code \<Rightarrow> Some (code, s)
     | Inr (opt, _) \<Rightarrow>
         if \<not> t_file opt then Some (-1, s)
         else do {
           (sock, s) \<leftarrow> esd_open_sound (t_host opt) s;
           if sock \<le> 0 then Some (1, s)
           else do {
             let (sample_id, s) = esd_sample_cache sock (tool_format ESD_PLAY opt) (t_rate opt) (st_size s)
                                    (map_option octets_of_string (t_name opt)) s;
             let (ok, s) = send_source sock s;
             if \<not> ok then Some (1, s)
             else do {
               let (_, s) = esd_sample_loop sock sample_id s;
               let s = s\<lparr>typed := drop 1 (typed s)\<rparr>;
               let (_, s) = esd_sample_stop sock sample_id s;
               let (_, s) = esd_sample_free sock sample_id s;
               Some (0, sys_close sock s) } } } }"

subsection \<open>Sound files\<close>

text \<open>
  What the audiofile library says about a file: its channels, rate, width and whether its compression is
  one of those it decodes, the bytes of its track, what the calls of \<open>afReadFrames\<close> give (\<open>None\<close> is an
  error; after the last one there are no more frames), and whether it closes without an error.
\<close>

record af_file =
  af_channels :: int
  af_rate :: int
  af_known :: bool
  af_width :: int
  af_length :: int
  af_frames :: "octet list option list"
  af_close :: bool

fun esd_send_file :: "int \<Rightarrow> octet list option list \<Rightarrow> 'a os_scheme \<Rightarrow> int \<times> 'a os_scheme" where
  "esd_send_file esd [] s = (0, s)"
| "esd_send_file esd (None # fs) s = (1, s)"
| "esd_send_file esd (Some bs # fs) s =
    (if bs = [] then (0, s)
     else let ((n, _), s) = sys_write esd bs s in if n \<le> 0 then (1, s) else esd_send_file esd fs s)"

definition af_format :: "af_file \<Rightarrow> int option" where
  "af_format af = do {
     bits \<leftarrow> (if af_width af = 8 then Some ESD_BITS8 else if af_width af = 16 then Some ESD_BITS16 else None);
     channels \<leftarrow> (if af_channels af = 1 then Some ESD_MONO else if af_channels af = 2 then Some ESD_STEREO else None);
     Some (bits OR channels OR ESD_STREAM OR ESD_PLAY) }"

text \<open>The name of the stream: a prefix of at most 126 characters, a colon and what fits of the file's name.\<close>

definition af_name :: "string option \<Rightarrow> string \<Rightarrow> octet list" where
  "af_name prefix filename =
    (let p = (case prefix of None \<Rightarrow> [] | Some x \<Rightarrow> take (ESD_NAME_MAX - 2) (octets_of_string x) @ [58])
     in p @ take (ESD_NAME_MAX - length p) (octets_of_string filename))"

definition esd_play_file ::
  "(string \<Rightarrow> af_file option) \<Rightarrow> string option \<Rightarrow> string \<Rightarrow> bool \<Rightarrow> 'a esd_lib_scheme \<Rightarrow> (int \<times> 'a esd_lib_scheme) option" where
  "esd_play_file afs prefix filename fallback s =
    (case afs filename of
       None \<Rightarrow> Some (0, s)
     | Some af \<Rightarrow>
         if \<not> af_known af then Some (0, s)
         else case af_format af of
           None \<Rightarrow> Some (0, s)
         | Some format \<Rightarrow> do {
             (sock, s) \<leftarrow> (if fallback then esd_play_stream_fallback format (af_rate af) None (Some (af_name prefix filename)) s
                          else esd_play_stream format (af_rate af) None (Some (octets_of_string filename)) s);
             if sock \<le> 0 then Some (0, s)
             else
               let (_, s) = esd_send_file sock (af_frames af) s;
                   s = sys_close sock s
               in Some (if af_close af then 1 else 0, s) })"

text \<open>
  Here the buffer for the name is not initialised: without a prefix, or with one of 126 characters or
  more, which is not terminated, the search for its end reads what was on the stack.
\<close>

definition esd_file_cache ::
  "(string \<Rightarrow> af_file option) \<Rightarrow> int \<Rightarrow> string option \<Rightarrow> string \<Rightarrow> 'a esd_lib_scheme \<Rightarrow> (int \<times> 'a esd_lib_scheme) option" where
  "esd_file_cache afs esd prefix filename s =
    (case afs filename of
       None \<Rightarrow> Some (-1, s)
     | Some af \<Rightarrow>
       (case af_format af of
          None \<Rightarrow> Some (-1, s)
        | Some format \<Rightarrow> do {
            p \<leftarrow> prefix;
            if length p \<ge> ESD_NAME_MAX - 2 then None
            else do {
              let (sample_id, s) = esd_sample_cache esd format (af_rate af) (af_length af) (Some (af_name prefix filename)) s;
              let (_, s) = esd_send_file esd (af_frames af) s;
              if \<not> af_close af then Some (-1, s)
              else let (confirm_id, s) = esd_confirm_sample_cache esd s
                   in Some (if confirm_id \<noteq> sample_id then -1 else sample_id, s) } }))"

subsection \<open>Triggering a sample\<close>

definition esdsample_word :: "string \<Rightarrow> string list \<Rightarrow> tool_opts \<Rightarrow> 'a esd_tool_scheme \<Rightarrow> word_step \<times> 'a esd_tool_scheme" where
  "esdsample_word a as opt s =
    (if a = ''-d'' then (WTake 0 (opt\<lparr>t_cache_mode := 1\<rparr>), s)
     else if a = ''-e'' then (WTake 0 (opt\<lparr>t_cache_mode := 2\<rparr>), s)
     else (WBreak, s))"

text \<open>The loop over what is typed: at the end of the input \<open>getchar\<close> gives \<open>EOF\<close> for ever.\<close>

partial_function (option) trigger_loop :: "int \<Rightarrow> int \<Rightarrow> 'a esd_tool_scheme \<Rightarrow> 'a esd_tool_scheme option" where
  "trigger_loop sock sample_id s =
    (case typed s of
       [] \<Rightarrow> trigger_loop sock sample_id (snd (esd_sample_play sock sample_id s))
     | (terminate, c) # r \<Rightarrow>
         if terminate then Some s
         else if c = CHR ''q'' then Some (s\<lparr>typed := r\<rparr>)
         else trigger_loop sock sample_id (snd (esd_sample_play sock sample_id (s\<lparr>typed := r\<rparr>))))"

text \<open>The sample id, or the code the program ends with.\<close>

definition sample_upload :: "int \<Rightarrow> tool_opts \<Rightarrow> octet list \<Rightarrow> 'a esd_tool_scheme \<Rightarrow> (int + int) \<times> 'a esd_tool_scheme" where
  "sample_upload sock opt filename s =
    (let (f, s) = fopen s
     in case f of
          None \<Rightarrow> (Inl (-1), s)
        | Some bs \<Rightarrow>
            if sock \<le> 0 then (Inl 1, s)
            else
              let (sample_id, s) = esd_sample_cache sock (tool_format ESD_PLAY opt) (t_rate opt) (st_size s)
                                     (Some filename) (s\<lparr>source := bs\<rparr>);
                  (ok, s) = send_source sock s
              in if \<not> ok then (Inl 1, s)
                 else let (confirm_id, s) = esd_confirm_sample_cache sock s
                      in (if sample_id \<noteq> confirm_id then Inl 1 else Inr sample_id, s))"

definition esdsample ::
  "(string \<Rightarrow> af_file option) \<Rightarrow> string \<Rightarrow> string list \<Rightarrow> 'a esd_tool_scheme \<Rightarrow> (int \<times> 'a esd_tool_scheme) option" where
  "esdsample afs argv0 args s =
    (if args = [] then Some (0, s)
     else do {
       (r, s) \<leftarrow> tool_args esdsample_word args tool_opts0 s;
       case r of
         Inl code \<Rightarrow> Some (code, s)
       | Inr (opt, rest) \<Rightarrow> do {
           name \<leftarrow> opt_word rest;
           let filename = af_name (Some argv0) name;
           (sock, s) \<leftarrow> esd_open_sound (t_host opt) s;
           (res, s) \<leftarrow>
             (if t_cache_mode opt = 1 then Some (sample_upload sock opt filename s)
              else if t_cache_mode opt = 0 then
                (if sock \<le> 0 then Some (Inl 1, s)
                 else do {
                   (sample_id, s) \<leftarrow> esd_file_cache afs sock (Some argv0) name s;
                   Some (if sample_id < 0 then Inl 1 else Inr sample_id, s) })
              else Some (Inr 0, s));
           case res of
             Inl code \<Rightarrow> Some (code, s)
           | Inr sample_id \<Rightarrow> do {
               let filename = (if t_cache_mode opt = 2 then take ESD_NAME_MAX (octets_of_string name) else filename);
               let (reget_id, s) = esd_sample_getid sock (Some filename) s;
               if t_cache_mode opt \<noteq> 2 \<and> (reget_id \<noteq> sample_id \<or> reget_id < 0) then Some (1, s)
               else do {
                 let sample_id = (if t_cache_mode opt = 2 then reget_id else sample_id);
                 s \<leftarrow> trigger_loop sock sample_id s;
                 let (_, s) = esd_sample_free sock sample_id s;
                 Some (0, sys_close sock s) } } } })"

subsection \<open>Controlling the daemon\<close>

text \<open>
  The commands of \<open>esdctl\<close>, each with the words it takes; the null pointer after the last word is no name,
  and no number. The result is the code of \<open>exit\<close>.
\<close>

definition ctl_name :: "string option \<Rightarrow> octet list option" where
  "ctl_name w = map_option octets_of_string w"

definition ctl_sample ::
  "(int \<Rightarrow> int \<Rightarrow> 'a esd_lib_scheme \<Rightarrow> int \<times> 'a esd_lib_scheme) \<Rightarrow> int \<Rightarrow> string list \<Rightarrow> 'a esd_lib_scheme \<Rightarrow> 'a esd_lib_scheme" where
  "ctl_sample f esd as s =
    (let (ident, s) = esd_sample_getid esd (ctl_name (opt_word as)) s in snd (f esd ident s))"

definition ctl_pan ::
  "(int \<Rightarrow> int \<Rightarrow> int \<Rightarrow> int \<Rightarrow> 'a esd_lib_scheme \<Rightarrow> int \<times> 'a esd_lib_scheme) \<Rightarrow> int \<Rightarrow> string list \<Rightarrow> 'a esd_lib_scheme
     \<Rightarrow> 'a esd_lib_scheme option" where
  "ctl_pan f esd as s =
    (case as of
       i # l # r # _ \<Rightarrow> Some (if atoi i = 0 then s else snd (f esd (atoi i) (atoi l) (atoi r) s))
     | _ \<Rightarrow> None)"

text \<open>One command: the words it took after its name, and the state; \<open>Inl\<close> for an unknown command.\<close>

definition ctl_command ::
  "(string \<Rightarrow> af_file option) \<Rightarrow> string \<Rightarrow> int \<Rightarrow> string \<Rightarrow> string list \<Rightarrow> 'a esd_lib_scheme \<Rightarrow> (int + nat \<times> 'a esd_lib_scheme) option" where
  "ctl_command afs argv0 esd a as s =
    (if a = ''lock'' then Some (Inr (0, snd (esd_lock esd s)))
     else if a = ''unlock'' then Some (Inr (0, snd (esd_unlock esd s)))
     else if a = ''off'' \<or> a = ''standby'' then Some (Inr (0, snd (esd_standby esd s)))
     else if a = ''on'' \<or> a = ''resume'' then Some (Inr (0, snd (esd_resume esd s)))
     else if a = ''cache'' then do {
       name \<leftarrow> opt_word as;
       (_, s) \<leftarrow> esd_file_cache afs esd (Some argv0) name s;
       Some (Inr (1, s)) }
     else if a = ''getid'' then Some (Inr (1, snd (esd_sample_getid esd (ctl_name (opt_word as)) s)))
     else if a = ''free'' then Some (Inr (1, ctl_sample esd_sample_free esd as s))
     else if a = ''play'' then Some (Inr (1, ctl_sample esd_sample_play esd as s))
     else if a = ''loop'' then Some (Inr (1, ctl_sample esd_sample_loop esd as s))
     else if a = ''stop'' then Some (Inr (1, ctl_sample esd_sample_stop esd as s))
     else if a = ''serverinfo'' then Some (Inr (0, snd (esd_get_server_info esd s)))
     else if a = ''allinfo'' then do { (_, s) \<leftarrow> esd_get_all_info esd s; Some (Inr (0, s)) }
     else if a = ''panstream'' then map_option (\<lambda>s. Inr (3, s)) (ctl_pan esd_set_stream_pan esd as s)
     else if a = ''pansample'' then map_option (\<lambda>s. Inr (3, s)) (ctl_pan esd_set_default_sample_pan esd as s)
     else if a = ''standbymode'' then Some (Inr (0, snd (esd_get_standby_mode esd s)))
     else Some (Inl 3))"

function ctl_commands ::
  "(string \<Rightarrow> af_file option) \<Rightarrow> string \<Rightarrow> int \<Rightarrow> string list \<Rightarrow> 'a esd_lib_scheme \<Rightarrow> (int \<times> 'a esd_lib_scheme) option" where
  "ctl_commands afs argv0 esd [] s = Some (0, sys_close esd s)"
| "ctl_commands afs argv0 esd (a # as) s =
    (case ctl_command afs argv0 esd a as s of
       None \<Rightarrow> None
     | Some (Inl code) \<Rightarrow> Some (code, s)
     | Some (Inr (k, s)) \<Rightarrow> ctl_commands afs argv0 esd (drop k as) s)"
  by pat_completeness auto
termination
  by (relation "measure (\<lambda>(afs, argv0, esd, as, s). length as)") auto

definition ctl_opts :: "long_option list" where
  "ctl_opts =
    [\<lparr>lo_name = ''server'', lo_has_arg = 1, lo_flag = None, lo_val = code_of CHR ''s''\<rparr>,
     \<lparr>lo_name = ''prefix'', lo_has_arg = 1, lo_flag = None, lo_val = code_of CHR ''p''\<rparr>,
     \<lparr>lo_name = ''file'', lo_has_arg = 1, lo_flag = None, lo_val = code_of CHR ''f''\<rparr>,
     \<lparr>lo_name = ''help'', lo_has_arg = 0, lo_flag = None, lo_val = code_of CHR ''h''\<rparr>,
     \<lparr>lo_name = ''version'', lo_has_arg = 0, lo_flag = None, lo_val = code_of CHR ''v''\<rparr>]"

text \<open>
  The loop over the options: \<open>Inl\<close> is the code of \<open>exit\<close>, \<open>Inr\<close> the server and the state of \<open>getopt\<close>. A value that is missing
  would be copied from the null pointer.
\<close>

partial_function (option) ctl_options :: "string option \<Rightarrow> getopt \<Rightarrow> string option \<Rightarrow> (int + string option \<times> getopt) option" where
  "ctl_options env g server = do {
     (c, g) \<leftarrow> getopt_long env ''s:p:hv'' ctl_opts g;
     if c = code_of CHR ''s'' then do { v \<leftarrow> optarg g; ctl_options env g (Some v) }
     else if c = code_of CHR ''p'' then do { _ \<leftarrow> optarg g; ctl_options env g server }
     else if c = code_of CHR ''h'' \<or> c = code_of CHR ''v'' then Some (Inl 0)
     else if c = code_of CHR ''?'' then Some (Inl 2)
     else Some (Inr (server, g)) }"

definition esdctl ::
  "(string \<Rightarrow> af_file option) \<Rightarrow> string \<Rightarrow> string list \<Rightarrow> 'a esd_lib_scheme \<Rightarrow> (int \<times> 'a esd_lib_scheme) option" where
  "esdctl afs argv0 args s =
    (if args = [] then Some (1, s)
     else do {
       r \<leftarrow> ctl_options (getenv (lib_env s) ''POSIXLY_CORRECT'') (getopt_start (argv0 # args)) None;
       case r of
         Inl code \<Rightarrow> Some (code, s)
       | Inr (server, g) \<Rightarrow>
           if optind g = length (argv g) then Some (3, s)
           else do {
             (esd, s) \<leftarrow> esd_open_sound server s;
             if esd \<le> 0 then Some (1, s) else ctl_commands afs argv0 esd (drop (optind g) (argv g)) s } })"

subsection \<open>Playing a file\<close>

definition play_opts :: "long_option list" where
  "play_opts =
    [\<lparr>lo_name = ''server'', lo_has_arg = 1, lo_flag = None, lo_val = code_of CHR ''s''\<rparr>,
     \<lparr>lo_name = ''help'', lo_has_arg = 0, lo_flag = None, lo_val = code_of CHR ''h''\<rparr>,
     \<lparr>lo_name = ''version'', lo_has_arg = 0, lo_flag = None, lo_val = code_of CHR ''v''\<rparr>]"

definition set_espeaker :: "string \<Rightarrow> 'a esd_lib_scheme \<Rightarrow> 'a esd_lib_scheme" where
  "set_espeaker v s = s\<lparr>lib_env := (lib_env s)\<lparr>getenv := (getenv (lib_env s))(''ESPEAKER'' := Some v)\<rparr>\<rparr>"

text \<open>\<open>-s\<close> sets \<open>ESPEAKER\<close> for the library; \<open>Inl\<close> is the code of \<open>exit\<close>, \<open>abort\<close> is taken as 134.\<close>

partial_function (option) play_options :: "getopt \<Rightarrow> 'a esd_lib_scheme \<Rightarrow> (int \<times> 'a esd_lib_scheme + getopt \<times> 'a esd_lib_scheme) option" where
  "play_options g s = do {
     (c, g) \<leftarrow> getopt_long (getenv (lib_env s) ''POSIXLY_CORRECT'') ''s:hv'' play_opts g;
     if c = -1 then Some (Inr (g, s))
     else if c = code_of CHR ''s'' then do { v \<leftarrow> optarg g; play_options g (set_espeaker v s) }
     else if c = code_of CHR ''h'' \<or> c = code_of CHR ''v'' then Some (Inl (0, s))
     else if c = code_of CHR ''?'' then Some (Inl (1, s))
     else Some (Inl (134, s)) }"

definition esdplay ::
  "(string \<Rightarrow> af_file option) \<Rightarrow> string \<Rightarrow> string list \<Rightarrow> 'a esd_lib_scheme \<Rightarrow> (int \<times> 'a esd_lib_scheme) option" where
  "esdplay afs argv0 args s = do {
     r \<leftarrow> play_options (getopt_start (argv0 # args)) s;
     case r of
       Inl (code, s) \<Rightarrow> Some (code, s)
     | Inr (g, s) \<Rightarrow>
         if optind g \<noteq> length (argv g) - 1 then Some (1, s)
         else do { (_, s) \<leftarrow> esd_play_file afs (Some argv0) (argv g ! optind g) True s; Some (0, s) } }"

end
