(* ===== verification/Esd_Getopt_Laws.thy ===== *)
theory Esd_Getopt_Laws
  imports Esd_Getopt "HOL-Library.Multiset"
begin

text \<open>
  The calls of \<open>getopt_long\<close>, which scan and permute \<open>argv\<close> in place, against a reference: a recursion over the list of words that
  says which options there are, with which values, and which words are left.
\<close>

subsection \<open>Exchanging two blocks\<close>

lemma swap_range_blocks:
  "length X = n \<Longrightarrow> length Y = n \<Longrightarrow>
     swap_range n (length A) (length A + n + length M) (A @ X @ M @ Y @ D) = A @ Y @ M @ X @ D"
proof (induction n arbitrary: A X M Y)
  case (Suc n)
  obtain x X' y Y' where x: "X = x # X'" "length X' = n" and y: "Y = y # Y'" "length Y' = n"
    using Suc.prems by (cases X; cases Y) auto
  have "(A @ X @ M @ Y @ D)[length A := (A @ X @ M @ Y @ D) ! (length A + Suc n + length M),
      length A + Suc n + length M := (A @ X @ M @ Y @ D) ! length A] = (A @ [y]) @ X' @ (M @ [x]) @ Y' @ D"
    using x y by (simp add: list_update_append nth_append)
  then show ?case using Suc.IH [OF x(2) y(2), of "A @ [y]" "M @ [x]"] x(1) y(1) by simp
qed simp

lemma exchange_loop_rotates:
  "exchange_loop (length A) (length A + length B) (length A + length B + length C) (A @ B @ C @ D) = A @ C @ B @ D"
proof (induction "length B + length C" arbitrary: A B C D rule: less_induct)
  case less
  let ?b = "length A" and ?m = "length A + length B" and ?t = "length A + length B + length C"
  show ?case
  proof (cases "B = [] \<or> C = []")
    case True
    then show ?thesis by (auto simp: exchange_loop.simps [of ?b ?m ?t])
  next
    case False
    note ne = this
    show ?thesis
    proof (cases "length C > length B")
      case True
      then obtain C1 C2 where c: "C = C1 @ C2" "length C2 = length B"
        by (metis append_take_drop_id diff_diff_cancel length_drop less_imp_le)
      have s: "swap_range (length B) ?b (?b + length B + length C1) (A @ B @ C1 @ C2 @ D) = A @ C2 @ C1 @ B @ D"
        by (rule swap_range_blocks) (simp_all add: c)
      have "exchange_loop ?b ?m ?t (A @ B @ C @ D) = exchange_loop ?b ?m (?m + length C1) (A @ C2 @ C1 @ B @ D)"
        using ne True s by (subst exchange_loop.simps) (simp add: c add.assoc add.commute add.left_commute)
      also have "\<dots> = A @ C1 @ C2 @ B @ D"
        using less [of C2 C1 A "B @ D"] ne True c by simp
      finally show ?thesis using c(1) by simp
    next
      case False
      then obtain B1 B2 where b: "B = B1 @ B2" "length B1 = length C"
        by (metis append_take_drop_id length_take min.absorb2 not_less)
      have s: "swap_range (length C) ?b (?b + length C + length B2) (A @ B1 @ B2 @ C @ D) = A @ C @ B2 @ B1 @ D"
        by (rule swap_range_blocks) (simp_all add: b)
      have "exchange_loop ?b ?m ?t (A @ B @ C @ D) = exchange_loop (?b + length C) ?m ?t (A @ C @ B2 @ B1 @ D)"
        using ne False s by (subst exchange_loop.simps) (simp add: b add.assoc add.commute add.left_commute)
      also have "\<dots> = (A @ C) @ B1 @ B2 @ D"
        using less [of B2 B1 "A @ C" D] ne b by (simp add: add.assoc)
      finally show ?thesis using b(1) by simp
    qed
  qed
qed

lemma exchange_blocks:
  assumes "argv g = A @ N @ P @ R" "first_nonopt g = length A" "last_nonopt g = length A + length N"
    "optind g = length A + length N + length P"
  shows "exchange g = g\<lparr>argv := A @ P @ N @ R, first_nonopt := length A + length P, last_nonopt := optind g\<rparr>"
  using exchange_loop_rotates [of A N P R] assms by (simp add: exchange_def)

lemma skip_nonopts_append:
  "skip_nonopts (B @ R) (length B) = length B + length (takeWhile nonoption_p R)"
proof (induction R arbitrary: B)
  case Nil
  then show ?case by (simp add: skip_nonopts.simps)
next
  case (Cons r R)
  show ?case using Cons.IH [of "B @ [r]"] by (simp add: skip_nonopts.simps [of "B @ r # R" "length B"])
qed

subsection \<open>The reference\<close>

text \<open>What a letter means by \<open>optstring\<close>.\<close>

datatype opt_kind = UnknownOpt | NoArg | RequiredArg | OptionalArg

definition kind_of :: "string \<Rightarrow> char \<Rightarrow> opt_kind" where
  "kind_of os c =
    (case my_index os c of
       None \<Rightarrow> UnknownOpt
     | Some t \<Rightarrow> if c = CHR '':'' then UnknownOpt
                 else if take 2 (tl t) = ''::'' then OptionalArg
                 else if take 1 (tl t) = '':'' then RequiredArg else NoArg)"

text \<open>An option is its code with its value.\<close>

type_synonym found_option = "int \<times> string option"

fun ref_short :: "string \<Rightarrow> string \<Rightarrow> string list \<Rightarrow> found_option list \<times> string list" where
  "ref_short os [] ws = ([], ws)"
| "ref_short os (c # cs) ws =
    (case kind_of os c of
       UnknownOpt \<Rightarrow> apfst (Cons (63, None)) (ref_short os cs ws)
     | NoArg \<Rightarrow> apfst (Cons (code_of c, None)) (ref_short os cs ws)
     | OptionalArg \<Rightarrow> ([(code_of c, if cs = [] then None else Some cs)], ws)
     | RequiredArg \<Rightarrow>
         if cs \<noteq> [] then ([(code_of c, Some cs)], ws)
         else case ws of [] \<Rightarrow> ([(colon_or_question os, None)], []) | w # ws \<Rightarrow> ([(code_of c, Some w)], ws))"

text \<open>A long option: one with just this name, or else the only one whose name starts so.\<close>

definition named :: "string \<Rightarrow> long_option list \<Rightarrow> long_option option" where
  "named name los =
    (case filter (\<lambda>p. lo_name p = name) los of
       p # _ \<Rightarrow> Some p
     | [] \<Rightarrow> (case filter (\<lambda>p. take (length name) (lo_name p) = name) los of [p] \<Rightarrow> Some p | _ \<Rightarrow> None))"

definition long_code :: "long_option \<Rightarrow> int" where
  "long_code p = (if lo_flag p = None then lo_val p else 0)"

definition ref_long :: "string \<Rightarrow> long_option list \<Rightarrow> string \<Rightarrow> string list \<Rightarrow> found_option \<times> string list" where
  "ref_long os los str ws =
    (let name = takeWhile (\<lambda>c. c \<noteq> CHR ''='') str; val = dropWhile (\<lambda>c. c \<noteq> CHR ''='') str
     in case named name los of
          None \<Rightarrow> ((63, None), ws)
        | Some p \<Rightarrow>
            if val \<noteq> [] then (if lo_has_arg p \<noteq> 0 then (long_code p, Some (tl val)) else (63, None), ws)
            else if lo_has_arg p = 1 then
              (case ws of [] \<Rightarrow> ((colon_or_question os, None), []) | w # ws \<Rightarrow> ((long_code p, Some w), ws))
            else ((long_code p, None), ws))"

lemma ref_short_length: "length (snd (ref_short os cs ws)) \<le> length ws"
  by (induction os cs ws rule: ref_short.induct) (auto split: opt_kind.splits list.splits)

lemma ref_long_length: "length (snd (ref_long os los str ws)) \<le> length ws"
  by (auto simp: ref_long_def Let_def split: option.splits list.splits)

function ref_args :: "string \<Rightarrow> long_option list \<Rightarrow> string list \<Rightarrow> found_option list \<times> string list" where
  "ref_args os los [] = ([], [])"
| "ref_args os los (w # ws) =
    (if nonoption_p w then apsnd (Cons w) (ref_args os los ws)
     else if w = ''--'' then ([], ws)
     else if w ! 1 = CHR ''-'' then
       let r = ref_long os los (drop 2 w) ws in apfst (Cons (fst r)) (ref_args os los (snd r))
     else
       let r = ref_short os (drop 1 w) ws in apfst (append (fst r)) (ref_args os los (snd r)))"
  by pat_completeness auto
termination
  by (relation "measure (\<lambda>(os, los, ws). length ws)") (auto simp: le_imp_less_Suc ref_short_length ref_long_length)

lemma ref_args_skip: "list_all nonoption_p S \<Longrightarrow> ref_args os los (S @ T) = apsnd (append S) (ref_args os los T)"
  by (induction S) (auto simp: apsnd_def map_prod_def split: prod.splits)

subsection \<open>Long options\<close>

lemma exact_iff: "take (length name) n = name \<and> length name = length n \<longleftrightarrow> n = name"
  by auto

lemma find_long_exact:
  "filter (\<lambda>p. lo_name p = name) ps = p # qs \<Longrightarrow> \<exists>i. find_long name ps k found ambig = (Some (p, i), False)"
proof (induction ps arbitrary: k found ambig)
  case (Cons q ps)
  then show ?case using exact_iff [of name "lo_name q"] by (cases "lo_name q = name") auto
qed simp

lemma find_long_more:
  "filter (\<lambda>p. lo_name p = name) ps = [] \<Longrightarrow>
     find_long name ps k (Some f) ambig = (Some f, ambig \<or> filter (\<lambda>p. take (length name) (lo_name p) = name) ps \<noteq> [])"
proof (induction ps arbitrary: k ambig)
  case (Cons q ps)
  then show ?case using exact_iff [of name "lo_name q"] by (auto split: if_splits)
qed simp

lemma find_long_first:
  "filter (\<lambda>p. lo_name p = name) ps = [] \<Longrightarrow>
     (case filter (\<lambda>p. take (length name) (lo_name p) = name) ps of
        [] \<Rightarrow> find_long name ps k None ambig = (None, ambig)
      | p # qs \<Rightarrow> \<exists>i. find_long name ps k None ambig = (Some (p, i), ambig \<or> qs \<noteq> []))"
proof (induction ps arbitrary: k)
  case (Cons q ps)
  then have e: "lo_name q \<noteq> name" "filter (\<lambda>p. lo_name p = name) ps = []" by (simp_all split: if_splits)
  show ?case
  proof (cases "take (length name) (lo_name q) = name")
    case True
    then have "length name \<noteq> length (lo_name q)" using e(1) exact_iff [of name "lo_name q"] by blast
    then show ?thesis using True find_long_more [OF e(2)] by simp
  qed (use Cons.IH [OF e(2), of "Suc k"] in \<open>auto split: list.splits\<close>)
qed simp

lemma find_long_named:
  assumes "find_long name los 0 None False = (f, ambig)"
  shows "named name los = (if ambig then None else map_option fst f)"
proof (cases "filter (\<lambda>p. lo_name p = name) los")
  case Nil
  then show ?thesis using find_long_first [OF Nil, of 0 False] assms
    by (auto simp: named_def split: list.splits)
next
  case (Cons p qs)
  then show ?thesis using find_long_exact [OF Cons, of 0 None False] assms by (auto simp: named_def)
qed

subsection \<open>What the state means\<close>

text \<open>
  \<open>argv\<close> is made of the words \<open>A\<close> that are dealt with, the words \<open>N\<close> that are no options and were skipped, the options \<open>P\<close> found since, and
  the rest. Between words \<open>nextchar\<close> is used up, inside of a word of short options it holds the letters left.
\<close>

definition scanning :: "getopt \<Rightarrow> string list \<Rightarrow> string list \<Rightarrow> string list \<Rightarrow> string list \<Rightarrow> bool" where
  "scanning g A N P R \<longleftrightarrow> argv g = A @ N @ P @ R \<and> first_nonopt g = length A \<and> last_nonopt g = length A + length N
     \<and> optind g = length A + length N + length P \<and> A \<noteq> [] \<and> ordering g = PERMUTE \<and> getopt_initialized g"

definition between :: "getopt \<Rightarrow> string list \<Rightarrow> string list \<Rightarrow> bool" where
  "between g N R \<longleftrightarrow> (\<exists>A P. scanning g A N P R) \<and> (nextchar g = None \<or> nextchar g = Some [])"

definition inside :: "getopt \<Rightarrow> string list \<Rightarrow> string \<Rightarrow> string list \<Rightarrow> bool" where
  "inside g N cs R \<longleftrightarrow> (\<exists>A P w. scanning g A N P (w # R) \<and> \<not> nonoption_p w \<and> w ! 1 \<noteq> CHR ''-'') \<and> nextchar g = Some cs \<and> cs \<noteq> []"

lemma scanning_permute:
  assumes "scanning g A N P R"
  shows "getopt_permute g = g\<lparr>argv := A @ P @ N @ R, first_nonopt := length A + length P,
    optind := length (A @ P @ N @ takeWhile nonoption_p R), last_nonopt := length (A @ P @ N @ takeWhile nonoption_p R)\<rparr>"
proof -
  define h where "h = (if first_nonopt g \<noteq> last_nonopt g \<and> last_nonopt g \<noteq> optind g then exchange g
                   else if last_nonopt g \<noteq> optind g then g\<lparr>first_nonopt := optind g\<rparr> else g)"
  have h: "h\<lparr>last_nonopt := x\<rparr> = g\<lparr>argv := A @ P @ N @ R, first_nonopt := length A + length P, last_nonopt := x\<rparr>" for x
  proof (cases "N = [] \<or> P = []")
    case True
    then show ?thesis using assms by (cases g) (auto simp: h_def scanning_def)
  next
    case False
    then show ?thesis using assms exchange_blocks [of g A N P R] by (simp add: h_def scanning_def)
  qed
  have a: "argv h = A @ P @ N @ R" "optind h = optind g" using arg_cong [OF h, of argv 0] arg_cong [OF h, of optind 0] by simp_all
  have k: "skip_nonopts (argv h) (optind h) = length (A @ P @ N @ takeWhile nonoption_p R)"
    using skip_nonopts_append [of "A @ P @ N" R] assms by (simp add: a scanning_def add.assoc add.commute add.left_commute)
  have c: "(last_nonopt g > optind g) = False" "(first_nonopt g > optind g) = False" "(ordering g = PERMUTE) = True"
    using assms by (simp_all add: scanning_def)
  have "getopt_permute g = h\<lparr>optind := skip_nonopts (argv h) (optind h), last_nonopt := skip_nonopts (argv h) (optind h)\<rparr>"
    unfolding getopt_permute_def Let_def c if_False if_True h_def [symmetric] by simp
  also have "\<dots> = (h\<lparr>last_nonopt := length (A @ P @ N @ takeWhile nonoption_p R)\<rparr>)\<lparr>optind := length (A @ P @ N @ takeWhile nonoption_p R)\<rparr>"
    unfolding k by simp
  finally show ?thesis unfolding h by simp
qed

lemma scanning_after:
  assumes "scanning g A N P R"
  shows "scanning (getopt_permute g) (A @ P) (N @ takeWhile nonoption_p R) [] (dropWhile nonoption_p R)"
    "nextchar (getopt_permute g) = nextchar g" "optarg (getopt_permute g) = optarg g" "longind (getopt_permute g) = longind g"
  using assms unfolding scanning_permute [OF assms] by (simp_all add: scanning_def add.assoc)

text \<open>The end: nothing is left, or the word \<open>--\<close> comes; what was skipped and what follows is left for the caller.\<close>

lemma advance_end:
  assumes "scanning g A N P R" "dropWhile nonoption_p R = []"
  shows "\<exists>g'. getopt_advance True g = Inl (-1, g') \<and> drop (optind g') (argv g') = N @ R \<and> mset (argv g') = mset (argv g) \<and> hd (argv g') = hd A"
proof -
  have t: "takeWhile nonoption_p R = R" using assms(2) takeWhile_dropWhile_id [of nonoption_p R] by simp
  define p where "p = getopt_permute g"
  have p: "argv p = A @ P @ N @ R" "first_nonopt p = length A + length P" "optind p = length (argv p)" "last_nonopt p = length (argv p)"
    unfolding p_def scanning_permute [OF assms(1)] t by simp_all
  have "getopt_dashes p = p" by (simp add: getopt_dashes_def p)
  then have "getopt_advance True g = Inl (-1, if first_nonopt p \<noteq> last_nonopt p then p\<lparr>optind := first_nonopt p\<rparr> else p)"
    by (simp add: getopt_advance_def p_def [symmetric] p(3))
  moreover have "mset (argv p) = mset (argv g)" "hd (argv p) = hd A" using assms(1) p(1) by (auto simp: scanning_def)
  ultimately show ?thesis using p by auto
qed

lemma advance_dashes:
  assumes "scanning g A N P R" "dropWhile nonoption_p R = ''--'' # T"
  shows "\<exists>g'. getopt_advance True g = Inl (-1, g') \<and> drop (optind g') (argv g') = N @ takeWhile nonoption_p R @ T
    \<and> mset (argv g') = mset (argv g) \<and> hd (argv g') = hd A"
proof -
  define p B M where "p = getopt_permute g" and "B = A @ P" and "M = N @ takeWhile nonoption_p R"
  have p: "scanning p B M [] (''--'' # T)" using scanning_after(1) [OF assms(1)] assms(2) by (simp add: p_def B_def M_def)
  define q where "q = p\<lparr>optind := Suc (optind p)\<rparr>"
  define d where "d = (if first_nonopt q \<noteq> last_nonopt q \<and> last_nonopt q \<noteq> optind q then exchange q
                else if first_nonopt q = last_nonopt q then q\<lparr>first_nonopt := optind q\<rparr> else q)"
  have d: "argv d = B @ [''--''] @ M @ T" "first_nonopt d = length B + 1"
  proof -
    have q: "argv q = B @ M @ [''--''] @ T" "first_nonopt q = length B" "last_nonopt q = length B + length M"
      "optind q = length B + length M + length [''--'']" using p by (simp_all add: q_def scanning_def)
    then show "argv d = B @ [''--''] @ M @ T" "first_nonopt d = length B + 1"
      using exchange_blocks [OF q] by (auto simp: d_def)
  qed
  have o: "optind p \<noteq> length (argv p)" "argv p ! optind p = ''--''" using p by (auto simp: scanning_def nth_append)
  have "getopt_dashes p = d\<lparr>last_nonopt := length (argv d), optind := length (argv d)\<rparr>"
    unfolding getopt_dashes_def Let_def q_def [symmetric] d_def [symmetric] using o by simp
  then have a: "getopt_advance True g = Inl (-1, let e = d\<lparr>last_nonopt := length (argv d), optind := length (argv d)\<rparr>
      in if first_nonopt e \<noteq> last_nonopt e then e\<lparr>optind := first_nonopt e\<rparr> else e)"
    by (simp add: getopt_advance_def p_def [symmetric] Let_def)
  have "mset (argv d) = mset (argv g)" using assms unfolding d(1) B_def M_def
    by (simp add: scanning_def) (metis (no_types, lifting) assms(2) mset_append mset.simps(2) takeWhile_dropWhile_id union_mset_add_mset_right)
  moreover have "hd (argv d) = hd A" "A \<noteq> []" using assms(1) d(1) by (auto simp: B_def scanning_def)
  ultimately show ?thesis unfolding a using d by (auto simp: Let_def M_def)
qed

lemma advance_option:
  assumes "scanning g A N P R" "dropWhile nonoption_p R = w # T" "w \<noteq> ''--''"
  shows "\<exists>g'. getopt_advance True g = Inr g' \<and> scanning g' (A @ P) (N @ takeWhile nonoption_p R) [] (w # T)
    \<and> nextchar g' = Some (drop (if w ! 1 = CHR ''-'' then 2 else 1) w) \<and> optarg g' = optarg g"
proof -
  define p where "p = getopt_permute g"
  have p: "scanning p (A @ P) (N @ takeWhile nonoption_p R) [] (w # T)" "optarg p = optarg g"
    using scanning_after [OF assms(1)] assms(2) by (simp_all add: p_def)
  then have o: "optind p \<noteq> length (argv p)" "argv p ! optind p = w" by (auto simp: scanning_def nth_append)
  have "\<not> nonoption_p w" using hd_dropWhile [of nonoption_p R] assms(2) by simp
  moreover have "getopt_dashes p = p" using o assms(3) by (simp add: getopt_dashes_def)
  ultimately have "getopt_advance True g = Inr (p\<lparr>nextchar := Some (drop (if w ! 1 = CHR ''-'' then 2 else 1) w)\<rparr>)"
    using o by (simp add: getopt_advance_def p_def [symmetric] Let_def numeral_2_eq_2)
  then show ?thesis using p by (auto simp: scanning_def)
qed

subsection \<open>One option\<close>

definition no_w :: "string \<Rightarrow> bool" where
  "no_w os \<longleftrightarrow> (case my_index os CHR ''W'' of Some t \<Rightarrow> take 2 t \<noteq> ''W;'' | None \<Rightarrow> True)"

text \<open>How much there is left to scan.\<close>

definition wsize :: "string list \<Rightarrow> nat" where
  "wsize ws = sum_list (map (\<lambda>w. Suc (length w)) ws)"

lemma wsize_simps [simp]: "wsize [] = 0" "wsize (w # ws) = Suc (length w + wsize ws)"
  by (simp_all add: wsize_def)

lemma wsize_dropWhile: "wsize (dropWhile p ws) \<le> wsize ws"
  by (induction ws) auto

lemma my_index_hd: "my_index os c = Some t \<Longrightarrow> \<exists>r. t = c # r"
  by (induction os c rule: my_index.induct) (auto split: if_splits)

lemma codes_nonneg: "0 \<le> code_of c" "code_of c \<noteq> -1" "colon_or_question os \<noteq> -1"
proof -
  have "code_of c = int (of_char c)" by (simp add: code_of_def of_char_def)
  then show "0 \<le> code_of c" "code_of c \<noteq> -1" by simp_all
qed (simp add: colon_or_question_def)

lemma scanning_next: "scanning g A N P (w # R) \<Longrightarrow> scanning (g\<lparr>optind := Suc (optind g)\<rparr>) A N (P @ [w]) R"
  and scanning_other: "scanning (g\<lparr>nextchar := x\<rparr>) A N P Q = scanning g A N P Q" "scanning (g\<lparr>optarg := y\<rparr>) A N P Q = scanning g A N P Q"
    "scanning (g\<lparr>optopt := z\<rparr>) A N P Q = scanning g A N P Q" "scanning (g\<lparr>longind := k\<rparr>) A N P Q = scanning g A N P Q"
    "scanning (g\<lparr>flag_sets := f\<rparr>) A N P Q = scanning g A N P Q"
    "scanning (g\<lparr>optarg := y, optind := n\<rparr>) A N P Q = scanning (g\<lparr>optind := n\<rparr>) A N P Q"
    "scanning (g\<lparr>nextchar := x, optind := n\<rparr>) A N P Q = scanning (g\<lparr>optind := n\<rparr>) A N P Q"
  by (simp_all add: scanning_def)

lemma short_next:
  assumes "inside g N (c # cs) R" "optarg g = None" "no_w os"
  shows "\<exists>code g'. getopt_short os los g = Some (code, g') \<and> argv g' = argv g \<and> code \<noteq> -1
    \<and> (inside g' N cs R \<and> ref_short os (c # cs) R = apfst (Cons (code, optarg g')) (ref_short os cs R)
       \<or> (\<exists>R'. between g' N R' \<and> wsize R' \<le> wsize R \<and> ref_short os (c # cs) R = ([(code, optarg g')], R')))"
proof -
  obtain A P w where sc: "scanning g A N P (w # R)" and w: "\<not> nonoption_p w" "w ! 1 \<noteq> CHR ''-''" and n: "nextchar g = Some (c # cs)"
    using assms(1) by (auto simp: inside_def)
  define h where "h = (let g = g\<lparr>nextchar := Some cs\<rparr> in if cs = [] then g\<lparr>optind := Suc (optind g)\<rparr> else g)"
  have h: "argv h = argv g" "optarg h = None" "nextchar h = Some cs" using assms(2) by (simp_all add: h_def Let_def)
  have hb: "scanning h A N (P @ [w]) R" if "cs = []" using sc that by (simp add: h_def Let_def scanning_def)
  have hi: "scanning h A N P (w # R)" if "cs \<noteq> []" using sc that by (simp add: h_def scanning_other)
  have hs: "inside h N cs R \<or> between h N R \<and> cs = []"
  proof (cases "cs = []")
    case True
    then show ?thesis using hb h(3) unfolding between_def by blast
  next
    case False
    then show ?thesis using hi w h(3) unfolding inside_def by blast
  qed
  have W: "take 2 t \<noteq> ''W;''" if "my_index os c = Some t" for t
    using my_index_hd [OF that] that assms(3) by (auto simp: no_w_def)
  have short: "getopt_short os los g =
    (case my_index os c of
       None \<Rightarrow> Some (63, h\<lparr>optopt := code_of c\<rparr>)
     | Some temp \<Rightarrow>
         if c = CHR '':'' then Some (63, h\<lparr>optopt := code_of c\<rparr>)
         else if take 2 temp = ''W;'' then getopt_w os los cs h
         else if take 2 (tl temp) = ''::'' then
           Some (code_of c, if cs \<noteq> [] then h\<lparr>optarg := Some cs, optind := Suc (optind h), nextchar := None\<rparr>
                            else h\<lparr>optarg := None, nextchar := None\<rparr>)
         else if take 1 (tl temp) = '':'' then
           Some (if cs \<noteq> [] then (code_of c, h\<lparr>optarg := Some cs, optind := Suc (optind h), nextchar := None\<rparr>)
                 else if optind h = length (argv h) then (colon_or_question os, h\<lparr>optopt := code_of c, nextchar := None\<rparr>)
                 else (code_of c, h\<lparr>optarg := Some (argv h ! optind h), optind := Suc (optind h), nextchar := None\<rparr>))
         else Some (code_of c, h))"
    unfolding getopt_short_def n option.case list.case h_def Let_def by (rule refl)
  show ?thesis
  proof (cases "kind_of os c")
    case UnknownOpt
    then have "getopt_short os los g = Some (63, h\<lparr>optopt := code_of c\<rparr>)"
      unfolding short by (auto simp: kind_of_def split: option.splits if_splits)
    moreover have "inside (h\<lparr>optopt := code_of c\<rparr>) N cs R \<or> between (h\<lparr>optopt := code_of c\<rparr>) N R \<and> cs = []"
      using hs by (simp add: inside_def between_def scanning_other)
    ultimately show ?thesis using h UnknownOpt by auto
  next
    case NoArg
    then have "getopt_short os los g = Some (code_of c, h)"
      unfolding short using W by (auto simp: kind_of_def split: option.splits if_splits)
    then show ?thesis using hs h NoArg by (auto simp: codes_nonneg)
  next
    case OptionalArg
    then have "getopt_short os los g = Some (code_of c, if cs \<noteq> [] then h\<lparr>optarg := Some cs, optind := Suc (optind h), nextchar := None\<rparr>
                            else h\<lparr>optarg := None, nextchar := None\<rparr>)"
      unfolding short using W by (auto simp: kind_of_def split: option.splits if_splits)
    then show ?thesis using h hb scanning_next [OF hi] OptionalArg
      by (cases "cs = []") (auto simp: codes_nonneg between_def scanning_other)
  next
    case RequiredArg
    then have "getopt_short os los g = Some (if cs \<noteq> [] then (code_of c, h\<lparr>optarg := Some cs, optind := Suc (optind h), nextchar := None\<rparr>)
                 else if optind h = length (argv h) then (colon_or_question os, h\<lparr>optopt := code_of c, nextchar := None\<rparr>)
                 else (code_of c, h\<lparr>optarg := Some (argv h ! optind h), optind := Suc (optind h), nextchar := None\<rparr>))"
      unfolding short using W by (auto simp: kind_of_def split: option.splits if_splits)
    moreover have "(optind h = length (argv h)) = (R = [])" "R = r # R' \<Longrightarrow> argv h ! optind h = r" if "cs = []" for r R'
      using hb [OF that] by (auto simp: scanning_def nth_append)
    ultimately show ?thesis using h hb scanning_next [OF hi] RequiredArg scanning_next [of h A N "P @ [w]"]
      by (cases "cs = []"; cases R) (auto simp: codes_nonneg between_def scanning_other)
  qed
qed

definition proper_options :: "long_option list \<Rightarrow> bool" where
  "proper_options los \<longleftrightarrow> list_all (\<lambda>p. long_code p \<noteq> -1) los"

lemma named_in: "named name los = Some p \<Longrightarrow> p \<in> set los"
  unfolding named_def by (auto split: list.splits dest: filter_eq_ConsD filter_eq_Cons_iff [THEN iffD1])

lemma take_long_next:
  assumes "scanning h A N P R" "optarg h = None" "long_code p \<noteq> -1"
    and r: "(r, ws) = (if val \<noteq> [] then (if lo_has_arg p \<noteq> 0 then (long_code p, Some (tl val)) else (63, None), R)
            else if lo_has_arg p = 1 then
              (case R of [] \<Rightarrow> ((colon_or_question os, None), []) | w # ws \<Rightarrow> ((long_code p, Some w), ws))
            else ((long_code p, None), R))"
  shows "\<exists>g'. take_long False os p k val h = (fst r, g') \<and> argv g' = argv h \<and> fst r \<noteq> -1 \<and> between g' N ws
     \<and> wsize ws \<le> wsize R \<and> optarg g' = snd r"
proof -
  have o: "(optind h < length (argv h)) = (R \<noteq> [])" "R = x # R' \<Longrightarrow> argv h ! optind h = x" for x R'
    using assms(1) by (auto simp: scanning_def nth_append)
  have n: "scanning (h\<lparr>optind := Suc (optind h)\<rparr>) A N (P @ [x]) R'" if "R = x # R'" for x R'
    using scanning_next [of h A N P x R'] assms(1) that by simp
  show ?thesis
    using assms o n
    by (cases R; cases "lo_flag p")
      (auto simp: take_long_def Let_def long_code_def between_def scanning_other codes_nonneg split: if_splits)
qed

lemma long_next:
  assumes "scanning g A N P (w # R)" "w ! 1 = CHR ''-''" "optarg g = None" "proper_options los"
  shows "\<exists>g'. getopt_long_word False os los w str g = Inl (fst (fst (ref_long os los str R)), g') \<and> argv g' = argv g
    \<and> fst (fst (ref_long os los str R)) \<noteq> -1 \<and> between g' N (snd (ref_long os los str R))
    \<and> wsize (snd (ref_long os los str R)) \<le> wsize R \<and> optarg g' = snd (fst (ref_long os los str R))"
proof -
  let ?name = "takeWhile (\<lambda>c. c \<noteq> CHR ''='') str" and ?val = "dropWhile (\<lambda>c. c \<noteq> CHR ''='') str"
  obtain f ambig where f: "find_long ?name los 0 None False = (f, ambig)" by fastforce
  define h where "h = g\<lparr>optind := Suc (optind g)\<rparr>"
  have h: "scanning h A N (P @ [w]) R" "optarg h = None" "argv h = argv g"
    using scanning_next [OF assms(1)] assms(3) by (simp_all add: h_def)
  show ?thesis
  proof (cases "named ?name los")
    case None
    then have "getopt_long_word False os los w str g = Inl (63, h\<lparr>nextchar := Some [], optopt := 0\<rparr>)"
      using find_long_named [OF f] f by (cases f) (auto simp: getopt_long_word_def Let_def h_def split: if_splits)
    moreover have "between (h\<lparr>nextchar := Some [], optopt := 0\<rparr>) N R"
      using h(1) by (auto simp: between_def scanning_other)
    ultimately show ?thesis using None h by (simp add: ref_long_def)
  next
    case (Some p)
    then obtain k where k: "f = Some (p, k)" "\<not> ambig" using find_long_named [OF f] by (auto split: if_splits)
    then have g: "getopt_long_word False os los w str g = Inl (take_long False os p k ?val h)"
      using f by (simp add: getopt_long_word_def h_def)
    have "long_code p \<noteq> -1" using named_in [OF Some] assms(4) by (auto simp: proper_options_def list_all_iff)
    from take_long_next [OF h(1,2) this, of "fst (ref_long os los str R)" "snd (ref_long os los str R)" ?val os k]
    show ?thesis using g h(3) Some by (auto simp: ref_long_def)
  qed
qed

subsection \<open>All calls\<close>

text \<open>The loop of a program that calls \<open>getopt_long\<close> until it returns -1.\<close>

partial_function (option) getopt_scan ::
  "string option \<Rightarrow> string \<Rightarrow> long_option list \<Rightarrow> getopt \<Rightarrow> (found_option list \<times> getopt) option" where
  "getopt_scan env os los g = do {
     (c, g) \<leftarrow> getopt_long env os los g;
     if c = -1 then Some ([], g)
     else do { (es, g') \<leftarrow> getopt_scan env os los g; Some ((c, optarg g) # es, g') } }"

lemma getopt_call:
  assumes "scanning g A N P R"
  shows "getopt_long env os los g =
    (case (if nextchar g = None \<or> nextchar g = Some [] then getopt_advance True (g\<lparr>optarg := None\<rparr>) else Inr (g\<lparr>optarg := None\<rparr>)) of
       Inl r \<Rightarrow> Some r
     | Inr g \<Rightarrow>
         if optind g \<ge> length (argv g) then None
         else if argv g ! optind g ! 1 = CHR ''-'' then
           (case getopt_long_word False os los (argv g ! optind g) (the (nextchar g)) g of
              Inl r \<Rightarrow> Some r | Inr g \<Rightarrow> getopt_short os (Some los) g)
         else getopt_short os (Some los) g)"
proof -
  have "optind g \<noteq> 0" "getopt_initialized g" "optind g \<le> length (argv g)" using assms by (auto simp: scanning_def)
  then show ?thesis unfolding getopt_long_def getopt_internal_def Let_def by (simp split: sum.split)
qed

lemma scanning_word: "scanning g A N P (w # R) \<Longrightarrow> \<not> optind g \<ge> length (argv g) \<and> argv g ! optind g = w"
  by (auto simp: scanning_def nth_append)

text \<open>
  Between words and inside of one, the loop finds what the reference finds, and the words that are left at the end are
  those skipped so far and those the reference leaves.
\<close>

definition scans :: "string \<Rightarrow> long_option list \<Rightarrow> getopt \<Rightarrow> string list \<Rightarrow> found_option list \<times> string list \<Rightarrow> bool" where
  "scans os los g N r \<longleftrightarrow> (\<exists>g'. getopt_scan None os los g = Some (fst r, g') \<and> drop (optind g') (argv g') = N @ snd r
     \<and> mset (argv g') = mset (argv g) \<and> hd (argv g') = hd (argv g))"

lemma scans_more:
  assumes "getopt_long None os los g = Some (c, h)" "c \<noteq> -1" "scans os los h (N @ S) r" "mset (argv h) = mset (argv g)" "hd (argv h) = hd (argv g)"
  shows "scans os los g N (apfst (Cons (c, optarg h)) (apsnd (append S) r))"
  using assms unfolding scans_def by (subst getopt_scan.simps) (auto simp: apfst_def apsnd_def map_prod_def split: prod.splits)

lemma scans_end:
  assumes "getopt_long None os los g = Some (-1, h)" "drop (optind h) (argv h) = N @ ws" "mset (argv h) = mset (argv g)" "hd (argv h) = hd (argv g)"
  shows "scans os los g N ([], ws)"
  using assms unfolding scans_def by (subst getopt_scan.simps) simp

definition ref_inside :: "string \<Rightarrow> long_option list \<Rightarrow> string \<Rightarrow> string list \<Rightarrow> found_option list \<times> string list" where
  "ref_inside os los cs R = (let r = ref_short os cs R in apfst (append (fst r)) (ref_args os los (snd r)))"

lemma short_scans:
  assumes "inside h (N @ S) (c # cs) R" "optarg h = None" "no_w os"
    and call: "getopt_long None os los g = getopt_short os (Some los) h" "mset (argv h) = mset (argv g)" "hd (argv h) = hd (argv g)"
    and IHi: "\<And>g'. inside g' (N @ S) cs R \<Longrightarrow> scans os los g' (N @ S) (ref_inside os los cs R)"
    and IHb: "\<And>g' R'. between g' (N @ S) R' \<Longrightarrow> wsize R' \<le> wsize R \<Longrightarrow> scans os los g' (N @ S) (ref_args os los R')"
  shows "scans os los g N (apsnd (append S) (ref_inside os los (c # cs) R))"
proof -
  obtain code g' where s: "getopt_short os (Some los) h = Some (code, g')" "argv g' = argv h" "code \<noteq> -1"
    and alt: "inside g' (N @ S) cs R \<and> ref_short os (c # cs) R = apfst (Cons (code, optarg g')) (ref_short os cs R)
       \<or> (\<exists>R'. between g' (N @ S) R' \<and> wsize R' \<le> wsize R \<and> ref_short os (c # cs) R = ([(code, optarg g')], R'))"
    using short_next [OF assms(1,2,3), of "Some los"] by blast
  from alt show ?thesis
  proof (elim disjE conjE exE)
    assume i: "inside g' (N @ S) cs R" and r: "ref_short os (c # cs) R = apfst (Cons (code, optarg g')) (ref_short os cs R)"
    have "ref_inside os los (c # cs) R = apfst (Cons (code, optarg g')) (ref_inside os los cs R)"
      unfolding ref_inside_def r by (simp add: Let_def apfst_def map_prod_def split: prod.splits)
    then show ?thesis using scans_more [OF _ s(3) IHi [OF i]] call s by (simp add: apfst_def apsnd_def map_prod_def split: prod.splits)
  next
    fix R' assume b: "between g' (N @ S) R'" "wsize R' \<le> wsize R" and r: "ref_short os (c # cs) R = ([(code, optarg g')], R')"
    have "ref_inside os los (c # cs) R = apfst (Cons (code, optarg g')) (ref_args os los R')"
      unfolding ref_inside_def r by (simp add: apfst_def map_prod_def split: prod.splits)
    then show ?thesis using scans_more [OF _ s(3) IHb [OF b]] call s by (simp add: apfst_def apsnd_def map_prod_def split: prod.splits)
  qed
qed

lemma option_word: "\<not> nonoption_p w \<Longrightarrow> \<exists>c cs. w = CHR ''-'' # c # cs"
  by (induction w rule: nonoption_p.induct) auto

lemma scan_step:
  assumes "no_w os" "proper_options los" and n: "n = wsize R"
    and IHi: "\<And>g N cs R. inside g N cs R \<Longrightarrow> length cs + wsize R < n \<Longrightarrow> scans os los g N (ref_inside os los cs R)"
    and IHb: "\<And>g N R. between g N R \<Longrightarrow> wsize R < n \<Longrightarrow> scans os los g N (ref_args os los R)"
    and "between g N R"
  shows "scans os los g N (ref_args os los R)"
proof -
  obtain A P where sc: "scanning g A N P R" and nx: "nextchar g = None \<or> nextchar g = Some []"
    using assms(6) by (auto simp: between_def)
  define g0 where "g0 = g\<lparr>optarg := None\<rparr>"
  have s0: "scanning g0 A N P R" "optarg g0 = None" "argv g0 = argv g" using sc by (simp_all add: g0_def scanning_other)
  note call = getopt_call [OF sc, of None os los, folded g0_def] 
  define S T where "S = takeWhile nonoption_p R" and "T = dropWhile nonoption_p R"
  have R: "R = S @ T" "list_all nonoption_p S" by (auto simp: S_def T_def list_all_iff dest: set_takeWhileD)
  have ref: "ref_args os los R = apsnd (append S) (ref_args os los T)" using ref_args_skip [OF R(2)] R(1) by simp
  have hd: "hd A = hd (argv g)" using sc by (auto simp: scanning_def)
  show ?thesis
  proof (cases T)
    case Nil
    then obtain h where h: "getopt_advance True g0 = Inl (-1, h)" "drop (optind h) (argv h) = N @ R" "mset (argv h) = mset (argv g0)" "hd (argv h) = hd A"
      using advance_end [OF s0(1)] by (auto simp: T_def)
    have "scans os los g N ([], R)" by (rule scans_end [where h = h]) (use call nx h hd s0 in simp_all)
    then show ?thesis using ref Nil R(1) by simp
  next
    case (Cons w T')
    then have dw: "dropWhile nonoption_p R = w # T'" by (simp add: T_def)
    then have w: "\<not> nonoption_p w" using hd_dropWhile [of nonoption_p R] by simp
    then obtain c cs where wc: "w = CHR ''-'' # c # cs" using option_word by blast
    have sz: "wsize T' + length w < n" using n wsize_dropWhile [of nonoption_p R, unfolded dw] by (simp add: wsize_def)
    show ?thesis
    proof (cases "w = ''--''")
      case True
      then obtain h where h: "getopt_advance True g0 = Inl (-1, h)" "drop (optind h) (argv h) = N @ S @ T'" "mset (argv h) = mset (argv g0)" "hd (argv h) = hd A"
        using advance_dashes [OF s0(1), of T'] Cons by (auto simp: T_def S_def)
      have "scans os los g N ([], S @ T')" by (rule scans_end [where h = h]) (use call nx h hd s0 in simp_all)
      then show ?thesis using ref Cons True w by simp
    next
      case False
      then obtain h where h: "getopt_advance True g0 = Inr h" "scanning h (A @ P) (N @ S) [] (w # T')"
          "nextchar h = Some (drop (if w ! 1 = CHR ''-'' then 2 else 1) w)" "optarg h = None"
        using advance_option [OF s0(1), of w T'] Cons s0(2) by (auto simp: T_def S_def)
      have av: "mset (argv h) = mset (argv g)" "hd (argv h) = hd (argv g)" using h(2) sc R(1) Cons by (auto simp: scanning_def)
      show ?thesis
      proof (cases "w ! 1 = CHR ''-''")
        case True
        let ?r = "ref_long os los (drop 2 w) T'"
        obtain g' where g': "getopt_long_word False os los w (drop 2 w) h = Inl (fst (fst ?r), g')" "argv g' = argv h" "fst (fst ?r) \<noteq> -1"
            "between g' (N @ S) (snd ?r)" "wsize (snd ?r) \<le> wsize T'" "optarg g' = snd (fst ?r)"
          using long_next [OF h(2) True h(4) assms(2), of os "drop 2 w"] by blast
        have "getopt_long None os los g = Some (fst (fst ?r), g')"
          using call nx h scanning_word [OF h(2)] True g'(1) by simp
        from scans_more [OF this g'(3) IHb [OF g'(4)]] show ?thesis
          using ref Cons w False True g' av sz by (simp add: Let_def apfst_def apsnd_def map_prod_def split: prod.splits)
      next
        case False
        have i: "inside h (N @ S) (c # cs) T'" 
          unfolding inside_def using h(2) w False by (intro conjI exI [of _ "A @ P"] exI [of _ "[]"] exI [of _ w]) (use h(3) False wc in simp_all)
        have "scans os los g N (apsnd (append S) (ref_inside os los (c # cs) T'))"
          by (rule short_scans [OF i h(4) assms(1) _ av IHi IHb])
            (use call nx h scanning_word [OF h(2)] False sz wc in simp_all)
        then show ?thesis using ref Cons w False \<open>w \<noteq> ''--''\<close> wc by (simp add: ref_inside_def)
      qed
    qed
  qed
qed

lemma scan_ref:
  assumes "no_w os" "proper_options los"
  shows "(\<forall>g N R. between g N R \<and> wsize R = n \<longrightarrow> scans os los g N (ref_args os los R))
    \<and> (\<forall>g N cs R. inside g N cs R \<and> length cs + wsize R = n \<longrightarrow> scans os los g N (ref_inside os los cs R))"
proof (induction n rule: less_induct)
  case (less n)
  have IHb: "scans os los g N (ref_args os los R)" if "between g N R" "wsize R < n" for g N R
    using less [OF that(2)] that(1) by blast
  have IHi: "scans os los g N (ref_inside os los cs R)" if "inside g N cs R" "length cs + wsize R < n" for g N cs R
    using less [OF that(2)] that(1) by blast
  have "scans os los g N (ref_inside os los cs R)" if i: "inside g N cs R" and n: "length cs + wsize R = n" for g N cs R
  proof -
    obtain c cs' where cs: "cs = c # cs'" using i by (cases cs) (auto simp: inside_def)
    obtain A P w where sc: "scanning g A N P (w # R)" and w: "w ! 1 \<noteq> CHR ''-''" using i by (auto simp: inside_def)
    let ?g = "g\<lparr>optarg := None\<rparr>"
    have i0: "inside ?g (N @ []) (c # cs') R" using i cs by (simp add: inside_def scanning_other)
    have call0: "getopt_long None os los g = getopt_short os (Some los) ?g"
      using getopt_call [OF sc, of None os los] i cs scanning_word [OF sc] w by (simp add: inside_def)
    have "scans os los g N (apsnd (append []) (ref_inside os los (c # cs') R))"
      by (rule short_scans [OF i0 _ assms(1) call0]) (use IHi IHb n cs in auto)
    then show ?thesis using cs by (simp add: apsnd_def map_prod_def split: prod.splits)
  qed
  moreover have "scans os los g N (ref_args os los R)" if "between g N R" "wsize R = n" for g N R
    by (rule scan_step [OF assms that(2) [symmetric] IHi IHb that(1)])
  ultimately show ?case by blast
qed

lemma getopt_first:
  assumes "os = [] \<or> hd os \<noteq> CHR ''-'' \<and> hd os \<noteq> CHR ''+''"
  shows "getopt_long None os los (getopt_start (prog # args)) =
    getopt_long None os los ((getopt_start (prog # args))\<lparr>getopt_initialized := True, first_nonopt := 1, last_nonopt := 1, ordering := PERMUTE\<rparr>)"
  using assms by (cases os) (simp_all add: getopt_long_def getopt_internal_def getopt_start_def getopt_initialize_def)

lemma getopt_scan_ref:
  assumes "no_w os" "proper_options los" "os = [] \<or> hd os \<noteq> CHR ''-'' \<and> hd os \<noteq> CHR ''+''"
  shows "\<exists>g. getopt_scan None os los (getopt_start (prog # args)) = Some (fst (ref_args os los args), g)
    \<and> drop (optind g) (argv g) = snd (ref_args os los args) \<and> mset (argv g) = mset (prog # args) \<and> hd (argv g) = prog"
proof -
  let ?s = "getopt_start (prog # args)"
  let ?g = "?s\<lparr>getopt_initialized := True, first_nonopt := 1, last_nonopt := 1, ordering := PERMUTE\<rparr>"
  have "scanning ?g [prog] [] [] args" by (simp add: scanning_def getopt_start_def)
  then have "between ?g [] args" unfolding between_def by (auto simp: getopt_start_def)
  then have "scans os los ?g [] (ref_args os los args)" using scan_ref [OF assms(1,2)] by blast
  moreover have "getopt_scan None os los ?s = getopt_scan None os los ?g"
    by (subst (1 2) getopt_scan.simps) (simp add: getopt_first [OF assms(3)])
  ultimately show ?thesis by (simp add: scans_def getopt_start_def)
qed

definition sample_options :: "long_option list" where
  "sample_options =
    [\<lparr>lo_name = ''server'', lo_has_arg = 1, lo_flag = None, lo_val = 115\<rparr>, \<lparr>lo_name = ''help'', lo_has_arg = 0, lo_flag = None, lo_val = 104\<rparr>]"

text \<open>
  C32. A program that calls \<open>getopt_long\<close> until it returns -1 gets, in order, the options and values that the reference
  reads off the command line, its loop ends, \<open>argv\<close> is a permutation of what it was, and from \<open>optind\<close> on it holds
  the words that are no options, in the order they were given.
\<close>

theorem getopt_long_refines:
  assumes "no_w os" "proper_options los" "os = [] \<or> hd os \<noteq> CHR ''-'' \<and> hd os \<noteq> CHR ''+''"
  shows "\<exists>g. getopt_scan None os los (getopt_start (prog # args)) = Some (fst (ref_args os los args), g)
    \<and> drop (optind g) (argv g) = snd (ref_args os los args) \<and> mset (argv g) = mset (prog # args) \<and> hd (argv g) = prog"
  using getopt_scan_ref [OF assms] .

theorem getopt_long_refines_witness:
  "\<exists>g. getopt_scan None ''s:hv'' sample_options (getopt_start [''esdplay'', ''a.wav'', ''-vs'', ''host'', ''--he'', ''b.wav''])
       = Some ([(118, None), (115, Some ''host''), (104, None)], g)
    \<and> drop (optind g) (argv g) = [''a.wav'', ''b.wav'']"
proof -
  have "ref_args ''s:hv'' sample_options [''a.wav'', ''-vs'', ''host'', ''--he'', ''b.wav'']
     = ([(118, None), (115, Some ''host''), (104, None)], [''a.wav'', ''b.wav''])" by code_simp
  then show ?thesis
    using getopt_long_refines [of "''s:hv''" sample_options "''esdplay''" "[''a.wav'', ''-vs'', ''host'', ''--he'', ''b.wav'']"]
    by (auto simp: no_w_def proper_options_def sample_options_def long_code_def)
qed

end
