(* ===== verification/Esd_Tools_Laws.thy ===== *)
theory Esd_Tools_Laws
  imports Esd_Tools Esd_Lib_Laws Esd_Getopt_Laws
begin

text \<open>What the loops of the command line tools do with the data that passes through them.\<close>

subsection \<open>Sending a file\<close>

lemma send_source_delivers:
  fixes s :: "'a esd_tool_scheme"
  assumes "wres s sock = []"
  shows "\<exists>s'. send_source sock s = (True, s') \<and> sent sock s s' (source s) \<and> source s' = []"
  using assms
proof (induction sock s rule: send_source.induct)
  case (1 sock s)
  show ?case
  proof (cases "source s = []")
    case True
    then show ?thesis by (simp add: send_source.simps [of sock s])
  next
    case False
    let ?b = "take 4096 (source s)" and ?s1 = "s\<lparr>source := drop 4096 (source s)\<rparr>"
    let ?s2 = "?s1\<lparr>tx := tx s @ [(sock, ?b)]\<rparr>"
    have f: "fread s = (?b, ?s1)" by (simp add: fread_def)
    have w: "sys_write sock ?b ?s1 = ((int (length ?b), False), ?s2)" using 1(2) by (simp add: sys_write_def)
    have e: "send_source sock s = send_source sock ?s2"
      using False f w by (simp add: send_source.simps [of sock s] Let_def min_def)
    have "\<exists>s'. send_source sock ?s2 = (True, s') \<and> sent sock ?s2 s' (source ?s2) \<and> source s' = []"
      using 1(1) [OF False f [symmetric] refl refl] False w 1(2) by simp
    then obtain s' log where s': "send_source sock ?s2 = (True, s')" "source s' = []"
      "tx s' = tx ?s2 @ map (Pair sock) log" "concat log = source ?s2" by (auto simp: sent_def)
    then have "sent sock s s' (source s)" unfolding sent_def by (intro exI [of _ "?b # log"]) simp
    then show ?thesis unfolding e using s'(1,2) by simp
  qed
qed

text \<open>
  C30. \<open>esdcat\<close> sends its input: when the stream is open and the kernel takes what it is given, the bytes that
  follow the request on the socket are exactly those of the source, the program returns
  0 and the socket is closed.
\<close>

theorem esdcat_sends_file:
  assumes "tool_args esdcat_word args tool_opts0 s = Some (Inr (opt, rest), s1)"
    and "esd_play_stream_fallback (tool_format ESD_PLAY opt) (t_rate opt) (t_host opt)
      (map_option octets_of_string (t_name opt)) s1 = Some (sock, s2)"
    and "0 < sock" and "wres s2 sock = []"
  shows "\<exists>s'. esdcat args s = Some (0, s') \<and> sent sock s2 s' (source s2) \<and> sock \<in> set (closed s')"
proof -
  obtain s3 where "send_source sock s2 = (True, s3)" "sent sock s2 s3 (source s2)"
    using send_source_delivers [OF assms(4)] by blast
  then show ?thesis using assms(1-3) by (simp add: esdcat_def sys_close_def sent_def)
qed

text \<open>A process with three bytes to send, no home directory and a daemon that answers.\<close>

definition tool0 :: esd_tool where
  "tool0 = esd_lib.extend lib0 (esd_tool.fields [] [1, 2, 3] [] [] 0 [])"

lemma tool0_sel:
  "rx tool0 = (\<lambda>_. [])" "wres tool0 = (\<lambda>_. [])" "fwrites tool0 = []" "source tool0 = [1, 2, 3]" "target tool0 = []"
  by (simp_all add: tool0_def esd_lib.extend_def esd_tool.fields_def lib0_def)

lemma esdcat_witness_opens:
  "map_option (\<lambda>(r, s). (r, wres s r)) (esd_play_stream_fallback (tool_format ESD_PLAY tool_opts0) 44100 None None tool0) = Some (4, [])"
  by code_simp

theorem esdcat_sends_file_witness:
  "map_option fst (esdcat [] tool0) = Some 0"
proof -
  obtain s2 where s2: "esd_play_stream_fallback (tool_format ESD_PLAY tool_opts0) 44100 None None tool0 = Some (4, s2)"
      and w: "wres s2 4 = []"
    using esdcat_witness_opens by auto
  have "\<exists>s'. esdcat [] tool0 = Some (0, s') \<and> sent 4 s2 s' (source s2) \<and> 4 \<in> set (closed s')"
    by (rule esdcat_sends_file [of "[]" tool0 tool_opts0 "[]" tool0])
      (simp_all add: s2 w, simp_all add: tool_opts0_def s2 [unfolded tool_opts0_def])
  then show ?thesis by auto
qed

subsection \<open>Recording and monitoring\<close>

text \<open>A recording: what the daemon sends in pieces, and then the end of the stream.\<close>

lemma rec_loop_records:
  assumes "rx s sock = map RdData cs @ RdEof # r" "list_all (\<lambda>c. c \<noteq> [] \<and> length c \<le> 4096) cs" "fwrites s = []"
  shows "\<exists>s'. rec_loop sock s = Some (0, s') \<and> target s' = target s @ concat cs \<and> sock \<in> set (closed s')"
  using assms
proof (induction cs arbitrary: s)
  case Nil
  then show ?case by (subst rec_loop.simps) (simp add: sys_read_def sys_close_def)
next
  case (Cons c cs)
  let ?s1 = "s\<lparr>rx := (rx s)(sock := map RdData cs @ RdEof # r), target := target s @ c\<rparr>"
  have "rec_loop sock s = rec_loop sock ?s1"
    using Cons.prems by (subst rec_loop.simps) (simp add: sys_read_def fwrite_def)
  then show ?case using Cons.IH [of ?s1] Cons.prems by simp
qed

lemma mon_loop_spins:
  assumes "mon_loop sock s = Some res" "fwrites s = []"
  shows "\<not> (\<exists>cs r. rx s sock = map RdData cs @ RdEof # r)"
proof -
  have "fwrites s = [] \<longrightarrow> \<not> (\<exists>cs r. rx s sock = map RdData cs @ RdEof # r)"
  proof (rule mon_loop.raw_induct [OF _ assms(1), where P = "\<lambda>sock s res. fwrites s = [] \<longrightarrow> \<not> (\<exists>cs r. rx s sock = map RdData cs @ RdEof # r)"],
      goal_cases)
    case (1 ml sock s res)
    show ?case
    proof (intro impI notI, elim exE)
      fix cs r assume f: "fwrites s = []" and x: "rx s sock = map RdData cs @ RdEof # r"
      show False
      proof (cases cs)
        case Nil
        then have "ml sock s = Some res" using 1(2) x by (simp add: sys_read_def)
        then show False using 1(1) [of sock s res] f x by blast
      next
        case (Cons c cs')
        define ds where "ds = (if length c \<le> 4096 then cs' else drop 4096 c # cs')"
        let ?s1 = "s\<lparr>rx := (rx s)(sock := map RdData ds @ RdEof # r)\<rparr>"
        have rd: "sys_read sock 4096 s = ((int (length (take 4096 c)), False, take 4096 c), ?s1)"
          using x Cons by (simp add: sys_read_def ds_def)
        have "ml sock (if take 4096 c = [] then ?s1 else ?s1\<lparr>target := target s @ take 4096 c\<rparr>) = Some res"
          using 1(2) f rd by (simp add: fwrite_def split: if_splits)
        from 1(1) [OF this] show False using f by (auto split: if_splits)
      qed
    qed
  qed
  then show ?thesis using assms(2) by blast
qed

text \<open>
  C31. \<open>esdrec\<close> writes what it is sent and ends when the daemon closes the stream; \<open>esdmon\<close>, whose loop goes on while
  \<open>read\<close> returns 0, never ends then, whatever it was sent before.
\<close>

theorem record_ends_monitor_spins:
  assumes "rx s sock = map RdData cs @ RdEof # r" and "list_all (\<lambda>c. c \<noteq> [] \<and> length c \<le> 4096) cs" and "fwrites s = []"
  shows "(\<exists>s'. rec_loop sock s = Some (0, s') \<and> target s' = target s @ concat cs \<and> sock \<in> set (closed s'))
    \<and> mon_loop sock s = None"
proof -
  have "mon_loop sock s = None"
  proof (rule ccontr)
    assume "mon_loop sock s \<noteq> None"
    then obtain res where "mon_loop sock s = Some res" by blast
    from mon_loop_spins [OF this assms(3)] assms(1) show False by blast
  qed
  then show ?thesis using rec_loop_records [OF assms] by blast
qed

theorem record_ends_monitor_spins_witness:
  "mon_loop 7 (tool0\<lparr>rx := (\<lambda>_. [RdData [1, 2], RdEof])\<rparr>) = None"
  using record_ends_monitor_spins [of "tool0\<lparr>rx := (\<lambda>_. [RdData [1, 2], RdEof])\<rparr>" 7 "[[1, 2]]" "[]"] by (simp add: tool0_sel)

subsection \<open>Filtering\<close>

text \<open>
  Halving keeps every sample in range. Doubling stops at the largest value but not at the smallest: what lies
  below half of the smallest comes out with the wrong sign.
\<close>

lemma doubling_wraps:
  fixes x :: int
  assumes "- 32768 \<le> x" "x < 32768"
  shows "halve x = x sdiv 2"
    and "twice x = (if x > 16383 then 32767 else if x < - 16384 then 2 * x + 65536 else 2 * x)"
proof -
  have "- 32768 \<le> x sdiv 2 \<and> x sdiv 2 < 32768" using assms unfolding signed_divide_int_def
    by (auto simp: sgn_if abs_if)
  then show "halve x = x sdiv 2" unfolding halve_def by (auto intro: i16_small)
  have p: "i16 (y + 65536) = i16 y" for y
    using signed_take_bit_take_bit [of 15 16 y] signed_take_bit_take_bit [of 15 16 "y + 65536"]
    by (simp add: i16_def take_bit_eq_mod)
  have "i16 (2 * x) = 2 * x + 65536" if "x < - 16384"
    using p [of "2 * x"] i16_small [of "2 * x + 65536"] that assms by linarith
  moreover have "i16 (2 * x) = 2 * x" if "\<not> x < - 16384" "\<not> x > 16383" using that by (intro i16_small) linarith+
  moreover have "i16 32767 = 32767" by (rule i16_small) simp_all
  ultimately show "twice x = (if x > 16383 then 32767 else if x < - 16384 then 2 * x + 65536 else 2 * x)"
    unfolding twice_def Let_def by (auto simp: mult.commute)
qed

subsection \<open>Playing a file\<close>

text \<open>What \<open>esdplay\<close> does for the options of its command line, as the reference reads it.\<close>

fun play_found :: "found_option list \<Rightarrow> 'a esd_lib_scheme \<Rightarrow> int \<times> 'a esd_lib_scheme + 'a esd_lib_scheme" where
  "play_found [] s = Inr s"
| "play_found ((c, v) # es) s =
    (if c = 115 then play_found es (set_espeaker (the v) s)
     else if c = 104 \<or> c = 118 then Inl (0, s)
     else Inl (1, s))"

lemma play_kinds:
  "kind_of ''s:hv'' c =
    (if c = CHR ''s'' then RequiredArg else if c = CHR ''h'' \<or> c = CHR ''v'' then NoArg else UnknownOpt)"
  by (simp add: kind_of_def)

lemma play_short: "(c, v) \<in> set (fst (ref_short ''s:hv'' cs ws)) \<Longrightarrow> c \<in> {115, 104, 118, 63} \<and> (c = 115 \<longrightarrow> v \<noteq> None)"
  by (induction "''s:hv''" cs ws rule: ref_short.induct)
    (auto simp: play_kinds code_of_def colon_or_question_def split: if_splits list.splits)

lemma play_long: "fst (ref_long ''s:hv'' play_opts str ws) = (c, v) \<Longrightarrow> c \<in> {115, 104, 118, 63} \<and> (c = 115 \<longrightarrow> v \<noteq> None)"
  by (auto simp: ref_long_def Let_def colon_or_question_def long_code_def code_of_def play_opts_def
      dest!: named_in split: option.splits list.splits if_splits)

lemma play_args:
  "(c, v) \<in> set (fst (ref_args ''s:hv'' play_opts args)) \<Longrightarrow> c \<in> {115, 104, 118, 63} \<and> (c = 115 \<longrightarrow> v \<noteq> None)"
proof (induction "''s:hv''" play_opts args rule: ref_args.induct)
  case (2 w ws)
  then show ?case
    using play_short [of c v "drop 1 w" ws] play_long [of "drop 2 w" ws c v]
    by (auto simp: Let_def split: if_splits)
qed simp

lemma getopt_scan_Nil: "getopt_scan env os los g = Some ([], g') \<Longrightarrow> getopt_long env os los g = Some (-1, g')"
  by (subst (asm) getopt_scan.simps) (auto simp: bind_eq_Some_conv split: if_splits)

lemma getopt_scan_Cons:
  assumes "getopt_scan env os los g = Some (e # es, g')"
  obtains c h where "getopt_long env os los g = Some (c, h)" "c \<noteq> -1" "e = (c, optarg h)" "getopt_scan env os los h = Some (es, g')"
  using assms by (subst (asm) getopt_scan.simps) (auto simp: bind_eq_Some_conv split: if_splits)

lemma play_options_scan:
  assumes "getopt_scan None ''s:hv'' play_opts g = Some (es, g')" "getenv (lib_env s) ''POSIXLY_CORRECT'' = None"
    and "\<And>c v. (c, v) \<in> set es \<Longrightarrow> c \<in> {115, 104, 118, 63} \<and> (c = 115 \<longrightarrow> v \<noteq> None)"
  shows "play_options g s = Some (map_sum id (Pair g') (play_found es s))"
  using assms
proof (induction es arbitrary: g s)
  case Nil
  then show ?case using getopt_scan_Nil by (subst play_options.simps) simp
next
  case (Cons e es)
  obtain c h where l: "getopt_long None ''s:hv'' play_opts g = Some (c, h)" "c \<noteq> -1" "e = (c, optarg h)"
      "getopt_scan None ''s:hv'' play_opts h = Some (es, g')"
    by (rule getopt_scan_Cons [OF Cons.prems(1)])
  have "getenv (lib_env (set_espeaker v s)) ''POSIXLY_CORRECT'' = None" for v
    using Cons.prems(2) by (simp add: set_espeaker_def)
  note env = this
  have ih: "play_options h (set_espeaker v s) = Some (map_sum id (Pair g') (play_found es (set_espeaker v s)))" for v
    by (rule Cons.IH [OF l(4) env]) (rule Cons.prems(3), simp)
  have "c \<in> {115, 104, 118, 63} \<and> (c = 115 \<longrightarrow> optarg h \<noteq> None)" using Cons.prems(3) [of c "optarg h"] l(3) by simp
  then show ?case
    using Cons.prems(2) l by (subst play_options.simps) (auto simp: code_of_def ih)
qed

lemma play_opts_proper: "no_w ''s:hv''" "proper_options play_opts"
  by (simp_all add: no_w_def proper_options_def play_opts_def long_code_def code_of_def)

text \<open>
  C37. \<open>esdplay\<close> does what its command line says by the reference: it sets the server for every \<open>-s\<close> or \<open>--server\<close> up to the first
  option that makes it exit, and plays the one word that is no option, wherever it stands. With none or several it
  exits with 1. The loop over the options ends, and never comes to \<open>abort\<close>.
\<close>

theorem esdplay_command_line:
  assumes "getenv (lib_env s) ''POSIXLY_CORRECT'' = None"
  shows "esdplay afs argv0 args s =
    (case play_found (fst (ref_args ''s:hv'' play_opts args)) s of
       Inl r \<Rightarrow> Some r
     | Inr s \<Rightarrow>
         (case snd (ref_args ''s:hv'' play_opts args) of
            [f] \<Rightarrow> do { (_, s) \<leftarrow> esd_play_file afs (Some argv0) f True s; Some (0, s) }
          | _ \<Rightarrow> Some (1, s)))"
proof -
  let ?r = "ref_args ''s:hv'' play_opts args"
  have "\<exists>g. getopt_scan None ''s:hv'' play_opts (getopt_start (argv0 # args)) = Some (fst ?r, g)
    \<and> drop (optind g) (argv g) = snd ?r \<and> mset (argv g) = mset (argv0 # args) \<and> hd (argv g) = argv0"
    by (rule getopt_scan_ref [OF play_opts_proper]) simp
  then obtain g where g: "getopt_scan None ''s:hv'' play_opts (getopt_start (argv0 # args)) = Some (fst ?r, g)"
    "drop (optind g) (argv g) = snd ?r" "mset (argv g) = mset (argv0 # args)" by blast
  have n: "length (argv g) = Suc (length args)" using mset_eq_length [OF g(3)] by simp
  have one: "optind g = length args \<longleftrightarrow> (\<exists>f. snd ?r = [f])"
    using arg_cong [OF g(2), of length] n by (cases "snd ?r") auto
  have w: "argv g ! optind g = f" if "snd ?r = [f]" for f
    using g(2) that n by (metis drop_eq_Nil hd_drop_conv_nth list.distinct(1) list.sel(1) not_le_imp_less)
  show ?thesis
    using play_options_scan [OF g(1) assms play_args] one n w
    by (auto simp: esdplay_def split: sum.splits list.splits)
qed

theorem esdplay_command_line_witness:
  "esdplay (\<lambda>_. None) ''esdplay'' [''a.wav'', ''-s'', ''host'', ''b.wav''] tool0 = Some (1, set_espeaker ''host'' tool0)
    \<and> esdplay (\<lambda>_. None) ''esdplay'' [''a.wav'', ''-shost'', ''--he'', ''-x''] tool0 = Some (0, set_espeaker ''host'' tool0)"
proof -
  have "ref_args ''s:hv'' play_opts [''a.wav'', ''-s'', ''host'', ''b.wav''] = ([(115, Some ''host'')], [''a.wav'', ''b.wav''])"
    "ref_args ''s:hv'' play_opts [''a.wav'', ''-shost'', ''--he'', ''-x''] = ([(115, Some ''host''), (104, None), (63, None)], [''a.wav''])"
    by code_simp+
  moreover have "getenv (lib_env tool0) ''POSIXLY_CORRECT'' = None"
    by (simp add: tool0_def esd_lib.extend_def lib0_def)
  ultimately show ?thesis
    using esdplay_command_line [of tool0 "\<lambda>_. None" "''esdplay''" "[''a.wav'', ''-s'', ''host'', ''b.wav'']"]
      esdplay_command_line [of tool0 "\<lambda>_. None" "''esdplay''" "[''a.wav'', ''-shost'', ''--he'', ''-x'']"]
    by simp
qed

subsection \<open>Controlling the daemon\<close>

text \<open>The loop of \<open>esdctl\<close> over its options ends for every command line.\<close>

lemma ctl_args:
  "(c, v) \<in> set (fst (ref_args ''s:p:hv'' ctl_opts args)) \<Longrightarrow> c = 115 \<or> c = 112 \<Longrightarrow> v \<noteq> None"
proof (induction "''s:p:hv''" ctl_opts args rule: ref_args.induct)
  case (2 w ws)
  have k: "kind_of ''s:p:hv'' x = (if x = CHR ''s'' \<or> x = CHR ''p'' then RequiredArg
      else if x = CHR ''h'' \<or> x = CHR ''v'' then NoArg else UnknownOpt)" for x
    by (simp add: kind_of_def)
  have "v \<noteq> None" if "(c, v) \<in> set (fst (ref_short ''s:p:hv'' cs ws))" for cs ws
    using that 2(5) by (induction "''s:p:hv''" cs ws rule: ref_short.induct)
      (auto simp: k code_of_def colon_or_question_def split: if_splits list.splits)
  moreover have "v \<noteq> None" if "fst (ref_long ''s:p:hv'' ctl_opts str ws) = (c, v)" for str
    using that 2(5) by (auto simp: ref_long_def Let_def colon_or_question_def long_code_def code_of_def ctl_opts_def
      dest!: named_in split: option.splits list.splits if_splits)
  ultimately show ?case using 2 by (auto simp: Let_def split: if_splits)
qed simp

lemma ctl_options_scan:
  assumes "getopt_scan None ''s:p:hv'' ctl_opts g = Some (es, g')"
    and "\<And>c v. (c, v) \<in> set es \<Longrightarrow> c = 115 \<or> c = 112 \<Longrightarrow> v \<noteq> None"
  shows "\<exists>r. ctl_options None g server = Some r"
  using assms
proof (induction es arbitrary: g server)
  case Nil
  then show ?case using getopt_scan_Nil by (subst ctl_options.simps) (simp add: code_of_def)
next
  case (Cons e es)
  obtain c h where l: "getopt_long None ''s:p:hv'' ctl_opts g = Some (c, h)" "c \<noteq> -1" "e = (c, optarg h)"
      "getopt_scan None ''s:p:hv'' ctl_opts h = Some (es, g')"
    by (rule getopt_scan_Cons [OF Cons.prems(1)])
  have ih: "\<exists>r. ctl_options None h server = Some r" for server
    by (rule Cons.IH [OF l(4)]) (rule Cons.prems(2), simp_all)
  have "c = 115 \<or> c = 112 \<longrightarrow> optarg h \<noteq> None" using Cons.prems(2) [of c "optarg h"] l(3) by auto
  then show ?case using l(1) ih by (subst ctl_options.simps) (auto simp: code_of_def)
qed

lemma ctl_options_end: "\<exists>r. ctl_options None (getopt_start (argv0 # args)) None = Some r"
proof -
  have "no_w ''s:p:hv''" "proper_options ctl_opts"
    by (simp_all add: no_w_def proper_options_def ctl_opts_def long_code_def code_of_def)
  then have "\<exists>g. getopt_scan None ''s:p:hv'' ctl_opts (getopt_start (argv0 # args)) = Some (fst (ref_args ''s:p:hv'' ctl_opts args), g)"
    using getopt_scan_ref [of "''s:p:hv''" ctl_opts argv0 args] by auto
  then show ?thesis using ctl_options_scan ctl_args by blast
qed

end
