(* ===== verification/Esd_Alsa.thy ===== *)
theory Esd_Alsa
  imports Esd_Audio
begin

text \<open>
  The driver for ALSA 0.9 (\<open>audio_alsa09.c\<close>), in the build with the newer PCM interface. The ALSA library
  is not part of the program: what its calls return is scripted in the state, and what they are asked is
  logged there. Tracing (\<open>ESD_DEBUG\<close>) and the list of cards, which are only printed, are left out.
\<close>

subsection \<open>State and library calls\<close>

datatype snd_result = SndFrames nat | SndXrun | SndSuspend | SndError   \<comment> \<open>frames, \<open>-EPIPE\<close>, \<open>-ESTRPIPE\<close>, other errors\<close>

text \<open>
  The globals of the driver; what \<open>snd_pcm_open\<close> gives (\<open>None\<close> is an error), the results of the calls that set
  parameters, the rates that \<open>set_rate_near\<close> finds, the results of writing, reading, preparing and resuming
  (\<open>None\<close> is \<open>-EAGAIN\<close>); the calls made, the handles closed, the bytes played, and the size of a frame as
  the library knows it from the parameters.
\<close>

record alsa = audio +
  alsaerr :: int
  alsa_playback_handle :: addr
  alsa_capture_handle :: addr
  alsa_device :: "string option"
  snd_opens :: "addr option list"
  snd_errs :: "int list"
  snd_rates :: "int list"
  snd_writes :: "snd_result list"
  snd_reads :: "(snd_result \<times> octet list) list"
  snd_prepares :: "int list"
  snd_resumes :: "int option list"
  snd_log :: "(string \<times> int list) list"
  snd_closed :: "addr list"
  pcm_out :: "octet list"
  snd_frame :: nat

definition snd_pcm_open :: "string \<Rightarrow> int \<Rightarrow> 'a alsa_scheme \<Rightarrow> addr option \<times> 'a alsa_scheme" where
  "snd_pcm_open dev mode s =
    (case snd_opens s of [] \<Rightarrow> (None, s) | r # rs \<Rightarrow> (r, s\<lparr>snd_opens := rs, snd_log := snd_log s @ [(dev, [mode])]\<rparr>))"

definition snd_pcm_close :: "addr \<Rightarrow> 'a alsa_scheme \<Rightarrow> 'a alsa_scheme" where
  "snd_pcm_close h s = s\<lparr>snd_closed := snd_closed s @ [h]\<rparr>"

definition snd_call :: "string \<times> int list \<Rightarrow> 'a alsa_scheme \<Rightarrow> int \<times> 'a alsa_scheme" where
  "snd_call c s =
    (let s = s\<lparr>snd_log := snd_log s @ [c]\<rparr>
     in case snd_errs s of [] \<Rightarrow> (0, s) | r # rs \<Rightarrow> (r, s\<lparr>snd_errs := rs\<rparr>))"

definition snd_rate_near :: "int \<Rightarrow> 'a alsa_scheme \<Rightarrow> int \<times> 'a alsa_scheme" where
  "snd_rate_near speed s = (case snd_rates s of [] \<Rightarrow> (speed, s) | r # rs \<Rightarrow> (r, s\<lparr>snd_rates := rs\<rparr>))"

definition snd_prepare :: "'a alsa_scheme \<Rightarrow> int \<times> 'a alsa_scheme" where
  "snd_prepare s = (case snd_prepares s of [] \<Rightarrow> (0, s) | r # rs \<Rightarrow> (r, s\<lparr>snd_prepares := rs\<rparr>))"

definition snd_writei :: "octet list \<Rightarrow> nat \<Rightarrow> 'a alsa_scheme \<Rightarrow> snd_result \<times> 'a alsa_scheme" where
  "snd_writei buf len s =
    (case snd_writes s of
       [] \<Rightarrow> (SndFrames len, s\<lparr>pcm_out := pcm_out s @ take (len * snd_frame s) buf\<rparr>)
     | SndFrames n # rs \<Rightarrow>
         (SndFrames (min n len), s\<lparr>snd_writes := rs, pcm_out := pcm_out s @ take (min n len * snd_frame s) buf\<rparr>)
     | e # rs \<Rightarrow> (e, s\<lparr>snd_writes := rs\<rparr>))"

definition snd_readi :: "nat \<Rightarrow> 'a alsa_scheme \<Rightarrow> (snd_result \<times> octet list) \<times> 'a alsa_scheme" where
  "snd_readi len s =
    (case snd_reads s of
       [] \<Rightarrow> ((SndFrames 0, []), s)
     | (SndFrames n, bs) # rs \<Rightarrow> ((SndFrames (min n len), take (min n len * snd_frame s) bs), s\<lparr>snd_reads := rs\<rparr>)
     | (e, _) # rs \<Rightarrow> ((e, []), s\<lparr>snd_reads := rs\<rparr>))"

text \<open>\<open>while ((err = snd_pcm_resume (handle)) == -EAGAIN) sleep (1)\<close>\<close>

fun resume_again :: "int option list \<Rightarrow> int \<times> int option list" where
  "resume_again [] = (0, [])"
| "resume_again (None # rs) = resume_again rs"
| "resume_again (Some r # rs) = (r, rs)"

definition snd_resume :: "'a alsa_scheme \<Rightarrow> int \<times> 'a alsa_scheme" where
  "snd_resume s = (let (r, rs) = resume_again (snd_resumes s) in (r, s\<lparr>snd_resumes := rs\<rparr>))"

subsection \<open>Opening\<close>

text \<open>Successive calls, up to the first error.\<close>

fun snd_try :: "(string \<times> int list) list \<Rightarrow> 'a alsa_scheme \<Rightarrow> bool \<times> 'a alsa_scheme" where
  "snd_try [] s = (True, s)"
| "snd_try (c # cs) s = (let (err, s) = snd_call c s in if err < 0 then (False, s) else snd_try cs s)"

text \<open>
  \<open>initAlsa\<close>: the access is 3 (\<open>SND_PCM_ACCESS_RW_INTERLEAVED\<close>). The handle is returned when a parameter
  could not be set, too; 0 when the device could not be opened.
\<close>

definition initAlsa :: "string \<Rightarrow> int \<Rightarrow> int \<Rightarrow> int \<Rightarrow> int \<Rightarrow> 'a alsa_scheme \<Rightarrow> addr \<times> 'a alsa_scheme" where
  "initAlsa dev format channels speed mode s =
    (let (h, s) = snd_pcm_open dev mode s
     in case h of
          None \<Rightarrow> (0, s\<lparr>alsaerr := -2\<rparr>)
        | Some h \<Rightarrow>
            let (ok, s) = snd_try [(''any'', []), (''access'', [3]), (''format'', [format]), (''channels'', [channels]),
                                   (''rate_near'', [speed])] s
            in if \<not> ok then (h, s\<lparr>alsaerr := -1\<rparr>)
               else
                 let (t_speed, s) = snd_rate_near speed s
                 in if t_speed \<noteq> speed then (h, s\<lparr>alsaerr := -1\<rparr>)
                    else
                      let (ok, s) = snd_try [(''periods_integer'', []), (''periods_min'', [2]), (''periods_max'', [64]),
                                             (''buffer_size_near'', [16384]), (''hw_params'', [])] s
                      in if \<not> ok then (h, s\<lparr>alsaerr := -1\<rparr>)
                         else (h, s\<lparr>alsaerr := 0, snd_frame := nat (channels * (if format = 2 then 2 else 1))\<rparr>))"

text \<open>\<open>SND_PCM_FORMAT_S16\<close> is 2, \<open>SND_PCM_FORMAT_U8\<close> 1; playback is mode 0, capture 1.\<close>

definition alsa_format :: "'a alsa_scheme \<Rightarrow> int" where
  "alsa_format s = (if esd_audio_format s AND ESD_MASK_BITS = ESD_BITS16 then 2 else 1)"

definition alsa_channels :: "'a alsa_scheme \<Rightarrow> int" where
  "alsa_channels s = (if esd_audio_format s AND ESD_MASK_CHAN = ESD_STEREO then 2 else 1)"

definition alsa_audio_open :: "'a alsa_scheme \<Rightarrow> int \<times> 'a alsa_scheme" where
  "alsa_audio_open s =
    (let format = alsa_format s;
         channels = alsa_channels s;
         dev = (case alsa_device s of Some d \<Rightarrow> d | None \<Rightarrow> ''default'');
         (h, s) = initAlsa dev format channels (esd_audio_rate s) 0 s;
         s = s\<lparr>alsa_playback_handle := h\<rparr>
     in if alsaerr s \<noteq> 0 then
          let s = (if alsaerr s = -1 then snd_pcm_close (alsa_playback_handle s) s else s)
          in (alsaerr s, s\<lparr>esd_audio_fd := -1\<rparr>)
        else if esd_audio_format s AND ESD_MASK_FUNC = ESD_RECORD then
          let (h, s) = initAlsa dev format channels (esd_audio_rate s) 1 s;
              s = s\<lparr>alsa_capture_handle := h\<rparr>
          in if alsaerr s \<noteq> 0 then
               let s = (if alsaerr s = -1 then snd_pcm_close (alsa_capture_handle s) s else s);
                   s = snd_pcm_close (alsa_playback_handle s) s
               in (alsaerr s, s\<lparr>esd_audio_fd := -1\<rparr>)
             else (0, s\<lparr>esd_audio_fd := 0\<rparr>)
        else (0, s\<lparr>esd_audio_fd := 0\<rparr>))"

definition alsa_audio_close :: "'a alsa_scheme \<Rightarrow> 'a alsa_scheme" where
  "alsa_audio_close s =
    (let s = (if alsa_playback_handle s \<noteq> 0 then snd_pcm_close (alsa_playback_handle s) s else s);
         s = (if alsa_capture_handle s \<noteq> 0 then snd_pcm_close (alsa_capture_handle s) s else s)
     in s\<lparr>alsa_playback_handle := 0, alsa_capture_handle := 0\<rparr>)"

subsection \<open>Writing and reading\<close>

text \<open>
  Every kind of error is answered by preparing the device and trying again, until that fails, too;
  the buffer moves on by the frames that were taken.
\<close>

function alsa_write_loop :: "octet list \<Rightarrow> nat \<Rightarrow> 'a alsa_scheme \<Rightarrow> bool \<times> 'a alsa_scheme" where
  "alsa_write_loop buf len s =
    (if len = 0 then (True, s)
     else case snd_writei buf len s of
         (SndFrames n, s) \<Rightarrow> alsa_write_loop (drop (n * snd_frame s) buf) (len - n) s
       | (e, s) \<Rightarrow>
           let s = (if e = SndSuspend then snd (snd_resume s) else s);
               p = snd_prepare s
           in if fst p < 0 then (False, snd p) else alsa_write_loop buf len (snd p))"
  by pat_completeness auto
termination
  by (relation "measure (\<lambda>(buf, len, s). length (snd_writes s) + len)")
    (auto simp: snd_writei_def snd_prepare_def snd_resume_def case_prod_beta split: list.splits snd_result.splits if_splits)

declare alsa_write_loop.simps [simp del]

text \<open>\<open>None\<close>: the buffer is shorter than it is said to be.\<close>

definition alsa_audio_write :: "octet list \<Rightarrow> nat \<Rightarrow> 'a alsa_scheme \<Rightarrow> (int \<times> 'a alsa_scheme) option" where
  "alsa_audio_write buf buf_size s =
    (if buf_size > length buf then None
     else let (ok, s) = alsa_write_loop buf (buf_size div snd_frame s) s in Some (if ok then int buf_size else -1, s))"

function alsa_read_loop :: "nat \<Rightarrow> 'a alsa_scheme \<Rightarrow> (int \<times> octet list) \<times> 'a alsa_scheme" where
  "alsa_read_loop len s =
    (case snd_readi len s of
       ((SndFrames n, bs), s) \<Rightarrow> ((int (n * snd_frame s), bs), s)
     | ((SndSuspend, _), s) \<Rightarrow>
         let q = snd_resume s;
             p = (if fst q < 0 then snd_prepare (snd q) else (0, snd q))
         in if fst p < 0 then ((-1, []), snd p) else alsa_read_loop len (snd p)
     | (_, s) \<Rightarrow>
         let p = snd_prepare s in if fst p < 0 then ((-1, []), snd p) else alsa_read_loop len (snd p))"
  by pat_completeness auto
termination
  by (relation "measure (\<lambda>(len, s). length (snd_reads s))")
    (auto simp: snd_readi_def snd_prepare_def snd_resume_def case_prod_beta split: list.splits snd_result.splits if_splits)

declare alsa_read_loop.simps [simp del]

definition alsa_audio_read :: "nat \<Rightarrow> 'a alsa_scheme \<Rightarrow> (int \<times> octet list) \<times> 'a alsa_scheme" where
  "alsa_audio_read buf_size s = alsa_read_loop (buf_size div snd_frame s) s"

definition alsa_audio_flush :: "'a alsa_scheme \<Rightarrow> 'a alsa_scheme" where
  "alsa_audio_flush s = (if alsa_playback_handle s \<noteq> 0 then s\<lparr>snd_log := snd_log s @ [(''drain'', [])]\<rparr> else s)"

subsection \<open>What writing delivers\<close>

lemma snd_prepare_keeps: "pcm_out (snd (snd_prepare s)) = pcm_out s" "snd_frame (snd (snd_prepare s)) = snd_frame s"
    "snd_writes (snd (snd_prepare s)) = snd_writes s"
  and snd_resume_keeps: "pcm_out (snd (snd_resume s)) = pcm_out s" "snd_frame (snd (snd_resume s)) = snd_frame s"
    "snd_writes (snd (snd_resume s)) = snd_writes s"
  by (auto simp: snd_prepare_def snd_resume_def case_prod_beta split: list.splits)

text \<open>One attempt to write: some frames go out, or none and a scripted result is used up.\<close>

lemma snd_writei_cases:
  assumes "0 < len"
  obtains (some) n s1 where "snd_writei buf len s = (SndFrames n, s1)" "n \<le> len"
      "pcm_out s1 = pcm_out s @ take (n * snd_frame s) buf" "snd_frame s1 = snd_frame s"
      "length (snd_writes s1) + (len - n) < length (snd_writes s) + len"
  | (none) e s1 where "snd_writei buf len s = (e, s1)" "\<forall>n. e \<noteq> SndFrames n" "pcm_out s1 = pcm_out s"
      "snd_frame s1 = snd_frame s" "length (snd_writes s1) < length (snd_writes s)"
proof (cases "snd_writes s")
  case Nil
  show thesis by (rule some [of len "s\<lparr>pcm_out := pcm_out s @ take (len * snd_frame s) buf\<rparr>"]) (use assms in \<open>simp_all add: snd_writei_def Nil\<close>)
next
  case (Cons e rs)
  show thesis
  proof (cases e)
    case (SndFrames n)
    show thesis by (rule some [of "min n len" "s\<lparr>snd_writes := rs, pcm_out := pcm_out s @ take (min n len * snd_frame s) buf\<rparr>"]) (simp_all add: snd_writei_def Cons SndFrames)
  qed (rule none [of e "s\<lparr>snd_writes := rs\<rparr>"]; simp add: snd_writei_def Cons)+
qed

lemma alsa_write_loop_delivers:
  "alsa_write_loop buf len s = (ok, s') \<Longrightarrow> len * snd_frame s \<le> length buf \<Longrightarrow>
     \<exists>k\<le>len. pcm_out s' = pcm_out s @ take (k * snd_frame s) buf \<and> ok = (k = len)"
proof (induction "length (snd_writes s) + len" arbitrary: buf len s rule: less_induct)
  case less
  show ?case
  proof (cases "len = 0")
    case True
    then show ?thesis using less.prems by (simp add: alsa_write_loop.simps [of buf 0 s])
  next
    case False
    then have "0 < len" by simp
    then show ?thesis
    proof (cases rule: snd_writei_cases [where buf = buf and s = s])
      case (some n s1)
      have l: "alsa_write_loop (drop (n * snd_frame s) buf) (len - n) s1 = (ok, s')"
        using less.prems(1) False some by (simp add: alsa_write_loop.simps [of buf len s])
      have "(len - n) * snd_frame s1 \<le> length (drop (n * snd_frame s) buf)"
        using less.prems(2) some by (simp add: diff_mult_distrib)
      then obtain k where k: "k \<le> len - n" "pcm_out s' = pcm_out s1 @ take (k * snd_frame s) (drop (n * snd_frame s) buf)"
          "ok = (k = len - n)"
        using less.hyps [OF some(5) l] some(4) by auto
      have "pcm_out s' = pcm_out s @ take ((n + k) * snd_frame s) buf"
        using k(2) some(3) by (simp add: add_mult_distrib take_add)
      then show ?thesis using k(1,3) some(2) by (intro exI [of _ "n + k"]) auto
    next
      case (none e s1)
      define s2 where "s2 = (if e = SndSuspend then snd (snd_resume s1) else s1)"
      have l: "alsa_write_loop buf len s =
        (if fst (snd_prepare s2) < 0 then (False, snd (snd_prepare s2)) else alsa_write_loop buf len (snd (snd_prepare s2)))"
        using False none(1,2) by (cases e) (simp_all add: alsa_write_loop.simps [of buf len s] s2_def Let_def)
      have k: "pcm_out (snd (snd_prepare s2)) = pcm_out s" "snd_frame (snd (snd_prepare s2)) = snd_frame s"
          "snd_writes (snd (snd_prepare s2)) = snd_writes s1"
        using none(3,4) by (auto simp: s2_def snd_prepare_keeps snd_resume_keeps)
      show ?thesis
      proof (cases "fst (snd_prepare s2) < 0")
        case True
        then show ?thesis using l less.prems k False by (intro exI [of _ 0]) auto
      next
        case False
        then show ?thesis using less.hyps [of "snd (snd_prepare s2)" len buf] l less.prems k none(5) by simp
      qed
    qed
  qed
qed

text \<open>A device that underruns, takes one frame, is suspended, and then works.\<close>

definition alsa0 :: alsa where
  "alsa0 = audio.extend audio0 (alsa.fields 0 0 0 None [] [] [] [SndXrun, SndFrames 1, SndSuspend] [] [] [None, Some 0] [] [] [] 4)"

lemma alsa0_sel: "snd_frame alsa0 = 4" "pcm_out alsa0 = []" "esd_audio_format alsa0 = 0x21" "esd_audio_rate alsa0 = 44100"
  "alsa_playback_handle alsa0 = 0" "alsa_capture_handle alsa0 = 0" "snd_closed alsa0 = []"
  by (simp_all add: alsa0_def audio.extend_def alsa.fields_def audio0_def)

text \<open>
  C38. Writing to an ALSA device ends: either it returns the size of the buffer, and the whole frames of the buffer have
  been played in order, each once, however often the device underran, was suspended or took only a part;
  or it returns -1, and a proper prefix of them has been played.
\<close>

theorem alsa_write_delivers:
  assumes "n \<le> length buf"
  shows "\<exists>r s' k. alsa_audio_write buf n s = Some (r, s') \<and> k \<le> n div snd_frame s
    \<and> pcm_out s' = pcm_out s @ take (k * snd_frame s) buf
    \<and> r = (if k = n div snd_frame s then int n else -1)"
proof -
  obtain ok s' where l: "alsa_write_loop buf (n div snd_frame s) s = (ok, s')" by fastforce
  have "n div snd_frame s * snd_frame s \<le> length buf" using assms div_times_less_eq_dividend [of n "snd_frame s"] by (rule le_trans [rotated])
  from alsa_write_loop_delivers [OF l this] show ?thesis using assms l by (auto simp: alsa_audio_write_def)
qed

theorem alsa_write_delivers_witness:
  "\<exists>r s' k. alsa_audio_write [1, 2, 3, 4, 5, 6, 7, 8, 9] 9 alsa0 = Some (r, s') \<and> k \<le> 9 div snd_frame alsa0
    \<and> pcm_out s' = pcm_out alsa0 @ take (k * snd_frame alsa0) [1, 2, 3, 4, 5, 6, 7, 8, 9]
    \<and> r = (if k = 9 div snd_frame alsa0 then int 9 else -1)"
  by (rule alsa_write_delivers) simp

subsection \<open>What opening leaves behind\<close>

text \<open>What the library calls of \<open>initAlsa\<close> leave alone.\<close>

definition alsa_view :: "'a alsa_scheme \<Rightarrow> addr \<times> addr \<times> addr list \<times> int \<times> int" where
  "alsa_view s = (alsa_playback_handle s, alsa_capture_handle s, snd_closed s, esd_audio_fd s, esd_audio_format s)"

lemma snd_view:
  "alsa_view (snd (snd_pcm_open dev mode s)) = alsa_view s" "alsa_view (snd (snd_call c s)) = alsa_view s"
  "alsa_view (snd (snd_rate_near speed s)) = alsa_view s"
  by (auto simp: alsa_view_def snd_pcm_open_def snd_call_def snd_rate_near_def Let_def split: list.splits)

lemma snd_try_view: "alsa_view (snd (snd_try cs s)) = alsa_view s"
proof (induction cs arbitrary: s)
  case (Cons c cs)
  then show ?case using snd_view(2) [of c s] by (cases "snd_call c s") auto
qed simp

lemma view_updates [simp]:
  "alsa_view (s\<lparr>alsaerr := a\<rparr>) = alsa_view s" "alsa_view (s\<lparr>snd_frame := f\<rparr>) = alsa_view s"
  by (simp_all add: alsa_view_def)

lemma initAlsa_view:
  assumes "initAlsa dev format channels speed mode s = (h, s')"
  shows "alsa_view s' = alsa_view s" "alsaerr s' = 0 \<or> alsaerr s' = -1 \<or> alsaerr s' = -2"
proof -
  obtain h1 s1 where o: "snd_pcm_open dev mode s = (h1, s1)" by fastforce
  let ?c1 = "[(''any'', []), (''access'', [3]), (''format'', [format]), (''channels'', [channels]), (''rate_near'', [speed])]"
  let ?c2 = "[(''periods_integer'', []), (''periods_min'', [2]), (''periods_max'', [64]), (''buffer_size_near'', [16384]), (''hw_params'', [])]"
  obtain ok2 s2 where t: "snd_try ?c1 s1 = (ok2, s2)" by fastforce
  obtain r s3 where n: "snd_rate_near speed s2 = (r, s3)" by fastforce
  obtain ok4 s4 where u: "snd_try ?c2 s3 = (ok4, s4)" by fastforce
  have v: "alsa_view s1 = alsa_view s" "alsa_view s2 = alsa_view s" "alsa_view s3 = alsa_view s" "alsa_view s4 = alsa_view s"
    using snd_view(1) [of dev mode s] snd_try_view [of ?c1 s1] snd_view(3) [of speed s2] snd_try_view [of ?c2 s3]
    unfolding o t n u by simp_all
  have "alsa_view s' = alsa_view s \<and> (alsaerr s' = 0 \<or> alsaerr s' = -1 \<or> alsaerr s' = -2)"
    using assms v unfolding initAlsa_def o Let_def prod.case t n u
    by (cases h1; cases ok2; cases "r = speed"; cases ok4) (auto simp: prod_eq_iff)
  then show "alsa_view s' = alsa_view s" "alsaerr s' = 0 \<or> alsaerr s' = -1 \<or> alsaerr s' = -2" by blast+
qed

lemma alsa_open_stages:
  assumes "alsa_audio_open s = (r, s')"
  obtains (play) h s1 where "alsa_view s1 = alsa_view s" "alsaerr s1 = r" "r = -1 \<or> r = -2"
      "s' = (let t = s1\<lparr>alsa_playback_handle := h\<rparr> in (if r = -1 then snd_pcm_close h t else t)\<lparr>esd_audio_fd := -1\<rparr>)"
  | (capture) h h2 s2 where "alsa_view s2 = alsa_view (s\<lparr>alsa_playback_handle := h\<rparr>)"
      "r = -1 \<or> r = -2" "esd_audio_format s AND ESD_MASK_FUNC = ESD_RECORD"
      "s' = (let t = s2\<lparr>alsa_capture_handle := h2\<rparr>; t = (if r = -1 then snd_pcm_close h2 t else t)
             in (snd_pcm_close h t)\<lparr>esd_audio_fd := -1\<rparr>)"
  | (both) h h2 s2 where "r = 0" "alsa_view s2 = alsa_view (s\<lparr>alsa_playback_handle := h\<rparr>)"
      "esd_audio_format s AND ESD_MASK_FUNC = ESD_RECORD" "s' = s2\<lparr>alsa_capture_handle := h2, esd_audio_fd := 0\<rparr>"
  | (only) h s1 where "r = 0" "alsa_view s1 = alsa_view s" "esd_audio_format s AND ESD_MASK_FUNC \<noteq> ESD_RECORD"
      "s' = s1\<lparr>alsa_playback_handle := h, esd_audio_fd := 0\<rparr>"
proof -
  let ?d = "case alsa_device s of Some d \<Rightarrow> d | None \<Rightarrow> ''default''"
  obtain h s1 where i: "initAlsa ?d (alsa_format s) (alsa_channels s) (esd_audio_rate s) 0 s = (h, s1)" by fastforce
  let ?t = "s1\<lparr>alsa_playback_handle := h\<rparr>"
  obtain h2 s2 where j: "initAlsa ?d (alsa_format s) (alsa_channels s) (esd_audio_rate ?t) 1 ?t = (h2, s2)" by fastforce
  note v = initAlsa_view [OF i] and w = initAlsa_view [OF j]
  have f: "esd_audio_format s1 = esd_audio_format s" using v(1) by (simp add: alsa_view_def)
  show thesis
  proof (cases "alsaerr s1 = 0")
    case False
    then have "r = alsaerr s1" "s' = (let t = s1\<lparr>alsa_playback_handle := h\<rparr> in (if r = -1 then snd_pcm_close h t else t)\<lparr>esd_audio_fd := -1\<rparr>)"
      using assms i by (auto simp: alsa_audio_open_def Let_def snd_pcm_close_def split: if_splits)
    with play v False show thesis by blast
  next
    case True
    note p = this
    show thesis
    proof (cases "esd_audio_format s AND ESD_MASK_FUNC = ESD_RECORD")
      case False
      then have "r = 0" "s' = s1\<lparr>alsa_playback_handle := h, esd_audio_fd := 0\<rparr>"
        using assms i p f by (simp_all add: alsa_audio_open_def Let_def)
      with only v False show thesis by blast
    next
      case True
      then have o: "(r, s') = (if alsaerr s2 \<noteq> 0 then
           let t = s2\<lparr>alsa_capture_handle := h2\<rparr>; t = (if alsaerr s2 = -1 then snd_pcm_close h2 t else t);
               t = snd_pcm_close (alsa_playback_handle t) t in (alsaerr s2, t\<lparr>esd_audio_fd := -1\<rparr>)
         else (0, s2\<lparr>alsa_capture_handle := h2, esd_audio_fd := 0\<rparr>))"
        using assms i p f j by (auto simp: alsa_audio_open_def Let_def snd_pcm_close_def split: if_splits)
      have v2: "alsa_view s2 = alsa_view (s\<lparr>alsa_playback_handle := h\<rparr>)" and "alsa_playback_handle s2 = h"
        using v(1) w(1) by (simp_all add: alsa_view_def)
      note v2 = this
      show thesis
      proof (cases "alsaerr s2 = 0")
        case False
        then have "r = alsaerr s2" "s' = (let t = s2\<lparr>alsa_capture_handle := h2\<rparr>; t = (if r = -1 then snd_pcm_close h2 t else t)
             in (snd_pcm_close h t)\<lparr>esd_audio_fd := -1\<rparr>)"
          using o v2(2) by (simp_all add: Let_def snd_pcm_close_def)
        then show thesis using capture [OF v2(1) _ True] w(2) False by blast
      next
        case True
        then have "r = 0" "s' = s2\<lparr>alsa_capture_handle := h2, esd_audio_fd := 0\<rparr>" using o by simp_all
        then show thesis by (rule both [OF _ v2(1) \<open>esd_audio_format s AND ESD_MASK_FUNC = ESD_RECORD\<close>])
      qed
    qed
  qed
qed

lemma alsa_open_fd:
  assumes "alsa_audio_open s = (r, s')"
  shows "if r < 0 then esd_audio_fd s' = -1 else r = 0 \<and> esd_audio_fd s' = 0"
  using assms by (cases rule: alsa_open_stages) (auto simp: Let_def snd_pcm_close_def)

interpretation alsa09: audio_opener alsa_audio_open esd_audio_fd
  by unfold_locales (auto dest: alsa_open_fd split: if_splits)

text \<open>
  C40. A handle that is closed twice: when a request to record fails because the parameters for capturing cannot
  be set, the driver closes the capture handle but keeps it. The daemon then opens the device for
  playing again, and the next time it closes it, the library is given the closed handle once more.
\<close>

theorem alsa_capture_closed_twice:
  assumes "alsa_audio_open s = (-1, s1)" and "alsa_playback_handle s = 0" and "alsa_capture_handle s = 0"
    and "0 < alsa_capture_handle s1"
    and "alsa_audio_open (s1\<lparr>esd_audio_format := f\<rparr>) = (0, s2)" and "f AND ESD_MASK_FUNC \<noteq> ESD_RECORD"
  shows "alsa_capture_handle s1 \<in> set (snd_closed s2)
    \<and> last (snd_closed (alsa_audio_close s2)) = alsa_capture_handle s1"
proof -
  have "alsa_capture_handle s1 \<in> set (snd_closed s1)"
    using assms(1) by (cases rule: alsa_open_stages)
      (use assms(3,4) in \<open>auto simp: Let_def snd_pcm_close_def alsa_view_def\<close>)
  moreover have "alsa_capture_handle s2 = alsa_capture_handle s1 \<and> snd_closed s2 = snd_closed s1"
    using assms(5) by (cases rule: alsa_open_stages) (use assms(6) in \<open>auto simp: alsa_view_def\<close>)
  ultimately show ?thesis using assms(4) by (simp add: alsa_audio_close_def snd_pcm_close_def Let_def)
qed

theorem alsa_capture_closed_twice_witness:
  "\<exists>s1 s2. alsa_audio_open (alsa0\<lparr>esd_audio_format := 0x2021, snd_opens := [Some 5, Some 6, Some 7],
       snd_errs := replicate 10 0 @ [-22]\<rparr>) = (-1, s1)
     \<and> alsa_audio_open (s1\<lparr>esd_audio_format := 0x1021\<rparr>) = (0, s2)
     \<and> 6 \<in> set (snd_closed s2) \<and> last (snd_closed (alsa_audio_close s2)) = 6"
proof -
  let ?s = "alsa0\<lparr>esd_audio_format := 0x2021, snd_opens := [Some 5, Some 6, Some 7], snd_errs := replicate 10 0 @ [-22]\<rparr>"
  have a: "(\<lambda>(r, s). (r, alsa_capture_handle s, fst (alsa_audio_open (s\<lparr>esd_audio_format := 0x1021\<rparr>)))) (alsa_audio_open ?s) = (-1, 6, 0)"
    by code_simp
  obtain s1 s2 where o: "alsa_audio_open ?s = (-1, s1)" "alsa_audio_open (s1\<lparr>esd_audio_format := 0x1021\<rparr>) = (0, s2)"
      and h: "alsa_capture_handle s1 = 6"
    using a by (auto simp: case_prod_beta prod_eq_iff)
  have "alsa_capture_handle s1 \<in> set (snd_closed s2) \<and> last (snd_closed (alsa_audio_close s2)) = alsa_capture_handle s1"
    by (rule alsa_capture_closed_twice [OF o(1) _ _ _ o(2)]) (simp_all add: alsa0_sel h)
  then show ?thesis using o h by auto
qed

end
