(* ===== verification/Esd_Drivers.thy ===== *)
theory Esd_Drivers
  imports Esd_Audio Esd_Cstring
begin

text \<open>
  The drivers for other systems whose devices are descriptors with \<open>ioctl\<close>: AIX (\<open>audio_aix.c\<close>), HP-UX (\<open>audio_hpux.c\<close>),
  MkLinux (\<open>audio_mklinux.c\<close>), Solaris (\<open>audio_solaris.c\<close>), and the driver that has no device (\<open>audio_none.c\<close>). Where a
  driver does not define a function, that of \<open>audio.c\<close> is used. Messages are left out.
\<close>

unbundle bit_operations_syntax

subsection \<open>Calls to the device\<close>

datatype drv_errno = E_INTR | E_BUSY | E_OTHER

text \<open>
  The results of \<open>open\<close> with \<open>errno\<close>; the results of \<open>ioctl\<close> and \<open>fcntl\<close> with \<open>errno\<close>, the words of the structure they fill in
  and, for \<open>AUDIO_GETDEV\<close>, the name of the device; the paths opened and the requests made with their arguments, as logs;
  \<open>esd_audio_device\<close>, \<open>AUDIODEV\<close>, and \<open>my_ports\<close> of the Solaris driver.
\<close>

record drv = audio +
  drv_opens :: "(int \<times> drv_errno) list"
  drv_ioctls :: "(int \<times> drv_errno \<times> int list \<times> string) list"
  drv_paths :: "string list"
  drv_calls :: "(string \<times> int list) list"
  esd_audio_device :: "string option"
  AUDIODEV :: "string option"
  my_ports :: "string option"

definition drv_open :: "string \<Rightarrow> 'a drv_scheme \<Rightarrow> (int \<times> drv_errno) \<times> 'a drv_scheme" where
  "drv_open path s =
    (let s = s\<lparr>drv_paths := drv_paths s @ [path]\<rparr>
     in case drv_opens s of
          [] \<Rightarrow> ((3, E_OTHER), s)
        | (r, e) # rs \<Rightarrow> ((if r < 0 then -1 else r, e), s\<lparr>drv_opens := rs\<rparr>))"

definition drv_ioctl :: "string \<Rightarrow> int list \<Rightarrow> 'a drv_scheme \<Rightarrow> (int \<times> drv_errno \<times> int list \<times> string) \<times> 'a drv_scheme" where
  "drv_ioctl req args s =
    (let s = s\<lparr>drv_calls := drv_calls s @ [(req, args)]\<rparr>
     in case drv_ioctls s of [] \<Rightarrow> ((0, E_OTHER, args, []), s) | r # rs \<Rightarrow> (r, s\<lparr>drv_ioctls := rs\<rparr>))"

text \<open>The words of a structure the script does not give are 0.\<close>

definition drv_word :: "int list \<Rightarrow> nat \<Rightarrow> int" where
  "drv_word ws k = (if k < length ws then ws ! k else 0)"

text \<open>Repeated while a signal interrupts: \<open>do { ... } while (r == -1 && errno == EINTR)\<close>.\<close>

function drv_open_eintr :: "string \<Rightarrow> 'a drv_scheme \<Rightarrow> (int \<times> drv_errno) \<times> 'a drv_scheme" where
  "drv_open_eintr path s =
    (let r = drv_open path s in if fst r = (-1, E_INTR) then drv_open_eintr path (snd r) else r)"
  by pat_completeness auto
termination
  by (relation "measure (\<lambda>(path, s). length (drv_opens s))")
    (auto simp: drv_open_def Let_def split: list.splits prod.splits)

function drv_ioctl_eintr :: "string \<Rightarrow> int list \<Rightarrow> 'a drv_scheme \<Rightarrow> (int \<times> drv_errno \<times> int list \<times> string) \<times> 'a drv_scheme" where
  "drv_ioctl_eintr req args s =
    (let r = drv_ioctl req args s
     in if fst (fst r) = -1 \<and> fst (snd (fst r)) = E_INTR then drv_ioctl_eintr req args (snd r) else r)"
  by pat_completeness auto
termination
  by (relation "measure (\<lambda>(req, args, s). length (drv_ioctls s))")
    (auto simp: drv_ioctl_def Let_def split: list.splits prod.splits)

declare drv_open_eintr.simps [simp del] drv_ioctl_eintr.simps [simp del]

text \<open>The failure exits: without and with \<open>close\<close>.\<close>

definition drv_none :: "int \<Rightarrow> 'a drv_scheme \<Rightarrow> int \<times> 'a drv_scheme" where
  "drv_none r s = (r, s\<lparr>esd_audio_fd := -1\<rparr>)"

definition drv_fail :: "int \<Rightarrow> int \<Rightarrow> 'a drv_scheme \<Rightarrow> int \<times> 'a drv_scheme" where
  "drv_fail r afd s = drv_none r (sys_close afd s)"

text \<open>Requests whose failure closes the device.\<close>

fun drv_requests :: "int \<Rightarrow> (string \<times> int list) list \<Rightarrow> ('a drv_scheme \<Rightarrow> int \<times> 'a drv_scheme) \<Rightarrow> 'a drv_scheme \<Rightarrow> int \<times> 'a drv_scheme" where
  "drv_requests afd [] next_step s = next_step s"
| "drv_requests afd ((req, args) # rs) next_step s =
    (let ((r, _), s) = drv_ioctl req args s
     in if r = -1 then drv_fail (-1) afd s else drv_requests afd rs next_step s)"

definition drv_opened :: "int \<Rightarrow> 'a drv_scheme \<Rightarrow> int \<times> 'a drv_scheme" where
  "drv_opened afd s = (afd, s\<lparr>esd_audio_fd := afd\<rparr>)"

definition drv_recording :: "'a drv_scheme \<Rightarrow> bool" where
  "drv_recording s \<longleftrightarrow> esd_audio_format s AND ESD_MASK_FUNC = ESD_RECORD"

definition drv_channels :: "'a drv_scheme \<Rightarrow> int" where
  "drv_channels s = (if esd_audio_format s AND ESD_MASK_CHAN = ESD_STEREO then 2 else 1)"

definition drv_bits :: "'a drv_scheme \<Rightarrow> int" where
  "drv_bits s = (if esd_audio_format s AND ESD_MASK_BITS = ESD_BITS16 then 16 else 8)"

subsection \<open>No device\<close>

definition none_audio_open :: "'a drv_scheme \<Rightarrow> int \<times> 'a drv_scheme" where
  "none_audio_open s = (-1, s)"

subsection \<open>AIX\<close>

text \<open>\<open>AUDIO_INIT\<close> takes the rate, the channels and the width; \<open>AUDIO_CONTROL\<close> balance and volume.\<close>

definition aix_audio_open :: "'a drv_scheme \<Rightarrow> int \<times> 'a drv_scheme" where
  "aix_audio_open s =
    (if drv_recording s then drv_none (-1) s
     else
       let ((afd, _), s) = drv_open ''/dev/paud0/1'' s
       in if afd = -1 then drv_none (-1) s
          else drv_requests afd
                 [(''AUDIO_INIT'', [esd_audio_rate s, drv_channels s, drv_bits s]),
                  (''AUDIO_CHANGE'', [0x3fff0000, 0, 0x7fffffff, 0]), (''AUDIO_START'', [])] (drv_opened afd) s)"

subsection \<open>HP-UX\<close>

text \<open>\<open>while (bsize) { if (ioctl (...) != -1) break; bsize >>= 1; }\<close>\<close>

function hpux_bufsize :: "int \<Rightarrow> 'a drv_scheme \<Rightarrow> int \<times> 'a drv_scheme" where
  "hpux_bufsize bsize s =
    (if bsize = 0 then (0, s)
     else let r = drv_ioctl ''AUDIO_SET_TXBUFSIZE'' [bsize] s
          in if fst (fst r) \<noteq> -1 then (bsize, snd r) else hpux_bufsize (drop_bit 1 bsize) (snd r))"
  by pat_completeness auto
termination
  by (relation "measure (\<lambda>(bsize, s). length (drv_ioctls s))")
    (auto simp: drv_ioctl_def Let_def split: list.splits prod.splits)

declare hpux_bufsize.simps [simp del]

text \<open>
  The last stage: the size of the buffer. The test of \<open>AUDIO_GET_LIMITS\<close> is the wrong way round: the limits are used
  when the call failed, so they are what was on the stack (here the word of the script).
\<close>

definition hpux_buffer :: "int \<Rightarrow> 'a drv_scheme \<Rightarrow> int \<times> 'a drv_scheme" where
  "hpux_buffer afd s =
    (let ((r, _, limits, _), s) = drv_ioctl ''AUDIO_GET_LIMITS'' [] s;
         (bsize, s) = hpux_bufsize (if r = 0 then push_bit 16 0x0100 else drv_word limits 0) s
     in if bsize = 0 then drv_fail (-1) afd s
        else drv_requests afd [(''AUDIO_SET_TXBUFSIZE'', [bsize])] (drv_opened afd) s)"

text \<open>A gain out of range is moved to the nearest end.\<close>

definition hpux_gain :: "int \<Rightarrow> int \<Rightarrow> int \<Rightarrow> int" where
  "hpux_gain lo hi g = (let g = (if g < lo then lo else g) in if g > hi then hi else g)"

definition hpux_gains :: "int \<Rightarrow> 'a drv_scheme \<Rightarrow> int \<times> 'a drv_scheme" where
  "hpux_gains afd s =
    (let ((r, _, desc, _), s) = drv_ioctl ''AUDIO_DESCRIBE'' [] s
     in if r = -1 then drv_fail (-1) afd s
        else
          let ((r, _, gains, _), s) = drv_ioctl ''AUDIO_GET_GAINS'' [] s
          in if r = -1 then drv_fail (-1) afd s
             else drv_requests afd
                    [(''AUDIO_SET_GAINS'', [hpux_gain (drv_word desc 0) (drv_word desc 1) (drv_word gains 0),
                                            hpux_gain (drv_word desc 0) (drv_word desc 1) (drv_word gains 1)])]
                    (hpux_buffer afd) s)"

text \<open>\<open>AUDIO_FORMAT_LINEAR16BIT\<close> is 0, \<open>AUDIO_FORMAT_ULAW\<close> 1, \<open>AUDIO_OUT_SPEAKER\<close> 1, \<open>O_NDELAY\<close> 4; \<open>F_GETFL\<close> gives the flags.\<close>

definition hpux_audio_open :: "'a drv_scheme \<Rightarrow> int \<times> 'a drv_scheme" where
  "hpux_audio_open s =
    (if drv_recording s then drv_none (-1) s
     else
       let ((afd, _), s) = drv_open ''/dev/audio'' s
       in if afd = -1 then drv_none (-1) s
          else
            let ((flags, _), s) = drv_ioctl ''F_GETFL'' [] s
            in if flags < 0 then drv_none (-1) s
               else
                 let (_, s) = drv_ioctl ''F_SETFL'' [flags OR 4] s
                 in drv_requests afd
                      [(''AUDIO_SET_DATA_FORMAT'', [if drv_bits s = 16 then 0 else 1]),
                       (''AUDIO_SET_CHANNELS'', [drv_channels s]), (''AUDIO_SET_OUTPUT'', [1]),
                       (''AUDIO_SET_SAMPLE_RATE'', [esd_audio_rate s])]
                      (\<lambda>s. if 0 > esd_audio_rate s then drv_fail (-1) afd s else hpux_gains afd s) s)"

subsection \<open>MkLinux\<close>

text \<open>Like OSS, without fragments; a failing \<open>open\<close> leaves \<open>esd_audio_fd\<close> alone.\<close>

definition mklinux_speed :: "int \<Rightarrow> 'a drv_scheme \<Rightarrow> int \<times> 'a drv_scheme" where
  "mklinux_speed afd s =
    (let ((r, _, ws, _), s) = drv_ioctl ''SNDCTL_DSP_SPEED'' [esd_audio_rate s] s
     in if r = -1 then drv_fail (-1) afd s
        else if \<bar>drv_word ws 0 - esd_audio_rate s\<bar> * 20 > esd_audio_rate s then drv_fail (-1) afd s
        else drv_opened afd s)"

definition mklinux_audio_open :: "'a drv_scheme \<Rightarrow> int \<times> 'a drv_scheme" where
  "mklinux_audio_open s =
    (let ((afd, _), s) = drv_open ''/dev/dsp'' s
     in if afd = -1 then (-1, s)
        else
          let s = (if drv_recording s then snd (drv_ioctl ''SNDCTL_DSP_SETDUPLEX'' [0] s) else s);
              value = drv_bits s;
              ((r, _, ws, _), s) = drv_ioctl ''SNDCTL_DSP_SETFMT'' [value] s
          in if r = -1 then drv_fail (-1) afd s
             else
               let test = drv_word ws 0;
                   ((r, _, ws, _), s) = drv_ioctl ''SNDCTL_DSP_GETFMTS'' [test] s;
                   test = (if r = -1 then test else drv_word ws 0)
               in if value AND test = 0 then drv_fail (-1) afd s
                  else drv_requests afd [(''SNDCTL_DSP_STEREO'', [drv_channels s - 1])] (mklinux_speed afd) s)"

definition mklinux_audio_pause :: "'a drv_scheme \<Rightarrow> 'a drv_scheme" where
  "mklinux_audio_pause s = snd (drv_ioctl ''SNDCTL_DSP_POST'' [0] s)"

text \<open>Stereo bytes are signed for this driver: they are converted in the caller's buffer. One \<open>write\<close>, whatever it takes.\<close>

definition mklinux_convert :: "octet list \<Rightarrow> 'a drv_scheme \<Rightarrow> octet list" where
  "mklinux_convert buf s = (if drv_channels s = 2 \<and> drv_bits s = 8 then map (\<lambda>b. b XOR 0x80) buf else buf)"

definition mklinux_audio_write :: "octet list \<Rightarrow> 'a drv_scheme \<Rightarrow> (int \<times> octet list) \<times> 'a drv_scheme" where
  "mklinux_audio_write buf s =
    (let buf = mklinux_convert buf s;
         ((n, _), s) = sys_write (esd_audio_fd s) buf s
     in ((n, buf), s))"

subsection \<open>Solaris\<close>

text \<open>
  The ports are 1 (\<open>AUDIO_SPEAKER\<close>), 2 (\<open>AUDIO_HEADPHONE\<close>), 4 (\<open>AUDIO_LINE_OUT\<close>), 8 (\<open>AUDIO_SPDIF_OUT\<close>), 16 (\<open>AUDIO_AUX1_OUT\<close>) and
  32 (\<open>AUDIO_AUX2_OUT\<close>), of a system that has them all.
\<close>

definition solaris_device :: "'a drv_scheme \<Rightarrow> string" where
  "solaris_device s = (case AUDIODEV s of Some d \<Rightarrow> d | None \<Rightarrow> ''/dev/audio'')"

definition port_names :: "int \<Rightarrow> string" where
  "port_names ports = concat (map snd (filter (\<lambda>(p, n). ports AND p \<noteq> 0)
     [(1, '', speaker''), (2, '', headphone''), (4, '', lineout''), (8, '', spdif''), (16, '', aux1''), (32, '', aux2'')]))"

text \<open>
  \<open>esd_audio_devices\<close> skips the first two characters of the list of ports; when the list is empty it returns what
  lies behind its end: \<open>None\<close>. The words of \<open>AUDIO_GETINFO\<close> are the ports for recording and playing.
\<close>

definition skip_comma :: "string \<Rightarrow> string option" where
  "skip_comma str = (if length str < 2 then None else Some (drop 2 str))"

definition solaris_audio_devices :: "'a drv_scheme \<Rightarrow> string option \<times> 'a drv_scheme" where
  "solaris_audio_devices s =
    (case my_ports s of
       Some str \<Rightarrow> (skip_comma str, s)
     | None \<Rightarrow>
         let ((fd, e), s) = drv_open_eintr (solaris_device s @ ''ctl'') s
         in if fd = -1 then (Some (if e = E_BUSY then ''speaker, lineout, headphone'' else []), s)
            else
              let ((err, _, ws, _), s) = drv_ioctl_eintr ''AUDIO_GETINFO'' [] s;
                  s = sys_close fd s
              in if err = -1 then (Some ''speaker, lineout, headphone'', s)
                 else
                   let (a, s) = malloc 100 s
                   in if a = 0 then (Some ''speaker, lineout, headphone'', s)
                      else let str = port_names (drv_word ws 0 OR drv_word ws 1)
                           in (skip_comma str, s\<lparr>my_ports := Some str\<rparr>))"

definition solaris_port :: "string option \<Rightarrow> int option" where
  "solaris_port dev =
    (case dev of
       None \<Rightarrow> Some 0
     | Some d \<Rightarrow> map_of [(''lineout'', 4), (''speaker'', 1), (''headphone'', 2), (''spdif'', 8), (''aux1'', 16), (''aux2'', 32)] d)"

text \<open>
  \<open>fill_play_info\<close>: rate, channels, precision, encoding (3 is linear), port and size of the buffer, and \<open>output_muted\<close>.
  \<open>AUDIO_INITINFO\<close> has set everything to -1, for no change.
\<close>

definition fill_play_info :: "'a drv_scheme \<Rightarrow> int list option" where
  "fill_play_info s =
    map_option (\<lambda>port. [esd_audio_rate s, drv_channels s, drv_bits s, 3, if port \<noteq> 0 then port else -1, 8180, 0])
      (solaris_port (esd_audio_device s))"

text \<open>For recording: rate, channels, precision, encoding, gain, port (1 is \<open>AUDIO_MICROPHONE\<close>), balance (32 is the middle), size.\<close>

definition fill_record_info :: "'a drv_scheme \<Rightarrow> int list" where
  "fill_record_info s = [esd_audio_rate s, drv_channels s, drv_bits s, 3, 255, 1, 32, 8180]"

text \<open>
  Recording goes through the control device first, whose descriptor is closed on one of the paths only;
  where the output device is unknown, \<open>afd\<close>, still -1, is closed instead.
\<close>

definition solaris_open_record :: "'a drv_scheme \<Rightarrow> int \<times> 'a drv_scheme" where
  "solaris_open_record s =
    (let dev = solaris_device s;
         ((cafd, _), s) = drv_open_eintr (dev @ ''ctl'') s
     in if cafd = -1 then drv_none (-1) s
        else
          let ((err, _, _, name), s) = drv_ioctl_eintr ''AUDIO_GETDEV'' [] s
          in if err = -1 then drv_fail (-1) cafd s
             else if name = ''SUNW,am79c30'' then drv_none (-2) s
             else case fill_play_info s of
               None \<Rightarrow> drv_fail (-1) (-1) s
             | Some info \<Rightarrow>
                 let ((afd, _), s) = drv_open_eintr dev s
                 in if afd = -1 then drv_none (-1) s
                    else
                      let ((err, _), s) = drv_ioctl_eintr ''AUDIO_SETINFO'' (fill_record_info s @ info) s
                      in if err = -1 then drv_none (-1) s else drv_opened afd s)"

definition solaris_open_play :: "'a drv_scheme \<Rightarrow> int \<times> 'a drv_scheme" where
  "solaris_open_play s =
    (let ((afd, _), s) = drv_open_eintr (solaris_device s) s
     in if afd = -1 then drv_none (-2) s
        else
          let ((err, _, _, name), s) = drv_ioctl_eintr ''AUDIO_GETDEV'' [] s
          in if err = -1 then drv_fail (-2) afd s
             else if name = ''SUNW,am79c30'' then drv_fail (-1) afd s
             else case fill_play_info s of
               None \<Rightarrow> drv_fail (-1) afd s
             | Some info \<Rightarrow>
                 let ((err, _), s) = drv_ioctl_eintr ''AUDIO_SETINFO'' info s
                 in if err = -1 then drv_fail (-1) afd s else drv_opened afd s)"

definition solaris_audio_open :: "'a drv_scheme \<Rightarrow> int \<times> 'a drv_scheme" where
  "solaris_audio_open s = (if drv_recording s then solaris_open_record s else solaris_open_play s)"

text \<open>
  The conditions of \<open>esd_audio_flush\<close> as C reads them: comparison binds tighter than \<open>&\<close>, and that tighter than \<open>|\<close>.
  \<open>I_FLUSH\<close> takes 1 (\<open>FLUSHR\<close>), 2 (\<open>FLUSHW\<close>) or 3 (\<open>FLUSHRW\<close>).
\<close>

definition c_eq :: "int \<Rightarrow> int \<Rightarrow> int" where
  "c_eq a b = (if a = b then 1 else 0)"

definition solaris_audio_flush :: "'a drv_scheme \<Rightarrow> 'a drv_scheme" where
  "solaris_audio_flush s =
    (let f = esd_audio_format s
     in if (f AND c_eq (ESD_PLAY OR ESD_RECORD) ESD_PLAY) OR ESD_RECORD \<noteq> 0 then snd (drv_ioctl ''I_FLUSH'' [3] s)
        else if f AND c_eq ESD_PLAY ESD_PLAY \<noteq> 0 then snd (drv_ioctl ''I_FLUSH'' [2] s)
        else if f AND c_eq ESD_RECORD ESD_RECORD \<noteq> 0 then snd (drv_ioctl ''I_FLUSH'' [1] s)
        else s)"

definition solaris_audio_close :: "'a drv_scheme \<Rightarrow> 'a drv_scheme" where
  "solaris_audio_close s = sys_close (esd_audio_fd s) s"

end
