(* ===== verification/Esd_Drivers_Laws.thy ===== *)
theory Esd_Drivers_Laws
  imports Esd_Drivers
begin

text \<open>
  What the drivers for other systems promise: they implement the interface \<open>audio_opener\<close>, and those that close
  the device with the function of \<open>audio.c\<close> the interface \<open>audio_device\<close>, too.
\<close>

subsection \<open>Opening\<close>

text \<open>The result of a driver's \<open>open\<close> agrees with the descriptor it leaves.\<close>

definition fd_agrees :: "int \<times> 'a drv_scheme \<Rightarrow> bool" where
  "fd_agrees = (\<lambda>(r, s). esd_audio_fd s = (if r < 0 then -1 else r))"

lemma fd_agrees_exits [intro!]:
  "r < 0 \<Longrightarrow> fd_agrees (drv_none r s)" "r < 0 \<Longrightarrow> fd_agrees (drv_fail r afd s)" "0 \<le> afd \<Longrightarrow> fd_agrees (drv_opened afd s)"
  by (simp_all add: fd_agrees_def drv_fail_def drv_none_def drv_opened_def)

lemma fd_agrees_requests: "(\<And>s. fd_agrees (next_step s)) \<Longrightarrow> fd_agrees (drv_requests afd rs next_step s)"
  by (induction rs arbitrary: s) (auto simp: Let_def case_prod_beta)

lemma drv_open_range: "drv_open path s = ((r, e), s') \<Longrightarrow> r \<noteq> -1 \<Longrightarrow> 0 \<le> r"
  by (auto simp: drv_open_def Let_def split: list.splits prod.splits if_splits)

lemma drv_open_eintr_range: "drv_open_eintr path s = ((r, e), s') \<Longrightarrow> r \<noteq> -1 \<Longrightarrow> 0 \<le> r"
proof (induction path s rule: drv_open_eintr.induct)
  case (1 path s)
  then show ?case
    by (cases "fst (drv_open path s) = (-1, E_INTR)")
      (auto simp: drv_open_eintr.simps [of path s] Let_def dest: drv_open_range)
qed

lemma aix_fd: "fd_agrees (aix_audio_open s)"
  by (auto simp: aix_audio_open_def intro!: fd_agrees_requests split: prod.splits dest!: drv_open_range)

lemma hpux_fd: "fd_agrees (hpux_audio_open s)"
proof -
  have b: "0 \<le> afd \<Longrightarrow> fd_agrees (hpux_buffer afd s)" for afd and s :: "'a drv_scheme"
    by (auto simp: hpux_buffer_def Let_def intro!: fd_agrees_requests split: prod.splits)
  have g: "0 \<le> afd \<Longrightarrow> fd_agrees (hpux_gains afd s)" for afd and s :: "'a drv_scheme"
    by (auto simp: hpux_gains_def Let_def intro!: fd_agrees_requests b split: prod.splits)
  obtain afd e s1 where o: "drv_open ''/dev/audio'' s = ((afd, e), s1)" by (metis surj_pair)
  obtain flags x s2 where f: "drv_ioctl ''F_GETFL'' [] s1 = ((flags, x), s2)" by (metis surj_pair)
  show ?thesis
  proof (cases "drv_recording s \<or> afd = -1 \<or> flags < 0")
    case True
    then show ?thesis unfolding hpux_audio_open_def o f Let_def prod.case by (auto simp del: drv_requests.simps)
  next
    case False
    then have "0 \<le> afd" using drv_open_range [OF o] by simp
    then have "fd_agrees (if 0 > esd_audio_rate t then drv_fail (-1) afd t else hpux_gains afd t)" for t :: "'a drv_scheme"
      using g by (simp add: fd_agrees_exits)
    then show ?thesis using False unfolding hpux_audio_open_def o f Let_def prod.case
      by (simp add: case_prod_beta fd_agrees_requests del: drv_requests.simps)
  qed
qed

lemma solaris_fd: "fd_agrees (solaris_audio_open s)"
proof -
  have "fd_agrees (solaris_open_record s)"
    by (auto simp: solaris_open_record_def Let_def split: prod.splits option.splits dest!: drv_open_eintr_range)
  moreover have "fd_agrees (solaris_open_play s)"
    by (auto simp: solaris_open_play_def Let_def split: prod.splits option.splits dest!: drv_open_eintr_range)
  ultimately show ?thesis by (simp add: solaris_audio_open_def)
qed

lemma mklinux_fd:
  assumes "mklinux_audio_open s = (r, s')"
  shows "fd_agrees (r, s') \<or> r = -1 \<and> esd_audio_fd s' = esd_audio_fd s"
proof -
  obtain afd e s1 where o: "drv_open ''/dev/dsp'' s = ((afd, e), s1)" by (metis surj_pair)
  show ?thesis
  proof (cases "afd = -1")
    case True
    then have "r = -1" "s' = s1" using assms o by (simp_all add: mklinux_audio_open_def)
    moreover have "esd_audio_fd s1 = esd_audio_fd s"
      using o by (auto simp: drv_open_def Let_def split: list.splits)
    ultimately show ?thesis by simp
  next
    case False
    then have a: "0 \<le> afd" using drv_open_range [OF o] by simp
    then have "fd_agrees (mklinux_speed afd t)" for t :: "'a drv_scheme"
      by (auto simp: mklinux_speed_def Let_def split: prod.splits)
    then have "fd_agrees (mklinux_audio_open s)"
      using False unfolding mklinux_audio_open_def o Let_def prod.case
      by (simp add: case_prod_beta fd_agrees_requests fd_agrees_exits del: drv_requests.simps)
    then show ?thesis unfolding assms by simp
  qed
qed

interpretation aix: audio_device aix_audio_open esd_audio_fd esd_audio_close
proof
  fix s s' :: "'a drv_scheme" and r
  assume o: "aix_audio_open s = (r, s')"
  show "0 \<le> r \<Longrightarrow> esd_audio_fd s' = r" "r < 0 \<Longrightarrow> esd_audio_fd s' = -1"
    using aix_fd [of s] unfolding o fd_agrees_def by auto
qed (simp add: esd_audio_close_def)

interpretation hpux: audio_device hpux_audio_open esd_audio_fd esd_audio_close
proof
  fix s s' :: "'a drv_scheme" and r
  assume o: "hpux_audio_open s = (r, s')"
  show "0 \<le> r \<Longrightarrow> esd_audio_fd s' = r" "r < 0 \<Longrightarrow> esd_audio_fd s' = -1"
    using hpux_fd [of s] unfolding o fd_agrees_def by auto
qed (simp add: esd_audio_close_def)

interpretation mklinux: audio_device mklinux_audio_open esd_audio_fd esd_audio_close
proof
  fix s s' :: "'a drv_scheme" and r
  assume "mklinux_audio_open s = (r, s')"
  from mklinux_fd [OF this]
  show "0 \<le> r \<Longrightarrow> esd_audio_fd s' = r" "r < 0 \<Longrightarrow> esd_audio_fd s = -1 \<Longrightarrow> esd_audio_fd s' = -1"
    unfolding fd_agrees_def by auto
qed (simp add: esd_audio_close_def)

interpretation no_driver: audio_device none_audio_open esd_audio_fd esd_audio_close
  by unfold_locales (auto simp: none_audio_open_def esd_audio_close_def)

interpretation solaris: audio_opener solaris_audio_open esd_audio_fd
proof
  fix s s' :: "'a drv_scheme" and r
  assume o: "solaris_audio_open s = (r, s')"
  show "0 \<le> r \<Longrightarrow> esd_audio_fd s' = r" "r < 0 \<Longrightarrow> esd_audio_fd s' = -1"
    using solaris_fd [of s] unfolding o fd_agrees_def by auto
qed

text \<open>
  After the device has been closed and opened again, as for every change of its settings, the descriptor in use
  tells whether opening succeeded.
\<close>

lemma drivers_reopen:
  fixes s :: "'a audio_scheme" and t :: "'b drv_scheme"
  shows "(esd_audio_fd (snd (esd_audio_open (esd_audio_close s))) \<noteq> -1) = (0 \<le> fst (esd_audio_open (esd_audio_close s)))"
    "(esd_audio_fd (snd (aix_audio_open (esd_audio_close t))) \<noteq> -1) = (0 \<le> fst (aix_audio_open (esd_audio_close t)))"
    "(esd_audio_fd (snd (hpux_audio_open (esd_audio_close t))) \<noteq> -1) = (0 \<le> fst (hpux_audio_open (esd_audio_close t)))"
    "(esd_audio_fd (snd (mklinux_audio_open (esd_audio_close t))) \<noteq> -1) = (0 \<le> fst (mklinux_audio_open (esd_audio_close t)))"
    "(esd_audio_fd (snd (none_audio_open (esd_audio_close t))) \<noteq> -1) = (0 \<le> fst (none_audio_open (esd_audio_close t)))"
  by (fact oss.reopen_held_iff aix.reopen_held_iff hpux.reopen_held_iff mklinux.reopen_held_iff no_driver.reopen_held_iff)+

subsection \<open>Descriptors\<close>

text \<open>What becomes of a descriptor that was opened: it is closed, and opening fails, or it is in use, and nothing is closed.\<close>

definition settled :: "int \<Rightarrow> int list \<Rightarrow> int \<times> 'a drv_scheme \<Rightarrow> bool" where
  "settled afd cl = (\<lambda>(r, s'). r = -1 \<and> esd_audio_fd s' = -1 \<and> closed s' = cl @ [afd]
     \<or> r = afd \<and> esd_audio_fd s' = afd \<and> closed s' = cl)"

lemma drv_ioctl_keeps: "closed (snd (drv_ioctl req args s)) = closed s" "drv_paths (snd (drv_ioctl req args s)) = drv_paths s"
  "drv_opens (snd (drv_ioctl req args s)) = drv_opens s"
  by (auto simp: drv_ioctl_def Let_def split: list.splits)

lemma settled_exits:
  "closed s = cl \<Longrightarrow> settled afd cl (drv_fail (-1) afd s)" "closed s = cl \<Longrightarrow> settled afd cl (drv_opened afd s)"
  by (simp_all add: settled_def drv_fail_def drv_none_def drv_opened_def sys_close_def)

lemma settled_requests:
  "(\<And>s. closed s = cl \<Longrightarrow> settled afd cl (next_step s)) \<Longrightarrow> closed s = cl \<Longrightarrow> settled afd cl (drv_requests afd rs next_step s)"
  by (induction rs arbitrary: s) (auto simp: Let_def case_prod_beta settled_exits drv_ioctl_keeps)

lemmas settled_laws = settled_exits settled_requests drv_ioctl_keeps

lemma drv_open_next: "drv_opens s = (afd, e) # os \<Longrightarrow> 0 \<le> afd \<Longrightarrow> \<exists>s1. drv_open path s = ((afd, e), s1)
    \<and> closed s1 = closed s \<and> drv_ioctls s1 = drv_ioctls s"
  by (simp add: drv_open_def)

lemma aix_settled:
  assumes "drv_opens s = (afd, e) # os" "0 \<le> afd" "\<not> drv_recording s"
  shows "settled afd (closed s) (aix_audio_open s)"
proof -
  obtain s1 where "drv_open ''/dev/paud0/1'' s = ((afd, e), s1)" "closed s1 = closed s" using drv_open_next [OF assms(1,2)] by blast
  then show ?thesis using assms(2,3) by (simp add: aix_audio_open_def settled_laws del: drv_requests.simps)
qed

lemma mklinux_settled:
  assumes "drv_opens s = (afd, e) # os" "0 \<le> afd"
  shows "settled afd (closed s) (mklinux_audio_open s)"
proof -
  obtain s1 where s1: "drv_open ''/dev/dsp'' s = ((afd, e), s1)" "closed s1 = closed s" using drv_open_next [OF assms] by blast
  have "settled afd (closed s) (mklinux_speed afd t)" if "closed t = closed s" for t :: "'a drv_scheme"
    using that by (simp add: mklinux_speed_def Let_def case_prod_beta settled_laws)
  note sp = settled_requests [of "closed s" afd "mklinux_speed afd", OF this]
  show ?thesis using s1 assms(2)
    by (simp add: mklinux_audio_open_def Let_def case_prod_beta settled_exits sp drv_ioctl_keeps del: drv_requests.simps)
qed

lemma hpux_bufsize_keeps: "closed (snd (hpux_bufsize b s)) = closed s"
proof (induction b s rule: hpux_bufsize.induct)
  case (1 b s)
  then show ?case by (simp add: hpux_bufsize.simps [of b s] Let_def drv_ioctl_keeps)
qed

lemma hpux_settled:
  assumes "drv_opens s = (afd, e) # os" "0 \<le> afd" "\<not> drv_recording s" "drv_ioctls s = [] \<or> 0 \<le> fst (hd (drv_ioctls s))"
  shows "settled afd (closed s) (hpux_audio_open s)"
proof -
  obtain s1 where s1: "drv_open ''/dev/audio'' s = ((afd, e), s1)" "closed s1 = closed s" "drv_ioctls s1 = drv_ioctls s"
    using drv_open_next [OF assms(1,2)] by blast
  have f: "0 \<le> fst (fst (drv_ioctl ''F_GETFL'' [] s1))" using assms(4) s1(3) by (auto simp: drv_ioctl_def Let_def split: list.splits)
  have b: "settled afd (closed s) (hpux_buffer afd t)" if "closed t = closed s" for t :: "'a drv_scheme"
    using that by (simp add: hpux_buffer_def Let_def case_prod_beta settled_laws hpux_bufsize_keeps del: drv_requests.simps)
  note b' = settled_requests [of "closed s" afd "hpux_buffer afd", OF b]
  have "settled afd (closed s) (if 0 > esd_audio_rate t then drv_fail (-1) afd t else hpux_gains afd t)" if "closed t = closed s"
    for t :: "'a drv_scheme"
    using that by (simp add: hpux_gains_def Let_def case_prod_beta settled_exits b' drv_ioctl_keeps del: drv_requests.simps)
  note g' = settled_requests [of "closed s" afd, OF this]
  show ?thesis using assms(2,3) f s1(2) unfolding hpux_audio_open_def s1(1) Let_def prod.case
    by (simp add: case_prod_beta settled_exits g' drv_ioctl_keeps del: drv_requests.simps)
qed

text \<open>
  C39. No descriptor is lost when a device cannot be set up: with the drivers for AIX, MkLinux and HP-UX, once the
  device has been opened (which those for AIX and HP-UX refuse to do for recording), either its descriptor is returned and in
  use, and nothing has been closed; or -1 is returned, none is in use, and exactly this descriptor has been closed. The
  exception is \<open>F_GETFL\<close> on HP-UX: when it fails, -1 is returned and the descriptor stays open without being in use.
\<close>

theorem drivers_close_on_failure:
  assumes "drv_opens s = (afd, e) # os" "0 \<le> afd"
  shows "((r, s') = aix_audio_open s \<and> \<not> drv_recording s \<or> (r, s') = mklinux_audio_open s
      \<or> (r, s') = hpux_audio_open s \<and> \<not> drv_recording s \<and> (drv_ioctls s = [] \<or> 0 \<le> fst (hd (drv_ioctls s))) \<longrightarrow>
      r = -1 \<and> esd_audio_fd s' = -1 \<and> closed s' = closed s @ [afd] \<or> r = afd \<and> esd_audio_fd s' = afd \<and> closed s' = closed s)
    \<and> ((r, s') = hpux_audio_open s \<and> \<not> drv_recording s \<and> drv_ioctls s = (flags, x) # rest \<and> flags < 0 \<longrightarrow>
      r = -1 \<and> esd_audio_fd s' = -1 \<and> closed s' = closed s)"
proof (intro conjI impI)
  assume "(r, s') = aix_audio_open s \<and> \<not> drv_recording s \<or> (r, s') = mklinux_audio_open s
    \<or> (r, s') = hpux_audio_open s \<and> \<not> drv_recording s \<and> (drv_ioctls s = [] \<or> 0 \<le> fst (hd (drv_ioctls s)))"
  then have "settled afd (closed s) (r, s')" using aix_settled [OF assms] mklinux_settled [OF assms] hpux_settled [OF assms] by metis
  then show "r = -1 \<and> esd_audio_fd s' = -1 \<and> closed s' = closed s @ [afd] \<or> r = afd \<and> esd_audio_fd s' = afd \<and> closed s' = closed s"
    by (simp add: settled_def)
next
  assume h: "(r, s') = hpux_audio_open s \<and> \<not> drv_recording s \<and> drv_ioctls s = (flags, x) # rest \<and> flags < 0"
  obtain s1 where "drv_open ''/dev/audio'' s = ((afd, e), s1)" "closed s1 = closed s" "drv_ioctls s1 = drv_ioctls s"
    using drv_open_next [OF assms] by blast
  then have "hpux_audio_open s = drv_none (-1) (snd (drv_ioctl ''F_GETFL'' [] s1))" "closed (snd (drv_ioctl ''F_GETFL'' [] s1)) = closed s"
    using h assms(2) by (simp_all add: hpux_audio_open_def drv_ioctl_def)
  then show "r = -1" "esd_audio_fd s' = -1" "closed s' = closed s" using h by (simp_all add: drv_none_def)
qed

text \<open>A device that opens as descriptor 7; its second request fails on AIX and MkLinux, and \<open>F_GETFL\<close> on HP-UX.\<close>

definition drv1 :: drv where
  "drv1 = audio.extend audio0 (drv.fields [(7, E_OTHER)] [(0, E_OTHER, [16], []), (-1, E_OTHER, [], [])] [] [] None None None)"

definition drv2 :: drv where
  "drv2 = audio.extend audio0 (drv.fields [(7, E_OTHER)] [(-1, E_OTHER, [], [])] [] [] None None None)"

theorem drivers_close_on_failure_witness:
  "fst (aix_audio_open drv1) = -1 \<and> closed (snd (aix_audio_open drv1)) = closed drv1 @ [7]
   \<and> fst (mklinux_audio_open (drv1\<lparr>drv_ioctls := []\<rparr>)) = 7 \<and> closed (snd (mklinux_audio_open (drv1\<lparr>drv_ioctls := []\<rparr>))) = closed drv1
   \<and> fst (hpux_audio_open drv2) = -1 \<and> closed (snd (hpux_audio_open drv2)) = closed drv2"
proof -
  let ?m = "drv1\<lparr>drv_ioctls := []\<rparr>"
  have o: "drv_opens drv1 = [(7, E_OTHER)]" "drv_opens ?m = [(7, E_OTHER)]" "drv_opens drv2 = [(7, E_OTHER)]" "closed ?m = closed drv1"
      "drv_ioctls drv2 = [(-1, E_OTHER, [], [])]"
    by (simp_all add: drv1_def drv2_def audio.defs drv.defs)
  have r: "fst (aix_audio_open drv1) = -1" "fst (mklinux_audio_open ?m) = 7" "\<not> drv_recording drv1" "\<not> drv_recording drv2" by code_simp+
  obtain a where a: "aix_audio_open drv1 = (-1, a)" using r(1) by (cases "aix_audio_open drv1") simp
  obtain m where m: "mklinux_audio_open ?m = (7, m)" using r(2) by (cases "mklinux_audio_open ?m") simp
  obtain q h where h: "hpux_audio_open drv2 = (q, h)" by fastforce
  have "closed a = closed drv1 @ [7]" using drivers_close_on_failure [OF o(1), of "-1" a] a r by simp
  moreover have "closed m = closed drv1" using drivers_close_on_failure [OF o(2), of 7 m] m o(4) by simp
  moreover have "q = -1 \<and> closed h = closed drv2"
    using drivers_close_on_failure [OF o(3), of q h "-1" "(E_OTHER, [], [])" "[]"] h r o(5) by simp
  ultimately show ?thesis using a m h by simp
qed

subsection \<open>Solaris\<close>

text \<open>The comparison in the first condition of \<open>esd_audio_flush\<close> makes it true always: both directions are flushed.\<close>

lemma solaris_flushes_both: "drv_calls (solaris_audio_flush s) = drv_calls s @ [(''I_FLUSH'', [3])]"
  by (auto simp: solaris_audio_flush_def c_eq_def drv_ioctl_def Let_def split: list.splits)

text \<open>Closing does not forget the descriptor, so closing again closes whatever has got its number.\<close>

lemma solaris_close_repeats:
  "closed (solaris_audio_close (solaris_audio_close s)) = closed s @ [esd_audio_fd s, esd_audio_fd s]"
  by (simp add: solaris_audio_close_def sys_close_def)

lemma drv_ioctl_eintr_keeps:
  "closed (snd (drv_ioctl_eintr req args s)) = closed s \<and> drv_paths (snd (drv_ioctl_eintr req args s)) = drv_paths s"
proof (induction req args s rule: drv_ioctl_eintr.induct)
  case (1 req args s)
  then show ?case by (simp add: drv_ioctl_eintr.simps [of req args s] Let_def drv_ioctl_keeps)
qed

lemma drv_open_eintr_keeps:
  "closed (snd (drv_open_eintr path s)) = closed s \<and> (\<exists>n. drv_paths (snd (drv_open_eintr path s)) = drv_paths s @ replicate (Suc n) path)"
proof (induction path s rule: drv_open_eintr.induct)
  case (1 path s)
  let ?s = "snd (drv_open path s)"
  have k: "closed ?s = closed s" "drv_paths ?s = drv_paths s @ [path]"
    by (auto simp: drv_open_def Let_def split: list.splits)
  show ?case
  proof (cases "fst (drv_open path s) = (-1, E_INTR)")
    case True
    then obtain n where "drv_paths (snd (drv_open_eintr path ?s)) = drv_paths ?s @ replicate (Suc n) path" "closed (snd (drv_open_eintr path ?s)) = closed s"
      using 1 k by auto
    then show ?thesis using True k by (simp add: drv_open_eintr.simps [of path s] Let_def) (rule exI [of _ "Suc n"]; simp)
  next
    case False
    then show ?thesis using k by (auto simp: drv_open_eintr.simps [of path s] Let_def intro: exI [of _ 0])
  qed
qed

lemma solaris_record_opens:
  assumes "solaris_open_record s = (r, s')" "0 \<le> r"
  shows "closed s' = closed s
    \<and> (\<exists>n m. drv_paths s' = drv_paths s @ replicate (Suc n) (solaris_device s @ ''ctl'') @ replicate (Suc m) (solaris_device s))"
proof -
  let ?d = "solaris_device s"
  obtain cafd e1 s1 where o: "drv_open_eintr (?d @ ''ctl'') s = ((cafd, e1), s1)" by (metis surj_pair)
  obtain err e2 ws name s2 where g: "drv_ioctl_eintr ''AUDIO_GETDEV'' [] s1 = ((err, e2, ws, name), s2)" by (metis surj_pair)
  obtain afd e3 s3 where p: "drv_open_eintr ?d s2 = ((afd, e3), s3)" by (metis surj_pair)
  obtain info where i: "fill_play_info s2 = Some info"
    using assms unfolding solaris_open_record_def Let_def o g prod.case
    by (auto simp: drv_none_def drv_fail_def split: if_splits option.splits)
  obtain err2 x s4 where q: "drv_ioctl_eintr ''AUDIO_SETINFO'' (fill_record_info s3 @ info) s3 = ((err2, x), s4)" by (metis surj_pair)
  have "s' = s4\<lparr>esd_audio_fd := afd\<rparr>"
    using assms unfolding solaris_open_record_def Let_def o g prod.case i option.case p q
    by (auto simp: drv_none_def drv_fail_def drv_opened_def split: if_splits)
  moreover obtain n where "closed s1 = closed s" "drv_paths s1 = drv_paths s @ replicate (Suc n) (?d @ ''ctl'')"
    using drv_open_eintr_keeps [of "?d @ ''ctl''" s] o by auto
  moreover have "closed s2 = closed s1" "drv_paths s2 = drv_paths s1" using drv_ioctl_eintr_keeps [of "''AUDIO_GETDEV''" "[]" s1] g by simp_all
  moreover obtain m where "closed s3 = closed s2" "drv_paths s3 = drv_paths s2 @ replicate (Suc m) ?d"
    using drv_open_eintr_keeps [of ?d s2] p by auto
  moreover have "closed s4 = closed s3" "drv_paths s4 = drv_paths s3"
    using drv_ioctl_eintr_keeps [of "''AUDIO_SETINFO''" "fill_record_info s3 @ info" s3] q by simp_all
  ultimately show ?thesis by (simp del: replicate.simps) (rule exI [of _ n], rule exI [of _ m], rule refl)
qed

lemma solaris_play_closes:
  assumes "solaris_open_play s = (r, s')" "r < 0"
  shows "r = -2 \<and> closed s' = closed s \<or> (\<exists>afd. closed s' = closed s @ [afd] \<and> 0 \<le> afd)"
proof -
  obtain afd e1 s1 where o: "drv_open_eintr (solaris_device s) s = ((afd, e1), s1)" by (metis surj_pair)
  obtain err e2 ws name s2 where g: "drv_ioctl_eintr ''AUDIO_GETDEV'' [] s1 = ((err, e2, ws, name), s2)" by (metis surj_pair)
  have c: "closed s1 = closed s" "closed s2 = closed s" "closed (snd (drv_ioctl_eintr ''AUDIO_SETINFO'' info s2)) = closed s" for info
    using drv_open_eintr_keeps [of "solaris_device s" s] drv_ioctl_eintr_keeps [of "''AUDIO_GETDEV''" "[]" s1]
      drv_ioctl_eintr_keeps [of "''AUDIO_SETINFO''" info s2] o g by simp_all
  show ?thesis using assms drv_open_eintr_range [OF o] unfolding solaris_open_play_def Let_def o g prod.case
    by (auto simp: drv_none_def drv_fail_def drv_opened_def sys_close_def c case_prod_beta split: if_splits option.splits)
qed

text \<open>
  Opening a Solaris device for recording opens two devices, the control device first, and closes neither when it
  succeeds: every recording leaves one descriptor behind. For playing there is one, which is closed unless opening
  succeeds.
\<close>

theorem solaris_record_leaks:
  assumes "solaris_audio_open s = (r, s')"
  shows "(drv_recording s \<and> 0 \<le> r \<longrightarrow> closed s' = closed s
       \<and> (\<exists>n m. drv_paths s' = drv_paths s @ replicate (Suc n) (solaris_device s @ ''ctl'') @ replicate (Suc m) (solaris_device s)))
    \<and> (\<not> drv_recording s \<and> r < 0 \<longrightarrow> r = -2 \<and> closed s' = closed s \<or> (\<exists>afd. closed s' = closed s @ [afd] \<and> 0 \<le> afd))"
  using assms solaris_record_opens [of s r s'] solaris_play_closes [of s r s']
  by (cases "drv_recording s") (simp_all add: solaris_audio_open_def del: replicate.simps)

text \<open>A device that answers every request, asked to record; the first \<open>open\<close> is interrupted.\<close>

definition drv0 :: drv where
  "drv0 = audio.extend (audio0\<lparr>esd_audio_format := 0x2021\<rparr>)
     (drv.fields [(-1, E_INTR), (7, E_OTHER), (8, E_OTHER)] [] [] [] None None None)"

theorem solaris_record_leaks_witness:
  "closed (snd (solaris_audio_open drv0)) = closed drv0 \<and> fst (solaris_audio_open drv0) = 8"
proof -
  have r: "fst (solaris_audio_open drv0) = 8" and d: "drv_recording drv0" by code_simp+
  from solaris_record_leaks [OF prod.collapse [symmetric], of drv0] r d show ?thesis by simp
qed

subsection \<open>Values\<close>

text \<open>The HP-UX driver brings a gain into range and leaves one in range alone.\<close>

lemma hpux_gain_in_range:
  "lo \<le> hi \<Longrightarrow> lo \<le> hpux_gain lo hi g \<and> hpux_gain lo hi g \<le> hi" "lo \<le> g \<Longrightarrow> g \<le> hi \<Longrightarrow> hpux_gain lo hi g = g"
  by (auto simp: hpux_gain_def Let_def)

text \<open>The conversion of the MkLinux driver subtracts 128 modulo 256 from every byte, and so undoes itself.\<close>

lemma mklinux_convert_twice: "mklinux_convert (mklinux_convert buf s) s = buf"
  by (simp add: mklinux_convert_def comp_def xor.assoc)

end
