(* ===== verification/Esd_Osf.thy ===== *)
theory Esd_Osf
  imports Esd_Drivers
begin

text \<open>
  The driver for Tru64 (\<open>audio_osf.c\<close>), which hands buffers to the multimedia services (MME) and learns through
  callbacks that they have been played. The services are not part of the program: the results of their calls are scripts, as
  for the other drivers, and the buffers they hold are a queue. \<open>None\<close> is a loop that does not end, or an access outside of a
  buffer. Messages are left out.
\<close>

unbundle bit_operations_syntax

subsection \<open>The services\<close>

text \<open>
  What a callback is called for: \<open>WOM_DONE\<close> is about the buffer that has been waiting longest, \<open>WIM_DATA\<close> brings data. The
  other messages do nothing.
\<close>

datatype wave_msg = WOM_DONE | WIM_DATA "octet list" | WM_OTHER

text \<open>
  The static variables (0 is the null handle), and the services: the buffers they hold, what they have played, and the
  callbacks that are pending each time the driver looks. When this script is used up, all buffers have been played.
\<close>

record osf = drv +
  hWaveOut :: int
  hWaveIn :: int
  nWaiting :: int
  nWaitingMax :: int
  record_buf :: "octet list option"
  record_out :: int
  wave_queue :: "octet list list"
  wave_played :: "octet list"
  wave_msgs :: "wave_msg list list"

definition waveOutCallbackFunction :: "'a osf_scheme \<Rightarrow> 'a osf_scheme" where
  "waveOutCallbackFunction s =
    (case wave_queue s of
       [] \<Rightarrow> s
     | b # q \<Rightarrow> s\<lparr>nWaiting := u64 (nWaiting s - int (length b)), wave_queue := q, wave_played := wave_played s @ b\<rparr>)"

definition waveInCallbackFunction :: "octet list \<Rightarrow> 'a osf_scheme \<Rightarrow> 'a osf_scheme option" where
  "waveInCallbackFunction d s = do {
     b \<leftarrow> record_buf s;
     b \<leftarrow> blit b 0 d;
     Some (s\<lparr>record_buf := Some b, record_out := int (length d)\<rparr>) }"

fun mmeProcessCallbacks :: "wave_msg list \<Rightarrow> 'a osf_scheme \<Rightarrow> 'a osf_scheme option" where
  "mmeProcessCallbacks [] s = Some s"
| "mmeProcessCallbacks (WOM_DONE # ms) s = mmeProcessCallbacks ms (waveOutCallbackFunction s)"
| "mmeProcessCallbacks (WIM_DATA d # ms) s = waveInCallbackFunction d s \<bind> mmeProcessCallbacks ms"
| "mmeProcessCallbacks (WM_OTHER # ms) s = mmeProcessCallbacks ms s"

text \<open>\<open>if (mmeCheckForCallbacks() == TRUE) mmeProcessCallbacks();\<close>\<close>

definition mme_poll :: "'a osf_scheme \<Rightarrow> 'a osf_scheme option" where
  "mme_poll s =
    (case wave_msgs s of
       [] \<Rightarrow> mmeProcessCallbacks (replicate (length (wave_queue s)) WOM_DONE) s
     | m # ms \<Rightarrow> mmeProcessCallbacks m (s\<lparr>wave_msgs := ms\<rparr>))"

partial_function (option) reduce_buffered_data :: "'a osf_scheme \<Rightarrow> 'a osf_scheme option" where
  "reduce_buffered_data s = do {
     s \<leftarrow> mme_poll s;
     if nWaiting s > nWaitingMax s then reduce_buffered_data s else Some s }"

text \<open>A call of the services that only has a result: 0 is \<open>MMSYSERR_NOERROR\<close>, 2 \<open>MMSYSERR_BADDEVICEID\<close>.\<close>

definition wave_call :: "string \<Rightarrow> int list \<Rightarrow> 'a osf_scheme \<Rightarrow> int \<times> 'a osf_scheme" where
  "wave_call name args s = (let ((r, _), s) = drv_ioctl name args s in (r, s))"

subsection \<open>Listing the devices\<close>

text \<open>
  \<open>a & b == c\<close> is \<open>a & (b == c)\<close>: the list is always that of the output devices. Each name is printed into the
  buffer behind what the buffer holds, which is undefined as soon as it holds anything. The script has the number of
  devices, then for each the result and its name; the text is given as the devices it shows.
\<close>

fun osf_list_devices :: "int \<Rightarrow> nat \<Rightarrow> (int \<times> string) list \<Rightarrow> 'a osf_scheme \<Rightarrow> ((int \<times> string) list \<times> 'a osf_scheme) option" where
  "osf_list_devices i 0 str s = Some (str, s)"
| "osf_list_devices i (Suc n) str s =
    (let ((r, _, _, name), s) = drv_ioctl ''waveOutGetDevCaps'' [i] s
     in if r \<noteq> 0 then osf_list_devices (i + 1) n str s
        else if str \<noteq> [] then None
        else osf_list_devices (i + 1) n [(i, name)] s)"

definition osf_audio_devices :: "'a osf_scheme \<Rightarrow> ((string + (int \<times> string) list) \<times> 'a osf_scheme) option" where
  "osf_audio_devices s =
    (let ((nDevs, _), s) = drv_ioctl ''waveOutGetNumDevs'' [] s
     in if nDevs = 0 then Some (Inl ''(none)'', s)
        else
          let (caps, s) = malloc 1 s
          in if caps = 0 then Some (Inl ''(unknown)'', s)
             else
               let (str, s) = malloc 1 s
               in if str = 0 then Some (Inl ''(unknown)'', s)
                  else map_option (apfst Inr) (osf_list_devices 0 (nat nDevs) [] s))"

subsection \<open>Opening and closing\<close>

text \<open>\<open>Some True\<close> is recording, \<open>None\<close> a functionality that is not known.\<close>

definition osf_function :: "int \<Rightarrow> bool option" where
  "osf_function format =
    (let m = format AND ESD_MASK_MODE; f = format AND ESD_MASK_FUNC
     in if m = ESD_STREAM then
          (if f = 0 \<or> f = ESD_PLAY then Some False else if f = ESD_RECORD then Some True else None)
        else if m = ESD_SAMPLE then (if f = ESD_LOOP then Some False else None)
        else None)"

text \<open>\<open>sscanf (str, "%u", &id) == 1\<close>\<close>

definition sscanf_u :: "string \<Rightarrow> int option" where
  "sscanf_u str = (let (v, rest) = strtol str 10 in if rest = str then None else Some (u32 v))"

definition osf_device_id :: "string option \<Rightarrow> int option" where
  "osf_device_id dev = (case dev of None \<Rightarrow> Some (2 ^ 32 - 1) | Some str \<Rightarrow> sscanf_u str)"

definition osf_bits :: "int \<Rightarrow> int option" where
  "osf_bits format =
    (let b = format AND ESD_MASK_BITS in if b = ESD_BITS8 then Some 8 else if b = ESD_BITS16 then Some 16 else None)"

definition osf_channels :: "int \<Rightarrow> int option" where
  "osf_channels format =
    (let c = format AND ESD_MASK_CHAN in if c = ESD_MONO then Some 1 else if c = ESD_STEREO then Some 2 else None)"

text \<open>The conversion of a negative half of the rate to an unsigned number is undefined. Any handle but the null handle
  will do for an open device.\<close>

definition osf_start :: "bool \<Rightarrow> int \<Rightarrow> int \<Rightarrow> int \<Rightarrow> 'a osf_scheme \<Rightarrow> (int \<times> 'a osf_scheme) option" where
  "osf_start recording dev bits channels s =
    (if esd_audio_rate s < - 1 then None
     else
       let s = s\<lparr>nWaitingMax := esd_audio_rate s sdiv 2\<rparr>;
           args = [dev, channels, u32 (esd_audio_rate s), u32 (esd_audio_rate s * channels * bits) div 8, channels * bits div 8, bits];
           (r, s) = wave_call (if recording then ''waveInOpen'' else ''waveOutOpen'') args s
       in if r \<noteq> 0 then do {
            s \<leftarrow> (if r = 2 then map_option snd (osf_audio_devices s) else Some s);
            Some (-1, s) }
          else
            let s = (if recording then s\<lparr>hWaveIn := 1\<rparr> else s\<lparr>hWaveOut := 1\<rparr>)
            in Some (0, snd (wave_call (if recording then ''waveInStart'' else ''waveOutReset'') [] s)))"

definition osf_audio_open :: "'a osf_scheme \<Rightarrow> (int \<times> 'a osf_scheme) option" where
  "osf_audio_open s =
    (case osf_function (esd_audio_format s) of
       None \<Rightarrow> Some (-1, s)
     | Some recording \<Rightarrow>
         if recording \<and> hWaveIn s \<noteq> 0 \<or> hWaveOut s \<noteq> 0 then Some (-1, s)
         else (case osf_device_id (esd_audio_device s) of
           None \<Rightarrow> Some (-1, s)
         | Some dev \<Rightarrow>
             let (waveFormat, s) = malloc 18 s
             in if waveFormat = 0 then Some (-1, s)
                else (case (osf_bits (esd_audio_format s), osf_channels (esd_audio_format s)) of
                        (Some bits, Some channels) \<Rightarrow> osf_start recording dev bits channels s
                      | _ \<Rightarrow> Some (-1, s))))"

partial_function (option) osf_drain :: "'a osf_scheme \<Rightarrow> 'a osf_scheme option" where
  "osf_drain s = do { s \<leftarrow> mme_poll s; if nWaiting s > 0 then osf_drain s else Some s }"

definition osf_audio_flush :: "'a osf_scheme \<Rightarrow> 'a osf_scheme option" where
  "osf_audio_flush s = (if hWaveOut s = 0 then Some s else osf_drain s)"

text \<open>Each call is made when the one before failed, and the handle is forgotten when closing failed.\<close>

definition osf_close_in :: "'a osf_scheme \<Rightarrow> 'a osf_scheme" where
  "osf_close_in s =
    (if hWaveIn s = 0 then s
     else
       let (r, s) = wave_call ''waveInStop'' [] s;
           (r, s) = (if r \<noteq> 0 then wave_call ''waveInReset'' [] s else (r, s));
           (r, s) = (if r \<noteq> 0 then wave_call ''waveInClose'' [] s else (r, s))
       in if r \<noteq> 0 then s\<lparr>hWaveIn := 0\<rparr> else s)"

definition osf_audio_close :: "'a osf_scheme \<Rightarrow> 'a osf_scheme option" where
  "osf_audio_close s =
    (let s = osf_close_in s
     in if hWaveOut s = 0 then Some s
        else do {
          s \<leftarrow> osf_audio_flush s;
          let (_, s) = wave_call ''waveOutReset'' [] s;
          let (r, s) = wave_call ''waveOutClose'' [] s;
          Some (if r \<noteq> 0 then s\<lparr>hWaveOut := 0\<rparr> else s) })"

subsection \<open>Writing and reading\<close>

definition osf_reduce :: "'a osf_scheme \<Rightarrow> 'a osf_scheme option" where
  "osf_reduce s = do {
     s \<leftarrow> mme_poll s;
     if nWaiting s > nWaitingMax s then reduce_buffered_data s else Some s }"

definition osf_audio_write :: "octet list \<Rightarrow> int \<Rightarrow> 'a osf_scheme \<Rightarrow> (int \<times> 'a osf_scheme) option" where
  "osf_audio_write buffer buf_size s =
    (if hWaveOut s = 0 then Some (-1, s)
     else do {
       s \<leftarrow> osf_reduce s;
       let (b, s) = malloc buf_size s;
       if b = 0 then Some (-1, s)
       else if int (length buffer) < buf_size then None
       else do {
         let (hdr, s) = malloc 48 s;
         if hdr = 0 then Some (-1, s)
         else do {
           let (r, s) = wave_call ''waveOutWrite'' [] s;
           if r \<noteq> 0 then Some (-1, s)
           else do {
             s \<leftarrow> osf_reduce (s\<lparr>wave_queue := wave_queue s @ [take (nat buf_size) buffer], nWaiting := u64 (nWaiting s + buf_size)\<rparr>);
             Some (0, s) } } } })"

partial_function (option) osf_wait_data :: "'a osf_scheme \<Rightarrow> 'a osf_scheme option" where
  "osf_wait_data s =
    (if wave_msgs s = [] then None
     else do { s \<leftarrow> mme_poll s; if record_out s = 0 then osf_wait_data s else Some s })"

text \<open>The buffer comes back with the result. No data comes when the script is used up.\<close>

definition osf_audio_read :: "octet list \<Rightarrow> int \<Rightarrow> 'a osf_scheme \<Rightarrow> ((int \<times> octet list) \<times> 'a osf_scheme) option" where
  "osf_audio_read buffer buf_size s =
    (if hWaveIn s = 0 then Some ((0, buffer), s)
     else
       let (hdr, s) = malloc 48 s
       in if hdr = 0 then Some ((0, buffer), s)
          else
            let (data, s) = malloc buf_size s
            in if data = 0 then Some ((0, buffer), s)
               else
                 let (r, s) = wave_call ''waveInAddBuffer'' [] s
                 in if r \<noteq> 0 then Some ((0, buffer), s)
                    else do {
                      s \<leftarrow> osf_wait_data (s\<lparr>record_buf := Some buffer, record_out := 0\<rparr>);
                      buffer \<leftarrow> record_buf s;
                      Some ((i32 (record_out s), buffer), s) })"

definition osf_audio_pause :: "'a osf_scheme \<Rightarrow> 'a osf_scheme" where
  "osf_audio_pause s = s"

subsection \<open>What is written is played\<close>

text \<open>
  What has been played and what waits, in order; the counter is the size of what waits. Only the callbacks for
  output come.
\<close>

definition osf_stream :: "'a osf_scheme \<Rightarrow> octet list" where
  "osf_stream s = wave_played s @ concat (wave_queue s)"

fun output_msg :: "wave_msg \<Rightarrow> bool" where
  "output_msg (WIM_DATA d) = False"
| "output_msg _ = True"

definition osf_inv :: "'a osf_scheme \<Rightarrow> bool" where
  "osf_inv s \<longleftrightarrow> nWaiting s = int (length (concat (wave_queue s))) \<and> nWaiting s < 2 ^ 64 \<and> 0 \<le> nWaitingMax s
     \<and> list_all (list_all output_msg) (wave_msgs s)"

text \<open>Waiting changes nothing but what has been played.\<close>

definition osf_rest :: "'a osf_scheme \<Rightarrow> 'a osf_scheme" where
  "osf_rest s = s\<lparr>nWaiting := 0, wave_queue := [], wave_played := [], wave_msgs := []\<rparr>"

definition osf_waits :: "'a osf_scheme \<Rightarrow> 'a osf_scheme \<Rightarrow> bool" where
  "osf_waits s s' \<longleftrightarrow> osf_inv s' \<and> osf_stream s' = osf_stream s \<and> nWaiting s' \<le> nWaiting s \<and> osf_rest s' = osf_rest s"

lemma osf_waits_trans: "osf_waits s s1 \<Longrightarrow> osf_waits s1 s2 \<Longrightarrow> osf_waits s s2"
  unfolding osf_waits_def by simp

lemma osf_rest_eqD:
  assumes "osf_rest s' = osf_rest s"
  shows "hWaveOut s' = hWaveOut s" "hWaveIn s' = hWaveIn s" "nWaitingMax s' = nWaitingMax s" "mallocs s' = mallocs s"
    "drv_ioctls s' = drv_ioctls s" "esd_audio_format s' = esd_audio_format s" "esd_audio_device s' = esd_audio_device s" "next_addr s' = next_addr s"
  using arg_cong [OF assms, of hWaveOut] arg_cong [OF assms, of hWaveIn] arg_cong [OF assms, of nWaitingMax]
    arg_cong [OF assms, of mallocs] arg_cong [OF assms, of drv_ioctls] arg_cong [OF assms, of esd_audio_format]
    arg_cong [OF assms, of esd_audio_device] arg_cong [OF assms, of next_addr] by (simp_all add: osf_rest_def)

lemma callback_waits:
  assumes "osf_inv s"
  shows "osf_waits s (waveOutCallbackFunction s)" "wave_queue (waveOutCallbackFunction s) = tl (wave_queue s)"
    "wave_msgs (waveOutCallbackFunction s) = wave_msgs s"
proof (atomize (full), cases "wave_queue s")
  case Nil
  then show "osf_waits s (waveOutCallbackFunction s) \<and> wave_queue (waveOutCallbackFunction s) = tl (wave_queue s)
    \<and> wave_msgs (waveOutCallbackFunction s) = wave_msgs s"
    using assms by (simp add: waveOutCallbackFunction_def osf_waits_def)
next
  case (Cons b q)
  then have "u64 (nWaiting s - int (length b)) = int (length (concat q))" "int (length (concat q)) < 2 ^ 64"
    using assms by (simp_all add: osf_inv_def u64_def take_bit_int_eq_self)
  then show "osf_waits s (waveOutCallbackFunction s) \<and> wave_queue (waveOutCallbackFunction s) = tl (wave_queue s)
    \<and> wave_msgs (waveOutCallbackFunction s) = wave_msgs s"
    using Cons assms by (simp add: waveOutCallbackFunction_def osf_waits_def osf_inv_def osf_stream_def osf_rest_def)
qed

lemma process_waits:
  "osf_inv s \<Longrightarrow> list_all output_msg ms \<Longrightarrow>
     \<exists>s'. mmeProcessCallbacks ms s = Some s' \<and> osf_waits s s' \<and> wave_msgs s' = wave_msgs s"
proof (induction ms s rule: mmeProcessCallbacks.induct)
  case (2 ms s)
  note c = callback_waits [OF 2(2)]
  from c(1) have "osf_inv (waveOutCallbackFunction s)" by (simp add: osf_waits_def)
  then show ?case using 2 c osf_waits_trans [OF c(1)] by fastforce
qed (auto simp: osf_waits_def)

lemma process_all:
  "osf_inv s \<Longrightarrow> \<exists>s'. mmeProcessCallbacks (replicate (length (wave_queue s)) WOM_DONE) s = Some s' \<and> osf_waits s s'
     \<and> wave_queue s' = [] \<and> wave_msgs s' = wave_msgs s"
proof (induction "length (wave_queue s)" arbitrary: s)
  case 0
  then show ?case by (simp add: osf_waits_def)
next
  case (Suc n)
  note c = callback_waits [OF Suc.prems]
  from c(1) have "osf_inv (waveOutCallbackFunction s)" by (simp add: osf_waits_def)
  moreover have n: "n = length (wave_queue (waveOutCallbackFunction s))" using c(2) Suc.hyps(2) by (cases "wave_queue s") auto
  ultimately obtain s' where "mmeProcessCallbacks (replicate n WOM_DONE) (waveOutCallbackFunction s) = Some s'"
    "osf_waits (waveOutCallbackFunction s) s'" "wave_queue s' = []" "wave_msgs s' = wave_msgs s"
    using Suc.hyps(1) c(3) by metis
  then show ?case using Suc.hyps(2) [symmetric] osf_waits_trans [OF c(1)] by auto
qed

text \<open>Looking for callbacks uses up the script, and when it is used up nothing waits.\<close>

lemma poll_waits:
  assumes "osf_inv s"
  shows "\<exists>s'. mme_poll s = Some s' \<and> osf_waits s s' \<and> (length (wave_msgs s') < length (wave_msgs s) \<or> nWaiting s' = 0)"
proof (cases "wave_msgs s")
  case Nil
  then show ?thesis using process_all [OF assms] by (auto simp: mme_poll_def osf_waits_def osf_inv_def)
next
  case (Cons m ms)
  let ?s = "s\<lparr>wave_msgs := ms\<rparr>"
  have "osf_inv ?s" "list_all output_msg m" using assms Cons by (simp_all add: osf_inv_def)
  then obtain s' where "mmeProcessCallbacks m ?s = Some s'" "osf_waits ?s s'" "wave_msgs s' = ms"
    using process_waits by fastforce
  then show ?thesis using Cons by (auto simp: mme_poll_def osf_waits_def osf_stream_def osf_rest_def)
qed

text \<open>A loop that looks for callbacks until little enough waits.\<close>

lemma wait_loop:
  assumes step: "\<And>s. loop s = mme_poll s \<bind> (\<lambda>s. if nWaiting s > bound s then loop s else Some s)"
    and bound: "\<And>s. osf_inv s \<Longrightarrow> 0 \<le> bound s"
    and "osf_inv s"
  shows "\<exists>s'. loop s = Some s' \<and> osf_waits s s' \<and> nWaiting s' \<le> bound s'"
  using assms(3)
proof (induction "length (wave_msgs s)" arbitrary: s rule: less_induct)
  case less
  obtain s1 where s1: "mme_poll s = Some s1" "osf_waits s s1" "length (wave_msgs s1) < length (wave_msgs s) \<or> nWaiting s1 = 0"
    using poll_waits [OF less.prems] by blast
  then have i: "osf_inv s1" by (simp add: osf_waits_def)
  show ?case
  proof (cases "nWaiting s1 > bound s1")
    case True
    then have "length (wave_msgs s1) < length (wave_msgs s)" using s1(3) bound [OF i] by auto
    from less.hyps [OF this i] show ?thesis using s1 True osf_waits_trans [OF s1(2)] by (auto simp: step [of s])
  next
    case False
    then show ?thesis using s1 by (simp add: step [of s])
  qed
qed

lemmas reduce_waits = wait_loop [of reduce_buffered_data nWaitingMax, OF reduce_buffered_data.simps]
lemmas drain_waits = wait_loop [of osf_drain "\<lambda>_. 0", OF osf_drain.simps]

lemma osf_reduce_waits:
  assumes "osf_inv s"
  shows "\<exists>s'. osf_reduce s = Some s' \<and> osf_waits s s' \<and> nWaiting s' \<le> nWaitingMax s'"
proof -
  obtain s1 where s1: "mme_poll s = Some s1" "osf_waits s s1" using poll_waits [OF assms] by blast
  then have i: "osf_inv s1" by (simp add: osf_waits_def)
  obtain s2 where "reduce_buffered_data s1 = Some s2" "osf_waits s1 s2" "nWaiting s2 \<le> nWaitingMax s2"
    using reduce_waits [OF _ i] by (auto simp: osf_inv_def)
  then show ?thesis using s1 osf_waits_trans [OF s1(2)] by (cases "nWaiting s1 > nWaitingMax s1") (auto simp: osf_reduce_def)
qed

text \<open>The services grant what the driver asks for.\<close>

definition osf_granted :: "'a osf_scheme \<Rightarrow> bool" where
  "osf_granted s \<longleftrightarrow> mallocs s = [] \<and> drv_ioctls s = [] \<and> 0 < next_addr s"

lemma granted_malloc: "osf_granted s \<Longrightarrow> 0 \<le> n \<Longrightarrow> malloc n s = (next_addr s, s\<lparr>next_addr := Suc (next_addr s)\<rparr>)"
  by (simp add: osf_granted_def malloc_def)

lemma granted_call: "osf_granted s \<Longrightarrow> wave_call name args s = (0, s\<lparr>drv_calls := drv_calls s @ [(name, args)]\<rparr>)"
  by (simp add: osf_granted_def wave_call_def drv_ioctl_def)

lemma granted_simps [simp]:
  "osf_granted (s\<lparr>next_addr := Suc k\<rparr>) = (mallocs s = [] \<and> drv_ioctls s = [])"
  "osf_granted (s\<lparr>drv_calls := l\<rparr>) = osf_granted s"
  by (simp_all add: osf_granted_def)

lemma osf_inv_simps [simp]:
  "osf_inv (s\<lparr>next_addr := k\<rparr>) = osf_inv s" "osf_inv (s\<lparr>drv_calls := l\<rparr>) = osf_inv s"
  "osf_stream (s\<lparr>next_addr := k\<rparr>) = osf_stream s" "osf_stream (s\<lparr>drv_calls := l\<rparr>) = osf_stream s"
  by (simp_all add: osf_inv_def osf_stream_def)

lemma waits_granted: "osf_waits s s' \<Longrightarrow> osf_granted s' = osf_granted s"
  by (auto simp: osf_waits_def osf_granted_def dest: osf_rest_eqD)

lemma osf_write_plays:
  assumes "osf_inv s" "osf_granted s" "hWaveOut s \<noteq> 0" "0 \<le> n" "nat n \<le> length buf" "nWaiting s + n < 2 ^ 64"
  shows "\<exists>s'. osf_audio_write buf n s = Some (0, s') \<and> osf_inv s' \<and> osf_granted s' \<and> hWaveOut s' = hWaveOut s
    \<and> osf_stream s' = osf_stream s @ take (nat n) buf \<and> nWaiting s' \<le> nWaitingMax s' \<and> nWaitingMax s' = nWaitingMax s"
proof -
  obtain s1 where s1: "osf_reduce s = Some s1" "osf_waits s s1" using osf_reduce_waits [OF assms(1)] by blast
  then have w1: "osf_inv s1" "osf_stream s1 = osf_stream s" "nWaiting s1 \<le> nWaiting s" and r1: "osf_rest s1 = osf_rest s"
    by (simp_all add: osf_waits_def)
  have g1: "osf_granted s1" using waits_granted [OF s1(2)] assms(2) by simp
  define s2 where "s2 = s1\<lparr>next_addr := Suc (Suc (next_addr s1)), drv_calls := drv_calls s1 @ [(''waveOutWrite'', [])],
    wave_queue := wave_queue s1 @ [take (nat n) buf], nWaiting := u64 (nWaiting s1 + n)\<rparr>"
  have "u64 (nWaiting s1 + n) = nWaiting s1 + n"
    using w1(1,3) assms(4,6) by (simp add: u64_def take_bit_int_eq_self osf_inv_def)
  then have i2: "osf_inv s2" "osf_stream s2 = osf_stream s @ take (nat n) buf" "osf_granted s2"
    using w1 g1 assms by (simp_all add: s2_def osf_inv_def osf_stream_def osf_granted_def)
  obtain s3 where s3: "osf_reduce s2 = Some s3" "osf_waits s2 s3" "nWaiting s3 \<le> nWaitingMax s3"
    using osf_reduce_waits [OF i2(1)] by blast
  then have w3: "osf_inv s3" "osf_stream s3 = osf_stream s2" and r3: "osf_rest s3 = osf_rest s2" by (simp_all add: osf_waits_def)
  have "osf_audio_write buf n s = Some (0, s3)"
    using assms(3,4,5) g1 s1(1) s3(1)
    by (simp add: osf_audio_write_def granted_malloc granted_call osf_granted_def s2_def Let_def)
  moreover have "osf_granted s3" using waits_granted [OF s3(2)] i2(3) by simp
  moreover have "hWaveOut s3 = hWaveOut s" "nWaitingMax s3 = nWaitingMax s"
    using osf_rest_eqD [OF r3] osf_rest_eqD [OF r1] by (simp_all add: s2_def)
  ultimately show ?thesis using w3 i2(2) s3(3) by auto
qed

lemma osf_close_in_granted:
  assumes "osf_granted s"
  shows "\<exists>l. osf_close_in s = s\<lparr>drv_calls := l\<rparr>"
proof (cases "hWaveIn s = 0")
  case True
  then have "osf_close_in s = s\<lparr>drv_calls := drv_calls s\<rparr>" by (simp add: osf_close_in_def)
  then show ?thesis by blast
next
  case False
  then show ?thesis using assms by (auto simp: osf_close_in_def granted_call)
qed

lemma osf_close_plays:
  assumes "osf_inv s" "osf_granted s" "hWaveOut s \<noteq> 0"
  shows "\<exists>s'. osf_audio_close s = Some s' \<and> wave_played s' = osf_stream s \<and> hWaveOut s' = hWaveOut s"
proof -
  obtain l where l: "osf_close_in s = s\<lparr>drv_calls := l\<rparr>" using osf_close_in_granted [OF assms(2)] by blast
  have "osf_inv (s\<lparr>drv_calls := l\<rparr>)" using assms(1) by simp
  then obtain s1 where s1: "osf_drain (s\<lparr>drv_calls := l\<rparr>) = Some s1" "osf_waits (s\<lparr>drv_calls := l\<rparr>) s1" "nWaiting s1 \<le> 0"
    using drain_waits by blast
  then have w: "osf_inv s1" "osf_stream s1 = osf_stream s" and r: "osf_rest s1 = osf_rest (s\<lparr>drv_calls := l\<rparr>)"
    by (simp_all add: osf_waits_def)
  have "concat (wave_queue s1) = []" using w(1) s1(3) by (simp add: osf_inv_def)
  then have p: "wave_played s1 = osf_stream s" using w(2) unfolding osf_stream_def by (metis append_Nil2)
  have g: "osf_granted s1" using waits_granted [OF s1(2)] assms(2) by simp
  have "osf_audio_close s = Some (s1\<lparr>drv_calls := drv_calls s1 @ [(''waveOutReset'', []), (''waveOutClose'', [])]\<rparr>)"
    using assms(3) s1(1) g by (simp add: osf_audio_close_def osf_audio_flush_def l granted_call)
  then show ?thesis using p osf_rest_eqD(1) [OF r] by auto
qed

text \<open>Writing one buffer after the other.\<close>

fun osf_write_all :: "octet list list \<Rightarrow> 'a osf_scheme \<Rightarrow> 'a osf_scheme option" where
  "osf_write_all [] s = Some s"
| "osf_write_all (b # bs) s = do { (_, s) \<leftarrow> osf_audio_write b (int (length b)) s; osf_write_all bs s }"

lemma osf_write_all_plays:
  assumes "osf_inv s" "osf_granted s" "hWaveOut s \<noteq> 0" "nWaiting s < 2 ^ 63" "nWaitingMax s < 2 ^ 63"
    "list_all (\<lambda>b. int (length b) < 2 ^ 31) bs"
  shows "\<exists>s'. osf_write_all bs s = Some s' \<and> osf_inv s' \<and> osf_granted s' \<and> hWaveOut s' \<noteq> 0 \<and> osf_stream s' = osf_stream s @ concat bs"
  using assms
proof (induction bs arbitrary: s)
  case (Cons b bs)
  have "nWaiting s + int (length b) < 2 ^ 64" using Cons.prems by simp
  from osf_write_plays [OF Cons.prems(1,2,3) _ _ this, of b]
  obtain s1 where s1: "osf_audio_write b (int (length b)) s = Some (0, s1)" "osf_inv s1" "osf_granted s1" "hWaveOut s1 = hWaveOut s"
    "osf_stream s1 = osf_stream s @ b" "nWaiting s1 \<le> nWaitingMax s1" "nWaitingMax s1 = nWaitingMax s" by auto
  show ?case using Cons.IH [OF s1(2,3)] s1 Cons.prems by auto
qed simp

lemma osf_open_granted:
  assumes "osf_inv s" "osf_granted s" "hWaveOut s = 0" "osf_function (esd_audio_format s) = Some False"
    "osf_device_id (esd_audio_device s) = Some dev" "osf_bits (esd_audio_format s) = Some bits"
    "osf_channels (esd_audio_format s) = Some channels" "0 \<le> esd_audio_rate s"
  shows "\<exists>s'. osf_audio_open s = Some (0, s') \<and> osf_inv s' \<and> osf_granted s' \<and> hWaveOut s' \<noteq> 0 \<and> nWaiting s' = nWaiting s
    \<and> nWaitingMax s' = esd_audio_rate s sdiv 2 \<and> osf_stream s' = osf_stream s"
proof -
  have "0 \<le> esd_audio_rate s sdiv 2" using assms(8) by (simp add: signed_divide_int_def sgn_if)
  then show ?thesis
    using assms
    by (simp add: osf_audio_open_def osf_start_def granted_malloc granted_call osf_granted_def osf_inv_def osf_stream_def Let_def)
qed

text \<open>
  C35. On Tru64 the waits for callbacks end, and when the device has been opened, written to and closed, everything that was
  written has been played, in order. But the device cannot be opened again: after a successful \<open>close\<close> the driver keeps the handle, and
  takes it for a device that is open.
\<close>

theorem osf_session_plays:
  assumes "osf_inv s" "osf_granted s" "hWaveOut s = 0" "nWaiting s < 2 ^ 63"
    and "osf_function (esd_audio_format s) = Some False" "osf_device_id (esd_audio_device s) = Some dev"
    and "osf_bits (esd_audio_format s) = Some bits" "osf_channels (esd_audio_format s) = Some channels"
    and "0 \<le> esd_audio_rate s" "esd_audio_rate s < 2 ^ 31" and "list_all (\<lambda>b. int (length b) < 2 ^ 31) bs"
  shows "\<exists>s1 s2 s3. osf_audio_open s = Some (0, s1) \<and> osf_write_all bs s1 = Some s2 \<and> osf_audio_close s2 = Some s3
    \<and> wave_played s3 = osf_stream s @ concat bs \<and> (\<exists>s4. osf_audio_open (s3\<lparr>esd_audio_format := f\<rparr>) = Some (-1, s4))"
proof -
  obtain s1 where s1: "osf_audio_open s = Some (0, s1)" "osf_inv s1" "osf_granted s1" "hWaveOut s1 \<noteq> 0" "nWaiting s1 = nWaiting s"
    "nWaitingMax s1 = esd_audio_rate s sdiv 2" "osf_stream s1 = osf_stream s"
    using osf_open_granted [OF assms(1,2,3,5,6,7,8,9)] by blast
  have "nWaitingMax s1 < 2 ^ 63" using s1(6) assms(9,10) by (auto simp: signed_divide_int_def sgn_if)
  then obtain s2 where s2: "osf_write_all bs s1 = Some s2" "osf_inv s2" "osf_granted s2" "hWaveOut s2 \<noteq> 0" "osf_stream s2 = osf_stream s @ concat bs"
    using osf_write_all_plays [OF s1(2,3,4) _ _ assms(11)] s1(5,7) assms(4) by auto
  obtain s3 where s3: "osf_audio_close s2 = Some s3" "wave_played s3 = osf_stream s2" "hWaveOut s3 = hWaveOut s2"
    using osf_close_plays [OF s2(2,3,4)] by blast
  have "\<exists>s4. osf_audio_open (s3\<lparr>esd_audio_format := f\<rparr>) = Some (-1, s4)"
    using s3(3) s2(4) by (simp add: osf_audio_open_def split: option.splits)
  then show ?thesis using s1(1) s2(1,5) s3(1,2) by auto
qed

definition osf0 :: osf where
  "osf0 = drv.extend (audio.extend audio0 (drv.fields [] [] [] [] None None None))
     (osf.fields 0 0 0 (2 ^ 64 - 1) None 0 [] [] [[], [WOM_DONE], []])"

theorem osf_session_plays_witness:
  "\<exists>s1 s2 s3. osf_audio_open osf0 = Some (0, s1) \<and> osf_write_all [[1, 2], [3]] s1 = Some s2 \<and> osf_audio_close s2 = Some s3
    \<and> wave_played s3 = [1, 2, 3] \<and> (\<exists>s4. osf_audio_open (s3\<lparr>esd_audio_format := 0\<rparr>) = Some (-1, s4))"
  using osf_session_plays [of osf0 "2 ^ 32 - 1" 16 2 "[[1, 2], [3]]" 0]
  by (simp add: osf0_def audio0_def drv.defs audio.defs osf.defs osf_inv_def osf_granted_def osf_stream_def
      osf_function_def osf_device_id_def osf_bits_def osf_channels_def Let_def)

end
