(* ===== verification/Esd_Ports.thy ===== *)
theory Esd_Ports
  imports Esd_Drivers
begin

text \<open>
  The drivers that call a library for every buffer: IRIX (\<open>audio_irix.c\<close>), aRts (\<open>audio_arts.c\<close>) and ALSA before 0.9
  (\<open>audio_alsa.c\<close>). The libraries are not part of the program: what their calls return is taken from the scripts of \<open>drv\<close>. \<open>None\<close> is the
  use of an object of the library after it was given back, or an access outside of a buffer. Messages are left out.
\<close>

unbundle bit_operations_syntax

definition port_call :: "string \<Rightarrow> int list \<Rightarrow> 'a drv_scheme \<Rightarrow> int \<times> 'a drv_scheme" where
  "port_call name args s = (let ((r, _), s) = drv_ioctl name args s in (r, s))"

text \<open>A call for its effect only.\<close>

definition port_do :: "string \<Rightarrow> int list \<Rightarrow> 'a drv_scheme \<Rightarrow> 'a drv_scheme" where
  "port_do name args s = snd (port_call name args s)"

subsection \<open>IRIX\<close>

text \<open>The ports (0 is none) and the rate in \<open>rate_params\<close>.\<close>

record irix = drv +
  outaudioport :: int
  inaudioport :: int
  rate_params :: int

text \<open>\<open>ALopenport\<close>: 0 when it fails. Whatever the reason, the driver gives up.\<close>

definition ALopenport :: "string \<Rightarrow> 'a irix_scheme \<Rightarrow> int \<times> 'a irix_scheme" where
  "ALopenport mode s = (let ((p, _), s) = drv_open mode s in (if p < 0 then 0 else p, s))"

definition ALgetfd :: "int \<Rightarrow> 'a irix_scheme \<Rightarrow> int \<times> 'a irix_scheme" where
  "ALgetfd p s = (let (fd, s) = port_call ''ALgetfd'' [p] s in (max (-1) fd, s))"

text \<open>\<open>E_BUSY\<close> stands for \<open>AL_BAD_DEVICE_ACCESS\<close>. The parameters start out as 0, \<open>AL_MONITOR_OFF\<close> is 0.\<close>

definition irix_output :: "'a irix_scheme \<Rightarrow> int \<times> 'a irix_scheme" where
  "irix_output s =
    (let s = (if esd_audio_format s AND ESD_MASK_CHAN = ESD_MONO then port_do ''ALsetchannels'' [1] s else s);
         s = port_do ''ALsetqueuesize'' [ESD_BUF_SIZE * 2] s;
         (p, s) = ALopenport ''w'' s;
         s = s\<lparr>outaudioport := p\<rparr>
     in if p = 0 then drv_none (-1) s
        else
          let s = port_do ''ALsetfillpoint'' [p, ESD_BUF_SIZE] s;
              (fd, s) = ALgetfd p s;
              s = s\<lparr>esd_audio_fd := fd\<rparr>
          in if \<not> drv_recording s then (esd_audio_fd s, s)
             else
               let (q, s) = ALopenport ''r'' s;
                   s = s\<lparr>inaudioport := q\<rparr>
               in if q = 0 then drv_none (-1) s
                  else
                    let s = port_do ''ALsetfillpoint'' [q, ESD_BUF_SIZE] s;
                        s = port_do ''ALsetparams'' [3, rate_params s] s;
                        (fd, s) = ALgetfd q s;
                        s = s\<lparr>esd_audio_fd := fd\<rparr>
                    in (esd_audio_fd s, s))"

definition irix_audio_open :: "'a irix_scheme \<Rightarrow> int \<times> 'a irix_scheme" where
  "irix_audio_open s =
    (let (audioconfig, s) = malloc 1 s;
         s = s\<lparr>rate_params := esd_audio_rate s\<rparr>
     in if audioconfig = 0 then drv_none (-1) s
        else
          let ((r, e, pvbuf, _), s) = drv_ioctl ''ALgetparams'' [0, 0, 0] s
          in if r < 0 \<and> e = E_BUSY then drv_none (-1) s
             else if drv_word pvbuf 0 = 0 \<and> drv_word pvbuf 1 = 0 then irix_output (port_do ''ALsetparams'' [1, rate_params s] s)
             else if drv_word pvbuf 2 \<noteq> esd_audio_rate s then drv_none (-1) s
             else irix_output s)"

definition irix_audio_close :: "'a irix_scheme \<Rightarrow> 'a irix_scheme" where
  "irix_audio_close s =
    (let s = (if esd_audio_fd s \<ge> 0 then port_do ''select'' [esd_audio_fd s] (port_do ''ALsetfillpoint'' [outaudioport s, ESD_BUF_SIZE * 2] s)
              else s);
         s = (if outaudioport s \<noteq> 0 then (port_do ''ALcloseport'' [outaudioport s] s)\<lparr>outaudioport := 0\<rparr> else s)
     in if inaudioport s \<noteq> 0 then (port_do ''ALcloseport'' [inaudioport s] s)\<lparr>inaudioport := 0\<rparr> else s)"

text \<open>Samples are 16 bits wide whatever the format is. What the port took is in \<open>tx\<close>.\<close>

definition irix_audio_write :: "octet list \<Rightarrow> int \<Rightarrow> 'a irix_scheme \<Rightarrow> (int \<times> 'a irix_scheme) option" where
  "irix_audio_write buffer buf_size s =
    (let s = port_do ''ALsetparams'' [1, rate_params s] s;
         n = 2 * nat (buf_size sdiv 2);
         (r, s) = port_call ''ALwritesamps'' [outaudioport s, buf_size sdiv 2] s
     in if length buffer < n then None
        else if r = 0 then
          Some (buf_size, port_do ''ALsetfillpoint'' [outaudioport s, ESD_BUF_SIZE] (s\<lparr>tx := tx s @ [(outaudioport s, take n buffer)]\<rparr>))
        else Some (0, s))"

text \<open>The words of the script of \<open>ALreadsamps\<close> are the bytes that are read; those it does not give are 0.\<close>

definition irix_audio_read :: "octet list \<Rightarrow> int \<Rightarrow> 'a irix_scheme \<Rightarrow> ((int \<times> octet list) \<times> 'a irix_scheme) option" where
  "irix_audio_read buffer buf_size s =
    (let s = port_do ''ALsetparams'' [3, rate_params s] s;
         n = 2 * nat (buf_size sdiv 2);
         ((r, _, ws, _), s) = drv_ioctl ''ALreadsamps'' [] s
     in if r \<noteq> 0 then Some ((0, buffer), s)
        else do {
          buffer \<leftarrow> blit buffer 0 (map (\<lambda>k. word_of_int (drv_word ws k)) [0..<n]);
          Some ((buf_size, buffer), port_do ''ALsetfillpoint'' [inaudioport s, ESD_BUF_SIZE] s) })"

definition irix_audio_flush :: "'a irix_scheme \<Rightarrow> 'a irix_scheme" where
  "irix_audio_flush s = s"

subsection \<open>aRts\<close>

text \<open>
  The library is loaded at run time: whether it is mapped, whether \<open>handle\<close> is not null, the stream, \<open>err_arts\<close>, \<open>arts_exit\<close>, and whether the
  daemon uses these functions (\<open>impl_esd_audio_open\<close> and the others). A call through a pointer into the library needs
  it to be mapped.
\<close>

record arts = drv +
  arts_mapped :: bool
  arts_handle :: bool
  arts_stream :: int
  err_arts :: int
  arts_exit :: int
  impl_arts :: bool

definition arts_call :: "string \<Rightarrow> int list \<Rightarrow> 'a arts_scheme \<Rightarrow> (int \<times> 'a arts_scheme) option" where
  "arts_call name args s = (if arts_mapped s then Some (port_call name args s) else None)"

definition arts_dlclose :: "'a arts_scheme \<Rightarrow> 'a arts_scheme" where
  "arts_dlclose s = s\<lparr>arts_mapped := False\<rparr>"

definition arts_load :: "'a arts_scheme \<Rightarrow> (int \<times> 'a arts_scheme) option" where
  "arts_load s =
    (let ((h, _), s) = drv_open ''libartsc.so'' s;
         s = s\<lparr>arts_handle := (h \<ge> 0)\<rparr>
     in if h < 0 then Some (-1, s\<lparr>arts_exit := 0, err_arts := -1\<rparr>)
        else do {
          (r, s) \<leftarrow> arts_call ''arts_init'' [] (s\<lparr>arts_mapped := True\<rparr>);
          let s = s\<lparr>err_arts := r\<rparr>;
          Some (r, if r < 0 then arts_dlclose (s\<lparr>arts_exit := 0\<rparr>) else s) })"

definition artschk :: "'a arts_scheme \<Rightarrow> 'a arts_scheme option" where
  "artschk s = do { (r, s) \<leftarrow> arts_load s; Some (if r \<ge> 0 then s\<lparr>impl_arts := True\<rparr> else s) }"

definition arts_esd_audio_open :: "'a arts_scheme \<Rightarrow> (int \<times> 'a arts_scheme) option" where
  "arts_esd_audio_open s = do {
     (stream, s) \<leftarrow> arts_call (if drv_recording s then ''arts_record_stream'' else ''arts_play_stream'')
       [esd_audio_rate s, drv_bits s, drv_channels s] s;
     (_, s) \<leftarrow> arts_call ''arts_stream_set'' [stream, 2, 0] (s\<lparr>arts_stream := stream\<rparr>);
     Some (0, s) }"

definition arts_esd_audio_close :: "'a arts_scheme \<Rightarrow> 'a arts_scheme option" where
  "arts_esd_audio_close s = do {
     (_, s) \<leftarrow> arts_call ''arts_close_stream'' [arts_stream s] s;
     (_, s) \<leftarrow> arts_call ''arts_free'' [] (s\<lparr>arts_exit := 0\<rparr>);
     Some (arts_dlclose s) }"

text \<open>\<open>arts_write\<close> takes as much as it says.\<close>

definition arts_esd_audio_write :: "octet list \<Rightarrow> int \<Rightarrow> 'a arts_scheme \<Rightarrow> (int \<times> 'a arts_scheme) option" where
  "arts_esd_audio_write buffer buf_size s =
    (if int (length buffer) < buf_size then None
     else do {
       (r, s) \<leftarrow> arts_call ''arts_write'' [arts_stream s, buf_size] s;
       Some (r, s\<lparr>tx := tx s @ [(arts_stream s, take (nat r) (take (nat buf_size) buffer))]\<rparr>) })"

definition arts_esd_audio_read :: "octet list \<Rightarrow> int \<Rightarrow> 'a arts_scheme \<Rightarrow> ((int \<times> octet list) \<times> 'a arts_scheme) option" where
  "arts_esd_audio_read buffer buf_size s =
    (if \<not> arts_mapped s then None
     else do {
       let ((r, _, ws, _), s) = drv_ioctl ''arts_read'' [] s;
       buffer \<leftarrow> (if r < 0 then Some buffer else blit buffer 0 (map (\<lambda>k. word_of_int (drv_word ws k)) [0..<nat (min r buf_size)]));
       Some ((r, buffer), s) })"

definition arts_esd_audio_pause :: "'a arts_scheme \<Rightarrow> 'a arts_scheme" where
  "arts_esd_audio_pause s = s"

definition arts_esd_audio_flush :: "'a arts_scheme \<Rightarrow> 'a arts_scheme" where
  "arts_esd_audio_flush s = s"

definition impl_exit :: "'a arts_scheme \<Rightarrow> 'a arts_scheme option" where
  "impl_exit s =
    (if arts_exit s > 0 \<and> arts_handle s then do {
       s \<leftarrow> (if err_arts s \<ge> 0 then map_option snd (arts_call ''arts_free'' [] s) else Some s);
       Some (arts_dlclose s) }
     else Some s)"

subsection \<open>ALSA before 0.9\<close>

text \<open>The handle (0 is null), the handles the library has given out and not taken back, and whether \<open>alsa_direction\<close> is duplex.\<close>

record alsa5 = drv +
  alsa_sound_handle :: int
  alsa_handles :: "int list"
  alsa_duplex :: bool

definition alsa5_audio_close :: "'a alsa5_scheme \<Rightarrow> 'a alsa5_scheme option" where
  "alsa5_audio_close s =
    (let h = alsa_sound_handle s
     in if h = 0 then Some (port_do ''snd_pcm_close'' [h] s)
        else if h \<in> set (alsa_handles s) then Some (port_do ''snd_pcm_close'' [h] (s\<lparr>alsa_handles := remove1 h (alsa_handles s)\<rparr>))
        else None)"

text \<open>The devices of a card, and the cards: the first that can be opened.\<close>

fun alsa5_devices :: "int \<Rightarrow> int \<Rightarrow> nat \<Rightarrow> 'a alsa5_scheme \<Rightarrow> 'a alsa5_scheme" where
  "alsa5_devices crd device 0 s = s"
| "alsa5_devices crd device (Suc n) s =
    (if alsa_sound_handle s \<noteq> 0 then s
     else
       let ((h, _), s) = drv_open ''pcm'' (s\<lparr>drv_calls := drv_calls s @ [(''snd_pcm_open'', [crd, device])]\<rparr>);
           s = (if h < 0 then s\<lparr>alsa_sound_handle := 0\<rparr> else s\<lparr>alsa_sound_handle := h, alsa_handles := h # alsa_handles s\<rparr>)
       in alsa5_devices crd (device + 1) n s)"

fun alsa5_cards :: "int \<Rightarrow> nat \<Rightarrow> 'a alsa5_scheme \<Rightarrow> 'a alsa5_scheme" where
  "alsa5_cards crd 0 s = s"
| "alsa5_cards crd (Suc n) s =
    (if alsa_sound_handle s \<noteq> 0 then s
     else
       let (r, s) = port_call ''snd_ctl_open'' [crd] s
       in if r < 0 then alsa5_cards (crd + 1) n s
          else
            let ((r, _, hw_info, _), s) = drv_ioctl ''snd_ctl_hw_info'' [crd] s
            in if r < 0 then alsa5_cards (crd + 1) n s
               else
                 let (r, s) = port_call ''snd_ctl_close'' [crd] s
                 in if r < 0 then alsa5_cards (crd + 1) n s
                    else alsa5_cards (crd + 1) n (alsa5_devices crd 0 (nat (drv_word hw_info 0)) s))"

text \<open>The exits that close the device.\<close>

definition alsa5_fail :: "'a alsa5_scheme \<Rightarrow> (int \<times> 'a alsa5_scheme) option" where
  "alsa5_fail s = do { s \<leftarrow> alsa5_audio_close s; Some (drv_none (-1) s) }"

text \<open>The result of \<open>snd_pcm_channel_params\<close> has the format the library leaves in its argument: format (2 is \<open>SND_PCM_SFMT_S16\<close>), rate, voices.\<close>

definition alsa5_setup :: "'a alsa5_scheme \<Rightarrow> int \<times> 'a alsa5_scheme" where
  "alsa5_setup s =
    (let (r, s) = port_call ''snd_pcm_channel_info'' [] s
     in if r \<noteq> 0 then (-1, s)
        else
          let s = port_do ''snd_pcm_channel_flush'' [] s;
              ((r, _, params, _), s) =
                drv_ioctl ''snd_pcm_channel_params'' [if drv_bits s = 16 then 2 else 1, esd_audio_rate s, drv_channels s] s
          in if r \<noteq> 0 then (-1, s)
             else
               let (r, s) = port_call ''snd_pcm_channel_prepare'' [] s
               in if r \<noteq> 0 then (-1, s)
                  else
                    let (r, s) = port_call ''snd_pcm_channel_setup'' [] s
                    in if r \<noteq> 0 then (-1, s)
                       else if drv_word params 1 \<noteq> esd_audio_rate s \<or> drv_word params 2 \<noteq> 2 \<or> drv_word params 0 \<noteq> 2 then (-1, s)
                       else let (fd, s) = port_call ''snd_pcm_file_descriptor'' [alsa_sound_handle s] s in (fd, s\<lparr>esd_audio_fd := fd\<rparr>))"

text \<open>Before the 0.5 interface. A failure of \<open>snd_pcm_playback_params\<close> and a wrong format are only reported.\<close>

definition alsa4_setup :: "'a alsa5_scheme \<Rightarrow> (int \<times> 'a alsa5_scheme) option" where
  "alsa4_setup s =
    (let fmt = [if drv_bits s = 16 then 2 else 1, esd_audio_rate s, drv_channels s];
         (r, s) = port_call ''snd_pcm_playback_format'' fmt s
     in if r < 0 then alsa5_fail s
        else
          let (r, s) = (if alsa_duplex s then port_call ''snd_pcm_record_format'' fmt s else (0, s))
          in if r < 0 then alsa5_fail s
             else
               let s = port_do ''snd_pcm_playback_params'' [4096, 2, 1] s;
                   (fd, s) = port_call ''snd_pcm_file_descriptor'' [alsa_sound_handle s] s
               in Some (fd, s\<lparr>esd_audio_fd := fd\<rparr>))"

text \<open>With the 0.5 interface \<open>alsa_direction\<close> is static: once set to duplex it stays so. \<open>SND_CARDS\<close> is 8.\<close>

definition alsa5_audio_open :: "bool \<Rightarrow> 'a alsa5_scheme \<Rightarrow> (int \<times> 'a alsa5_scheme) option" where
  "alsa5_audio_open api5 s =
    (let s = s\<lparr>alsa_duplex := (drv_recording s \<or> api5 \<and> alsa_duplex s)\<rparr>;
         (mask, s) = port_call ''snd_cards_mask'' [] s
     in if mask = 0 then alsa5_fail s
        else
          let s = s\<lparr>alsa_sound_handle := 0\<rparr>;
              (n, s) = (if api5 then port_call ''snd_cards'' [] s else (8, s));
              s = alsa5_cards 0 (nat n) s
          in if alsa_sound_handle s = 0 then alsa5_fail s
             else if api5 then Some (alsa5_setup s) else alsa4_setup s)"

text \<open>What the library took is what \<open>snd_pcm_write\<close> returned. After an underrun the buffer is written once more.\<close>

definition snd_pcm_write :: "octet list \<Rightarrow> int \<Rightarrow> 'a alsa5_scheme \<Rightarrow> int \<times> 'a alsa5_scheme" where
  "snd_pcm_write buffer n s =
    (let (r, s) = port_call ''snd_pcm_write'' [n] s
     in (r, s\<lparr>tx := tx s @ [(alsa_sound_handle s, take (nat r) (take (nat n) buffer))]\<rparr>))"

text \<open>The word is \<open>status.underrun\<close>; a second failure to get the status is only reported.\<close>

definition alsa5_audio_write :: "bool \<Rightarrow> octet list \<Rightarrow> int \<Rightarrow> 'a alsa5_scheme \<Rightarrow> (int \<times> 'a alsa5_scheme) option" where
  "alsa5_audio_write api5 buffer buf_size s =
    (if int (length buffer) < buf_size then None
     else
       let (i, s) = snd_pcm_write buffer buf_size s
       in if \<not> api5 then Some (i, s)
          else
            let ((r, _, status, _), s) = drv_ioctl ''snd_pcm_channel_status'' [0] s
            in if r \<noteq> 0 then Some (-1, s)
               else if drv_word status 0 = 0 then Some (i, s)
               else
                 let s = port_do ''snd_pcm_channel_flush'' [] s;
                     s = port_do ''snd_pcm_playback_prepare'' [] s;
                     (_, s) = snd_pcm_write buffer buf_size s;
                     ((r, _, status', _), s) = drv_ioctl ''snd_pcm_channel_status'' [0] s
                 in Some (if drv_word (if r < 0 then status else status') 0 \<noteq> 0 then -1 else i, s))"

definition alsa5_audio_read :: "octet list \<Rightarrow> int \<Rightarrow> 'a alsa5_scheme \<Rightarrow> ((int \<times> octet list) \<times> 'a alsa5_scheme) option" where
  "alsa5_audio_read buffer buf_size s = do {
     let ((r, _, ws, _), s) = drv_ioctl ''snd_pcm_read'' [] s;
     buffer \<leftarrow> (if r < 0 then Some buffer else blit buffer 0 (map (\<lambda>k. word_of_int (drv_word ws k)) [0..<nat (min r buf_size)]));
     Some ((r, buffer), s) }"

definition alsa5_audio_pause :: "'a alsa5_scheme \<Rightarrow> 'a alsa5_scheme" where
  "alsa5_audio_pause s = s"

definition alsa5_audio_flush :: "'a alsa5_scheme \<Rightarrow> 'a alsa5_scheme" where
  "alsa5_audio_flush s = port_do ''fsync'' [esd_audio_fd s] s"

subsection \<open>What open and close leave behind\<close>

lemma port_call_keeps [simp]:
  "esd_audio_fd (snd (port_call name args s)) = esd_audio_fd s" "esd_audio_fd (port_do name args s) = esd_audio_fd s"
  by (auto simp: port_do_def port_call_def drv_ioctl_def Let_def split: list.splits prod.splits)

lemma port_do_keeps:
  fixes i :: "'a irix_scheme"
  shows "outaudioport (port_do name args i) = outaudioport i" "inaudioport (port_do name args i) = inaudioport i"
  by (auto simp: port_do_def port_call_def drv_ioctl_def Let_def split: list.splits prod.splits)

lemma ALopenport_range: "ALopenport mode s = (p, s') \<Longrightarrow> 0 \<le> p"
  by (auto simp: ALopenport_def split: prod.splits if_splits)

lemma ALgetfd_range: "ALgetfd p s = (fd, s') \<Longrightarrow> -1 \<le> fd"
  by (auto simp: ALgetfd_def Let_def split: prod.splits)

lemma irix_fd: "irix_audio_open s = (r, s') \<Longrightarrow> esd_audio_fd s' = r \<and> -1 \<le> r"
proof -
  have o: "irix_output t = (r, t') \<Longrightarrow> esd_audio_fd t' = r \<and> -1 \<le> r" for t t' :: "'a irix_scheme" and r
    by (auto simp: irix_output_def Let_def drv_none_def dest: ALgetfd_range split: prod.splits if_splits)
  show "irix_audio_open s = (r, s') \<Longrightarrow> esd_audio_fd s' = r \<and> -1 \<le> r"
    by (auto simp: irix_audio_open_def Let_def drv_none_def dest: o split: prod.splits if_splits)
qed

interpretation irix: audio_opener irix_audio_open esd_audio_fd
  by unfold_locales (auto dest: irix_fd)

text \<open>When the port to record from cannot be opened, the other one stays open although the result is -1.\<close>

lemma irix_record_leaks:
  assumes "drv_opens s = [(p, e), (-1, e')]" "0 < p" "drv_recording s"
  shows "\<exists>s'. irix_output s = (-1, s') \<and> outaudioport s' = p"
proof -
  have k: "drv_opens (port_do name args t) = drv_opens t" "esd_audio_format (port_do name args t) = esd_audio_format t"
      "drv_opens (snd (ALgetfd q t)) = drv_opens t" "esd_audio_format (snd (ALgetfd q t)) = esd_audio_format t"
      "outaudioport (snd (ALgetfd q t)) = outaudioport t" for name args q and t :: "'a irix_scheme"
    by (auto simp: ALgetfd_def port_do_def port_call_def drv_ioctl_def Let_def split: list.splits prod.splits)
  show ?thesis
    using assms by (simp add: irix_output_def ALopenport_def drv_open_def drv_recording_def drv_none_def Let_def case_prod_beta k port_do_keeps)
qed

text \<open>With the 0.5 interface of ALSA a daemon that is set to mono or to 8 bits gets no device, and the device stays open.\<close>

lemma alsa5_stereo_only:
  assumes "drv_ioctls s = []" "drv_channels s = 1 \<or> drv_bits s = 8"
  shows "\<exists>s'. alsa5_setup s = (-1, s') \<and> alsa_handles s' = alsa_handles s"
  using assms by (auto simp: alsa5_setup_def port_do_def port_call_def drv_ioctl_def drv_word_def drv_bits_def drv_channels_def Let_def)

text \<open>
  C36. These drivers do not survive a \<open>close\<close>. With aRts the library is unloaded, and the next \<open>open\<close> calls a function that is no longer there. With
  ALSA before 0.9 the handle is kept, and the next \<open>close\<close> gives it back a second time. On IRIX the descriptor is
  kept, and the next \<open>close\<close> waits for it.
\<close>

theorem drivers_stale_after_close:
  fixes a a' :: "'a arts_scheme" and l l' :: "'b alsa5_scheme" and i :: "'c irix_scheme"
  assumes "arts_esd_audio_close a = Some a'"
    and "alsa5_audio_close l = Some l'" "alsa_sound_handle l \<noteq> 0" "distinct (alsa_handles l)"
  shows "arts_esd_audio_open a' = None \<and> alsa5_audio_close l' = None \<and> esd_audio_fd (irix_audio_close i) = esd_audio_fd i"
proof -
  have "arts_esd_audio_open a' = None"
    using assms(1) by (auto simp: arts_esd_audio_close_def arts_esd_audio_open_def arts_call_def arts_dlclose_def
      bind_eq_Some_conv split: if_splits)
  moreover have "alsa5_audio_close l' = None"
    using assms(2,3,4) by (auto simp: alsa5_audio_close_def port_do_def port_call_def drv_ioctl_def Let_def split: if_splits list.splits prod.splits)
  moreover have "esd_audio_fd (irix_audio_close i) = esd_audio_fd i"
    by (simp add: irix_audio_close_def Let_def)
  ultimately show ?thesis by blast
qed

definition port0 :: drv where
  "port0 = audio.extend audio0 (drv.fields [] [] [] [] None None None)"

definition arts0 :: arts where
  "arts0 = drv.extend port0 (arts.fields False False 0 (-1) 1 False)"

definition alsa50 :: alsa5 where
  "alsa50 = drv.extend (port0\<lparr>drv_ioctls := [(1, E_OTHER, [], []), (1, E_OTHER, [], []), (0, E_OTHER, [], []), (0, E_OTHER, [1], [])]\<rparr>)
     (alsa5.fields 0 [] False)"

definition irix0 :: irix where
  "irix0 = drv.extend port0 (irix.fields 0 0 0)"

text \<open>The library is loaded and the device opened first.\<close>

definition arts_ready :: arts where
  "arts_ready = snd (the (arts_esd_audio_open (the (artschk arts0))))"

definition alsa5_ready :: alsa5 where
  "alsa5_ready = snd (the (alsa5_audio_open True alsa50))"

theorem drivers_stale_after_close_witness:
  "impl_arts arts_ready \<and> arts_esd_audio_open (the (arts_esd_audio_close arts_ready)) = None
    \<and> alsa_sound_handle alsa5_ready = 3 \<and> alsa5_audio_close (the (alsa5_audio_close alsa5_ready)) = None
    \<and> esd_audio_fd (irix_audio_close irix0) = 3"
proof -
  have "\<not> Option.is_none (arts_esd_audio_close arts_ready)" "\<not> Option.is_none (alsa5_audio_close alsa5_ready)"
    "alsa_sound_handle alsa5_ready = 3" "distinct (alsa_handles alsa5_ready)" "esd_audio_fd irix0 = 3" "impl_arts arts_ready"
    by code_simp+
  moreover from this(1,2) obtain a l where "arts_esd_audio_close arts_ready = Some a" "alsa5_audio_close alsa5_ready = Some l"
    by (auto simp: Option.is_none_def)
  ultimately show ?thesis using drivers_stale_after_close [of arts_ready a alsa5_ready l irix0] by simp
qed

end
