(* ===== verification/Esd_Coreaudio.thy ===== *)
theory Esd_Coreaudio
  imports Esd_Drivers
begin

text \<open>
  The driver for CoreAudio (\<open>audio_coreaudio.c\<close>). The system calls \<open>PlaybackIOProc\<close> and \<open>RecordIOProc\<close> on a thread of its own whenever the
  device wants a block of samples or has one; these share a buffer with the daemon, under a mutex. Samples are floating
  point numbers there: the conversions \<open>scale * x\<close> between them and \<open>short\<close> are parameters, and a sample is of any type. What the
  calls of the library return is taken from the scripts of \<open>drv\<close>. \<open>None\<close> is an access outside of a buffer, or a loop without an end.
  Messages are left out.
\<close>

unbundle bit_operations_syntax

subsection \<open>State\<close>

text \<open>
  The static variables, and what the driver shares with the system: how many samples the buffers of the devices have, the blocks
  that were played, each with how many samples of it were the daemon's, and the blocks that will be recorded. The
  last two are the schedule: how often the procedure is called each time the daemon is about to take the mutex
  or waits for the condition. When the schedule is used up, it is not called before the mutex is taken, and once while the daemon
  waits.
\<close>

record 'f coreaudio = drv +
  gOutputDeviceID :: int
  gInputDeviceID :: int
  OutputDataBuf :: "'f list"
  InputDataBuf :: "'f list"
  OutputWroteSamples :: nat
  InputReadSamples :: nat
  audioPlaybackStarted :: bool
  audioRecordStarted :: bool
  coreaudio_has_output_device :: bool
  coreaudio_has_input_device :: bool
  num_ca_input_channel :: int
  coreaudio_init :: bool
  ca_outsize :: nat
  ca_insize :: nat
  ca_played :: "(nat \<times> 'f list) list"
  ca_recorded :: "'f list list"
  ca_outputs :: "nat list"
  ca_inputs :: "nat list"

abbreviation (input) BUF_SIZE :: nat where "BUF_SIZE \<equiv> 4096"

subsection \<open>The procedures the system calls\<close>

definition PlaybackIOProc :: "'f \<Rightarrow> ('f, 'a) coreaudio_scheme \<Rightarrow> ('f, 'a) coreaudio_scheme option" where
  "PlaybackIOProc zero s =
    (let n = OutputWroteSamples s
     in if ca_outsize s < BUF_SIZE \<or> length (OutputDataBuf s) < n then None
        else Some (s\<lparr>ca_played := ca_played s @ [(n, take n (OutputDataBuf s) @ replicate (BUF_SIZE - n) zero)], OutputWroteSamples := 0\<rparr>))"

text \<open>With one channel the samples go to every second place and the places between are left as they are.\<close>

fun every_second :: "'f list \<Rightarrow> 'f list \<Rightarrow> 'f list" where
  "every_second (x # xs) (y # z # zs) = x # z # every_second xs zs"
| "every_second _ zs = zs"

definition RecordIOProc :: "'f \<Rightarrow> ('f, 'a) coreaudio_scheme \<Rightarrow> ('f, 'a) coreaudio_scheme option" where
  "RecordIOProc zero s =
    (let (d, r) = (case ca_recorded s of [] \<Rightarrow> (replicate (ca_insize s) zero, []) | d # r \<Rightarrow> (d, r));
         n = (if num_ca_input_channel s = 2 then BUF_SIZE else BUF_SIZE div 2);
         s = s\<lparr>ca_recorded := r, InputReadSamples := 0\<rparr>
     in if length d < n then None
        else Some (s\<lparr>InputDataBuf := (if num_ca_input_channel s = 2 then take BUF_SIZE d else every_second (take n d) (InputDataBuf s))\<rparr>))"

fun ca_times :: "nat \<Rightarrow> ('s \<Rightarrow> 's option) \<Rightarrow> 's \<Rightarrow> 's option" where
  "ca_times 0 f s = Some s"
| "ca_times (Suc n) f s = f s \<bind> ca_times n f"

definition ca_output :: "nat \<Rightarrow> 'f \<Rightarrow> ('f, 'a) coreaudio_scheme \<Rightarrow> ('f, 'a) coreaudio_scheme option" where
  "ca_output d zero s =
    (let (n, r) = (case ca_outputs s of [] \<Rightarrow> (d, []) | n # r \<Rightarrow> (n, r))
     in ca_times n (PlaybackIOProc zero) (s\<lparr>ca_outputs := r\<rparr>))"

definition ca_input :: "nat \<Rightarrow> 'f \<Rightarrow> ('f, 'a) coreaudio_scheme \<Rightarrow> ('f, 'a) coreaudio_scheme option" where
  "ca_input d zero s =
    (let (n, r) = (case ca_inputs s of [] \<Rightarrow> (d, []) | n # r \<Rightarrow> (n, r))
     in ca_times n (RecordIOProc zero) (s\<lparr>ca_inputs := r\<rparr>))"

subsection \<open>Opening and closing\<close>

definition ca_call :: "string \<Rightarrow> int list \<Rightarrow> ('f, 'a) coreaudio_scheme \<Rightarrow> (int \<times> int list) \<times> ('f, 'a) coreaudio_scheme" where
  "ca_call name args s = (let ((r, _, ws, _), s) = drv_ioctl name args s in ((r, ws), s))"

text \<open>
  The words of a stream format are its rate, whether it is linear PCM, whether it is floating point, and the channels.
  A size the device refuses is only reported: the buffer then has the size in the words of the script.
\<close>

definition ca_format_ok :: "int list \<Rightarrow> int set \<Rightarrow> bool" where
  "ca_format_ok ws channels \<longleftrightarrow> drv_word ws 0 = 44100 \<and> drv_word ws 1 = 1 \<and> drv_word ws 2 = 1 \<and> drv_word ws 3 \<in> channels"

text \<open>\<open>Inl\<close> is an error that is returned. The mutex and the condition are set up last.\<close>

definition ca_sync :: "('f, 'a) coreaudio_scheme \<Rightarrow> int \<times> ('f, 'a) coreaudio_scheme + ('f, 'a) coreaudio_scheme" where
  "ca_sync s =
    (let ((r, _), s) = ca_call ''pthread_mutex_init'' [] s
     in if r \<noteq> 0 then Inl (-1, s)
        else
          let ((r, _), s) = ca_call ''pthread_cond_init'' [] s
          in if r \<noteq> 0 then Inl (-1, s) else Inr (snd (ca_call ''AudioDeviceAddIOProc'' [] s)))"

definition ca_open_output :: "('f, 'a) coreaudio_scheme \<Rightarrow> int \<times> ('f, 'a) coreaudio_scheme + ('f, 'a) coreaudio_scheme" where
  "ca_open_output s =
    (let ((r, ws), s) = ca_call ''DefaultOutputDevice'' [1] s
     in if r \<noteq> 0 then Inl (-2, s)
        else
          let s = s\<lparr>gOutputDeviceID := drv_word ws 0\<rparr>
          in if gOutputDeviceID s = 0 then Inr s
             else
               let s = s\<lparr>coreaudio_has_output_device := True\<rparr>;
                   ((r, _), s) = ca_call ''DeviceName'' [gOutputDeviceID s, 0] s
               in if r \<noteq> 0 then Inl (-2, s)
                  else
                    let ((r, ws), s) = ca_call ''StreamFormat'' [gOutputDeviceID s, 0] s
                    in if r \<noteq> 0 then Inl (-2, s)
                       else if \<not> ca_format_ok ws {2} then Inl (-2, s)
                       else
                         let ((r, ws), s) = ca_call ''BufferSize'' [gOutputDeviceID s, 0] s
                         in ca_sync (s\<lparr>ca_outsize := (if r = 0 then BUF_SIZE else nat (drv_word ws 0))\<rparr>))"

definition ca_open_input :: "('f, 'a) coreaudio_scheme \<Rightarrow> int \<times> ('f, 'a) coreaudio_scheme + ('f, 'a) coreaudio_scheme" where
  "ca_open_input s =
    (let ((r, ws), s) = ca_call ''DefaultInputDevice'' [1] s
     in if r \<noteq> 0 then Inl (-2, s)
        else
          let s = s\<lparr>gInputDeviceID := drv_word ws 0\<rparr>
          in if gInputDeviceID s = 0 then Inr s
             else
               let s = s\<lparr>coreaudio_has_input_device := True\<rparr>;
                   ((r, _), s) = ca_call ''DeviceName'' [gInputDeviceID s, 1] s
               in if r \<noteq> 0 then Inl (-2, s)
                  else
                    let ((r, ws), s) = ca_call ''StreamFormat'' [gInputDeviceID s, 1] s
                    in if r \<noteq> 0 then Inl (-2, s)
                       else if \<not> ca_format_ok ws {2, 1} then Inl (-2, s)
                       else
                         let s = s\<lparr>num_ca_input_channel := drv_word ws 3\<rparr>;
                             n = BUF_SIZE div nat (2 div num_ca_input_channel s);
                             ((r, ws), s) = ca_call ''BufferSize'' [gInputDeviceID s, 1] s
                         in ca_sync (s\<lparr>ca_insize := (if r = 0 then n else nat (drv_word ws 0))\<rparr>))"

definition ca_audio_open :: "('f, 'a) coreaudio_scheme \<Rightarrow> int \<times> ('f, 'a) coreaudio_scheme" where
  "ca_audio_open s =
    (if coreaudio_init s then (0, s)
     else case ca_open_output s of
       Inl r \<Rightarrow> r
     | Inr s \<Rightarrow>
         (case ca_open_input s of
            Inl r \<Rightarrow> r
          | Inr s \<Rightarrow>
              if \<not> coreaudio_has_output_device s then (-2, s)
              else (0, s\<lparr>coreaudio_init := True, esd_audio_fd := 0\<rparr>)))"

text \<open>\<open>close\<close> and \<open>pause\<close> do the same.\<close>

definition ca_audio_close :: "('f, 'a) coreaudio_scheme \<Rightarrow> ('f, 'a) coreaudio_scheme" where
  "ca_audio_close s =
    (let s = (if coreaudio_has_output_device s \<and> audioPlaybackStarted s
              then (snd (ca_call ''AudioDeviceStop'' [gOutputDeviceID s] s))\<lparr>audioPlaybackStarted := False\<rparr> else s)
     in if coreaudio_has_input_device s \<and> audioRecordStarted s
        then (snd (ca_call ''AudioDeviceStop'' [gInputDeviceID s] s))\<lparr>audioRecordStarted := False\<rparr> else s)"

definition ca_audio_pause :: "('f, 'a) coreaudio_scheme \<Rightarrow> ('f, 'a) coreaudio_scheme" where
  "ca_audio_pause s = ca_audio_close s"

subsection \<open>Writing and reading\<close>

text \<open>\<open>while (OutputWroteSamples == BUF_SIZE) pthread_cond_wait (...);\<close>\<close>

partial_function (option) ca_wait_output :: "'f \<Rightarrow> ('f, 'a) coreaudio_scheme \<Rightarrow> ('f, 'a) coreaudio_scheme option" where
  "ca_wait_output zero s =
    (if OutputWroteSamples s = BUF_SIZE then ca_output 1 zero s \<bind> ca_wait_output zero else Some s)"

partial_function (option) ca_wait_input :: "'f \<Rightarrow> ('f, 'a) coreaudio_scheme \<Rightarrow> ('f, 'a) coreaudio_scheme option" where
  "ca_wait_input zero s =
    (if InputReadSamples s = BUF_SIZE then ca_input 1 zero s \<bind> ca_wait_input zero else Some s)"

text \<open>The samples at the start of a buffer.\<close>

fun shorts :: "nat \<Rightarrow> octet list \<Rightarrow> int list option" where
  "shorts 0 bs = Some []"
| "shorts (Suc n) (a # b # bs) = map_option (Cons (le16 a b)) (shorts n bs)"
| "shorts (Suc n) _ = None"

text \<open>The rest of the buffer, and how much of it remains to be written.\<close>

partial_function (option) ca_write_loop ::
  "(int \<Rightarrow> 'f) \<Rightarrow> 'f \<Rightarrow> octet list \<Rightarrow> nat \<Rightarrow> ('f, 'a) coreaudio_scheme \<Rightarrow> ('f, 'a) coreaudio_scheme option" where
  "ca_write_loop scale zero buffer remain s =
    (if remain = 0 then Some s
     else do {
       s \<leftarrow> ca_output 0 zero s;
       s \<leftarrow> ca_wait_output zero s;
       let w = OutputWroteSamples s;
       let n = min (BUF_SIZE - w) (remain div 2);
       xs \<leftarrow> shorts n buffer;
       ca_write_loop scale zero (drop (2 * n) buffer) (remain - 2 * n)
         (s\<lparr>OutputDataBuf := take w (OutputDataBuf s) @ map scale xs @ drop (w + n) (OutputDataBuf s), OutputWroteSamples := w + n\<rparr>) })"

definition ca_audio_write ::
  "(int \<Rightarrow> 'f) \<Rightarrow> 'f \<Rightarrow> octet list \<Rightarrow> int \<Rightarrow> ('f, 'a) coreaudio_scheme \<Rightarrow> (int \<times> ('f, 'a) coreaudio_scheme) option" where
  "ca_audio_write scale zero buffer buf_size s =
    (if \<not> coreaudio_has_output_device s then Some (-1, s)
     else if buf_size < 0 then None
     else
       let s = (if audioPlaybackStarted s then s
                else (snd (ca_call ''AudioDeviceStart'' [gOutputDeviceID s] s))\<lparr>audioPlaybackStarted := True\<rparr>)
       in do { s \<leftarrow> ca_write_loop scale zero buffer (nat buf_size) s; Some (buf_size, s) })"

text \<open>The samples read come back as a list, in place of the buffer they are stored to.\<close>

partial_function (option) ca_read_loop ::
  "('f \<Rightarrow> int) \<Rightarrow> 'f \<Rightarrow> nat \<Rightarrow> ('f, 'a) coreaudio_scheme \<Rightarrow> (int list \<times> ('f, 'a) coreaudio_scheme) option" where
  "ca_read_loop scale zero remain s =
    (if remain = 0 then Some ([], s)
     else do {
       s \<leftarrow> ca_input 0 zero s;
       s \<leftarrow> ca_wait_input zero s;
       let k = InputReadSamples s;
       let n = min (BUF_SIZE - k) (remain div 2);
       let xs = map scale (take n (drop k (InputDataBuf s)));
       (ys, s) \<leftarrow> ca_read_loop scale zero (remain - 2 * n) (s\<lparr>InputReadSamples := k + n\<rparr>);
       Some (xs @ ys, s) })"

definition ca_audio_read ::
  "('f \<Rightarrow> int) \<Rightarrow> 'f \<Rightarrow> octet list \<Rightarrow> int \<Rightarrow> ('f, 'a) coreaudio_scheme \<Rightarrow> ((int \<times> octet list) \<times> ('f, 'a) coreaudio_scheme) option" where
  "ca_audio_read scale zero buffer buf_size s =
    (if \<not> coreaudio_has_input_device s then Some ((-1, buffer), s)
     else if buf_size < 0 then None
     else
       let s = (if audioRecordStarted s then s
                else (snd (ca_call ''AudioDeviceStart'' [gInputDeviceID s] s))\<lparr>audioRecordStarted := True\<rparr>)
       in do {
         (xs, s) \<leftarrow> ca_read_loop scale zero (nat buf_size) s;
         buffer \<leftarrow> blit buffer 0 (concat (map put16 xs));
         Some ((buf_size, buffer), s) })"

definition ca_audio_flush :: "('f, 'a) coreaudio_scheme \<Rightarrow> ('f, 'a) coreaudio_scheme" where
  "ca_audio_flush s = s"

subsection \<open>What is written is played\<close>

text \<open>
  The samples of the daemon that were played, then those in the buffer. A block is as long as the device's buffer, and
  silence follows the samples in it.
\<close>

definition ca_written :: "('f, 'a) coreaudio_scheme \<Rightarrow> 'f list" where
  "ca_written s = concat (map (\<lambda>(n, b). take n b) (ca_played s)) @ take (OutputWroteSamples s) (OutputDataBuf s)"

definition ca_block :: "'f \<Rightarrow> nat \<times> 'f list \<Rightarrow> bool" where
  "ca_block zero = (\<lambda>(n, b). length b = BUF_SIZE \<and> n \<le> BUF_SIZE \<and> list_all (\<lambda>x. x = zero) (drop n b))"

definition ca_inv :: "'f \<Rightarrow> ('f, 'a) coreaudio_scheme \<Rightarrow> bool" where
  "ca_inv zero s \<longleftrightarrow> length (OutputDataBuf s) = BUF_SIZE \<and> OutputWroteSamples s \<le> BUF_SIZE \<and> BUF_SIZE \<le> ca_outsize s
     \<and> list_all (ca_block zero) (ca_played s)"

lemma playback_keeps:
  assumes "ca_inv zero s"
  shows "\<exists>s'. PlaybackIOProc zero s = Some s' \<and> ca_inv zero s' \<and> ca_written s' = ca_written s \<and> OutputWroteSamples s' = 0
    \<and> ca_outputs s' = ca_outputs s"
  using assms by (simp add: PlaybackIOProc_def ca_inv_def ca_written_def ca_block_def list_all_iff Let_def)

lemma playbacks_keep:
  "ca_inv zero s \<Longrightarrow> \<exists>s'. ca_times n (PlaybackIOProc zero) s = Some s' \<and> ca_inv zero s' \<and> ca_written s' = ca_written s
     \<and> (0 < n \<longrightarrow> OutputWroteSamples s' = 0) \<and> ca_outputs s' = ca_outputs s"
proof (induction n arbitrary: s)
  case (Suc n)
  obtain s1 where s1: "PlaybackIOProc zero s = Some s1" "ca_inv zero s1" "ca_written s1 = ca_written s" "OutputWroteSamples s1 = 0"
    "ca_outputs s1 = ca_outputs s" using playback_keeps [OF Suc.prems] by blast
  then show ?case using Suc.IH [OF s1(2)] by (cases n) auto
qed simp

lemma output_keeps:
  assumes "ca_inv zero s"
  shows "\<exists>s'. ca_output d zero s = Some s' \<and> ca_inv zero s' \<and> ca_written s' = ca_written s
    \<and> (length (ca_outputs s') < length (ca_outputs s) \<or> (0 < d \<longrightarrow> OutputWroteSamples s' = 0))"
proof (cases "ca_outputs s")
  case Nil
  have "ca_inv zero (s\<lparr>ca_outputs := []\<rparr>)" using assms by (simp add: ca_inv_def)
  from playbacks_keep [OF this, of d] show ?thesis using Nil by (auto simp: ca_output_def ca_written_def)
next
  case (Cons n r)
  have "ca_inv zero (s\<lparr>ca_outputs := r\<rparr>)" using assms by (simp add: ca_inv_def)
  from playbacks_keep [OF this, of n] show ?thesis using Cons by (auto simp: ca_output_def ca_written_def)
qed

lemma wait_output_keeps:
  "ca_inv zero s \<Longrightarrow> \<exists>s'. ca_wait_output zero s = Some s' \<and> ca_inv zero s' \<and> ca_written s' = ca_written s \<and> OutputWroteSamples s' < BUF_SIZE"
proof (induction "length (ca_outputs s)" arbitrary: s rule: less_induct)
  case less
  have le: "OutputWroteSamples s \<le> BUF_SIZE" using less.prems by (simp add: ca_inv_def)
  show ?case
  proof (cases "OutputWroteSamples s = BUF_SIZE")
    case True
    obtain s1 where s1: "ca_output 1 zero s = Some s1" "ca_inv zero s1" "ca_written s1 = ca_written s"
      "length (ca_outputs s1) < length (ca_outputs s) \<or> OutputWroteSamples s1 = 0" using output_keeps [OF less.prems, of 1] by auto
    have "\<exists>s'. ca_wait_output zero s1 = Some s' \<and> ca_inv zero s' \<and> ca_written s' = ca_written s1 \<and> OutputWroteSamples s' < BUF_SIZE"
      using s1(4)
    proof
      assume "OutputWroteSamples s1 = 0"
      then show ?thesis using s1(2) by (simp add: ca_wait_output.simps [of zero s1])
    qed (rule less.hyps [OF _ s1(2)])
    then show ?thesis using s1(1,3) True by (subst ca_wait_output.simps) auto
  next
    case False
    then show ?thesis using less.prems le by (subst ca_wait_output.simps) auto
  qed
qed

lemma shorts_split:
  "2 * (n + m) \<le> length bs \<Longrightarrow>
     \<exists>xs ys. shorts n bs = Some xs \<and> shorts m (drop (2 * n) bs) = Some ys \<and> shorts (n + m) bs = Some (xs @ ys) \<and> length xs = n"
proof (induction n arbitrary: bs)
  case 0
  have "\<exists>ys. shorts m bs = Some ys" if "2 * m \<le> length bs" for m and bs :: "octet list"
    using that by (induction m bs rule: shorts.induct) auto
  then show ?case using 0 by auto
next
  case (Suc n)
  then obtain a b bs' where bs: "bs = a # b # bs'" by (cases bs rule: shorts.cases [of "(1, bs)" for bs, simplified]) (auto simp: neq_Nil_conv Suc_le_length_iff)
  then show ?case using Suc.IH [of bs'] Suc.prems by auto
qed

lemma write_loop_plays:
  assumes "ca_inv zero s" "2 * n \<le> length buf"
  shows "\<exists>xs s'. shorts n buf = Some xs \<and> ca_write_loop scale zero buf (2 * n) s = Some s' \<and> ca_inv zero s'
    \<and> ca_written s' = ca_written s @ map scale xs"
  using assms
proof (induction n arbitrary: s buf rule: less_induct)
  case (less n)
  show ?case
  proof (cases "n = 0")
    case True
    then show ?thesis using less.prems by (subst ca_write_loop.simps) simp
  next
    case False
    obtain s1 where s1: "ca_output 0 zero s = Some s1" "ca_inv zero s1" "ca_written s1 = ca_written s"
      using output_keeps [OF less.prems(1)] by blast
    obtain s2 where s2: "ca_wait_output zero s1 = Some s2" "ca_inv zero s2" "ca_written s2 = ca_written s" "OutputWroteSamples s2 < BUF_SIZE"
      using wait_output_keeps [OF s1(2)] s1(3) by auto
    define w k where "w = OutputWroteSamples s2" and "k = min (BUF_SIZE - w) n"
    have k: "0 < k" "k \<le> n" "w + k \<le> BUF_SIZE" using s2(4) False by (simp_all add: w_def k_def)
    obtain xs ys where x: "shorts k buf = Some xs" "shorts (n - k) (drop (2 * k) buf) = Some ys" "shorts n buf = Some (xs @ ys)" "length xs = k"
      using shorts_split [of k "n - k" buf] k(2) less.prems(2) by auto
    define s3 where "s3 = s2\<lparr>OutputDataBuf := take w (OutputDataBuf s2) @ map scale xs @ drop (w + k) (OutputDataBuf s2), OutputWroteSamples := w + k\<rparr>"
    have i3: "ca_inv zero s3" "ca_written s3 = ca_written s @ map scale xs"
      using s2(2,3) k(3) x(4) by (auto simp: s3_def ca_inv_def ca_written_def w_def)
    have "2 * (n - k) \<le> length (drop (2 * k) buf)" using less.prems(2) by simp
    then obtain zs s4 where s4: "shorts (n - k) (drop (2 * k) buf) = Some zs"
      "ca_write_loop scale zero (drop (2 * k) buf) (2 * (n - k)) s3 = Some s4" "ca_inv zero s4" "ca_written s4 = ca_written s3 @ map scale zs"
      using less.IH [OF _ i3(1), of "n - k"] k by (metis diff_less False bot_nat_0.not_eq_extremum)
    have "ca_write_loop scale zero buf (2 * n) s = Some s4"
      using s1(1) s2(1) x(1) s4(2) False
      by (subst ca_write_loop.simps) (simp add: Let_def w_def [symmetric] k_def [symmetric] s3_def diff_mult_distrib2)
    then show ?thesis using x s4 i3(2) by auto
  qed
qed

lemma write_loop_even:
  assumes "ca_write_loop scale zero buf n s = Some s'"
  shows "even n"
proof (rule ca_write_loop.raw_induct [OF _ assms, where P = "\<lambda>scale zero buf n s s'. even n"], goal_cases)
  case (1 wl scale zero buf n s s')
  show ?case
  proof (cases "n = 0")
    case False
    with 1(2) obtain k where "even (n - 2 * min k (n div 2))"
      by (fastforce simp: bind_eq_Some_conv Let_def dest: 1(1))
    moreover have "2 * min k (n div 2) \<le> n" by linarith
    ultimately show ?thesis by simp
  qed simp
qed

text \<open>
  C33. With CoreAudio, whenever the system calls for samples: writing an even number of bytes ends, and the samples that were
  played or wait in the buffer are, in order and with none lost, those before and then those written; blocks that
  are not full end in silence. Writing an odd number of bytes never ends.
\<close>

theorem coreaudio_write_plays:
  assumes "ca_inv zero s" "coreaudio_has_output_device s" "n \<le> length buf"
  shows "if even n then \<exists>xs s'. shorts (n div 2) buf = Some xs \<and> ca_audio_write scale zero buf (int n) s = Some (int n, s')
      \<and> ca_inv zero s' \<and> ca_written s' = ca_written s @ map scale xs
    else ca_audio_write scale zero buf (int n) s = None"
proof -
  define s1 where "s1 = (if audioPlaybackStarted s then s
    else (snd (ca_call ''AudioDeviceStart'' [gOutputDeviceID s] s))\<lparr>audioPlaybackStarted := True\<rparr>)"
  have i: "ca_inv zero s1" "ca_written s1 = ca_written s"
    using assms(1) by (auto simp: s1_def ca_inv_def ca_written_def ca_call_def drv_ioctl_def Let_def split: list.splits prod.splits)
  have w: "ca_audio_write scale zero buf (int n) s = ca_write_loop scale zero buf n s1 \<bind> (\<lambda>s. Some (int n, s))"
    using assms(2) by (simp add: ca_audio_write_def s1_def)
  show ?thesis
  proof (cases "even n")
    case True
    then show ?thesis using write_loop_plays [OF i(1), of "n div 2" buf scale] assms(3) i(2) w by auto
  next
    case False
    then show ?thesis using write_loop_even [of scale zero buf n s1] w by (cases "ca_write_loop scale zero buf n s1") auto
  qed
qed

definition ca0 :: "int coreaudio" where
  "ca0 = drv.extend (audio.extend audio0 (drv.fields []
       [(0, E_OTHER, [7], []), (0, E_OTHER, [], []), (0, E_OTHER, [44100, 1, 1, 2], []), (0, E_OTHER, [], []), (0, E_OTHER, [], []),
        (0, E_OTHER, [], []), (0, E_OTHER, [], []), (0, E_OTHER, [0], [])] [] [] None None None))
     (coreaudio.fields 0 0 (replicate BUF_SIZE 0) (replicate BUF_SIZE 0) 0 0 False False False False 0 False 0 0 [] [] [0, 2] [])"

lemma ca0_open: "fst (ca_audio_open ca0) = 0 \<and> ca_inv 0 (snd (ca_audio_open ca0)) \<and> coreaudio_has_output_device (snd (ca_audio_open ca0))
    \<and> ca_written (snd (ca_audio_open ca0)) = []"
  by (simp add: ca0_def audio0_def drv.defs audio.defs coreaudio.defs ca_audio_open_def ca_open_output_def ca_open_input_def ca_sync_def
      ca_call_def drv_ioctl_def drv_word_def ca_format_ok_def ca_inv_def ca_written_def Let_def)

theorem coreaudio_write_plays_witness:
  "(\<exists>s'. ca_audio_write id 0 [1, 0, 2, 0] 4 (snd (ca_audio_open ca0)) = Some (4, s') \<and> ca_written s' = [1, 2])
    \<and> ca_audio_write id 0 [1, 0, 2, 0] 3 (snd (ca_audio_open ca0)) = None"
proof -
  have "shorts 2 [1, 0, 2, 0] = Some [1, 2]" by code_simp
  then show ?thesis
    using coreaudio_write_plays [of 0 "snd (ca_audio_open ca0)" 4 "[1, 0, 2, 0]" id]
      coreaudio_write_plays [of 0 "snd (ca_audio_open ca0)" 3 "[1, 0, 2, 0]" id] ca0_open
    by auto
qed

text \<open>The interface of a driver: once it is open it stays open, as the driver only stops and starts the device.\<close>

lemma ca_call_keeps [simp]:
  "coreaudio_init (snd (ca_call name args s)) = coreaudio_init s"
  by (auto simp: ca_call_def drv_ioctl_def Let_def split: list.splits prod.splits)

definition ca_stage :: "('f, 'a) coreaudio_scheme \<Rightarrow> int \<times> ('f, 'a) coreaudio_scheme + ('f, 'a) coreaudio_scheme \<Rightarrow> bool" where
  "ca_stage s x = (case x of Inl (r, s') \<Rightarrow> r < 0 \<and> coreaudio_init s' = coreaudio_init s | Inr s' \<Rightarrow> coreaudio_init s' = coreaudio_init s)"

lemma ca_sync_stage: "coreaudio_init t = coreaudio_init s \<Longrightarrow> ca_stage s (ca_sync t)"
  by (simp add: ca_stage_def ca_sync_def Let_def case_prod_beta)

lemma ca_open_output_stage: "ca_stage s (ca_open_output s)"
  by (simp add: ca_open_output_def Let_def case_prod_beta ca_sync_stage) (simp add: ca_stage_def)

lemma ca_open_input_stage: "ca_stage s (ca_open_input s)"
  by (simp add: ca_open_input_def Let_def case_prod_beta ca_sync_stage) (simp add: ca_stage_def)

lemma ca_open_init:
  assumes "ca_audio_open s = (r, s')"
  shows "r = 0 \<and> coreaudio_init s' \<or> r < 0 \<and> coreaudio_init s' = coreaudio_init s"
proof (cases "ca_open_output s")
  case (Inl x)
  then show ?thesis using assms ca_open_output_stage [of s] by (auto simp: ca_audio_open_def ca_stage_def split: if_splits)
next
  case (Inr s1)
  then show ?thesis using assms ca_open_output_stage [of s] ca_open_input_stage [of s1]
    by (auto simp: ca_audio_open_def ca_stage_def split: if_splits sum.splits)
qed

interpretation coreaudio: audio_opener ca_audio_open "\<lambda>s. if coreaudio_init s then 0 else -1"
  by unfold_locales (auto dest: ca_open_init split: if_splits)

text \<open>With one channel every second sample that is recorded is what it was before.\<close>

lemma every_second_keeps: "Suc (2 * k) < length zs \<Longrightarrow> every_second xs zs ! Suc (2 * k) = zs ! Suc (2 * k)"
proof (induction xs zs arbitrary: k rule: every_second.induct)
  case (1 x xs y z zs)
  then show ?case by (cases k) auto
qed simp_all

end
