(* ===== verification/Esd_Dart.thy ===== *)
theory Esd_Dart
  imports Esd_Drivers
begin

text \<open>
  The driver for OS/2 (\<open>audio_dart.c\<close>). The daemon copies what it is to play into a ring of eight buffers and hands them
  to the system, which calls \<open>Dart_UpdateBuffers\<close> on a thread of its own when it is done with one. The two threads share the
  number of buffers in use; their steps are interleaved as they come. What the calls of the system return is taken from the
  scripts of \<open>drv\<close>. The macros for exclusive use and priority are not defined. \<open>None\<close> is a wait without an end, or a step
  that cannot be taken. Messages are left out.
\<close>

unbundle bit_operations_syntax

subsection \<open>State\<close>

text \<open>
  The static variables: the contents of the buffers, as long as \<open>ulBufferLength\<close>; whether \<open>MixBuffers[0].pBuffer\<close> is not null; and the system:
  the buffers it has been handed, by number, and what it has played.
\<close>

record dart = drv +
  MixBuffers :: "octet list list"
  dart_memory :: bool
  DeviceIndex :: int
  DeviceHandle :: int
  BufferSize :: int
  MixBufferIndex :: nat
  MixBufferCount :: int
  dart_queue :: "nat list"
  dart_played :: "octet list"

abbreviation (input) BUFFER_COUNT :: nat where "BUFFER_COUNT \<equiv> 8"

definition mciSendCommand :: "string \<Rightarrow> int list \<Rightarrow> 'a dart_scheme \<Rightarrow> (int \<times> int list) \<times> 'a dart_scheme" where
  "mciSendCommand name args s = (let ((r, _, ws, _), s) = drv_ioctl name args s in ((r, ws), s))"

text \<open>The parameter is what \<open>MCI_STOP\<close> does to the buffers the system holds.\<close>

definition dart_audio_stop :: "(nat list \<Rightarrow> nat list) \<Rightarrow> 'a dart_scheme \<Rightarrow> 'a dart_scheme" where
  "dart_audio_stop stop s =
    (let s = snd (mciSendCommand ''MCI_STOP'' [DeviceHandle s] s) in s\<lparr>dart_queue := stop (dart_queue s), MixBufferCount := 0\<rparr>)"

subsection \<open>Opening and closing\<close>

text \<open>\<open>for (bit = 15; bit >= 12; bit--) if (BufferSize & (1 << bit)) break;\<close>\<close>

fun dart_top_bit :: "nat \<Rightarrow> int \<Rightarrow> nat" where
  "dart_top_bit b sz = (if 12 \<le> b then if sz AND push_bit b 1 \<noteq> 0 then b else dart_top_bit (b - 1) sz else b)"

declare dart_top_bit.simps [simp del]

definition dart_buffer_size :: "int \<Rightarrow> int \<Rightarrow> int" where
  "dart_buffer_size rate format =
    (let sz = drop_bit 4 rate;
         sz = (if format AND ESD_STEREO \<noteq> 0 then i32 (push_bit 1 sz) else sz);
         sz = (if format AND ESD_BITS16 \<noteq> 0 then i32 (push_bit 1 sz) else sz);
         sz = push_bit (dart_top_bit 15 sz) 1
     in if sz > 65536 then 65536 else sz)"

definition dart_allocate :: "'a dart_scheme \<Rightarrow> int \<times> 'a dart_scheme" where
  "dart_allocate s =
    (let s = s\<lparr>BufferSize := dart_buffer_size (esd_audio_rate s) (esd_audio_format s)\<rparr>;
         ((r, _), s) = mciSendCommand ''MCI_BUFFER'' [DeviceHandle s, int BUFFER_COUNT, BufferSize s] s
     in if r \<noteq> 0 then (-1, snd (mciSendCommand ''MCI_CLOSE'' [DeviceHandle s] s))
        else (1, s\<lparr>dart_memory := True, MixBuffers := replicate BUFFER_COUNT []\<rparr>))"

definition dart_mixsetup :: "'a dart_scheme \<Rightarrow> int \<times> 'a dart_scheme" where
  "dart_mixsetup s =
    (let ((r, _), s) = mciSendCommand ''MCI_MIXSETUP''
       [DeviceHandle s, if esd_audio_format s AND ESD_BITS16 \<noteq> 0 then 16 else 8, esd_audio_rate s,
        if esd_audio_format s AND ESD_STEREO \<noteq> 0 then 2 else 1] s
     in if r \<noteq> 0 then (-1, s) else dart_allocate s)"

definition dart_audio_open :: "'a dart_scheme \<Rightarrow> int \<times> 'a dart_scheme" where
  "dart_audio_open s =
    (if drv_recording s then (-1, s)
     else
       let s = snd (mciSendCommand ''DosCreateMutexSem'' [] s);
           s = s\<lparr>DeviceIndex := (case esd_audio_device s of None \<Rightarrow> 0 | Some d \<Rightarrow> u32 (atoi d)), MixBufferIndex := 0, MixBufferCount := 0,
                 dart_memory := False, DeviceHandle := 0\<rparr>;
           ((r, ws), s) = mciSendCommand ''MCI_OPEN'' [1, take_bit 16 (DeviceIndex s)] s
       in if r \<noteq> 0 then (-1, s) else dart_mixsetup (s\<lparr>DeviceHandle := take_bit 16 (drv_word ws 0)\<rparr>))"

definition dart_audio_close :: "(nat list \<Rightarrow> nat list) \<Rightarrow> 'a dart_scheme \<Rightarrow> 'a dart_scheme" where
  "dart_audio_close stop s =
    (let s = dart_audio_stop stop s;
         s = (if dart_memory s then (snd (mciSendCommand ''MCI_BUFFER'' [DeviceHandle s] s))\<lparr>dart_memory := False\<rparr> else s);
         s = (if DeviceHandle s \<noteq> 0 then (snd (mciSendCommand ''MCI_CLOSE'' [DeviceHandle s] s))\<lparr>DeviceHandle := 0\<rparr> else s)
     in snd (mciSendCommand ''DosCloseMutexSem'' [] s))"

subsection \<open>The two threads\<close>

text \<open>
  Where the daemon is in the loop of \<open>esd_audio_write\<close>: waiting for a free buffer, filling it, counting it (it is the
  number of the buffer that is kept), handing it over, or out of the loop because the semaphore failed. Where the callback is: not running,
  counting, testing the count, stopping.
\<close>

datatype dart_writer = W_Wait | W_Fill | W_Count nat | W_Out nat | W_Break
datatype dart_callback = C_Idle | C_Count | C_Test | C_Stop

record dart_run = dart +
  writer :: dart_writer
  callback :: dart_callback
  wr_buffer :: "octet list"
  bytes_played :: nat

text \<open>\<open>while (buf_size) { ... }\<close>, one step at a time. There is no step while no buffer is free, and none at the end.\<close>

definition dart_writer_step :: "'a dart_run_scheme \<Rightarrow> 'a dart_run_scheme option" where
  "dart_writer_step s =
    (case writer s of
       W_Wait \<Rightarrow> if wr_buffer s \<noteq> [] \<and> MixBufferCount s < int BUFFER_COUNT then Some (s\<lparr>writer := W_Fill\<rparr>) else None
     | W_Fill \<Rightarrow>
         let pbuf = MixBufferIndex s;
             i = nat (min (int (length (wr_buffer s))) (BufferSize s))
         in Some (s\<lparr>MixBufferIndex := (MixBufferIndex s + 1) mod BUFFER_COUNT, MixBuffers := (MixBuffers s)[pbuf := take i (wr_buffer s)],
                    wr_buffer := drop i (wr_buffer s), bytes_played := bytes_played s + i, writer := W_Count pbuf\<rparr>)
     | W_Count pbuf \<Rightarrow>
         let ((r, _), s) = mciSendCommand ''DosRequestMutexSem'' [] s
         in Some (if r \<noteq> 0 then s\<lparr>writer := W_Break\<rparr> else s\<lparr>MixBufferCount := MixBufferCount s + 1, writer := W_Out pbuf\<rparr>)
     | W_Out pbuf \<Rightarrow> Some (s\<lparr>dart_queue := dart_queue s @ [pbuf], writer := W_Wait\<rparr>)
     | W_Break \<Rightarrow> None)"

text \<open>The system is done with a buffer and calls \<open>Dart_UpdateBuffers\<close>, which looks at the count first.\<close>

definition dart_device_step :: "'a dart_run_scheme \<Rightarrow> 'a dart_run_scheme option" where
  "dart_device_step s =
    (case (callback s, dart_queue s) of
       (C_Idle, b # q) \<Rightarrow>
         Some (s\<lparr>dart_queue := q, dart_played := dart_played s @ MixBuffers s ! b,
                 callback := (if MixBufferCount s \<noteq> 0 then C_Count else C_Idle)\<rparr>)
     | _ \<Rightarrow> None)"

definition dart_callback_step :: "(nat list \<Rightarrow> nat list) \<Rightarrow> 'a dart_run_scheme \<Rightarrow> 'a dart_run_scheme option" where
  "dart_callback_step stop s =
    (case callback s of
       C_Idle \<Rightarrow> None
     | C_Count \<Rightarrow> Some (s\<lparr>MixBufferCount := MixBufferCount s - 1, callback := C_Test\<rparr>)
     | C_Test \<Rightarrow> Some (s\<lparr>callback := (if MixBufferCount s = 0 then C_Stop else C_Idle)\<rparr>)
     | C_Stop \<Rightarrow> Some ((dart_audio_stop stop s)\<lparr>callback := C_Idle\<rparr>))"

text \<open>All interleavings, and those in which the daemon waits while a callback runs.\<close>

datatype dart_thread = Writer | Device | Callback

definition dart_step :: "(nat list \<Rightarrow> nat list) \<Rightarrow> dart_thread \<Rightarrow> 'a dart_run_scheme \<Rightarrow> 'a dart_run_scheme option" where
  "dart_step stop t s =
    (case t of Writer \<Rightarrow> dart_writer_step s | Device \<Rightarrow> dart_device_step s | Callback \<Rightarrow> dart_callback_step stop s)"

fun dart_schedule :: "(nat list \<Rightarrow> nat list) \<Rightarrow> dart_thread list \<Rightarrow> 'a dart_run_scheme \<Rightarrow> 'a dart_run_scheme option" where
  "dart_schedule stop [] s = Some s"
| "dart_schedule stop (t # ts) s = dart_step stop t s \<bind> dart_schedule stop ts"

inductive dart_atomic :: "(nat list \<Rightarrow> nat list) \<Rightarrow> 'a dart_run_scheme \<Rightarrow> 'a dart_run_scheme \<Rightarrow> bool" for stop where
  dart_start: "dart_atomic stop s s"
| dart_writes: "dart_atomic stop s s1 \<Longrightarrow> callback s1 = C_Idle \<Longrightarrow> dart_step stop Writer s1 = Some s2 \<Longrightarrow> dart_atomic stop s s2"
| dart_plays: "dart_atomic stop s s1 \<Longrightarrow> dart_step stop Device s1 = Some s2 \<Longrightarrow> dart_atomic stop s s2"
| dart_calls: "dart_atomic stop s s1 \<Longrightarrow> dart_step stop Callback s1 = Some s2 \<Longrightarrow> dart_atomic stop s s2"

text \<open>
  A session: any number of calls of \<open>esd_audio_write\<close>, each with a buffer of its own once the call before has returned, with
  what they were given so far.
\<close>

inductive dart_session :: "(nat list \<Rightarrow> nat list) \<Rightarrow> 'a dart_run_scheme \<Rightarrow> octet list \<Rightarrow> 'a dart_run_scheme \<Rightarrow> bool" for stop s where
  session_start: "dart_session stop s [] s"
| session_write: "dart_session stop s w s1 \<Longrightarrow> writer s1 = W_Wait \<Longrightarrow> wr_buffer s1 = [] \<Longrightarrow>
    dart_session stop s (w @ buf) (s1\<lparr>wr_buffer := buf, bytes_played := 0\<rparr>)"
| session_runs: "dart_session stop s w s1 \<Longrightarrow> dart_atomic stop s1 s2 \<Longrightarrow> dart_session stop s w s2"

subsection \<open>Waiting\<close>

text \<open>
  \<open>while (...) DosSleep (0);\<close> until the count is as it should be, as in \<open>pause\<close> and \<open>flush\<close>: callbacks run to their end. Without a buffer in the system nothing
  comes any more.
\<close>

partial_function (option) dart_wait :: "(nat list \<Rightarrow> nat list) \<Rightarrow> (int \<Rightarrow> bool) \<Rightarrow> 'a dart_run_scheme \<Rightarrow> 'a dart_run_scheme option" where
  "dart_wait stop below s =
    (if below (MixBufferCount s) then Some s
     else do {
       s \<leftarrow> (if callback s = C_Idle then dart_device_step s else dart_callback_step stop s);
       dart_wait stop below s })"

definition dart_audio_flush :: "(nat list \<Rightarrow> nat list) \<Rightarrow> 'a dart_run_scheme \<Rightarrow> 'a dart_run_scheme option" where
  "dart_audio_flush stop s = dart_wait stop (\<lambda>n. n = 0) s"

definition dart_audio_pause :: "(nat list \<Rightarrow> nat list) \<Rightarrow> 'a dart_run_scheme \<Rightarrow> 'a dart_run_scheme option" where
  "dart_audio_pause stop s = dart_wait stop (\<lambda>n. n = 0) s"

text \<open>Reading hands buffers over and waits for them; what they hold is never copied to the caller.\<close>

partial_function (option) dart_read_loop ::
  "(nat list \<Rightarrow> nat list) \<Rightarrow> nat \<Rightarrow> nat \<Rightarrow> 'a dart_run_scheme \<Rightarrow> (nat \<times> 'a dart_run_scheme) option" where
  "dart_read_loop stop buf_size sampled s =
    (if buf_size = 0 then do { s \<leftarrow> dart_wait stop (\<lambda>n. n = 0) s; Some (sampled, s) }
     else do {
       s \<leftarrow> dart_wait stop (\<lambda>n. n < int BUFFER_COUNT) s;
       let pbuf = MixBufferIndex s;
       let i = nat (min (int buf_size) (BufferSize s));
       let ((r, _), s) = mciSendCommand ''DosRequestMutexSem'' [] (s\<lparr>MixBufferIndex := (pbuf + 1) mod BUFFER_COUNT\<rparr>);
       if r \<noteq> 0 then do { s \<leftarrow> dart_wait stop (\<lambda>n. n = 0) s; Some (sampled, s) }
       else dart_read_loop stop (buf_size - i) (sampled + i)
              (s\<lparr>MixBufferCount := MixBufferCount s + 1, dart_queue := dart_queue s @ [pbuf]\<rparr>) })"

definition dart_audio_read ::
  "(nat list \<Rightarrow> nat list) \<Rightarrow> octet list \<Rightarrow> nat \<Rightarrow> 'a dart_run_scheme \<Rightarrow> ((nat \<times> octet list) \<times> 'a dart_run_scheme) option" where
  "dart_audio_read stop buffer buf_size s = do { (n, s) \<leftarrow> dart_read_loop stop buf_size 0 s; Some ((n, buffer), s) }"

subsection \<open>Opening and closing\<close>

lemma dart_top_bit_range: "11 \<le> b \<Longrightarrow> 11 \<le> dart_top_bit b sz \<and> dart_top_bit b sz \<le> b"
proof (induction b arbitrary: sz rule: less_induct)
  case (less b)
  show ?case
  proof (cases "12 \<le> b")
    case True
    then have "dart_top_bit b sz = (if sz AND push_bit b 1 \<noteq> 0 then b else dart_top_bit (b - 1) sz)"
      by (subst dart_top_bit.simps) simp
    moreover have "11 \<le> dart_top_bit (b - 1) sz \<and> dart_top_bit (b - 1) sz \<le> b - 1" using less.IH [of "b - 1" sz] True by simp
    ultimately show ?thesis using less.prems by (auto intro: le_trans [OF _ diff_le_self])
  next
    case False
    then show ?thesis using less.prems by (subst (1 2) dart_top_bit.simps) simp
  qed
qed

text \<open>The size of a buffer is a power of two between 2 and 32 kB, whatever the rate; the test for 64 kB never holds.\<close>

lemma dart_buffer_size_range: "\<exists>k. 11 \<le> k \<and> k \<le> 15 \<and> dart_buffer_size rate format = 2 ^ k"
proof -
  have "\<exists>k. 11 \<le> k \<and> k \<le> 15 \<and> (let n = push_bit (dart_top_bit 15 x) 1 :: int in if n > 65536 then 65536 else n) = 2 ^ k" for x
  proof -
    have k: "11 \<le> dart_top_bit 15 x" "dart_top_bit 15 x \<le> 15" using dart_top_bit_range [of 15 x] by simp_all
    then have "(2 :: int) ^ dart_top_bit 15 x \<le> 2 ^ 15" by (intro power_increasing) simp_all
    then have "(let n = push_bit (dart_top_bit 15 x) 1 :: int in if n > 65536 then 65536 else n) = 2 ^ dart_top_bit 15 x"
      by (simp add: push_bit_eq_mult)
    then show ?thesis using k by blast
  qed
  then show ?thesis by (simp add: dart_buffer_size_def Let_def)
qed

lemma mciSendCommand_keeps [simp]:
  "dart_memory (snd (mciSendCommand name args s)) = dart_memory s"
  "dart_queue (snd (mciSendCommand name args s)) = dart_queue s"
  by (auto simp: mciSendCommand_def drv_ioctl_def Let_def split: list.splits prod.splits)

definition dart_opens :: "'a dart_scheme \<Rightarrow> int \<times> 'a dart_scheme \<Rightarrow> bool" where
  "dart_opens s x \<longleftrightarrow> fst x = 1 \<and> dart_memory (snd x) \<or> fst x = -1 \<and> (dart_memory (snd x) \<longrightarrow> dart_memory s)"

lemma dart_allocate_opens: "dart_memory t = dart_memory s \<Longrightarrow> dart_opens s (dart_allocate t)"
  by (simp add: dart_allocate_def dart_opens_def Let_def case_prod_beta)

lemma dart_mixsetup_opens: "dart_memory t = dart_memory s \<Longrightarrow> dart_opens s (dart_mixsetup t)"
  by (simp add: dart_mixsetup_def Let_def case_prod_beta dart_allocate_opens) (simp add: dart_opens_def)

lemma dart_opens_less: "dart_opens t x \<Longrightarrow> \<not> dart_memory t \<Longrightarrow> dart_opens s x"
  by (auto simp: dart_opens_def)

lemma dart_audio_open_opens: "dart_opens s (dart_audio_open s)"
proof -
  have "dart_opens s (if r \<noteq> 0 then (-1, t) else dart_mixsetup (t\<lparr>DeviceHandle := h\<rparr>))" if "\<not> dart_memory t"
    for r :: int and h and t :: "'a dart_scheme"
    using that dart_opens_less [OF dart_mixsetup_opens [OF refl], of "t\<lparr>DeviceHandle := h\<rparr>"] by (simp add: dart_opens_def)
  then show ?thesis unfolding dart_audio_open_def Let_def case_prod_beta by (simp add: dart_opens_def)
qed

lemma dart_open_memory:
  "dart_audio_open s = (r, s') \<Longrightarrow> r = 1 \<and> dart_memory s' \<or> r = -1 \<and> (dart_memory s' \<longrightarrow> dart_memory s)"
  using dart_audio_open_opens [of s] by (simp add: dart_opens_def)

interpretation dart: audio_device dart_audio_open "\<lambda>s. if dart_memory s then 1 else -1" "dart_audio_close stop" for stop
proof
  fix s :: "'a dart_scheme"
  show "(if dart_memory (dart_audio_close stop s) then 1 else -1) = -1"
    by (simp add: dart_audio_close_def dart_audio_stop_def Let_def)
qed (auto dest: dart_open_memory split: if_splits)

subsection \<open>What is written is played\<close>

text \<open>The last \<open>m\<close> places of the ring before a place.\<close>

fun ring :: "nat \<Rightarrow> nat \<Rightarrow> nat list" where
  "ring i 0 = []"
| "ring i (Suc m) = (i + 7 - m) mod 8 # ring i m"

lemma length_ring [simp]: "length (ring i m) = m"
  by (induction m) simp_all

lemma ring_snoc: "i < 8 \<Longrightarrow> m \<le> 7 \<Longrightarrow> ring ((i + 1) mod 8) (Suc m) = ring i m @ [i]"
proof (induction m)
  case (Suc m)
  have "((i + 1) mod 8 + 7 - Suc m) mod 8 = (i + 7 - m) mod 8"
  proof (cases "i = 7")
    case True
    then show ?thesis using Suc.prems by (simp add: le_mod_geq)
  next
    case False
    then show ?thesis using Suc.prems by (simp add: add.commute)
  qed
  then show ?case using Suc by simp
qed (simp add: mod_simps)

lemma ring_notin: "i < 8 \<Longrightarrow> m \<le> 7 \<Longrightarrow> i \<notin> set (ring i m)"
proof (induction m)
  case (Suc m)
  have "(i + 7 - m) mod 8 = (if i + 7 - m < 8 then i + 7 - m else i + 7 - m - 8)"
    using Suc.prems by (auto simp: le_mod_geq)
  then have "(i + 7 - m) mod 8 \<noteq> i" using Suc.prems by (auto split: if_splits)
  then show ?case using Suc by simp
qed simp

lemma ring_less: "b \<in> set (ring i m) \<Longrightarrow> b < 8"
  by (induction m) auto

text \<open>
  The buffers that are full and not played yet. What was played, what they hold and what is left of the caller's buffer
  make up the data.
\<close>

definition dart_pending :: "'a dart_run_scheme \<Rightarrow> nat list" where
  "dart_pending s = dart_queue s @ (case writer s of W_Count b \<Rightarrow> [b] | W_Out b \<Rightarrow> [b] | _ \<Rightarrow> [])"

definition dart_data :: "'a dart_run_scheme \<Rightarrow> octet list" where
  "dart_data s = dart_played s @ concat (map ((!) (MixBuffers s)) (dart_pending s)) @ wr_buffer s"

definition dart_ring :: "'a dart_run_scheme \<Rightarrow> bool" where
  "dart_ring s \<longleftrightarrow> dart_pending s = ring (MixBufferIndex s) (length (dart_pending s)) \<and> length (dart_pending s) \<le> BUFFER_COUNT"

definition dart_inv :: "'a dart_run_scheme \<Rightarrow> bool" where
  "dart_inv s \<longleftrightarrow> length (MixBuffers s) = BUFFER_COUNT \<and> 0 < BufferSize s \<and> drv_ioctls s = [] \<and> writer s \<noteq> W_Break
     \<and> MixBufferIndex s < BUFFER_COUNT \<and> dart_ring s
     \<and> MixBufferCount s = int (length (dart_queue s)) + (case writer s of W_Out _ \<Rightarrow> 1 | _ \<Rightarrow> 0) + (if callback s = C_Count then 1 else 0)
     \<and> (writer s = W_Fill \<longrightarrow> length (dart_queue s) < BUFFER_COUNT) \<and> (callback s = C_Stop \<longrightarrow> MixBufferCount s = 0)"

lemma same_pending:
  assumes "dart_pending s' = dart_pending s" "MixBufferIndex s' = MixBufferIndex s" "MixBuffers s' = MixBuffers s"
    "dart_played s' = dart_played s" "wr_buffer s' = wr_buffer s"
  shows "dart_ring s' = dart_ring s" "dart_data s' = dart_data s"
  using assms by (simp_all add: dart_ring_def dart_data_def)

lemma writer_keeps:
  assumes "dart_inv s" "callback s = C_Idle" "dart_writer_step s = Some s'"
  shows "dart_inv s' \<and> dart_data s' = dart_data s"
proof (cases "writer s")
  case W_Wait
  then have "s' = s\<lparr>writer := W_Fill\<rparr>" "MixBufferCount s < 8" using assms(3) by (auto simp: dart_writer_step_def split: if_splits)
  then show ?thesis using same_pending [of s' s] assms(1,2) W_Wait by (simp add: dart_inv_def dart_pending_def)
next
  case W_Fill
  define i chunk where "i = MixBufferIndex s" and "chunk = take (nat (min (int (length (wr_buffer s))) (BufferSize s))) (wr_buffer s)"
  have q: "dart_queue s = ring i (length (dart_queue s))" "length (dart_queue s) \<le> 7" "i < 8"
    using assms(1) W_Fill by (auto simp: dart_inv_def dart_ring_def dart_pending_def i_def)
  have r: "dart_queue s @ [i] = ring ((i + 1) mod 8) (Suc (length (dart_queue s)))"
    using ring_snoc [OF q(3,2)] q(1) by simp
  have "i \<notin> set (dart_queue s)" using ring_notin [OF q(3,2)] q(1) by simp
  then have m: "concat (map ((!) ((MixBuffers s)[i := chunk])) (dart_queue s)) = concat (map ((!) (MixBuffers s)) (dart_queue s))"
    by (intro arg_cong [of _ _ concat] map_cong refl) (metis nth_list_update_neq)
  have s': "dart_queue s' = dart_queue s" "writer s' = W_Count i" "MixBufferIndex s' = (i + 1) mod 8" "MixBuffers s' = (MixBuffers s)[i := chunk]"
      "dart_played s' = dart_played s" "chunk @ wr_buffer s' = wr_buffer s" "MixBufferCount s' = MixBufferCount s" "callback s' = callback s"
      "BufferSize s' = BufferSize s" "drv_ioctls s' = drv_ioctls s"
    using assms(3) W_Fill by (auto simp: dart_writer_step_def i_def chunk_def Let_def)
  have "dart_ring s'" using r q(2) s' by (simp add: dart_ring_def dart_pending_def)
  moreover have "dart_data s' = dart_data s" using m q(3) s' assms(1) W_Fill by (simp add: dart_data_def dart_pending_def dart_inv_def)
  ultimately show ?thesis using assms(1,2) W_Fill s' by (simp add: dart_inv_def)
next
  case (W_Count b)
  then have "s' = s\<lparr>drv_calls := drv_calls s @ [(''DosRequestMutexSem'', [])], MixBufferCount := MixBufferCount s + 1, writer := W_Out b\<rparr>"
    using assms(1,3) by (simp add: dart_writer_step_def dart_inv_def mciSendCommand_def drv_ioctl_def)
  then show ?thesis using same_pending [of s' s] assms(1,2) W_Count by (simp add: dart_inv_def dart_pending_def)
next
  case (W_Out b)
  then have "s' = s\<lparr>dart_queue := dart_queue s @ [b], writer := W_Wait\<rparr>" using assms(3) by (simp add: dart_writer_step_def)
  then show ?thesis using same_pending [of s' s] assms(1,2) W_Out by (simp add: dart_inv_def dart_pending_def)
next
  case W_Break
  then show ?thesis using assms(1) by (simp add: dart_inv_def)
qed

lemma device_keeps:
  assumes "dart_inv s" "dart_device_step s = Some s'"
  shows "dart_inv s' \<and> dart_data s' = dart_data s"
proof -
  obtain b q where b: "dart_queue s = b # q" "callback s = C_Idle"
    using assms(2) by (auto simp: dart_device_step_def split: dart_callback.splits list.splits)
  then have n: "MixBufferCount s \<noteq> 0" using assms(1) by (auto simp: dart_inv_def split: dart_writer.splits)
  have s': "s' = s\<lparr>dart_queue := q, dart_played := dart_played s @ MixBuffers s ! b, callback := C_Count\<rparr>"
    using assms(2) b n by (simp add: dart_device_step_def)
  have p: "dart_pending s = b # dart_pending s'" using b s' by (simp add: dart_pending_def)
  have "dart_ring s'" using assms(1) p s' by (simp add: dart_inv_def dart_ring_def)
  moreover have "dart_data s' = dart_data s" using p s' by (simp add: dart_data_def)
  ultimately show ?thesis using assms(1) b s' by (auto simp: dart_inv_def)
qed

lemma callback_keeps:
  assumes "dart_inv s" "dart_callback_step stop s = Some s'" "stop [] = []"
  shows "dart_inv s' \<and> dart_data s' = dart_data s"
proof (cases "callback s")
  case C_Stop
  then have q: "dart_queue s = []" "\<And>b. writer s \<noteq> W_Out b" using assms(1) by (auto simp: dart_inv_def split: dart_writer.splits)
  then have "s' = s\<lparr>drv_calls := drv_calls s @ [(''MCI_STOP'', [DeviceHandle s])], dart_queue := [], MixBufferCount := 0, callback := C_Idle\<rparr>"
    using assms C_Stop by (simp add: dart_callback_step_def dart_audio_stop_def mciSendCommand_def drv_ioctl_def dart_inv_def Let_def)
  then show ?thesis using same_pending [of s' s] assms(1) q C_Stop by (simp add: dart_inv_def dart_pending_def)
next
  case C_Count
  then have "s' = s\<lparr>MixBufferCount := MixBufferCount s - 1, callback := C_Test\<rparr>" using assms(2) by (simp add: dart_callback_step_def)
  then show ?thesis using same_pending [of s' s] assms(1) C_Count by (simp add: dart_inv_def dart_pending_def)
next
  case C_Test
  then have "s' = s\<lparr>callback := (if MixBufferCount s = 0 then C_Stop else C_Idle)\<rparr>" using assms(2) by (simp add: dart_callback_step_def)
  then show ?thesis using same_pending [of s' s] assms(1) C_Test by (simp add: dart_inv_def dart_pending_def)
next
  case C_Idle
  then show ?thesis using assms(2) by (simp add: dart_callback_step_def)
qed

lemma dart_atomic_keeps:
  assumes "dart_atomic stop s s'" "dart_inv s" "stop [] = []"
  shows "dart_inv s' \<and> dart_data s' = dart_data s"
  using assms
proof (induction rule: dart_atomic.induct)
  case (dart_writes s s1 s2)
  then show ?case using writer_keeps [of s1 s2] by (simp add: dart_step_def)
next
  case (dart_plays s s1 s2)
  then show ?case using device_keeps [of s1 s2] by (simp add: dart_step_def)
next
  case (dart_calls s s1 s2)
  then show ?case using callback_keeps [of s1 stop s2] by (simp add: dart_step_def)
qed simp

lemma dart_session_keeps:
  assumes "dart_session stop s w s'" "dart_inv s" "stop [] = []"
  shows "dart_inv s' \<and> dart_data s' = dart_data s @ w"
  using assms
proof (induction rule: dart_session.induct)
  case (session_write w s1 buf)
  let ?s = "s1\<lparr>wr_buffer := buf, bytes_played := 0\<rparr>"
  have "dart_pending ?s = dart_pending s1" by (simp add: dart_pending_def)
  then have "dart_ring ?s = dart_ring s1" "dart_data ?s = dart_data s1 @ buf"
    using session_write.hyps(3) by (simp_all add: dart_ring_def dart_data_def)
  moreover have "dart_inv ?s = dart_inv s1" using calculation(1) by (simp add: dart_inv_def)
  ultimately show ?case using session_write.IH [OF session_write.prems] by simp
next
  case (session_runs w s1 s2)
  then show ?case using dart_atomic_keeps [of stop s1 s2] by simp
qed simp

text \<open>Runs of the one thread or of the other.\<close>

lemma atomic_system:
  "dart_atomic stop s s1 \<Longrightarrow> dart_schedule stop ts s1 = Some s2 \<Longrightarrow> Writer \<notin> set ts \<Longrightarrow> dart_atomic stop s s2"
proof (induction ts arbitrary: s1)
  case (Cons t ts)
  then obtain s3 where "dart_step stop t s1 = Some s3" "dart_schedule stop ts s3 = Some s2" by (auto split: Option.bind_splits)
  with Cons show ?case by (cases t) (auto intro: dart_plays dart_calls)
qed simp

lemma writer_step_callback: "dart_writer_step s = Some s' \<Longrightarrow> callback s' = callback s"
  by (auto simp: dart_writer_step_def mciSendCommand_def drv_ioctl_def Let_def split: dart_writer.splits if_splits list.splits prod.splits)

lemma atomic_writer:
  "dart_atomic stop s s1 \<Longrightarrow> callback s1 = C_Idle \<Longrightarrow> dart_schedule stop (replicate n Writer) s1 = Some s2 \<Longrightarrow> dart_atomic stop s s2"
proof (induction n arbitrary: s1)
  case (Suc n)
  then obtain s3 where "dart_step stop Writer s1 = Some s3" "dart_schedule stop (replicate n Writer) s3 = Some s2"
    by (auto split: Option.bind_splits)
  moreover from this(1) have "callback s3 = callback s1" using writer_step_callback by (simp add: dart_step_def)
  ultimately show ?case using Suc dart_writes [OF Suc.prems(1,2)] by simp
qed simp

subsection \<open>What a callback in the middle of a write does\<close>

lemma dart_schedule_append: "dart_schedule stop (ts @ us) s = dart_schedule stop ts s \<bind> dart_schedule stop us"
proof (induction ts arbitrary: s)
  case (Cons t ts)
  then show ?case by (cases "dart_step stop t s") simp_all
qed simp

text \<open>One turn of the loop of \<open>esd_audio_write\<close> for a full buffer.\<close>

definition dart_turn :: "dart_thread list" where
  "dart_turn = [Writer, Writer, Writer, Writer]"

definition dart_ready :: "'a dart_run_scheme \<Rightarrow> bool" where
  "dart_ready s \<longleftrightarrow> writer s = W_Wait \<and> drv_ioctls s = [] \<and> length (MixBuffers s) = BUFFER_COUNT \<and> MixBufferIndex s < BUFFER_COUNT \<and> 0 < BufferSize s"

lemma dart_put:
  assumes "dart_ready s" "MixBufferCount s < 8" "wr_buffer s = c @ r" "int (length c) = BufferSize s"
  shows "\<exists>s'. dart_schedule stop dart_turn s = Some s' \<and> dart_ready s' \<and> MixBufferIndex s' = (MixBufferIndex s + 1) mod 8
    \<and> MixBuffers s' = (MixBuffers s)[MixBufferIndex s := c] \<and> wr_buffer s' = r \<and> MixBufferCount s' = MixBufferCount s + 1
    \<and> dart_queue s' = dart_queue s @ [MixBufferIndex s] \<and> dart_played s' = dart_played s \<and> callback s' = callback s \<and> BufferSize s' = BufferSize s"
proof -
  have "c \<noteq> []" using assms(1,4) by (auto simp: dart_ready_def)
  moreover have "nat (min (int (length c) + int (length r)) (BufferSize s)) = length c" using assms(4) by simp
  ultimately show ?thesis
    using assms by (simp add: dart_turn_def dart_ready_def dart_step_def dart_writer_step_def mciSendCommand_def drv_ioctl_def Let_def)
qed

lemma dart_puts:
  assumes "dart_ready s" "MixBufferCount s + int (length cs) \<le> 8" "wr_buffer s = concat cs @ r"
    "list_all (\<lambda>c. int (length c) = BufferSize s) cs"
  shows "\<exists>s'. dart_schedule stop (concat (replicate (length cs) dart_turn)) s = Some s' \<and> wr_buffer s' = r
    \<and> (cs \<noteq> [] \<longrightarrow> MixBuffers s' ! ((MixBufferIndex s + length cs - 1) mod 8) = last cs)
    \<and> (\<exists>q. dart_queue s' = dart_queue s @ q) \<and> dart_played s' = dart_played s \<and> callback s' = callback s"
  using assms
proof (induction cs arbitrary: s)
  case (Cons c cs)
  have "MixBufferCount s < 8" "wr_buffer s = c @ concat cs @ r" "int (length c) = BufferSize s" using Cons.prems by simp_all
  from dart_put [OF Cons.prems(1) this, of stop] obtain s1 where s1: "dart_schedule stop dart_turn s = Some s1" "dart_ready s1"
    "MixBufferIndex s1 = (MixBufferIndex s + 1) mod 8" "MixBuffers s1 = (MixBuffers s)[MixBufferIndex s := c]" "wr_buffer s1 = concat cs @ r"
    "MixBufferCount s1 = MixBufferCount s + 1" "dart_queue s1 = dart_queue s @ [MixBufferIndex s]" "dart_played s1 = dart_played s"
    "callback s1 = callback s" "BufferSize s1 = BufferSize s" by blast
  have "MixBufferCount s1 + int (length cs) \<le> 8" "list_all (\<lambda>c. int (length c) = BufferSize s1) cs" using Cons.prems s1 by simp_all
  from Cons.IH [OF s1(2) this(1) s1(5) this(2)] obtain s2 q where s2: "dart_schedule stop (concat (replicate (length cs) dart_turn)) s1 = Some s2"
    "wr_buffer s2 = r" "cs \<noteq> [] \<longrightarrow> MixBuffers s2 ! ((MixBufferIndex s1 + length cs - 1) mod 8) = last cs" "dart_queue s2 = dart_queue s1 @ q"
    "dart_played s2 = dart_played s1" "callback s2 = callback s1" by blast
  have "dart_schedule stop (concat (replicate (length (c # cs)) dart_turn)) s = Some s2"
    using s1(1) s2(1) by (simp add: dart_schedule_append)
  moreover have "MixBuffers s2 ! ((MixBufferIndex s + length (c # cs) - 1) mod 8) = last (c # cs)"
  proof (cases "cs = []")
    case True
    then show ?thesis using s2(1) s1(4) Cons.prems(1) by (simp add: dart_ready_def)
  next
    case False
    then have "MixBufferIndex s1 + length cs - 1 = (MixBufferIndex s + 1) mod 8 + (length cs - 1)" using s1(3) by (cases cs) simp_all
    then have "(MixBufferIndex s1 + length cs - 1) mod 8 = (MixBufferIndex s + 1 + (length cs - 1)) mod 8" by (simp add: mod_simps)
    then show ?thesis using s2(3) False by (cases cs) simp_all
  qed
  ultimately show ?case using s2 s1 by auto
qed simp

text \<open>
  The callback has counted down to 0 and has decided to stop; before it does, the daemon hands over the next buffer. Then the
  count is set to 0 although a buffer is in use.
\<close>

lemma dart_lost_count:
  assumes "dart_ready s" "callback s = C_Idle" "MixBufferIndex s = 0" "MixBufferCount s = 0" "dart_queue s = []"
    and "wr_buffer s = a @ b @ r" "int (length a) = BufferSize s" "int (length b) = BufferSize s"
  shows "\<exists>s'. dart_schedule stop (dart_turn @ [Device, Callback, Callback] @ dart_turn @ [Callback]) s = Some s' \<and> dart_ready s'
    \<and> MixBufferIndex s' = 2 \<and> MixBuffers s' ! 1 = b \<and> wr_buffer s' = r \<and> MixBufferCount s' = 0 \<and> dart_queue s' = stop [1]
    \<and> dart_played s' = dart_played s @ a \<and> callback s' = C_Idle \<and> BufferSize s' = BufferSize s"
proof -
  have "MixBufferCount s < 8" using assms(4) by simp
  from dart_put [OF assms(1) this assms(6,7), of stop] assms(3,4,5) obtain s1 where s1: "dart_schedule stop dart_turn s = Some s1" "dart_ready s1"
    "MixBufferIndex s1 = 1" "MixBuffers s1 = (MixBuffers s)[0 := a]" "wr_buffer s1 = b @ r" "MixBufferCount s1 = 1" "dart_queue s1 = [0]"
    "dart_played s1 = dart_played s" "callback s1 = C_Idle" "BufferSize s1 = BufferSize s" using assms(2) by auto
  have a0: "MixBuffers s1 ! 0 = a" using s1(4) assms(1) by (simp add: dart_ready_def)
  define s2 where "s2 = s1\<lparr>dart_queue := [], dart_played := dart_played s @ a, MixBufferCount := 0, callback := C_Stop\<rparr>"
  have d: "dart_schedule stop [Device, Callback, Callback] s1 = Some s2"
    using s1 a0 by (simp add: s2_def dart_step_def dart_device_step_def dart_callback_step_def)
  have r2: "dart_ready s2" "MixBufferCount s2 < 8" "wr_buffer s2 = b @ r" "int (length b) = BufferSize s2"
    using s1 assms(8) by (simp_all add: s2_def dart_ready_def)
  from dart_put [OF this, of stop] obtain s3 where s3: "dart_schedule stop dart_turn s2 = Some s3" "dart_ready s3"
    "MixBufferIndex s3 = 2" "MixBuffers s3 = (MixBuffers s2)[1 := b]" "wr_buffer s3 = r" "dart_queue s3 = [1]" "dart_played s3 = dart_played s @ a"
    "callback s3 = C_Stop" "BufferSize s3 = BufferSize s" using s1(3,10) by (auto simp: s2_def)
  have b1: "MixBuffers s3 ! 1 = b" using s3(4) r2(1) by (simp add: dart_ready_def)
  have "\<exists>s4. dart_schedule stop [Callback] s3 = Some s4 \<and> dart_ready s4 \<and> MixBufferIndex s4 = 2 \<and> MixBuffers s4 ! 1 = b \<and> wr_buffer s4 = r
      \<and> MixBufferCount s4 = 0 \<and> dart_queue s4 = stop [1] \<and> dart_played s4 = dart_played s @ a \<and> callback s4 = C_Idle \<and> BufferSize s4 = BufferSize s"
    using s3 b1 by (simp add: dart_step_def dart_callback_step_def dart_audio_stop_def mciSendCommand_def drv_ioctl_def dart_ready_def Let_def)
  then show ?thesis unfolding dart_schedule_append s1(1) d s3(1) bind.bind_lunit .
qed

text \<open>The device as it is after opening, and whenever everything has been played: nothing in use, and all calls of the system work.\<close>

definition dart_idle :: "'a dart_run_scheme \<Rightarrow> bool" where
  "dart_idle s \<longleftrightarrow> dart_ready s \<and> callback s = C_Idle \<and> MixBufferCount s = 0 \<and> dart_queue s = [] \<and> wr_buffer s = []"

lemma idle_inv: "dart_idle s \<Longrightarrow> dart_inv s \<and> dart_data s = dart_played s"
  by (simp add: dart_idle_def dart_inv_def dart_ready_def dart_ring_def dart_pending_def dart_data_def)

lemma dart_drops:
  assumes "dart_ready s" "callback s = C_Idle" "MixBufferIndex s = 0" "MixBufferCount s = 0" "dart_queue s = []"
    and "wr_buffer s = concat cs" "length cs = 10" "list_all (\<lambda>c. int (length c) = BufferSize s) cs"
  shows "\<exists>ts t. dart_schedule (\<lambda>q. []) ts s = Some t \<and> dart_data t = dart_played s @ cs ! 0 @ concat (drop 2 cs)"
proof -
  obtain a b ds where cs: "cs = a # b # ds" using assms(7) by (auto simp: length_Suc_conv eval_nat_numeral)
  obtain us v where v: "dart_schedule (\<lambda>q. []) us s = Some v" "dart_ready v" "wr_buffer v = concat ds" "dart_queue v = []" "dart_played v = dart_played s @ a"
    using dart_lost_count [OF assms(1-5), of a b "concat ds" "\<lambda>q. []"] assms(6,8) cs by auto
  have "dart_data v = dart_played s @ cs ! 0 @ concat (drop 2 cs)" using v cs by (simp add: dart_data_def dart_pending_def dart_ready_def)
  then show ?thesis using v(1) by blast
qed

lemma dart_overwrites:
  assumes "dart_ready s" "callback s = C_Idle" "MixBufferIndex s = 0" "MixBufferCount s = 0" "dart_queue s = []"
    and "wr_buffer s = concat cs" "length cs = 10" "list_all (\<lambda>c. int (length c) = BufferSize s) cs"
  shows "\<exists>ts t. dart_schedule (\<lambda>q. q) ts s = Some t \<and> dart_played t = dart_played s @ cs ! 0 @ cs ! 9"
proof -
  obtain a b ds where cs: "cs = a # b # ds" "length ds = 8" using assms(7) by (auto simp: length_Suc_conv eval_nat_numeral)
  obtain ts t where t: "dart_schedule (\<lambda>q. q) ts s = Some t" "dart_ready t" "MixBufferIndex t = 2" "wr_buffer t = concat ds" "MixBufferCount t = 0"
      "dart_queue t = [1]" "dart_played t = dart_played s @ a" "callback t = C_Idle" "BufferSize t = BufferSize s"
    using dart_lost_count [OF assms(1-5), of a b "concat ds" "\<lambda>q. q"] assms(6,8) cs by auto
  have "MixBufferCount t + int (length ds) \<le> 8" "wr_buffer t = concat ds @ []" "list_all (\<lambda>c. int (length c) = BufferSize t) ds"
    using t cs assms(8) by simp_all
  from dart_puts [OF t(2) this, of "\<lambda>q. q"] obtain u q where u: "dart_schedule (\<lambda>q. q) (concat (replicate (length ds) dart_turn)) t = Some u"
      "MixBuffers u ! 1 = last ds" "dart_queue u = 1 # q" "dart_played u = dart_played s @ a" "callback u = C_Idle"
    using t cs(2) by force
  have "dart_schedule (\<lambda>q. q) [Device] u = Some (u\<lparr>dart_queue := q, dart_played := dart_played s @ a @ last ds,
      callback := (if MixBufferCount u \<noteq> 0 then C_Count else C_Idle)\<rparr>)"
    using u by (simp add: dart_step_def dart_device_step_def)
  then have run: "dart_schedule (\<lambda>q. q) (ts @ concat (replicate (length ds) dart_turn) @ [Device]) s = Some (u\<lparr>dart_queue := q,
      dart_played := dart_played s @ a @ last ds, callback := (if MixBufferCount u \<noteq> 0 then C_Count else C_Idle)\<rparr>)"
    unfolding dart_schedule_append t(1) bind.bind_lunit u(1) .
  have nine: "last ds = cs ! 9" using cs last_conv_nth [of ds] by fastforce
  show ?thesis by (intro exI conjI, rule run) (simp add: nine, simp add: cs(1))
qed

text \<open>
  C34. On OS/2, as long as the calls of the system work, stopping a device that holds nothing leaves it so,
  and callbacks run to their end before the daemon goes on, whatever is
  written after the device was idle, in however many calls and of whatever sizes, is played in order: at every
  moment what was played, what the buffers in use hold and what is left of the call at hand make up what was
  written, and once nothing of it is left all of it has been played. When the daemon goes on in the middle of a callback, it need not be so:
  of ten full buffers written to the device after opening, the second is dropped when stopping drops what the system
  holds, and when it does not, the second is overwritten before it is played and the tenth is played in its place.
\<close>

theorem dart_plays_unless_interrupted:
  assumes "dart_idle s"
  shows "(stop [] = [] \<and> dart_session stop s w s' \<longrightarrow>
      dart_data s' = dart_played s @ w
      \<and> (writer s' = W_Wait \<and> dart_queue s' = [] \<and> wr_buffer s' = [] \<longrightarrow> dart_played s' = dart_played s @ w))
    \<and> (MixBufferIndex s = 0 \<and> length cs = 10 \<and> list_all (\<lambda>c. int (length c) = BufferSize s) cs \<longrightarrow>
      (\<exists>ts t. dart_schedule (\<lambda>q. []) ts (s\<lparr>wr_buffer := concat cs\<rparr>) = Some t \<and> dart_data t = dart_played s @ cs ! 0 @ concat (drop 2 cs))
      \<and> (\<exists>ts t. dart_schedule (\<lambda>q. q) ts (s\<lparr>wr_buffer := concat cs\<rparr>) = Some t \<and> dart_played t = dart_played s @ cs ! 0 @ cs ! 9))"
proof (intro conjI impI)
  assume h: "stop [] = [] \<and> dart_session stop s w s'"
  show d: "dart_data s' = dart_played s @ w" using dart_session_keeps [of stop s w s'] h idle_inv [OF assms] by simp
  show "dart_played s' = dart_played s @ w" if "writer s' = W_Wait \<and> dart_queue s' = [] \<and> wr_buffer s' = []"
    using d that by (simp add: dart_data_def dart_pending_def)
next
  assume h: "MixBufferIndex s = 0 \<and> length cs = 10 \<and> list_all (\<lambda>c. int (length c) = BufferSize s) cs"
  have i: "dart_ready (s\<lparr>wr_buffer := concat cs\<rparr>)" "callback s = C_Idle" "MixBufferCount s = 0" "dart_queue s = []"
    using assms by (simp_all add: dart_idle_def dart_ready_def)
  show "\<exists>ts t. dart_schedule (\<lambda>q. []) ts (s\<lparr>wr_buffer := concat cs\<rparr>) = Some t \<and> dart_data t = dart_played s @ cs ! 0 @ concat (drop 2 cs)"
    using dart_drops [OF i(1)] h i by simp
  show "\<exists>ts t. dart_schedule (\<lambda>q. q) ts (s\<lparr>wr_buffer := concat cs\<rparr>) = Some t \<and> dart_played t = dart_played s @ cs ! 0 @ cs ! 9"
    using dart_overwrites [OF i(1)] h i by simp
qed

text \<open>The device as it is opened for 44100 Hz, 16 bits, stereo, and the contents of ten buffers.\<close>

definition dart0 :: dart_run where
  "dart0 = dart.extend (drv.extend (audio.extend audio0 (drv.fields [] [] [] [] None None None)) (dart.fields [] False 0 0 0 0 0 [] []))
     (dart_run.fields W_Wait C_Idle [] 0)"

definition chunks0 :: "octet list list" where
  "chunks0 = map (replicate 8192) [0, 1, 2, 3, 4, 5, 6, 7, 8, 9]"

lemma dart0_open:
  "dart_ready (snd (dart_audio_open dart0))" "callback (snd (dart_audio_open dart0)) = C_Idle" "MixBufferIndex (snd (dart_audio_open dart0)) = 0"
  "MixBufferCount (snd (dart_audio_open dart0)) = 0" "dart_queue (snd (dart_audio_open dart0)) = []" "BufferSize (snd (dart_audio_open dart0)) = 8192"
  "wr_buffer (snd (dart_audio_open dart0)) = []" "dart_played (snd (dart_audio_open dart0)) = []"
proof -
  have b: "dart_buffer_size 44100 33 = 8192" by code_simp
  show "dart_ready (snd (dart_audio_open dart0))" "callback (snd (dart_audio_open dart0)) = C_Idle" "MixBufferIndex (snd (dart_audio_open dart0)) = 0"
    "MixBufferCount (snd (dart_audio_open dart0)) = 0" "dart_queue (snd (dart_audio_open dart0)) = []" "BufferSize (snd (dart_audio_open dart0)) = 8192"
    "wr_buffer (snd (dart_audio_open dart0)) = []" "dart_played (snd (dart_audio_open dart0)) = []"
    by (simp_all add: dart0_def audio0_def drv.defs audio.defs dart.defs dart_run.defs dart_audio_open_def dart_mixsetup_def dart_allocate_def
        mciSendCommand_def drv_ioctl_def drv_recording_def dart_ready_def Let_def b)
qed

text \<open>A buffer that is written and played to its end, with the callback.\<close>

lemma session_of_one:
  assumes "dart_idle s" "int (length c) = BufferSize s" "stop [] = []"
  shows "\<exists>s'. dart_session stop s c s' \<and> writer s' = W_Wait \<and> dart_queue s' = [] \<and> wr_buffer s' = []"
proof -
  let ?s = "s\<lparr>wr_buffer := c, bytes_played := 0\<rparr>"
  have r: "dart_ready ?s" "MixBufferCount ?s < 8" "wr_buffer ?s = c @ []" "int (length c) = BufferSize ?s"
    using assms by (simp_all add: dart_idle_def dart_ready_def)
  have w: "dart_session stop s c ?s"
    using session_write [OF session_start, of s stop c] assms(1) by (simp add: dart_idle_def dart_ready_def)
  from dart_put [OF r, of stop] obtain s1 where s1: "dart_schedule stop dart_turn ?s = Some s1" "dart_ready s1" "wr_buffer s1 = []"
    "MixBufferCount s1 = 1" "dart_queue s1 = [MixBufferIndex s]" "callback s1 = C_Idle"
    using assms(1) by (auto simp: dart_idle_def)
  have t: "dart_turn = replicate 4 Writer" by (simp add: dart_turn_def eval_nat_numeral)
  have a1: "dart_atomic stop ?s s1"
    by (rule atomic_writer [OF dart_start _ s1(1) [unfolded t]]) (use assms(1) in \<open>simp add: dart_idle_def\<close>)
  have "\<exists>s2. dart_schedule stop [Device, Callback, Callback, Callback] s1 = Some s2 \<and> writer s2 = W_Wait \<and> dart_queue s2 = [] \<and> wr_buffer s2 = []"
    using s1 assms(3) by (simp add: dart_step_def dart_device_step_def dart_callback_step_def dart_audio_stop_def mciSendCommand_def drv_ioctl_def
        dart_ready_def Let_def)
  then obtain s2 where s2: "dart_schedule stop [Device, Callback, Callback, Callback] s1 = Some s2" "writer s2 = W_Wait" "dart_queue s2 = []" "wr_buffer s2 = []"
    by blast
  have "dart_session stop s c s2" by (rule session_runs [OF w atomic_system [OF a1 s2(1)]]) simp
  with s2 show ?thesis by blast
qed

theorem dart_plays_unless_interrupted_witness:
  "(\<exists>s'. dart_session (\<lambda>q. q) (snd (dart_audio_open dart0)) (replicate 8192 5) s' \<and> dart_played s' = replicate 8192 5)
   \<and> (\<exists>ts t. dart_schedule (\<lambda>q. []) ts (snd (dart_audio_open dart0)\<lparr>wr_buffer := concat chunks0\<rparr>) = Some t
        \<and> dart_data t = replicate 8192 0 @ concat (drop 2 chunks0))
   \<and> (\<exists>ts t. dart_schedule (\<lambda>q. q) ts (snd (dart_audio_open dart0)\<lparr>wr_buffer := concat chunks0\<rparr>) = Some t
        \<and> dart_played t = replicate 8192 0 @ replicate 8192 9)"
proof -
  have i: "dart_idle (snd (dart_audio_open dart0))" using dart0_open by (simp add: dart_idle_def)
  obtain s' where s': "dart_session (\<lambda>q. q) (snd (dart_audio_open dart0)) (replicate 8192 5) s'" "writer s' = W_Wait" "dart_queue s' = []" "wr_buffer s' = []"
    using session_of_one [OF i, of "replicate 8192 5" "\<lambda>q. q"] dart0_open(6) by auto
  have c: "chunks0 ! 0 = replicate 8192 0" "chunks0 ! 9 = replicate 8192 9" "length chunks0 = 10" "list_all (\<lambda>c. int (length c) = 8192) chunks0"
    by (simp_all add: chunks0_def)
  have "dart_played s' = replicate 8192 5"
    using dart_plays_unless_interrupted [OF i, of "\<lambda>q. q" "replicate 8192 5" s' chunks0] s' dart0_open(8) by simp
  with s'(1) dart_plays_unless_interrupted [OF i, of "\<lambda>q. q" "replicate 8192 5" s' chunks0] dart0_open(3,6,8) c show ?thesis by auto
qed

end
