(* ===== verification/Esd_Ipv6.thy ===== *)
theory Esd_Ipv6
  imports Esd_Lib_Laws
begin

text \<open>
  Connecting to a daemon when the package is built for IPv6 (\<open>esd_connect_tcpip\<close> of \<open>esdlib.c\<close>, \<open>have_ipv6\<close> of \<open>util.c\<close>). What
  \<open>getaddrinfo\<close> finds for a name is a parameter: the families of its addresses. \<open>None\<close> is an access outside of a buffer.
\<close>

subsection \<open>Host and port\<close>

definition have_ipv6 :: "'a esd_lib_scheme \<Rightarrow> bool \<times> 'a esd_lib_scheme" where
  "have_ipv6 s = (let (fd, s) = sys_socket s in if fd \<noteq> -1 then (True, sys_close fd s) else (False, s))"

text \<open>\<open>strcpy\<close> into \<open>char connect_host[64]\<close>.\<close>

definition copy_host :: "string \<Rightarrow> string option" where
  "copy_host name = (if length name < 64 then Some name else None)"

text \<open>
  With one colon, what is before and after it; with more, what is between the brackets and from the second character behind
  them on; otherwise the host alone. A closing bracket at the start ends the string there, and the copy starts behind it.
\<close>

definition split_host6 :: "string \<Rightarrow> (string \<times> int) option" where
  "split_host6 host =
    (let cnt = length (filter (\<lambda>c. c = CHR '':'') host);
         close = strcspn host '']'';
         colon = strcspn host '':''
     in if cnt = 1 then do {
          name \<leftarrow> copy_host (take colon host);
          Some (name, atoi (drop (colon + 1) host)) }
        else if cnt \<noteq> 0 \<and> close < length host then do {
          name \<leftarrow> copy_host (if close = 0 then tl host else tl (take close host));
          if close + 2 \<le> length host then Some (name, atoi (drop (close + 2) host)) else None }
        else do { name \<leftarrow> copy_host host; Some (name, 16001) })"

definition host_and_port6 :: "string option \<Rightarrow> (string \<times> int) option" where
  "host_and_port6 host = do {
     (name, port) \<leftarrow> (case host of None \<Rightarrow> Some ([], 16001) | Some h \<Rightarrow> split_host6 h);
     Some (if name = [] then ''localhost'' else name, if port = 0 then 16001 else port) }"

subsection \<open>Connecting\<close>

text \<open>The addresses in turn, those of other families are skipped. A socket that cannot be made or set up ends the search.\<close>

fun connect_addresses :: "string \<Rightarrow> int \<Rightarrow> int list \<Rightarrow> 'a esd_lib_scheme \<Rightarrow> int \<times> 'a esd_lib_scheme" where
  "connect_addresses name port [] s = (-1, s)"
| "connect_addresses name port (family # rs) s =
    (if family \<noteq> 2 \<and> family \<noteq> 10 then connect_addresses name port rs s
     else
       let (socket_out, s) = sys_socket s
       in if socket_out < 0 then (-1, s) else
       let (ok, s) = sys_sockopt s
       in if \<not> ok then (-1, sys_close socket_out s) else
       let (ok, s) = sys_sockopt s
       in if \<not> ok then (-1, sys_close socket_out s) else
       let (r, s) = connect_timeout socket_out (InetSocket name (port mod 65536)) s
       in if r \<noteq> -1 then (socket_out, s) else connect_addresses name port rs (sys_close socket_out s))"

definition esd_connect_tcpip6 ::
  "(string \<Rightarrow> int list option) \<Rightarrow> string option \<Rightarrow> 'a esd_lib_scheme \<Rightarrow> (int \<times> 'a esd_lib_scheme) option" where
  "esd_connect_tcpip6 getaddrinfo host s =
    (let (v6, s) = have_ipv6 s
     in if \<not> v6 then esd_connect_tcpip host s
        else do {
          (name, port) \<leftarrow> host_and_port6 host;
          Some (case getaddrinfo name of None \<Rightarrow> (-1, s) | Some families \<Rightarrow> connect_addresses name port families s) })"

subsection \<open>Laws\<close>

text \<open>
  A name of 64 characters or more overruns the buffer, and an address in brackets without a port is read beyond its end; both
  are what a user can set in \<open>ESPEAKER\<close>. Otherwise name and port are those given.
\<close>

lemma no_colon: "CHR '':'' \<notin> set h \<Longrightarrow> filter (\<lambda>c. c = CHR '':'') h = []"
  by (auto simp: filter_empty_conv)

lemma strcspn_skip: "set a \<inter> set r = {} \<Longrightarrow> strcspn (a @ b) r = length a + strcspn b r"
  by (auto simp: strcspn_def takeWhile_append2 disjoint_iff)

lemma split_host6_name:
  assumes "CHR '':'' \<notin> set h"
  shows "split_host6 h = (if length h < 64 then Some (h, 16001) else None)"
  using no_colon [OF assms] by (simp add: split_host6_def copy_host_def)

lemma split_host6_port:
  assumes "CHR '':'' \<notin> set h" "CHR '':'' \<notin> set p"
  shows "split_host6 (h @ CHR '':'' # p) = (if length h < 64 then Some (h, atoi p) else None)"
proof -
  have "strcspn (h @ CHR '':'' # p) '':'' = length h" using strcspn_skip [of h "'':''" "CHR '':'' # p"] assms(1) by (simp add: strcspn_def)
  then show ?thesis using no_colon [OF assms(1)] no_colon [OF assms(2)] by (simp add: split_host6_def copy_host_def)
qed

lemma split_host6_brackets:
  assumes "CHR '']'' \<notin> set a" "length (filter (\<lambda>c. c = CHR '':'') a) \<ge> 2" "length a < 64"
  shows "split_host6 (CHR ''['' # a @ CHR '']'' # CHR '':'' # p) = Some (a, atoi p)"
    and "split_host6 (CHR ''['' # a @ '']'') = None"
proof -
  have c: "strcspn (CHR ''['' # a @ CHR '']'' # r) '']'' = Suc (length a)" for r
    using strcspn_skip [of "CHR ''['' # a" "'']''" "CHR '']'' # r"] assms(1) by (simp add: strcspn_def)
  have n: "length (filter (\<lambda>c. c = CHR '':'') (CHR ''['' # a @ r)) \<noteq> 1" "filter (\<lambda>c. c = CHR '':'') (CHR ''['' # a @ r) \<noteq> []" for r
    using assms(2) by (cases "filter (\<lambda>c. c = CHR '':'') a"; auto)+
  show "split_host6 (CHR ''['' # a @ CHR '']'' # CHR '':'' # p) = Some (a, atoi p)"
    using c [of "CHR '':'' # p"] n [of "CHR '']'' # CHR '':'' # p"] assms(3)
    by (simp add: split_host6_def copy_host_def Let_def del: filter.simps)
  show "split_host6 (CHR ''['' # a @ '']'') = None"
    using c [of "[]"] n [of "'']''"] assms(3) by (simp add: split_host6_def copy_host_def Let_def del: filter.simps)
qed

text \<open>When a connection is made, all sockets before it have been closed, and it has not.\<close>

lemma connect_timeout_keeps:
  "sockets (snd (connect_timeout fd t s)) = sockets s \<and> closed (snd (connect_timeout fd t s)) = closed s"
  by (auto simp: connect_timeout_def sys_getfl_def set_nonblock_def sys_connect_def sys_poll_def Let_def case_prod_beta
      split: list.splits connres.splits)

lemma sys_sockopt_keeps: "sockets (snd (sys_sockopt s)) = sockets s \<and> closed (snd (sys_sockopt s)) = closed s"
  by (simp add: sys_sockopt_def split: list.split)

lemma connect_addresses_closes:
  "connect_addresses name port families s = (fd, s') \<Longrightarrow> 0 \<le> fd \<Longrightarrow>
     \<exists>ks. sockets s = ks @ fd # sockets s' \<and> closed s' = closed s @ ks"
proof (induction families arbitrary: s)
  case (Cons f fs)
  show ?case
  proof (cases "f \<noteq> 2 \<and> f \<noteq> 10")
    case False
    obtain k s1 where k: "sys_socket s = (k, s1)" by fastforce
    obtain o1 s2 where o1: "sys_sockopt s1 = (o1, s2)" by fastforce
    obtain o2 s3 where o2: "sys_sockopt s2 = (o2, s3)" by fastforce
    obtain r s4 where r: "connect_timeout k (InetSocket name (port mod 65536)) s3 = (r, s4)" by fastforce
    have q: "0 \<le> k" "o1" "o2" and res: "(if r \<noteq> -1 then (k, s4) else connect_addresses name port fs (sys_close k s4)) = (fd, s')"
      using Cons.prems False k o1 o2 r by (auto split: if_splits)
    have s4: "sockets s = k # sockets s4" "closed s4 = closed s"
      using k q(1) sys_sockopt_keeps [of s1] sys_sockopt_keeps [of s2] connect_timeout_keeps [of k "InetSocket name (port mod 65536)" s3] o1 o2 r
      by (auto simp: sys_socket_def split: list.splits)
    show ?thesis
    proof (cases "r = -1")
      case True
      then obtain ks where "sockets (sys_close k s4) = ks @ fd # sockets s'" "closed s' = closed (sys_close k s4) @ ks"
        using Cons.IH [of "sys_close k s4"] Cons.prems(2) res by auto
      then show ?thesis using s4 by (intro exI [of _ "k # ks"]) (simp add: sys_close_def)
    next
      case False
      then show ?thesis using res s4 by auto
    qed
  qed (use Cons in simp)
qed simp

end
