(* ===== verification/Spec2Isabelle.thy ===== *)
theory Spec2Isabelle
  imports Esd_Ownership_Loop Esd_Info Esd_Mix_Round Esd_Mix_Fast Esd_Proto_Laws Esd_Idle Esd_Signals
    Esd_Startup_Laws Esd_Genrand Esd_Dsp_Laws Esd_Tools_Laws Esd_Alsa Esd_Drivers_Laws
    Esd_Osf Esd_Ports Esd_Coreaudio Esd_Dart Esd_Ipv6
begin

text \<open>
  The Enlightened Sound Daemon (EsounD): a model of the daemon \<open>esd\<close>, its client library, its tools and its audio
  drivers, with proofs of what they guarantee and of where they do not. File names are relative to \<open>src/\<close>.

  \<^bold>\<open>The program.\<close> Many programs want to play sound and there is one device. Each connects to the daemon over
  a unix or TCP socket, proves that it knows the owner's key, and sends a request (a word, then a block of data of a
  length that depends on the request). A request may turn the connection into a stream of samples, of which the daemon
  mixes all it has into the device's format; others cache samples in the daemon and play them by number, record
  from the device, monitor or filter the mix, or ask for information. The daemon is one loop (\<open>esd_comm_loop\<close>): it waits,
  accepts connections, polls each client for the next piece of a request, mixes one buffer, passes it through
  the filters and to the device, the monitors and the recorders, and goes to standby when nothing plays.

  \<^bold>\<open>How C is modelled.\<close> Machine integers are \<^typ>\<open>int\<close> with the wrap-around written out (\<open>i32\<close>, \<open>i16\<close>, \<open>u32\<close>, \<open>u64\<close>), bytes are \<open>8 word\<close>.
  A structure is a record, a linked list of structures the list of its nodes, each with its address; a pointer to a
  node is its address, and following it looks it up, so that a dangling pointer is visible. State is passed
  explicitly: the records \<open>os\<close> (system calls), \<open>audio\<close> (device), \<open>esd_server\<close> (globals of the daemon), \<open>esd_daemon\<close> (main loop) extend one
  another, as do \<open>esd_lib\<close> (client process), \<open>esd_dsp\<close> and \<open>esd_tool\<close> on the client's side and \<open>alsa\<close> and \<open>drv\<close> for the other drivers.
  What the outside world does is a script in the state: a list with the results of successive calls, and when it is used up
  the ordinary result. A result of \<open>None\<close> is undefined behaviour of C (access outside of a buffer, use
  of a pointer to nothing, division by zero) or a loop without an end. There is no fuel: a loop
  that makes progress, or uses up a script, is a \<open>function\<close> with a termination proof; one that may run for ever is a
  \<open>partial_function (option)\<close>, and that it returns is proved.

  \<^bold>\<open>The theories\<close>, in the order they build on each other:

  \<^item> \<open>Esd_Prelude\<close>: machine integers, bytes in buffers, linked lists, with the collections \<open>cint\<close> and \<open>nodes\<close> of their laws.
    \<open>Esd_Sys\<close>: system calls over \<open>os\<close>. \<open>Esd_Cstring\<close>: string functions of the C library.
  \<^item> \<open>Esd_Audio\<close>: \<open>audio.c\<close> with the OSS driver \<open>audio_oss.c\<close>: opening by stages, writing with time-outs, reading. The interface of a
    driver is the locale \<open>audio_opener\<close>, extended to \<open>audio_device\<close> for drivers whose \<open>close\<close> gives the device back. \<open>Esd_Audio_Frame\<close>: what
    the operations on the device leave alone, as a locale that the theories on the server interpret for the part of the
    state they look at.
  \<^item> \<open>Esd_Alsa\<close> (\<open>audio_alsa09.c\<close>), \<open>Esd_Drivers\<close> and \<open>Esd_Drivers_Laws\<close> (\<open>audio_aix.c\<close>, \<open>audio_hpux.c\<close>, \<open>audio_mklinux.c\<close>, \<open>audio_solaris.c\<close>,
    \<open>audio_none.c\<close>), \<open>Esd_Ports\<close> (\<open>audio_irix.c\<close>, \<open>audio_arts.c\<close>, \<open>audio_alsa.c\<close>): the other drivers, as instances of these interfaces; what
    writing delivers, which descriptors are closed when opening fails, what \<open>close\<close> leaves behind.
  \<^item> \<open>Esd_Osf\<close> (\<open>audio_osf.c\<close>), \<open>Esd_Coreaudio\<close> (\<open>audio_coreaudio.c\<close>), \<open>Esd_Dart\<close> (\<open>audio_dart.c\<close>): the drivers that hand buffers to a system which
    calls back when it has played them, on the same thread (Tru64), on another one under a mutex (CoreAudio), or on another one
    without (OS/2). When the callbacks come is a script, or any interleaving of the steps of both threads; it is shown
    that what is written is played in order, and for OS/2 when it is not.
  \<^item> \<open>Esd_Types\<close>: the data of \<open>esd.h\<close> and \<open>esd-server.h\<close>, the byte-order macros, the globals of the daemon (\<open>esd_server\<close>).
  \<^item> \<open>Esd_Mix\<close>: the conversion and mixing functions of \<open>mix.c\<close>, clipping, and the selection of a function by formats. \<open>Esd_Mix_Laws\<close>: what
    the loops compute, through the locale \<open>mix_target\<close> for the three kinds of buffer they write to. \<open>Esd_Mix_Fast\<close>: the mixing functions
    without volumes agree with the general ones at neutral volume.
  \<^item> \<open>Esd_Clients\<close> (\<open>clients.c\<close>), \<open>Esd_Samples\<close> (\<open>samples.c\<close>), \<open>Esd_Players\<close> (\<open>players.c\<close>), \<open>Esd_Mixer\<close> (end of \<open>mix.c\<close>, \<open>filter.c\<close>): the five lists of the daemon, each an
    instance of the locale \<open>node_list\<close>, and the operations on them. \<open>Esd_Mix_Round\<close>: one round of \<open>mix_players\<close> puts out the
    saturated sum of all players.
  \<^item> \<open>Esd_Proto\<close> (\<open>proto.c\<close>): every request handler, the table of handlers, the polling of a client; standby and resume of \<open>esd.c\<close>.
    \<open>Esd_Proto_Laws\<close>: single requests that the daemon answers wrongly. \<open>Esd_Auth\<close>: who gets in, and who may lock the daemon.
  \<^item> \<open>Esd_Server\<close>: the main loop of \<open>clients.c\<close> and the set-up of device and buffers; the runs of the daemon are the
    inductive relation \<open>comm_step\<close> and its closure. \<open>Esd_Signals\<close>: \<open>reset_daemon\<close>, the handler of \<open>SIGHUP\<close>, and the
    runs in which it is called as well (\<open>signal_run\<close>). \<open>Esd_Idle\<close>: an unused daemon.
  \<^item> \<open>Esd_Ownership\<close>, \<open>Esd_Ownership_Ops\<close>, \<open>Esd_Ownership_Proto\<close>, \<open>Esd_Ownership_Loop\<close>: the invariant \<open>srv_inv\<close> of who points to whom and
    how often, as a property of a small view of the state; that every operation, every handler and every turn of the loop
    keeps it (locales \<open>owned_list\<close> and \<open>audio_frame\<close>); and that no state the daemon reaches has a dangling pointer.
  \<^item> \<open>Esd_Config\<close> (\<open>esd_config.c\<close>), \<open>Esd_Options\<close> (\<open>util.c\<close>, options of \<open>esd.c\<close>), \<open>Esd_Startup\<close> and \<open>Esd_Startup_Laws\<close> (\<open>main\<close> and the functions before it
    in \<open>esd.c\<close>), \<open>Esd_Genrand\<close> (\<open>genrand.c\<close>): from the command line to the first turn of the loop: the socket's directory, the listening
    socket, the report to the process that spawned the daemon; the state \<open>main\<close> hands to the loop satisfies the invariant.
  \<^item> \<open>Esd_Lib\<close> and \<open>Esd_Lib_Laws\<close> (\<open>esdlib.c\<close>), \<open>Esd_Mgr\<close> (\<open>esdmgr.c\<close>): the client library: time-outs, connecting and spawning, authorisation, streams,
    samples, information. Each request is written out path by path, with the handler of \<open>SIGPIPE\<close> put back where the code does so. \<open>Esd_Ipv6\<close>: connecting in the build for IPv6.
  \<^item> \<open>Esd_Wire\<close> and \<open>Esd_Info\<close>: library and daemon together: a request in pieces is put together again as it was sent, a request to play
    arrives with the parameters the program gave, and the answer to a request for information is parsed to what the
    daemon has.
  \<^item> \<open>Esd_Dsp\<close> and \<open>Esd_Dsp_Laws\<close> (\<open>esddsp.c\<close>): the library that is preloaded for programs that use \<open>/dev/dsp\<close>. \<open>Esd_Tools\<close> and \<open>Esd_Tools_Laws\<close>
    (\<open>esdcat.c\<close>, \<open>esdrec.c\<close>, \<open>esdmon.c\<close>, \<open>esdfilt.c\<close>, \<open>esdloop.c\<close>, \<open>esdsample.c\<close>, \<open>esdctl.c\<close>, \<open>esdplay.c\<close>, \<open>esdfile.c\<close>): the programs of the package.
    \<open>Esd_Getopt\<close> and \<open>Esd_Getopt_Laws\<close> (\<open>getopt.c\<close>, \<open>getopt1.c\<close>): the parser of their command lines, which permutes \<open>argv\<close> in place, and its
    equivalence with a recursion over the words.

  \<^bold>\<open>What is shown.\<close> Invariants of every state reached without \<open>SIGHUP\<close> (ownership, reference counts), and that owner and key change with this
  signal only; functional correctness
  of mixing, of writing to devices and sockets, of authorisation; round trips between library and daemon; refinement of
  the reception of requests in pieces to their reception as a whole; equivalence of the fast mixing functions with the
  general ones and of the option parser with its reference; termination of loops that depend on the outside world, and of the idle daemon; bounds of buffers;
  error behaviour, which includes faults of the program: each is stated as a theorem about the code as it is.

  \<^bold>\<open>Bounds.\<close> The counters of the daemon are 32 bits wide: the runs considered are those on which fewer players and clients than that
  are there at a time (\<open>fits\<close>). The theorem on the mixing round assumes fewer than 65536 players with data, so that their sum
  does not overflow either, and the buffer sizes \<open>main\<close> sets up. The only calculation in floating point on a path of the daemon,
  whether a rate is within five percent of the one asked for, is done on integers.

  \<^bold>\<open>Not modelled.\<close> The branches for IPv6 of the daemon and those for tcp wrappers; printing, traces and debug options; the
  calculation of the start-up tones' samples; the messages of \<open>getopt.c\<close>, and its code for use inside of the C library. The
  audiofile library and the libraries of the systems are parameters and scripts, as are the conversions to floating point of
  the CoreAudio driver. \<open>audio_win32.c\<close> is not part of any build: it has the interface of another
  program (mpg123) and no file includes it. \<open>SIGHUP\<close> is not a step of \<open>comm_step\<close>: its handler breaks
  the invariant, which is a theorem of \<open>Esd_Signals\<close>; the runs that include it are \<open>signal_run\<close>. A \<open>char\<close> is taken as unsigned in \<open>getopt.c\<close>, which
  makes a difference only for option letters that are not ASCII; the path of the unix socket is cut at the 108 bytes of \<open>sun_path\<close>.
\<close>

end
